(* ===== verification/Prelude.thy ===== *)
theory Prelude
  imports Main "HOL-Library.Word" "HOL-Library.Multiset" "HOL-Library.Code_Target_Nat"
begin

text \<open>
  Shared vocabulary of the development: the Go machine integers, the result type of
  fallible code, the error values of the daemon, Go slices and maps, and the generic lemmas
  (options, results, lists, stable sorting, pagination, words) the components use.
\<close>

section \<open>Collections of facts\<close>

named_theorems res_simps \<open>rewriting of results\<close>
named_theorems go_int \<open>conversions between Go integer types\<close>

section \<open>Machine integers and time\<close>

text \<open>
  \<open>uint64\<close> and \<open>uint\<close> are 64-bit words, so arithmetic on them wraps. A Go \<open>int64\<close> or
  \<open>int\<close> is an \<open>int\<close>; the conversions between the two reinterpret the bits. A point in
  time is a number of nanoseconds since the epoch, as in Go's \<open>time.Time\<close>.
\<close>

type_synonym u64 = "64 word"
type_synonym u32 = "32 word"
type_synonym i64 = int
type_synonym bytes = "8 word list"
type_synonym time = int

definition int64 :: "u64 \<Rightarrow> i64" where
  "int64 w = sint w"

definition uint64 :: "i64 \<Rightarrow> u64" where
  "uint64 i = word_of_int i"

text \<open>\<open>big.Int.Uint64\<close> keeps the low 64 bits of the magnitude; \<open>big.Int.Int64\<close> also keeps the sign.\<close>

definition big_Uint64 :: "int \<Rightarrow> u64" where
  "big_Uint64 x = word_of_int \<bar>x\<bar>"

definition big_Int64 :: "int \<Rightarrow> i64" where
  "big_Int64 x = sint (word_of_int x :: u64)"

abbreviation second :: time where
  "second \<equiv> 1000000000"

text \<open>\<open>time.Unix(s, 0)\<close> and \<open>t.Unix()\<close>.\<close>

definition time_Unix :: "i64 \<Rightarrow> time" where
  "time_Unix s = s * second"

definition Unix :: "time \<Rightarrow> i64" where
  "Unix t = t div second"

lemma Unix_time_Unix [simp]: "Unix (time_Unix s) = s"
  by (simp add: Unix_def time_Unix_def)

lemma time_Unix_le_iff [simp]: "time_Unix a \<le> time_Unix b \<longleftrightarrow> a \<le> b"
  by (simp add: time_Unix_def)

lemma time_Unix_less_iff [simp]: "time_Unix a < time_Unix b \<longleftrightarrow> a < b"
  by (simp add: time_Unix_def)

lemma time_Unix_Unix_le: "time_Unix (Unix t) \<le> t"
  by (simp add: time_Unix_def Unix_def)

text \<open>Conversions of words into rationals are kept as conversions of the integer they read as.\<close>

declare of_int_uint [simp del]

lemma int64_nonneg [go_int]:
  assumes "0 \<le> int64 w"
  shows "int64 w = uint w"
proof -
  have "int64 w = uint w \<or> int64 w = uint w - 2 ^ 64"
    using sint_uint [of w]
    by (auto simp: int64_def signed_take_bit_eq_take_bit_minus bintr_uint)
  moreover have "uint w < 2 ^ 64"
    using uint_lt2p [of w] by simp
  ultimately show ?thesis
    using assms by linarith
qed

lemma int64_small [go_int]: "uint w < 2 ^ 63 \<Longrightarrow> int64 w = uint w"
  by (simp add: int64_def sint_uint)
    (rule signed_take_bit_int_eq_self, rule order_trans [OF _ uint_ge_0], simp_all)

lemma int64_lower [go_int]: "- (2 ^ 63) \<le> int64 w"
  using sint_ge [of w] by (simp add: int64_def)

lemma uint_uint64 [go_int]: "0 \<le> i \<Longrightarrow> i < 2 ^ 64 \<Longrightarrow> uint (uint64 i) = i"
  by (simp add: uint64_def uint_word_of_int take_bit_int_eq_self)

lemma uint_big_Uint64 [go_int]: "0 \<le> i \<Longrightarrow> i < 2 ^ 64 \<Longrightarrow> uint (big_Uint64 i) = i"
  by (simp add: big_Uint64_def uint_word_of_int take_bit_int_eq_self)

lemma uint_add_small [go_int]:
  "uint a + uint b < 2 ^ 64 \<Longrightarrow> uint (a + b :: u64) = uint a + uint b"
  by (simp add: uint_word_arith_bintrs take_bit_int_eq_self)

lemma uint_sub_small [go_int]:
  "uint b \<le> uint a \<Longrightarrow> uint (a - b :: u64) = uint a - uint b"
  by (simp add: uint_sub_lem [symmetric])

lemma uint_big_add:
  assumes "0 \<le> x" and "x + uint f < 2 ^ 64"
  shows "uint (big_Uint64 x + f) = x + uint f"
proof -
  have "x < 2 ^ 64"
    using assms(2) uint_ge_0 [of f] by linarith
  then have "uint (big_Uint64 x) = x"
    using assms(1) by (simp add: uint_big_Uint64)
  then show ?thesis
    using assms(2) by (simp add: uint_add_small)
qed

section \<open>Errors\<close>

text \<open>
  The error values of the daemon: the named errors of \<open>internal/core/domain/errors.go\<close>,
  \<open>pkg/marketmaking/formula\<close> and \<open>internal/core/application/trade/service.go\<close>; ad hoc errors
  made with \<open>fmt.Errorf\<close> or \<open>errors.New\<close> (format string and arguments); errors returned by a
  collaborator outside the repository; and run-time panics.
\<close>

datatype error =
    ErrMarketInvalidPercentageFee | ErrMarketIsClosed | ErrMarketIsOpen | ErrMarketNotPriced
  | ErrMarketInvalidBasePrice | ErrMarketInvalidQuotePrice
  | ErrMarketInvalidBaseAsset | ErrMarketInvalidQuoteAsset
  | ErrMarketInvalidBaseAssetPrecision | ErrMarketInvalidQuoteAssetPrecision
  | ErrMarketInvalidFixedFee | ErrMarketPreviewAmountTooLow | ErrMarketPreviewAmountTooBig
  | ErrMarketUnknownStrategy
  | ErrTradeUnknownType | ErrTradeMustBeProposal | ErrTradeMustBeAccepted
  | ErrTradeMustBeCompletedOrAccepted | ErrTradeInvalidExpiryTime
  | ErrTradeExpiryTimeNotReached | ErrTradeExpired | ErrTradeNullExpiryTime
  | ErrInvalidPluggableOptsType | ErrInvalidBalancedReservesOptsType
  | ErrAmountTooLow | ErrAmountTooBig | ErrBalanceTooLow
  | ErrServiceUnavailable | ErrMarketUnavailable
  | Errorf string "string list"
  | External string
  | Panic string

type_synonym 'a res = "error + 'a"

abbreviation nil_deref :: error where
  "nil_deref \<equiv> Panic ''nil pointer dereference''"

abbreviation div_by_zero :: error where
  "div_by_zero \<equiv> Panic ''decimal division by 0''"

fun is_panic :: "error \<Rightarrow> bool" where
  "is_panic (Panic _) = True"
| "is_panic _ = False"

definition panics :: "'a res \<Rightarrow> bool" where
  "panics r = (case r of Inl e \<Rightarrow> is_panic e | Inr _ \<Rightarrow> False)"

text \<open>Sequencing: \<open>x, err := r; if err != nil { return err }\<close> followed by the continuation.\<close>

definition rbind :: "'a res \<Rightarrow> ('a \<Rightarrow> 'b res) \<Rightarrow> 'b res" where
  "rbind r f = (case r of Inl e \<Rightarrow> Inl e | Inr x \<Rightarrow> f x)"

lemma panics_simps [simp]: "panics (Inl e) = is_panic e" "panics (Inr x) = False"
  by (simp_all add: panics_def)

lemma rbind_Inl [simp, res_simps]: "rbind (Inl e) f = Inl e"
  by (simp add: rbind_def)

lemma rbind_Inr [simp, res_simps]: "rbind (Inr x) f = f x"
  by (simp add: rbind_def)

lemma rbind_eq_Inr [res_simps]: "rbind r f = Inr y \<longleftrightarrow> (\<exists>x. r = Inr x \<and> f x = Inr y)"
  by (cases r) auto

lemma rbind_eq_Inl [res_simps]:
  "rbind r f = Inl e \<longleftrightarrow> r = Inl e \<or> (\<exists>x. r = Inr x \<and> f x = Inl e)"
  by (cases r) auto

lemma if_Inl_eq_Inr [res_simps]: "(if c then Inl e else r) = Inr x \<longleftrightarrow> \<not> c \<and> r = Inr x"
  by simp

lemma Inr_eq_flip: "Inr x = (Inr y :: 'a res) \<longleftrightarrow> y = x"
  by auto

lemma rbind_cong [fundef_cong]:
  "r = s \<Longrightarrow> (\<And>x. s = Inr x \<Longrightarrow> f x = g x) \<Longrightarrow> rbind r f = rbind s g"
  by (cases s) auto

text \<open>A guard: \<open>if c { return err }\<close>.\<close>

definition reject :: "bool \<Rightarrow> error \<Rightarrow> unit res" where
  "reject c e = (if c then Inl e else Inr ())"

lemma reject_eq_Inr [simp, res_simps]: "reject c e = Inr u \<longleftrightarrow> \<not> c"
  by (simp add: reject_def)

lemma reject_eq_Inl [simp, res_simps]: "reject c e = Inl e' \<longleftrightarrow> c \<and> e' = e"
  by (auto simp: reject_def)

lemma rbind_reject [res_simps]: "rbind (reject c e) f = (if c then Inl e else f ())"
  by (simp add: reject_def)

text \<open>A loop that computes one element after the other and returns at the first error.\<close>

fun rmap :: "('a \<Rightarrow> 'b res) \<Rightarrow> 'a list \<Rightarrow> 'b list res" where
  "rmap f [] = Inr []"
| "rmap f (x # xs) = rbind (f x) (\<lambda>y. rbind (rmap f xs) (\<lambda>ys. Inr (y # ys)))"

lemma rmap_eq_Inr: "rmap f xs = Inr ys \<longleftrightarrow> list_all2 (\<lambda>x y. f x = Inr y) xs ys"
  by (induction xs arbitrary: ys) (auto simp: rbind_eq_Inr list_all2_Cons1)

lemma rmap_total: "(\<And>x. x \<in> set xs \<Longrightarrow> f x = Inr (g x)) \<Longrightarrow> rmap f xs = Inr (map g xs)"
  by (induction xs) auto

lemma rmap_length: "rmap f xs = Inr ys \<Longrightarrow> length ys = length xs"
  by (simp add: rmap_eq_Inr list_all2_lengthD)

section \<open>Slices: stable sorting and pagination\<close>

text \<open>
  \<open>sort.SliceStable(xs, func(i, j) bool { return xs[i].Timestamp > xs[j].Timestamp })\<close>: newest
  first, entries with the same timestamp in the order they had.
\<close>

definition sort_newest :: "('a \<Rightarrow> i64) \<Rightarrow> 'a list \<Rightarrow> 'a list" where
  "sort_newest ts xs = sort_key (\<lambda>x. - ts x) xs"

lemma mset_sort_newest [simp]: "mset (sort_newest ts xs) = mset xs"
  by (simp add: sort_newest_def)

lemma set_sort_newest [simp]: "set (sort_newest ts xs) = set xs"
  by (simp add: sort_newest_def)

lemma length_sort_newest [simp]: "length (sort_newest ts xs) = length xs"
  by (simp add: sort_newest_def)

lemma sorted_sort_newest: "sorted_wrt (\<lambda>x y. ts x \<ge> ts y) (sort_newest ts xs)"
proof -
  have "sorted (map (\<lambda>x. - ts x) (sort_newest ts xs))"
    by (simp add: sort_newest_def)
  then show ?thesis
    by (simp add: sorted_wrt_map)
qed

text \<open>
  The pagination loop of the in-memory repositories. \<open>int\<close> is 64 bits wide and the page number
  and size are \<open>int64\<close>, so the indexes are computed modulo $2^{64}$ as Go does.
\<close>

record page =
  page_number :: i64
  page_size :: i64

definition wrap64 :: "int \<Rightarrow> i64" where
  "wrap64 i = sint (word_of_int i :: u64)"

lemma wrap64_id: "- (2 ^ 63) \<le> i \<Longrightarrow> i < 2 ^ 63 \<Longrightarrow> wrap64 i = i"
  by (simp add: wrap64_def sint_sbintrunc' signed_take_bit_int_eq_self)

definition paginate :: "page option \<Rightarrow> 'a list \<Rightarrow> 'a list" where
  "paginate p xs = (case p of
     None \<Rightarrow> xs
   | Some p \<Rightarrow>
       let startIndex = wrap64 (page_number p * page_size p - page_size p);
           endIndex = wrap64 (page_number p * page_size p)
       in map snd (filter (\<lambda>(i, _). startIndex \<le> int i \<and> int i < endIndex) (enumerate 0 xs)))"

lemma filter_enumerate_range:
  "map snd (filter (\<lambda>(i, _). a \<le> i \<and> i < b) (enumerate k xs)) = take (b - max a k) (drop (a - k) xs)"
proof (induction xs arbitrary: k)
  case Nil
  then show ?case by simp
next
  case (Cons x xs)
  show ?case
  proof (cases "a \<le> k")
    case True
    show ?thesis
    proof (cases "k < b")
      case True
      with \<open>a \<le> k\<close> Cons.IH [of "Suc k"] show ?thesis
        by (simp add: max_def Suc_diff_Suc [symmetric])
    next
      case False
      with \<open>a \<le> k\<close> Cons.IH [of "Suc k"] show ?thesis
        by (simp add: max_def)
    qed
  next
    case False
    then obtain d where d: "a - k = Suc d" "a - Suc k = d"
      by (metis Suc_diff_Suc not_le)
    with False Cons.IH [of "Suc k"] show ?thesis
      by (simp add: max_def) (metis le_antisym not_less_eq_eq)
  qed
qed

text \<open>Page \<open>n\<close> (counted from 1) of size \<open>s\<close> is the \<open>n\<close>-th block of \<open>s\<close> elements.\<close>

lemma paginate_block:
  assumes "0 < n" and "0 < s" and "n * s < 2 ^ 63"
  shows "paginate (Some \<lparr>page_number = n, page_size = s\<rparr>) xs
         = take (nat s) (drop (nat ((n - 1) * s)) xs)"
proof -
  have ge: "0 \<le> (n - 1) * s" and ns: "0 \<le> n * s"
    using assms by simp_all
  have e: "n * s - s = (n - 1) * s"
    by (simp add: algebra_simps)
  have le: "(n - 1) * s \<le> n * s"
    using assms by (simp add: algebra_simps)
  have w1: "wrap64 (n * s - s) = (n - 1) * s" and w2: "wrap64 (n * s) = n * s"
    using ge ns le assms(3) by (simp_all add: e wrap64_id)
  have f: "(\<lambda>(i, _ :: 'a). (n - 1) * s \<le> int i \<and> int i < n * s)
           = (\<lambda>(i, _). nat ((n - 1) * s) \<le> i \<and> i < nat (n * s))"
    using ge ns by (auto simp: fun_eq_iff nat_le_iff zless_nat_eq_int_zless)
  have d: "nat (n * s) - nat ((n - 1) * s) = nat s"
    using ge ns by (simp add: nat_diff_distrib' [symmetric] algebra_simps)
  show ?thesis
    by (simp add: paginate_def Let_def w1 w2 f filter_enumerate_range d)
qed

lemma concat_blocks:
  assumes "0 < s"
  shows "concat (map (\<lambda>i. take s (drop (i * s) xs)) [0..<k]) = take (k * s) xs"
proof (induction k)
  case 0
  then show ?case by simp
next
  case (Suc k)
  have "take (Suc k * s) xs = take (k * s + s) xs"
    by (simp add: add.commute)
  also have "\<dots> = take (k * s) xs @ take s (drop (k * s) xs)"
    by (simp only: take_add)
  finally show ?case
    using Suc by simp
qed

lemma paginate_set: "set (paginate p xs) \<subseteq> set xs"
proof (cases p)
  case None
  then show ?thesis by (simp add: paginate_def)
next
  case (Some q)
  have "set (map snd (filter P (enumerate 0 xs))) \<subseteq> set xs" for P
    by (auto simp: in_set_enumerate_eq)
  with Some show ?thesis
    by (simp add: paginate_def Let_def)
qed

text \<open>The pages of a list, one after the other, are the list.\<close>

lemma pages_partition:
  assumes "0 < s" and "int k * s < 2 ^ 63" and "int (length xs) \<le> int k * s"
  shows "concat (map (\<lambda>n. paginate (Some \<lparr>page_number = int n, page_size = s\<rparr>) xs) [1..<Suc k]) = xs"
proof -
  have "paginate (Some \<lparr>page_number = int (Suc i), page_size = s\<rparr>) xs
        = take (nat s) (drop (i * nat s) xs)" if "i < k" for i
  proof -
    have "int (Suc i) * s \<le> int k * s"
      using that assms(1) by (intro mult_right_mono) auto
    with assms(2) have "int (Suc i) * s < 2 ^ 63" by linarith
    moreover have "nat (int i * s) = i * nat s"
      by (simp add: nat_mult_distrib)
    ultimately show ?thesis
      using assms(1) by (subst paginate_block) auto
  qed
  then have "map (\<lambda>n. paginate (Some \<lparr>page_number = int n, page_size = s\<rparr>) xs) [1..<Suc k]
             = map (\<lambda>i. take (nat s) (drop (i * nat s) xs)) [0..<k]"
    by (simp add: map_Suc_upt [symmetric] del: upt_Suc)
  moreover have "length xs \<le> k * nat s"
    using assms(1,3) by (metis nat_int nat_mono nat_mult_distrib of_nat_0_le_iff)
  ultimately show ?thesis
    using assms(1) concat_blocks [of "nat s" xs k] by simp
qed

text \<open>Searching a list.\<close>

lemma find_Some_mem: "find P xs = Some x \<Longrightarrow> x \<in> set xs \<and> P x"
  by (induction xs) (auto split: if_splits)

section \<open>Go maps\<close>

text \<open>
  A Go map is an association list with one entry per key. The runtime visits the entries of
  a map in an unspecified order that changes from one loop to the next, so every loop over a
  map takes the visiting order as a parameter \<open>ord\<close>, of which only \<open>visits_all\<close> is known.
\<close>

type_synonym ('k, 'v) gomap = "('k \<times> 'v) list"

definition gm_get :: "('k, 'v) gomap \<Rightarrow> 'k \<Rightarrow> 'v option" where
  "gm_get m k = map_of m k"

fun gm_put :: "'k \<Rightarrow> 'v \<Rightarrow> ('k, 'v) gomap \<Rightarrow> ('k, 'v) gomap" where
  "gm_put k v [] = [(k, v)]"
| "gm_put k v ((k', v') # m) = (if k = k' then (k, v) # m else (k', v') # gm_put k v m)"

definition gm_del :: "'k \<Rightarrow> ('k, 'v) gomap \<Rightarrow> ('k, 'v) gomap" where
  "gm_del k m = filter (\<lambda>(k', _). k' \<noteq> k) m"

definition gm_keys :: "('k, 'v) gomap \<Rightarrow> 'k list" where
  "gm_keys m = map fst m"

definition gm_ok :: "('k, 'v) gomap \<Rightarrow> bool" where
  "gm_ok m = distinct (map fst m)"

definition visits_all :: "(('k \<times> 'v) list \<Rightarrow> ('k \<times> 'v) list) \<Rightarrow> bool" where
  "visits_all ord \<longleftrightarrow> (\<forall>m. mset (ord m) = mset m)"

lemma gm_get_Nil [simp]: "gm_get [] k = None"
  by (simp add: gm_get_def)

lemma gm_get_Cons [simp]: "gm_get ((k, v) # m) k' = (if k' = k then Some v else gm_get m k')"
  by (simp add: gm_get_def)

lemma gm_get_put [simp]: "gm_get (gm_put k v m) k' = (if k' = k then Some v else gm_get m k')"
  by (induction k v m rule: gm_put.induct) (auto simp: gm_get_def)

lemma gm_get_del [simp]: "gm_get (gm_del k m) k' = (if k' = k then None else gm_get m k')"
  by (induction m) (auto simp: gm_get_def gm_del_def)

lemma gm_ok_Nil [simp]: "gm_ok []"
  by (simp add: gm_ok_def)

lemma set_keys_gm_put: "set (map fst (gm_put k v m)) = insert k (set (map fst m))"
  by (induction k v m rule: gm_put.induct) auto

lemma gm_ok_put [simp]: "gm_ok m \<Longrightarrow> gm_ok (gm_put k v m)"
proof (induction k v m rule: gm_put.induct)
  case (1 k v)
  then show ?case by (simp add: gm_ok_def)
next
  case (2 k v k' v' m)
  then show ?case
    using set_keys_gm_put [of k v m] by (auto simp: gm_ok_def)
qed

lemma gm_ok_del [simp]: "gm_ok m \<Longrightarrow> gm_ok (gm_del k m)"
  by (induction m) (auto simp: gm_ok_def gm_del_def)

lemma gm_get_Some_iff: "gm_ok m \<Longrightarrow> gm_get m k = Some v \<longleftrightarrow> (k, v) \<in> set m"
  by (simp add: gm_ok_def gm_get_def)

lemma gm_get_SomeD: "gm_get m k = Some v \<Longrightarrow> (k, v) \<in> set m"
  by (simp add: gm_get_def map_of_SomeD)

lemma gm_get_None_iff: "gm_get m k = None \<longleftrightarrow> k \<notin> set (gm_keys m)"
  by (simp add: gm_get_def gm_keys_def map_of_eq_None_iff)

lemma visits_all_set: "visits_all ord \<Longrightarrow> set (ord m) = set m"
  by (metis visits_all_def set_mset_mset)

lemma visits_all_id [simp]: "visits_all (\<lambda>m. m)"
  by (simp add: visits_all_def)

lemma visits_all_rev [simp]: "visits_all rev"
  by (simp add: visits_all_def)

end
