(* ===== verification/Decimal.thy ===== *)
theory Decimal
  imports Prelude Complex_Main
begin

text \<open>
  The arbitrary-precision decimals of \<open>github.com/shopspring/decimal\<close>. The package is not part
  of the repository, so it is a parameter: \<open>'d decimal_ops\<close> is the record of the package's
  operations the daemon calls, and the locale \<open>decimal_lib\<close> states what the package documents of
  them, in terms of the rational value of a decimal. The second half of the theory implements the
  record on pairs of a mantissa and a number of decimal places (\<open>fixdec\<close>) and proves the laws for it.
\<close>

section \<open>Rounding of rationals\<close>

text \<open>Half away from zero, to an integer and to \<open>p\<close> decimal places; truncation towards zero.\<close>

definition round_away :: "rat \<Rightarrow> int" where
  "round_away x = (if 0 \<le> x then \<lfloor>x + 1/2\<rfloor> else - \<lfloor>- x + 1/2\<rfloor>)"

definition round_to :: "nat \<Rightarrow> rat \<Rightarrow> rat" where
  "round_to p x = of_int (round_away (x * 10 ^ p)) / 10 ^ p"

definition trunc_rat :: "rat \<Rightarrow> int" where
  "trunc_rat x = (if 0 \<le> x then \<lfloor>x\<rfloor> else - \<lfloor>- x\<rfloor>)"

definition trunc_to :: "nat \<Rightarrow> rat \<Rightarrow> rat" where
  "trunc_to p x = of_int (trunc_rat (x * 10 ^ p)) / 10 ^ p"

lemma half_floor: "\<bar>of_int \<lfloor>y + 1/2\<rfloor> - y\<bar> \<le> (1/2 :: rat)"
proof -
  define k where "k = (of_int \<lfloor>y + 1/2\<rfloor> :: rat)"
  have "k \<le> y + 1/2" "y + 1/2 < k + 1"
    unfolding k_def by (rule of_int_floor_le, rule floor_correct [THEN conjunct2, simplified])
  then have "\<bar>k - y\<bar> \<le> 1/2" by (intro abs_leI) linarith+
  then show ?thesis unfolding k_def .
qed

lemma round_away_err: "\<bar>of_int (round_away x) - x\<bar> \<le> 1/2"
proof (cases "0 \<le> x")
  case True
  then show ?thesis by (simp only: round_away_def if_True half_floor)
next
  case False
  have "of_int (round_away x) - x = - (of_int \<lfloor>- x + 1/2\<rfloor> - (- x))"
    using False by (simp only: round_away_def if_False of_int_minus)
  then show ?thesis
    by (simp only: abs_minus_cancel half_floor)
qed

lemma round_away_mono:
  assumes "x \<le> y"
  shows "round_away x \<le> round_away y"
proof -
  have m: "\<lfloor>a + 1/2\<rfloor> \<le> \<lfloor>b + 1/2\<rfloor>" if "a \<le> b" for a b :: rat
    using that by (intro floor_mono add_right_mono)
  have z: "0 \<le> \<lfloor>a + 1/2\<rfloor>" if "0 \<le> a" for a :: rat
    using that by simp
  show ?thesis
  proof (cases "0 \<le> x")
    case True
    then have "0 \<le> y" using assms by (rule order_trans)
    with True m [OF assms] show ?thesis by (simp only: round_away_def if_True)
  next
    case x: False
    show ?thesis
    proof (cases "0 \<le> y")
      case True
      from x have "- \<lfloor>- x + 1/2\<rfloor> \<le> 0" using z [of "- x"] by simp
      also from z [OF True] have "0 \<le> \<lfloor>y + 1/2\<rfloor>" .
      finally show ?thesis using x True by (simp only: round_away_def if_True if_False)
    next
      case False
      with x m [of "- y" "- x"] assms show ?thesis
        by (simp only: round_away_def if_False neg_le_iff_le)
    qed
  qed
qed

lemma round_away_of_int [simp]: "round_away (of_int n) = n"
proof -
  have "\<lfloor>of_int k + 1/2 :: rat\<rfloor> = k" for k
    by (rule floor_unique) auto
  from this [of n] this [of "- n"] show ?thesis
    by (simp add: round_away_def)
qed

lemma round_away_uminus: "round_away (- x) = - round_away x"
proof -
  have "\<lfloor>1/2 :: rat\<rfloor> = 0"
    by (rule floor_unique) auto
  then show ?thesis
    by (cases "x = 0") (auto simp: round_away_def)
qed

lemma round_to_err: "\<bar>round_to p x - x\<bar> \<le> 1 / (2 * 10 ^ p)"
proof -
  have "\<bar>round_to p x - x\<bar> * 10 ^ p = \<bar>(round_to p x - x) * 10 ^ p\<bar>"
    by (simp add: abs_mult)
  also have "(round_to p x - x) * 10 ^ p = of_int (round_away (x * 10 ^ p)) - x * 10 ^ p"
    by (simp add: round_to_def left_diff_distrib)
  also have "\<bar>of_int (round_away (x * 10 ^ p)) - x * 10 ^ p\<bar> \<le> 1/2"
    by (rule round_away_err)
  finally show ?thesis
    by (simp add: field_simps)
qed

lemma round_to_mono: "x \<le> y \<Longrightarrow> round_to p x \<le> round_to p y"
  by (simp add: round_to_def divide_right_mono round_away_mono)

lemma round_to_scaled [simp]: "round_to p (of_int m / 10 ^ p) = of_int m / 10 ^ p"
  by (simp add: round_to_def)

lemma round_to_of_int [simp]: "round_to p (of_int n) = of_int n"
proof -
  have "round_to p (of_int n) = round_to p (of_int (n * 10 ^ p) / 10 ^ p)"
    by simp
  also have "\<dots> = of_int (n * 10 ^ p) / 10 ^ p"
    by (rule round_to_scaled)
  finally show ?thesis by simp
qed

lemma round_to_0 [simp]: "round_to p 0 = 0"
  using round_to_of_int [of p 0] by simp

lemma round_to_1 [simp]: "round_to p 1 = 1"
  using round_to_of_int [of p 1] by simp

lemma round_to_nonneg: "0 \<le> x \<Longrightarrow> 0 \<le> round_to p x"
  using round_to_mono [of 0 x p] by simp

lemma round_to_le_1: "x \<le> 1 \<Longrightarrow> round_to p x \<le> 1"
  using round_to_mono [of x 1 p] by simp

lemma trunc_rat_of_int [simp]: "trunc_rat (of_int n) = n"
  by (simp add: trunc_rat_def)

lemma trunc_rat_nonneg: "0 \<le> x \<Longrightarrow> trunc_rat x = \<lfloor>x\<rfloor>"
  by (simp add: trunc_rat_def)

section \<open>The package's operations and what it documents of them\<close>

text \<open>
  \<open>d_NewFromFloat m e\<close> is \<open>decimal.NewFromFloat\<close> of the \<open>float64\<close> whose shortest literal is
  \<open>m\<close> times ten to the \<open>e\<close>: the package converts a float to the decimal of its shortest
  representation that reads back as the same float. \<open>d_Div\<close> takes the package variable
  \<open>DivisionPrecision\<close> as its first argument.
\<close>

record 'd decimal_ops =
  d_NewFromInt :: "int \<Rightarrow> 'd"
  d_NewFromFloat :: "int \<Rightarrow> int \<Rightarrow> 'd"
  d_NewFromString :: "string \<Rightarrow> 'd option"
  d_String :: "'d \<Rightarrow> string"
  d_Add :: "'d \<Rightarrow> 'd \<Rightarrow> 'd"
  d_Sub :: "'d \<Rightarrow> 'd \<Rightarrow> 'd"
  d_Mul :: "'d \<Rightarrow> 'd \<Rightarrow> 'd"
  d_Div :: "nat \<Rightarrow> 'd \<Rightarrow> 'd \<Rightarrow> 'd"
  d_Round :: "nat \<Rightarrow> 'd \<Rightarrow> 'd"
  d_Truncate :: "nat \<Rightarrow> 'd \<Rightarrow> 'd"
  d_BigInt :: "'d \<Rightarrow> int"
  d_Equal :: "'d \<Rightarrow> 'd \<Rightarrow> bool"
  d_LessThan :: "'d \<Rightarrow> 'd \<Rightarrow> bool"
  d_LessThanOrEqual :: "'d \<Rightarrow> 'd \<Rightarrow> bool"
  d_GreaterThan :: "'d \<Rightarrow> 'd \<Rightarrow> bool"
  d_GreaterThanOrEqual :: "'d \<Rightarrow> 'd \<Rightarrow> bool"

text \<open>\<open>decimal.Zero\<close>, also the value of an uninitialised \<open>decimal.Decimal\<close>, and \<open>IsZero\<close>.\<close>

definition d_Zero :: "'d decimal_ops \<Rightarrow> 'd" where
  "d_Zero D = d_NewFromInt D 0"

definition d_IsZero :: "'d decimal_ops \<Rightarrow> 'd \<Rightarrow> bool" where
  "d_IsZero D x = d_Equal D x (d_Zero D)"

locale decimal_lib =
  fixes D :: "'d decimal_ops"
    and val :: "'d \<Rightarrow> rat"
  assumes val_NewFromInt: "val (d_NewFromInt D n) = of_int n"
    and val_NewFromFloat: "val (d_NewFromFloat D m e) = of_int m * 10 powi e"
    and NewFromString_String: "\<exists>y. d_NewFromString D (d_String D x) = Some y \<and> val y = val x"
    and val_Add: "val (d_Add D x y) = val x + val y"
    and val_Sub: "val (d_Sub D x y) = val x - val y"
    and val_Mul: "val (d_Mul D x y) = val x * val y"
    and val_Div: "val y \<noteq> 0 \<Longrightarrow> val (d_Div D p x y) = round_to p (val x / val y)"
    and val_Round: "val (d_Round D p x) = round_to p (val x)"
    and val_Truncate: "val (d_Truncate D p x) = trunc_to p (val x)"
    and BigInt_val: "d_BigInt D x = trunc_rat (val x)"
    and Equal_val: "d_Equal D x y \<longleftrightarrow> val x = val y"
    and LessThan_val: "d_LessThan D x y \<longleftrightarrow> val x < val y"
    and LessThanOrEqual_val: "d_LessThanOrEqual D x y \<longleftrightarrow> val x \<le> val y"
    and GreaterThan_val: "d_GreaterThan D x y \<longleftrightarrow> val x > val y"
    and GreaterThanOrEqual_val: "d_GreaterThanOrEqual D x y \<longleftrightarrow> val x \<ge> val y"
begin

lemmas dec_val = val_NewFromInt val_NewFromFloat val_Add val_Sub val_Mul val_Round val_Truncate
  BigInt_val Equal_val LessThan_val LessThanOrEqual_val GreaterThan_val GreaterThanOrEqual_val

lemma val_Zero [simp]: "val (d_Zero D) = 0"
  by (simp add: d_Zero_def val_NewFromInt)

lemma IsZero_val: "d_IsZero D x \<longleftrightarrow> val x = 0"
  by (simp add: d_IsZero_def Equal_val)

end

text \<open>Division as the code uses it: the package panics when the divisor is zero.\<close>

definition Div :: "'d decimal_ops \<Rightarrow> nat \<Rightarrow> 'd \<Rightarrow> 'd \<Rightarrow> 'd res" where
  "Div D p x y = (if d_IsZero D y then Inl div_by_zero else Inr (d_Div D p x y))"

section \<open>A fixed-point implementation\<close>

text \<open>\<open>(m, s)\<close> stands for \<open>m\<close> divided by ten to the \<open>s\<close>.\<close>

type_synonym fdec = "int \<times> nat"

definition fd_val :: "fdec \<Rightarrow> rat" where
  "fd_val x = of_int (fst x) / 10 ^ snd x"

text \<open>Integer division rounding half away from zero, and towards zero.\<close>

definition rdiv :: "int \<Rightarrow> int \<Rightarrow> int" where
  "rdiv a b = sgn a * sgn b * ((2 * \<bar>a\<bar> + \<bar>b\<bar>) div (2 * \<bar>b\<bar>))"

definition tdiv :: "int \<Rightarrow> int \<Rightarrow> int" where
  "tdiv a b = sgn a * sgn b * (\<bar>a\<bar> div \<bar>b\<bar>)"

fun show_nat :: "nat \<Rightarrow> string" where
  "show_nat n = (if n < 10 then [char_of (48 + n)] else show_nat (n div 10) @ [char_of (48 + n mod 10)])"

declare show_nat.simps [simp del]

fun show_frac :: "nat \<Rightarrow> nat \<Rightarrow> string" where
  "show_frac 0 k = []"
| "show_frac (Suc s) k = char_of (48 + (k div 10 ^ s) mod 10) # show_frac s k"

definition digit_val :: "char \<Rightarrow> nat option" where
  "digit_val c = (let k = of_char c in if 48 \<le> k \<and> k \<le> 57 then Some (k - 48) else None)"

fun parse_digits :: "nat \<Rightarrow> string \<Rightarrow> nat option" where
  "parse_digits acc [] = Some acc"
| "parse_digits acc (c # cs) =
     (case digit_val c of None \<Rightarrow> None | Some d \<Rightarrow> parse_digits (acc * 10 + d) cs)"

definition fd_show :: "fdec \<Rightarrow> string" where
  "fd_show x = (let n = nat \<bar>fst x\<bar> in
     (if fst x < 0 then ''-'' else []) @ show_nat (n div 10 ^ snd x) @
     (if snd x = 0 then [] else CHR ''.'' # show_frac (snd x) (n mod 10 ^ snd x)))"

definition fd_read_unsigned :: "string \<Rightarrow> (nat \<times> nat) option" where
  "fd_read_unsigned cs =
     (let whole = takeWhile (\<lambda>c. c \<noteq> CHR ''.'') cs; frac = tl (dropWhile (\<lambda>c. c \<noteq> CHR ''.'') cs)
      in if whole = [] then None
         else map_option (\<lambda>n. (n, length frac)) (parse_digits 0 (whole @ frac)))"

definition fd_read :: "string \<Rightarrow> fdec option" where
  "fd_read cs = (case cs of
     [] \<Rightarrow> None
   | c # cs' \<Rightarrow>
       if c = CHR ''-'' then map_option (\<lambda>(n, s). (- int n, s)) (fd_read_unsigned cs')
       else map_option (\<lambda>(n, s). (int n, s)) (fd_read_unsigned cs))"

definition fd_align :: "fdec \<Rightarrow> fdec \<Rightarrow> int \<times> int \<times> nat" where
  "fd_align x y = (let s = max (snd x) (snd y)
     in (fst x * 10 ^ (s - snd x), fst y * 10 ^ (s - snd y), s))"

definition fd_cmp :: "(int \<Rightarrow> int \<Rightarrow> bool) \<Rightarrow> fdec \<Rightarrow> fdec \<Rightarrow> bool" where
  "fd_cmp R x y = (case fd_align x y of (a, b, _) \<Rightarrow> R a b)"

definition fixdec :: "fdec decimal_ops" where
  "fixdec = \<lparr>
     d_NewFromInt = (\<lambda>n. (n, 0)),
     d_NewFromFloat = (\<lambda>m e. if 0 \<le> e then (m * 10 ^ nat e, 0) else (m, nat (- e))),
     d_NewFromString = fd_read,
     d_String = fd_show,
     d_Add = (\<lambda>x y. case fd_align x y of (a, b, s) \<Rightarrow> (a + b, s)),
     d_Sub = (\<lambda>x y. case fd_align x y of (a, b, s) \<Rightarrow> (a - b, s)),
     d_Mul = (\<lambda>x y. (fst x * fst y, snd x + snd y)),
     d_Div = (\<lambda>p x y. (rdiv (fst x * 10 ^ (snd y + p)) (fst y * 10 ^ snd x), p)),
     d_Round = (\<lambda>p x. (rdiv (fst x * 10 ^ p) (10 ^ snd x), p)),
     d_Truncate = (\<lambda>p x. (tdiv (fst x * 10 ^ p) (10 ^ snd x), p)),
     d_BigInt = (\<lambda>x. tdiv (fst x) (10 ^ snd x)),
     d_Equal = fd_cmp (=),
     d_LessThan = fd_cmp (<),
     d_LessThanOrEqual = fd_cmp (\<le>),
     d_GreaterThan = fd_cmp (>),
     d_GreaterThanOrEqual = fd_cmp (\<ge>) \<rparr>"

subsection \<open>The implementation satisfies the laws\<close>

lemma rdiv_round_away:
  assumes "b \<noteq> 0"
  shows "rdiv a b = round_away (of_int a / of_int b)"
proof -
  have fl: "\<lfloor>of_int x / of_int y + 1/2 :: rat\<rfloor> = (2 * x + y) div (2 * y)" if "0 < y" for x y :: int
  proof -
    have "of_int x / of_int y + 1/2 = (of_int (2 * x + y) / of_int (2 * y) :: rat)"
      using that by (simp add: field_simps)
    then show ?thesis
      by (simp only: floor_divide_of_int_eq)
  qed
  have pos: "rdiv x y = round_away (of_int x / of_int y)" if "0 \<le> x" "0 < y" for x y
    using that fl [of y x] by (cases "x = 0") (auto simp: rdiv_def round_away_def)
  have mm: "rdiv (- x) y = - rdiv x y" "rdiv x (- y) = - rdiv x y" for x y
    by (simp_all add: rdiv_def)
  have y: "rdiv x b = round_away (of_int x / of_int b)" if "0 \<le> x" for x
  proof (cases "0 < b")
    case True
    with that show ?thesis by (simp add: pos)
  next
    case False
    with assms have "0 < - b" by simp
    then have "rdiv x (- b) = round_away (of_int x / of_int (- b))"
      using that pos by blast
    then show ?thesis
      using mm(2) [of x b] round_away_uminus [of "of_int x / of_int b"] by simp
  qed
  show ?thesis
  proof (cases "0 \<le> a")
    case True
    then show ?thesis by (rule y)
  next
    case False
    then have "rdiv (- a) b = round_away (of_int (- a) / of_int b)"
      using y [of "- a"] by simp
    then show ?thesis
      using mm(1) [of a b] round_away_uminus [of "of_int a / of_int b"] by simp
  qed
qed

lemma tdiv_trunc_rat: "0 < b \<Longrightarrow> tdiv a b = trunc_rat (of_int a / of_int b)"
proof (cases "0 \<le> a")
  case True
  assume "0 < b"
  with True show ?thesis
    by (cases "a = 0") (simp_all add: tdiv_def trunc_rat_def floor_divide_of_int_eq)
next
  case False
  assume "0 < b"
  with False have "\<not> 0 \<le> (of_int a / of_int b :: rat)"
    by (simp add: zero_le_divide_iff)
  moreover have "\<lfloor>- (of_int a / of_int b :: rat)\<rfloor> = (- a) div b"
    using floor_divide_of_int_eq [of "- a" b] by simp
  ultimately show ?thesis
    using False \<open>0 < b\<close> by (simp add: tdiv_def trunc_rat_def)
qed

lemma fd_align_val:
  "fd_align x y = (a, b, s) \<Longrightarrow> fd_val x = of_int a / 10 ^ s \<and> fd_val y = of_int b / 10 ^ s"
proof -
  have aux: "(m :: rat) / 10 ^ k = m * 10 ^ (s - k) / 10 ^ s" if "k \<le> s" for m k s
    using that by (simp add: power_diff field_simps)
  assume "fd_align x y = (a, b, s)"
  then have "s = max (snd x) (snd y)" "a = fst x * 10 ^ (s - snd x)" "b = fst y * 10 ^ (s - snd y)"
    by (auto simp: fd_align_def Let_def)
  then show ?thesis
    using aux [of "snd x" s "of_int (fst x)"] aux [of "snd y" s "of_int (fst y)"]
    by (simp add: fd_val_def)
qed

lemma of_char_digit: "d < 10 \<Longrightarrow> of_char (char_of (48 + d :: nat)) = 48 + d"
  by (simp only: of_char_of) simp

lemma digit_val_char_of: "d < 10 \<Longrightarrow> digit_val (char_of (48 + d)) = Some d"
  unfolding digit_val_def Let_def of_char_digit by simp

lemma digit_not_punct:
  assumes "d < 10"
  shows "char_of (48 + d :: nat) \<noteq> CHR ''.''" and "char_of (48 + d :: nat) \<noteq> CHR ''-''"
proof -
  have "of_char (char_of (48 + d :: nat)) = 48 + d"
    using assms by (rule of_char_digit)
  then have "char_of (48 + d :: nat) = c \<Longrightarrow> 48 \<le> (of_char c :: nat)" for c
    by (metis le_add1)
  from this [of "CHR ''.''"] this [of "CHR ''-''"]
  show "char_of (48 + d :: nat) \<noteq> CHR ''.''" "char_of (48 + d :: nat) \<noteq> CHR ''-''"
    by (auto simp del: char_of_eq_iff)
qed

lemma parse_digits_append:
  "parse_digits acc (xs @ ys) =
     (case parse_digits acc xs of None \<Rightarrow> None | Some a \<Rightarrow> parse_digits a ys)"
  by (induction xs arbitrary: acc) (auto split: option.splits)

lemma parse_show_nat: "parse_digits 0 (show_nat n) = Some n"
proof (induction n rule: show_nat.induct)
  case (1 n)
  show ?case
  proof (cases "n < 10")
    case True
    then show ?thesis
      by (simp only: show_nat.simps [of n] if_True parse_digits.simps digit_val_char_of option.case
          mult_0 add_0)
  next
    case False
    with 1 have "parse_digits 0 (show_nat (n div 10)) = Some (n div 10)" by simp
    moreover have "n mod 10 < 10" by simp
    ultimately show ?thesis
      using False
      by (simp only: show_nat.simps [of n] if_False parse_digits_append parse_digits.simps
          digit_val_char_of option.case div_mult_mod_eq)
  qed
qed

lemma parse_show_frac: "parse_digits acc (show_frac s k) = Some (acc * 10 ^ s + k mod 10 ^ s)"
proof (induction s arbitrary: acc)
  case 0
  then show ?case by simp
next
  case (Suc s)
  have e: "k mod 10 ^ Suc s = 10 ^ s * (k div 10 ^ s mod 10) + k mod 10 ^ s"
    using mod_mult2_eq [of k "10 ^ s" 10] by (simp add: mult.commute)
  have "k div 10 ^ s mod 10 < 10" by simp
  then have "parse_digits acc (show_frac (Suc s) k)
             = parse_digits (acc * 10 + k div 10 ^ s mod 10) (show_frac s k)"
    by (simp only: show_frac.simps parse_digits.simps digit_val_char_of option.case)
  also have "\<dots> = Some ((acc * 10 + k div 10 ^ s mod 10) * 10 ^ s + k mod 10 ^ s)"
    by (rule Suc.IH)
  also have "\<dots> = Some (acc * 10 ^ Suc s + k mod 10 ^ Suc s)"
    unfolding e by (simp add: algebra_simps)
  finally show ?case .
qed

lemma length_show_frac [simp]: "length (show_frac s k) = s"
  by (induction s) simp_all

lemma show_nat_digits: "c \<in> set (show_nat n) \<Longrightarrow> \<exists>d<10. c = char_of (48 + d :: nat)"
proof (induction n rule: show_nat.induct)
  case (1 n)
  show ?case
  proof (cases "n < 10")
    case True
    with 1(2) have "c = char_of (48 + n)"
      by (simp only: show_nat.simps [of n] if_True list.set singleton_iff)
    with True show ?thesis by blast
  next
    case False
    with 1(2) have "c \<in> set (show_nat (n div 10)) \<or> c = char_of (48 + n mod 10)"
      by (simp only: show_nat.simps [of n] if_False set_append list.set Un_iff singleton_iff)
    moreover have "n mod 10 < 10" by simp
    ultimately show ?thesis
      using 1(1) [OF False] by blast
  qed
qed

lemma show_nat_not_Nil [simp]: "show_nat n \<noteq> []"
  by (subst show_nat.simps) simp

lemma show_nat_no_punct: "c \<in> set (show_nat n) \<Longrightarrow> c \<noteq> CHR ''.'' \<and> c \<noteq> CHR ''-''"
  by (drule show_nat_digits) (auto simp only: digit_not_punct)

lemma read_show_unsigned:
  "fd_read_unsigned (show_nat (n div 10 ^ s) @ (if s = 0 then [] else CHR ''.'' # show_frac s (n mod 10 ^ s)))
   = Some (n, s)"
proof -
  let ?w = "show_nat (n div 10 ^ s)" and ?f = "show_frac s (n mod 10 ^ s)"
  have dots: "\<forall>c \<in> set ?w. c \<noteq> CHR ''.''"
    using show_nat_no_punct by blast
  have "parse_digits 0 (?w @ ?f) = Some (n div 10 ^ s * 10 ^ s + n mod 10 ^ s mod 10 ^ s)"
    by (simp only: parse_digits_append parse_show_nat option.case parse_show_frac)
  then have p: "parse_digits 0 (?w @ ?f) = Some n"
    by (simp only: mod_mod_trivial div_mult_mod_eq)
  show ?thesis
  proof (cases "s = 0")
    case True
    with p dots show ?thesis
      by (simp add: fd_read_unsigned_def Let_def takeWhile_eq_all_conv [THEN iffD2]
          dropWhile_eq_Nil_conv [THEN iffD2])
  next
    case False
    have "takeWhile (\<lambda>c. c \<noteq> CHR ''.'') (?w @ CHR ''.'' # ?f) = ?w"
      using dots by (simp add: takeWhile_append2)
    moreover have "dropWhile (\<lambda>c. c \<noteq> CHR ''.'') (?w @ CHR ''.'' # ?f) = CHR ''.'' # ?f"
      using dots by (simp add: dropWhile_append2)
    ultimately show ?thesis
      using p False by (simp add: fd_read_unsigned_def Let_def)
  qed
qed

lemma fd_read_show: "fd_read (fd_show x) = Some x"
proof -
  obtain m s where x: "x = (m, s)" by (cases x)
  define r where "r = show_nat (nat \<bar>m\<bar> div 10 ^ s)
    @ (if s = 0 then [] else CHR ''.'' # show_frac s (nat \<bar>m\<bar> mod 10 ^ s))"
  have ru: "fd_read_unsigned r = Some (nat \<bar>m\<bar>, s)"
    unfolding r_def by (rule read_show_unsigned)
  obtain c cs where c: "r = c # cs"
    unfolding r_def by (cases "show_nat (nat \<bar>m\<bar> div 10 ^ s)") auto
  then have "c \<in> set (show_nat (nat \<bar>m\<bar> div 10 ^ s))"
    unfolding r_def by (cases "show_nat (nat \<bar>m\<bar> div 10 ^ s)") auto
  then have "c \<noteq> CHR ''-''"
    using show_nat_no_punct by blast
  with ru c have "fd_read r = Some (int (nat \<bar>m\<bar>), s)" and "fd_read (CHR ''-'' # r) = Some (- int (nat \<bar>m\<bar>), s)"
    by (simp_all add: fd_read_def)
  moreover have "fd_show x = (if m < 0 then CHR ''-'' # r else r)"
    by (simp add: fd_show_def r_def x Let_def)
  ultimately show ?thesis
    by (simp add: x)
qed

lemma fd_cmp_val:
  assumes "\<And>a b k. 0 < k \<Longrightarrow> R a b \<longleftrightarrow> S (of_int a / k) (of_int b / k)"
  shows "fd_cmp R x y \<longleftrightarrow> S (fd_val x) (fd_val y)"
proof -
  obtain a b s where al: "fd_align x y = (a, b, s)"
    by (cases "fd_align x y")
  then have "fd_val x = of_int a / 10 ^ s" "fd_val y = of_int b / 10 ^ s"
    using fd_align_val by blast+
  with al assms [of "10 ^ s" a b] show ?thesis
    by (simp add: fd_cmp_def)
qed

lemma fd_Add_Sub_val:
  "fd_val (d_Add fixdec x y) = fd_val x + fd_val y"
  "fd_val (d_Sub fixdec x y) = fd_val x - fd_val y"
proof -
  obtain a b s where al: "fd_align x y = (a, b, s)"
    by (cases "fd_align x y")
  then have "fd_val x = of_int a / 10 ^ s" "fd_val y = of_int b / 10 ^ s"
    using fd_align_val by blast+
  with al show "fd_val (d_Add fixdec x y) = fd_val x + fd_val y"
    "fd_val (d_Sub fixdec x y) = fd_val x - fd_val y"
    by (simp_all add: fixdec_def fd_val_def [of "(_, _)"] add_divide_distrib diff_divide_distrib)
qed

lemma fd_Div_val:
  assumes "fd_val y \<noteq> 0"
  shows "fd_val (d_Div fixdec p x y) = round_to p (fd_val x / fd_val y)"
proof -
  have y: "fst y * 10 ^ snd x \<noteq> 0"
    using assms by (auto simp: fd_val_def)
  have "of_int (fst x * 10 ^ (snd y + p)) / of_int (fst y * 10 ^ snd x) = fd_val x / fd_val y * 10 ^ p"
    using assms by (simp add: fd_val_def power_add field_simps)
  with rdiv_round_away [OF y, of "fst x * 10 ^ (snd y + p)"] show ?thesis
    by (simp add: fixdec_def fd_val_def [of "(_, _)"] round_to_def)
qed

lemma fd_cmp_laws:
  "d_Equal fixdec x y \<longleftrightarrow> fd_val x = fd_val y"
  "d_LessThan fixdec x y \<longleftrightarrow> fd_val x < fd_val y"
  "d_LessThanOrEqual fixdec x y \<longleftrightarrow> fd_val x \<le> fd_val y"
  "d_GreaterThan fixdec x y \<longleftrightarrow> fd_val x > fd_val y"
  "d_GreaterThanOrEqual fixdec x y \<longleftrightarrow> fd_val x \<ge> fd_val y"
  using fd_cmp_val [of "(=)" "(=)" x y] fd_cmp_val [of "(<)" "(<)" x y]
    fd_cmp_val [of "(\<le>)" "(\<le>)" x y] fd_cmp_val [of "(>)" "(>)" x y] fd_cmp_val [of "(\<ge>)" "(\<ge>)" x y]
  by (simp_all add: fixdec_def divide_le_cancel divide_less_cancel)

interpretation fixed: decimal_lib fixdec fd_val
proof (unfold_locales, goal_cases)
  case (2 m e)
  then show ?case
    by (simp add: fixdec_def fd_val_def power_int_def field_simps)
next
  case (8 p x)
  then show ?case
    using rdiv_round_away [of "10 ^ snd x" "fst x * 10 ^ p"]
    by (simp add: fixdec_def fd_val_def round_to_def)
next
  case (9 p x)
  then show ?case
    using tdiv_trunc_rat [of "10 ^ snd x" "fst x * 10 ^ p"]
    by (simp add: fixdec_def fd_val_def trunc_to_def)
next
  case (10 x)
  then show ?case
    using tdiv_trunc_rat [of "10 ^ snd x" "fst x"] by (simp add: fixdec_def fd_val_def)
next
  case (3 x)
  then show ?case
    by (simp add: fixdec_def fd_read_show del: split_paired_Ex)
next
  case (6 x y)
  then show ?case
    by (simp add: fixdec_def fd_val_def power_add)
qed (simp_all add: fd_cmp_laws fd_Add_Sub_val fd_Div_val, simp add: fixdec_def fd_val_def)

end
