(* ===== verification/Mathutil.thy ===== *)
theory Mathutil
  imports Decimal
begin

text \<open>
  \<open>pkg/mathutil\<close>: arithmetic on \<open>int64\<close> through big integers, arithmetic on \<open>uint64\<close> through
  decimals, and basis-point fees. Importing the package sets the precision of every decimal
  division of the process (\<open>DivisionPrecision\<close>).
\<close>

section \<open>math.go\<close>

definition DivisionPrecision :: nat where
  "DivisionPrecision = 8"

definition BigOne :: u64 where
  "BigOne = 10 ^ 8"

definition BigOneDecimal :: "'d decimal_ops \<Rightarrow> 'd" where
  "BigOneDecimal D = d_NewFromInt D (int64 BigOne)"

definition BigAdd :: "i64 \<Rightarrow> i64 \<Rightarrow> i64" where
  "BigAdd x y = big_Int64 (x + y)"

definition BigSub :: "i64 \<Rightarrow> i64 \<Rightarrow> i64" where
  "BigSub x y = big_Int64 (x - y)"

definition BigMul :: "i64 \<Rightarrow> i64 \<Rightarrow> i64" where
  "BigMul x y = big_Int64 (x * y)"

text \<open>\<open>big.Int.Div\<close> is Euclidean division: the remainder is never negative.\<close>

definition BigDiv :: "i64 \<Rightarrow> i64 \<Rightarrow> i64 res" where
  "BigDiv x y = (if y = 0 then Inl (Panic ''division by zero'')
                 else Inr (big_Int64 (sgn y * (x div \<bar>y\<bar>))))"

text \<open>\<open>decimal.NewFromBigInt(new(big.Int).SetUint64(x), 0)\<close>.\<close>

definition d_uint64 :: "'d decimal_ops \<Rightarrow> u64 \<Rightarrow> 'd" where
  "d_uint64 D x = d_NewFromInt D (uint x)"

definition AddDecimal :: "'d decimal_ops \<Rightarrow> 'd \<Rightarrow> 'd \<Rightarrow> 'd" where
  "AddDecimal D X Y = d_Add D X Y"

definition SubDecimal :: "'d decimal_ops \<Rightarrow> 'd \<Rightarrow> 'd \<Rightarrow> 'd" where
  "SubDecimal D X Y = d_Sub D X Y"

definition MulDecimal :: "'d decimal_ops \<Rightarrow> 'd \<Rightarrow> 'd \<Rightarrow> 'd" where
  "MulDecimal D X Y = d_Mul D X Y"

definition DivDecimal :: "'d decimal_ops \<Rightarrow> 'd \<Rightarrow> 'd \<Rightarrow> 'd res" where
  "DivDecimal D X Y = Div D DivisionPrecision X Y"

definition Add :: "'d decimal_ops \<Rightarrow> u64 \<Rightarrow> u64 \<Rightarrow> 'd" where
  "Add D x y = AddDecimal D (d_uint64 D x) (d_uint64 D y)"

definition Sub :: "'d decimal_ops \<Rightarrow> u64 \<Rightarrow> u64 \<Rightarrow> 'd" where
  "Sub D x y = SubDecimal D (d_uint64 D x) (d_uint64 D y)"

definition Mul :: "'d decimal_ops \<Rightarrow> u64 \<Rightarrow> u64 \<Rightarrow> 'd" where
  "Mul D x y = MulDecimal D (d_uint64 D x) (d_uint64 D y)"

definition mathutil_Div :: "'d decimal_ops \<Rightarrow> u64 \<Rightarrow> u64 \<Rightarrow> 'd res" where
  "mathutil_Div D x y = DivDecimal D (d_uint64 D x) (d_uint64 D y)"

section \<open>fee.go\<close>

definition TenThousands :: int where
  "TenThousands = 10000"

definition fee_decimal :: "'d decimal_ops \<Rightarrow> u64 \<Rightarrow> 'd" where
  "fee_decimal D bp = d_Div D DivisionPrecision (d_NewFromInt D (int64 bp)) (d_NewFromInt D TenThousands)"

definition PlusFee :: "'d decimal_ops \<Rightarrow> u64 \<Rightarrow> u64 \<Rightarrow> u64 \<times> u64" where
  "PlusFee D amount feeAsBasisPoint =
     (let feeDecimal = fee_decimal D feeAsBasisPoint;
          amountDecimal = d_uint64 D amount;
          percentage = d_Add D (d_NewFromInt D 1) feeDecimal;
          calculatedFee = big_Uint64 (d_BigInt D (d_Mul D amountDecimal feeDecimal));
          withFee = big_Uint64 (d_BigInt D (d_Mul D amountDecimal percentage))
      in (withFee, calculatedFee))"

definition LessFee :: "'d decimal_ops \<Rightarrow> u64 \<Rightarrow> u64 \<Rightarrow> u64 \<times> u64" where
  "LessFee D amount feeAsBasisPoint =
     (let feeDecimal = fee_decimal D feeAsBasisPoint;
          amountDecimal = d_uint64 D amount;
          percentage = d_Sub D (d_NewFromInt D 1) feeDecimal;
          calculatedFee = big_Uint64 (d_BigInt D (d_Mul D amountDecimal feeDecimal));
          withFee = big_Uint64 (d_BigInt D (d_Mul D amountDecimal percentage))
      in (withFee, calculatedFee))"

section \<open>Lemmas\<close>

lemma Div_eq_Inr: "Div D p x y = Inr z \<longleftrightarrow> \<not> d_IsZero D y \<and> z = d_Div D p x y"
  by (auto simp: Div_def)

text \<open>Basis points have four decimals, so dividing by ten thousand at precision 8 is exact.\<close>

lemma round_to_basis_points: "round_to DivisionPrecision (of_int n / 10000) = of_int n / 10000"
proof -
  have "of_int n / 10000 = (of_int (n * 10000) / 10 ^ DivisionPrecision :: rat)"
    by (simp add: DivisionPrecision_def)
  then show ?thesis
    by (simp only: round_to_scaled)
qed

lemma floor_bp: "\<lfloor>of_int a * (of_int b / 10000) :: rat\<rfloor> = a * b div 10000"
proof -
  have "of_int a * (of_int b / 10000) = (of_int (a * b) / of_int 10000 :: rat)"
    by simp
  then show ?thesis
    by (simp only: floor_divide_of_int_eq)
qed

text \<open>\<open>a\<close> basis points of an amount \<open>b\<close> are at most the amount when \<open>b\<close> is at most ten thousand.\<close>

lemma bp_le: "0 \<le> a \<Longrightarrow> b \<le> 10000 \<Longrightarrow> a * b div 10000 \<le> (a :: int)"
proof -
  assume "0 \<le> a" and "b \<le> 10000"
  then have "a * b \<le> a * 10000"
    by (rule mult_left_mono [rotated])
  then have "a * b div 10000 \<le> a * 10000 div 10000"
    by (rule zdiv_mono1) simp
  then show ?thesis by simp
qed

lemma div_split_sum:
  fixes n x :: int
  shows "(n * 10000 - x) div 10000 + x div 10000 \<in> {n - 1, n}
         \<and> ((n * 10000 - x) div 10000 + x div 10000 = n \<longleftrightarrow> 10000 dvd x)"
proof -
  obtain q r where x: "x = 10000 * q + r" and r: "0 \<le> r" "r < 10000"
    by (metis mult_div_mod_eq pos_mod_sign pos_mod_bound zero_less_numeral)
  have "x div 10000 = q" and d: "10000 dvd x \<longleftrightarrow> r = 0"
    using x r by (auto simp: dvd_add_right_iff dest: zdvd_imp_le)
  moreover have "n * 10000 - x = 10000 * (n - q) + (- r)"
    using x by simp
  then have "(n * 10000 - x) div 10000 = n - q + (- r) div 10000"
    by simp
  moreover have "(- r) div 10000 = (if r = 0 then 0 else - 1)"
    using r by (simp add: div_pos_neg_trivial zdiv_zminus1_eq_if)
  ultimately show ?thesis
    by simp
qed

context decimal_lib
begin

lemma val_d_uint64: "val (d_uint64 D x) = of_int (uint x)"
  by (simp add: d_uint64_def val_NewFromInt)

lemma val_fee_decimal: "val (fee_decimal D bp) = of_int (int64 bp) / 10000"
proof -
  have "val (fee_decimal D bp) = round_to DivisionPrecision (of_int (int64 bp) / 10000)"
    by (simp add: fee_decimal_def val_Div val_NewFromInt TenThousands_def)
  then show ?thesis
    by (simp only: round_to_basis_points)
qed

lemma BigInt_mul_bp:
  assumes "val x = of_int n" and "val f = of_int b / 10000" and "0 \<le> n" and "0 \<le> b"
  shows "d_BigInt D (d_Mul D x f) = n * b div 10000"
proof -
  have "0 \<le> (of_int n * (of_int b / 10000) :: rat)"
    using assms(3,4) by simp
  then show ?thesis
    by (simp only: BigInt_val val_Mul assms(1,2) trunc_rat_nonneg floor_bp)
qed

lemma BigInt_bp:
  "0 \<le> int64 bp \<Longrightarrow>
   d_BigInt D (d_Mul D (d_uint64 D a) (fee_decimal D bp)) = uint a * int64 bp div 10000"
  by (rule BigInt_mul_bp) (simp_all only: val_d_uint64 val_fee_decimal uint_ge_0)

lemma PlusFee_eq:
  assumes "0 \<le> int64 bp"
  shows "PlusFee D a bp = (big_Uint64 (uint a + uint a * int64 bp div 10000),
                           big_Uint64 (uint a * int64 bp div 10000))"
proof -
  have "val (d_Add D (d_NewFromInt D 1) (fee_decimal D bp)) = of_int (10000 + int64 bp) / 10000"
    by (simp add: dec_val val_fee_decimal field_simps)
  then have "d_BigInt D (d_Mul D (d_uint64 D a) (d_Add D (d_NewFromInt D 1) (fee_decimal D bp)))
             = uint a * (10000 + int64 bp) div 10000"
    using assms by (intro BigInt_mul_bp val_d_uint64 uint_ge_0) simp_all
  moreover have "uint a * (10000 + int64 bp) div 10000 = uint a + uint a * int64 bp div 10000"
    by (simp add: distrib_left)
  ultimately show ?thesis
    by (simp only: PlusFee_def Let_def BigInt_bp [OF assms])
qed

lemma LessFee_eq:
  assumes "0 \<le> int64 bp" and "int64 bp \<le> 10000"
  shows "LessFee D a bp = (big_Uint64 (uint a * (10000 - int64 bp) div 10000),
                           big_Uint64 (uint a * int64 bp div 10000))"
proof -
  have "val (d_Sub D (d_NewFromInt D 1) (fee_decimal D bp)) = of_int (10000 - int64 bp) / 10000"
    by (simp add: dec_val val_fee_decimal field_simps)
  then have "d_BigInt D (d_Mul D (d_uint64 D a) (d_Sub D (d_NewFromInt D 1) (fee_decimal D bp)))
             = uint a * (10000 - int64 bp) div 10000"
    using assms by (intro BigInt_mul_bp val_d_uint64 uint_ge_0) simp_all
  then show ?thesis
    by (simp only: LessFee_def Let_def BigInt_bp [OF assms(1)])
qed

end

section \<open>Properties\<close>

text \<open>
  Adding a fee: \<open>PlusFee\<close> charges the basis points of the amount rounded down, and returns
  exactly the amount plus that charge, as long as the sum fits 64 bits.
\<close>

lemma PlusFee_correct:
  assumes "decimal_lib D val" and "0 \<le> int64 bp"
    and "uint a + uint a * int64 bp div 10000 < 2 ^ 64"
    and "PlusFee D a bp = (withFee, fee)"
  shows "uint fee = uint a * int64 bp div 10000 \<and> uint withFee = uint a + uint fee"
proof -
  have n: "0 \<le> uint a * int64 bp div 10000"
    using assms(2) by (simp add: pos_imp_zdiv_nonneg_iff)
  have "withFee = big_Uint64 (uint a + uint a * int64 bp div 10000)"
    and "fee = big_Uint64 (uint a * int64 bp div 10000)"
    using decimal_lib.PlusFee_eq [OF assms(1,2), of a] assms(4) by simp_all
  moreover have "0 \<le> uint a" by simp
  moreover have "uint a * int64 bp div 10000 < 2 ^ 64"
    using assms(3) uint_ge_0 [of a] by linarith
  ultimately show ?thesis
    using n assms(3) by (simp only: uint_big_Uint64 add_nonneg_nonneg)
qed

lemma PlusFee_correct_example:
  "PlusFee fixdec 100000 25 = (100250, 250)
   \<and> uint (250 :: u64) = uint (100000 :: u64) * int64 25 div 10000
   \<and> uint (100250 :: u64) = uint (100000 :: u64) + uint (250 :: u64)"
proof -
  have e: "PlusFee fixdec 100000 25 = (100250, 250)"
    by code_simp
  show ?thesis
    using e PlusFee_correct [OF fixed.decimal_lib_axioms _ _ e] by (simp add: int64_def)
qed

text \<open>
  Subtracting a fee: for a fee of at most 100\%, what \<open>LessFee\<close> returns and the fee it
  reports add up to the amount, or to one satoshi less (both are rounded down).
\<close>

lemma LessFee_correct:
  assumes "decimal_lib D val" and "0 \<le> int64 bp" and "int64 bp \<le> 10000"
    and "LessFee D a bp = (withFee, fee)"
  shows "uint fee = uint a * int64 bp div 10000
         \<and> uint withFee + uint fee \<in> {uint a - 1, uint a}
         \<and> (uint withFee + uint fee = uint a \<longleftrightarrow> 10000 dvd uint a * int64 bp)"
proof -
  let ?x = "uint a * int64 bp"
  have u: "0 \<le> uint a" "uint a < 2 ^ 64"
    using uint_lt2p [of a] by simp_all
  have b: "0 \<le> ?x div 10000" "?x div 10000 \<le> uint a"
    using assms(2,3) bp_le [of "uint a" "int64 bp"] by (simp_all add: pos_imp_zdiv_nonneg_iff)
  have c: "0 \<le> uint a * (10000 - int64 bp) div 10000" "uint a * (10000 - int64 bp) div 10000 \<le> uint a"
    using assms(2,3) bp_le [of "uint a" "10000 - int64 bp"] by (simp_all add: pos_imp_zdiv_nonneg_iff)
  have "withFee = big_Uint64 (uint a * (10000 - int64 bp) div 10000)" "fee = big_Uint64 (?x div 10000)"
    using decimal_lib.LessFee_eq [OF assms(1-3), of a] assms(4) by simp_all
  then have f: "uint withFee = uint a * (10000 - int64 bp) div 10000" "uint fee = ?x div 10000"
    using b c u by (simp_all add: uint_big_Uint64)
  have "uint a * (10000 - int64 bp) = uint a * 10000 - ?x"
    by (simp add: right_diff_distrib)
  with f have "uint withFee = (uint a * 10000 - ?x) div 10000" by simp
  moreover note div_split_sum [of "uint a" ?x]
  ultimately show ?thesis
    using f(2) by auto
qed

lemma LessFee_correct_example:
  "LessFee fixdec 100001 25 = (99750, 250)
   \<and> uint (250 :: u64) = uint (100001 :: u64) * int64 25 div 10000
   \<and> uint (99750 :: u64) + uint (250 :: u64) \<in> {uint (100001 :: u64) - 1, uint (100001 :: u64)}"
proof -
  have e: "LessFee fixdec 100001 25 = (99750, 250)"
    by code_simp
  show ?thesis
    using e LessFee_correct [OF fixed.decimal_lib_axioms _ _ e] by (simp add: int64_def)
qed

end
