(* ===== verification/Formula.thy ===== *)
theory Formula
  imports Mathutil
begin

text \<open>
  \<open>pkg/marketmaking\<close>: the two market making formulas. The argument \<open>p\<close> of the balanced-reserves
  operations is the package variable \<open>decimal.DivisionPrecision\<close> of the process that runs them:
  the library's default is 16, and 8 in every binary that links \<open>pkg/mathutil\<close>
  (\<^const>\<open>DivisionPrecision\<close>).
\<close>

section \<open>Options\<close>

record 'd BalancedReservesOpts =
  bro_BalanceIn :: 'd
  bro_BalanceOut :: 'd
  bro_WeightIn :: u64
  bro_WeightOut :: u64

record 'd PluggableOpts =
  po_BalanceIn :: 'd
  po_BalanceOut :: 'd
  po_Price :: 'd

text \<open>The values the callers pass for the \<open>interface{}\<close> argument of the operations.\<close>

datatype 'd opts = OptsBalanced "'d BalancedReservesOpts" | OptsPluggable "'d PluggableOpts"

section \<open>balanced\_reserves.go\<close>

definition BalancedReserves_SpotPrice :: "'d decimal_ops \<Rightarrow> nat \<Rightarrow> 'd opts \<Rightarrow> 'd res" where
  "BalancedReserves_SpotPrice D p opts = (case opts of
     OptsPluggable _ \<Rightarrow> Inl ErrInvalidBalancedReservesOptsType
   | OptsBalanced ob \<Rightarrow>
       if d_Equal D (bro_BalanceIn ob) (d_Zero D) \<or> d_Equal D (bro_BalanceOut ob) (d_Zero D)
       then Inl ErrBalanceTooLow
       else Div D p (bro_BalanceOut ob) (bro_BalanceIn ob))"

definition BalancedReserves_OutGivenIn :: "'d decimal_ops \<Rightarrow> nat \<Rightarrow> 'd opts \<Rightarrow> 'd \<Rightarrow> 'd res" where
  "BalancedReserves_OutGivenIn D p opts amountIn = (case opts of
     OptsPluggable _ \<Rightarrow> Inl ErrInvalidBalancedReservesOptsType
   | OptsBalanced ob \<Rightarrow>
       if d_Equal D (bro_BalanceIn ob) (d_Zero D) \<or> d_Equal D (bro_BalanceOut ob) (d_Zero D)
       then Inl ErrBalanceTooLow
       else if d_LessThanOrEqual D amountIn (d_Zero D) then Inl ErrAmountTooLow
       else rbind (Div D p (bro_BalanceIn ob) (d_Add D (bro_BalanceIn ob) amountIn)) (\<lambda>q.
         let amount = d_Round D 8 (d_Mul D (bro_BalanceOut ob) (d_Sub D (d_NewFromInt D 1) q))
         in if d_LessThanOrEqual D amount (d_Zero D) then Inl ErrAmountTooLow
            else if d_GreaterThanOrEqual D amount (bro_BalanceOut ob) then Inl ErrAmountTooBig
            else Inr amount))"

definition BalancedReserves_InGivenOut :: "'d decimal_ops \<Rightarrow> nat \<Rightarrow> 'd opts \<Rightarrow> 'd \<Rightarrow> 'd res" where
  "BalancedReserves_InGivenOut D p opts amountOut = (case opts of
     OptsPluggable _ \<Rightarrow> Inl ErrInvalidBalancedReservesOptsType
   | OptsBalanced ob \<Rightarrow>
       if d_Equal D (bro_BalanceIn ob) (d_Zero D) \<or> d_Equal D (bro_BalanceOut ob) (d_Zero D)
       then Inl ErrBalanceTooLow
       else if d_Equal D amountOut (d_Zero D) then Inl ErrAmountTooLow
       else if d_GreaterThanOrEqual D amountOut (bro_BalanceOut ob) then Inl ErrAmountTooBig
       else rbind (Div D p (bro_BalanceOut ob) (d_Sub D (bro_BalanceOut ob) amountOut)) (\<lambda>q.
         let amount = d_Round D 8 (d_Mul D (bro_BalanceIn ob) (d_Sub D q (d_NewFromInt D 1)))
         in if d_LessThanOrEqual D amount (d_Zero D) then Inl ErrAmountTooLow
            else Inr amount))"

section \<open>pluggable.go\<close>

definition Pluggable_SpotPrice :: "'d decimal_ops \<Rightarrow> 'd opts \<Rightarrow> 'd res" where
  "Pluggable_SpotPrice D opts = Inr (d_Zero D)"

definition Pluggable_OutGivenIn :: "'d decimal_ops \<Rightarrow> 'd opts \<Rightarrow> 'd \<Rightarrow> 'd res" where
  "Pluggable_OutGivenIn D opts amountIn = (case opts of
     OptsBalanced _ \<Rightarrow> Inl ErrInvalidPluggableOptsType
   | OptsPluggable ob \<Rightarrow>
       if d_Equal D amountIn (d_Zero D) then Inl ErrAmountTooLow
       else let amount = d_Round D 8 (d_Mul D amountIn (po_Price ob))
            in if d_LessThanOrEqual D amount (d_Zero D) then Inl ErrAmountTooLow
               else if d_GreaterThanOrEqual D amount (po_BalanceOut ob) then Inl ErrAmountTooBig
               else Inr amount)"

definition Pluggable_InGivenOut :: "'d decimal_ops \<Rightarrow> 'd opts \<Rightarrow> 'd \<Rightarrow> 'd res" where
  "Pluggable_InGivenOut D opts amountOut = (case opts of
     OptsBalanced _ \<Rightarrow> Inl ErrInvalidPluggableOptsType
   | OptsPluggable ob \<Rightarrow>
       if d_Equal D amountOut (d_Zero D) then Inl ErrAmountTooLow
       else if d_GreaterThanOrEqual D amountOut (po_BalanceOut ob) then Inl ErrAmountTooBig
       else let amount = d_Round D 8 (d_Mul D amountOut (po_Price ob))
            in if d_LessThanOrEqual D amount (d_Zero D) then Inl ErrAmountTooLow
               else Inr amount)"

section \<open>market\_making.go\<close>

record 'd MakingFormula =
  mf_SpotPrice :: "'d opts \<Rightarrow> 'd res"
  mf_OutGivenIn :: "'d opts \<Rightarrow> 'd \<Rightarrow> 'd res"
  mf_InGivenOut :: "'d opts \<Rightarrow> 'd \<Rightarrow> 'd res"

definition NewBalancedReservedFormula :: "'d decimal_ops \<Rightarrow> nat \<Rightarrow> 'd MakingFormula" where
  "NewBalancedReservedFormula D p =
     \<lparr> mf_SpotPrice = BalancedReserves_SpotPrice D p,
       mf_OutGivenIn = BalancedReserves_OutGivenIn D p,
       mf_InGivenOut = BalancedReserves_InGivenOut D p \<rparr>"

definition NewPluggableFormula :: "'d decimal_ops \<Rightarrow> 'd MakingFormula" where
  "NewPluggableFormula D =
     \<lparr> mf_SpotPrice = Pluggable_SpotPrice D,
       mf_OutGivenIn = Pluggable_OutGivenIn D,
       mf_InGivenOut = Pluggable_InGivenOut D \<rparr>"

section \<open>Exact amounts\<close>

text \<open>
  The constant-product curve, on exact rationals: what the pool gives for \<open>x\<close> (\<open>cp_out\<close>) and what
  it asks for \<open>y\<close> (\<open>cp_in\<close>), with reserves \<open>bi\<close> and \<open>bo\<close>; and the amounts the code computes, with
  its two roundings.
\<close>

definition cp_out :: "rat \<Rightarrow> rat \<Rightarrow> rat \<Rightarrow> rat" where
  "cp_out bi bo x = bo * x / (bi + x)"

definition cp_in :: "rat \<Rightarrow> rat \<Rightarrow> rat \<Rightarrow> rat" where
  "cp_in bi bo y = bi * y / (bo - y)"

definition out_rounded :: "nat \<Rightarrow> rat \<Rightarrow> rat \<Rightarrow> rat \<Rightarrow> rat" where
  "out_rounded p bi bo x = round_to 8 (bo * (1 - round_to p (bi / (bi + x))))"

definition in_rounded :: "nat \<Rightarrow> rat \<Rightarrow> rat \<Rightarrow> rat \<Rightarrow> rat" where
  "in_rounded p bi bo y = round_to 8 (bi * (round_to p (bo / (bo - y)) - 1))"

text \<open>Half a unit of the last of \<open>p\<close> digits on a factor of \<open>B\<close>, and half a satoshi.\<close>

definition rounding_err :: "nat \<Rightarrow> rat \<Rightarrow> rat" where
  "rounding_err p B = B / (2 * 10 ^ p) + 1 / (2 * 10 ^ 8)"

text \<open>Rounding a factor to \<open>p\<close> digits, then the product to 8.\<close>

lemma two_roundings:
  fixes B q e :: rat
  assumes "0 \<le> B" and "\<bar>e\<bar> \<le> 1 / (2 * 10 ^ p)"
  shows "\<bar>round_to 8 (B * (q + e)) - B * q\<bar> \<le> rounding_err p B"
proof -
  have "\<bar>round_to 8 (B * (q + e)) - B * (q + e)\<bar> \<le> 1 / (2 * 10 ^ 8)"
    by (rule round_to_err)
  moreover have "\<bar>B * (q + e) - B * q\<bar> = B * \<bar>e\<bar>"
    using assms(1) by (simp add: abs_mult algebra_simps)
  moreover have "B * \<bar>e\<bar> \<le> B / (2 * 10 ^ p)"
    using mult_left_mono [OF assms(2,1)] by simp
  ultimately show ?thesis
    unfolding rounding_err_def by linarith
qed

lemma out_rounded_err:
  assumes "0 < bi" "0 < bo" "0 < x"
  shows "\<bar>out_rounded p bi bo x - cp_out bi bo x\<bar> \<le> rounding_err p bo"
proof -
  let ?q = "bi / (bi + x)"
  have "\<bar>- (round_to p ?q - ?q)\<bar> \<le> 1 / (2 * 10 ^ p)"
    using round_to_err [of p ?q] by simp
  with assms(2) have "\<bar>round_to 8 (bo * ((1 - ?q) + - (round_to p ?q - ?q))) - bo * (1 - ?q)\<bar>
    \<le> rounding_err p bo"
    by (intro two_roundings) simp_all
  moreover have "bo * (1 - ?q) = cp_out bi bo x"
    using assms by (simp add: cp_out_def field_simps)
  ultimately show ?thesis
    by (simp add: out_rounded_def)
qed

lemma in_rounded_err:
  assumes "0 < bi" "0 < bo" "y < bo"
  shows "\<bar>in_rounded p bi bo y - cp_in bi bo y\<bar> \<le> rounding_err p bi"
proof -
  let ?q = "bo / (bo - y)"
  have "\<bar>round_to 8 (bi * ((?q - 1) + (round_to p ?q - ?q))) - bi * (?q - 1)\<bar>
    \<le> rounding_err p bi"
    using assms(1) by (intro two_roundings round_to_err) simp
  moreover have "bi * (?q - 1) = cp_in bi bo y"
    using assms by (simp add: cp_in_def field_simps)
  ultimately show ?thesis
    by (simp add: in_rounded_def)
qed

lemma out_rounded_mono:
  assumes "0 < bi" "0 < bo" "0 < x" "x \<le> x'"
  shows "out_rounded p bi bo x \<le> out_rounded p bi bo x'"
proof -
  have "bi / (bi + x') \<le> bi / (bi + x)"
    using assms by (intro divide_left_mono) (auto intro: mult_pos_pos)
  then have "1 - round_to p (bi / (bi + x)) \<le> 1 - round_to p (bi / (bi + x'))"
    by (simp add: round_to_mono)
  then have "bo * (1 - round_to p (bi / (bi + x))) \<le> bo * (1 - round_to p (bi / (bi + x')))"
    using assms(2) by (intro mult_left_mono) auto
  then show ?thesis
    unfolding out_rounded_def by (rule round_to_mono)
qed

lemma in_rounded_mono:
  assumes "0 < bi" "0 < bo" "y \<le> y'" "y' < bo"
  shows "in_rounded p bi bo y \<le> in_rounded p bi bo y'"
proof -
  have "bo / (bo - y) \<le> bo / (bo - y')"
    using assms by (intro divide_left_mono) (auto intro: mult_pos_pos)
  then have "round_to p (bo / (bo - y)) - 1 \<le> round_to p (bo / (bo - y')) - 1"
    by (simp add: round_to_mono)
  then have "bi * (round_to p (bo / (bo - y)) - 1) \<le> bi * (round_to p (bo / (bo - y')) - 1)"
    using assms(1) by (intro mult_left_mono) auto
  then show ?thesis
    unfolding in_rounded_def by (rule round_to_mono)
qed

context decimal_lib
begin

lemma BalancedReserves_OutGivenIn_eq:
  assumes "0 < val (bro_BalanceIn ob)" "0 < val (bro_BalanceOut ob)"
  shows "BalancedReserves_OutGivenIn D p (OptsBalanced ob) x =
    (if val x \<le> 0 then Inl ErrAmountTooLow
     else let a = d_Round D 8 (d_Mul D (bro_BalanceOut ob) (d_Sub D (d_NewFromInt D 1)
                    (d_Div D p (bro_BalanceIn ob) (d_Add D (bro_BalanceIn ob) x))))
          in if val a \<le> 0 then Inl ErrAmountTooLow
             else if val (bro_BalanceOut ob) \<le> val a then Inl ErrAmountTooBig else Inr a)"
  using assms
  by (simp add: BalancedReserves_OutGivenIn_def dec_val val_Zero IsZero_val Div_def Let_def not_le)

lemma val_out_amount:
  assumes "0 < val bi" "0 < val x"
  shows "val (d_Round D 8 (d_Mul D bo (d_Sub D (d_NewFromInt D 1) (d_Div D p bi (d_Add D bi x)))))
         = out_rounded p (val bi) (val bo) (val x)"
proof -
  have "val (d_Add D bi x) \<noteq> 0"
    using assms by (simp add: val_Add)
  then show ?thesis
    by (simp add: val_Round val_Mul val_Sub val_NewFromInt val_Div val_Add out_rounded_def)
qed

lemma OutGivenIn_bounds:
  assumes "0 < val (bro_BalanceIn ob)" "0 < val (bro_BalanceOut ob)"
    and "BalancedReserves_OutGivenIn D p (OptsBalanced ob) x = Inr a"
  shows "0 < val a" "val a < val (bro_BalanceOut ob)"
    "\<bar>val a - cp_out (val (bro_BalanceIn ob)) (val (bro_BalanceOut ob)) (val x)\<bar>
      \<le> rounding_err p (val (bro_BalanceOut ob))"
  using assms out_rounded_err [OF assms(1,2), of "val x" p]
  by (auto simp: BalancedReserves_OutGivenIn_eq Let_def not_le val_out_amount split: if_splits)

lemma BalancedReserves_InGivenOut_eq:
  assumes "0 < val (bro_BalanceIn ob)" "0 < val (bro_BalanceOut ob)"
  shows "BalancedReserves_InGivenOut D p (OptsBalanced ob) y =
    (if val y = 0 then Inl ErrAmountTooLow
     else if val (bro_BalanceOut ob) \<le> val y then Inl ErrAmountTooBig
     else let a = d_Round D 8 (d_Mul D (bro_BalanceIn ob) (d_Sub D
                    (d_Div D p (bro_BalanceOut ob) (d_Sub D (bro_BalanceOut ob) y)) (d_NewFromInt D 1)))
          in if val a \<le> 0 then Inl ErrAmountTooLow else Inr a)"
  using assms
  by (simp add: BalancedReserves_InGivenOut_def dec_val val_Zero IsZero_val Div_def Let_def not_le)

lemma val_in_amount:
  assumes "val y < val bo"
  shows "val (d_Round D 8 (d_Mul D bi (d_Sub D (d_Div D p bo (d_Sub D bo y)) (d_NewFromInt D 1))))
         = in_rounded p (val bi) (val bo) (val y)"
proof -
  have "val (d_Sub D bo y) \<noteq> 0"
    using assms by (simp add: val_Sub)
  then show ?thesis
    by (simp add: val_Round val_Mul val_Sub val_NewFromInt val_Div in_rounded_def)
qed

end

section \<open>The contract of a formula\<close>

text \<open>
  What the markets rely on: on options of the formula's own kind with positive reserves, the
  operations return or refuse with one of the two amount errors, a returned amount is positive,
  and the amount leaving the pool is below the reserve it leaves. \<open>spec_ok\<close> says which options
  these are, \<open>reserve\<close> reads the outgoing reserve.
\<close>

fun balanced_ok :: "('d \<Rightarrow> rat) \<Rightarrow> 'd opts \<Rightarrow> bool" where
  "balanced_ok val (OptsBalanced ob) \<longleftrightarrow> 0 < val (bro_BalanceIn ob) \<and> 0 < val (bro_BalanceOut ob)"
| "balanced_ok val (OptsPluggable ob) \<longleftrightarrow> False"

fun pluggable_ok :: "'d opts \<Rightarrow> bool" where
  "pluggable_ok (OptsBalanced ob) \<longleftrightarrow> False"
| "pluggable_ok (OptsPluggable ob) \<longleftrightarrow> True"

fun reserve_out :: "'d opts \<Rightarrow> 'd" where
  "reserve_out (OptsBalanced ob) = bro_BalanceOut ob"
| "reserve_out (OptsPluggable ob) = po_BalanceOut ob"

locale making_formula =
  fixes F :: "'d MakingFormula" and val :: "'d \<Rightarrow> rat"
    and spec_ok :: "'d opts \<Rightarrow> bool" and reserve :: "'d opts \<Rightarrow> 'd"
  assumes out_law: "spec_ok q \<Longrightarrow> mf_OutGivenIn F q x = Inr a \<Longrightarrow> 0 < val a \<and> val a < val (reserve q)"
    and in_law: "spec_ok q \<Longrightarrow> mf_InGivenOut F q y = Inr a \<Longrightarrow> 0 < val a \<and> val y < val (reserve q)"
    and out_errors: "spec_ok q \<Longrightarrow> mf_OutGivenIn F q x = Inl e \<Longrightarrow> e \<in> {ErrAmountTooLow, ErrAmountTooBig}"
    and in_errors: "spec_ok q \<Longrightarrow> mf_InGivenOut F q y = Inl e \<Longrightarrow> e \<in> {ErrAmountTooLow, ErrAmountTooBig}"
begin

lemma out_cases:
  assumes "spec_ok q"
  obtains a where "mf_OutGivenIn F q x = Inr a" "0 < val a" "val a < val (reserve q)"
  | "mf_OutGivenIn F q x = Inl ErrAmountTooLow"
  | "mf_OutGivenIn F q x = Inl ErrAmountTooBig"
  using out_law [OF assms, of x] out_errors [OF assms, of x]
  by (cases "mf_OutGivenIn F q x") auto

lemma in_cases:
  assumes "spec_ok q"
  obtains a where "mf_InGivenOut F q y = Inr a" "0 < val a" "val y < val (reserve q)"
  | "mf_InGivenOut F q y = Inl ErrAmountTooLow"
  | "mf_InGivenOut F q y = Inl ErrAmountTooBig"
  using in_law [OF assms, of y] in_errors [OF assms, of y]
  by (cases "mf_InGivenOut F q y") auto

lemma no_panic:
  assumes "spec_ok q"
  shows "\<not> panics (mf_OutGivenIn F q x)" and "\<not> panics (mf_InGivenOut F q y)"
  by (cases rule: out_cases [OF assms, of x]; simp) (cases rule: in_cases [OF assms, of y]; simp)

end

lemma balanced_okE:
  assumes "balanced_ok val q"
  obtains ob where "q = OptsBalanced ob" "0 < val (bro_BalanceIn ob)" "0 < val (bro_BalanceOut ob)"
  using assms by (cases q) auto

lemma pluggable_okE:
  assumes "pluggable_ok q"
  obtains ob where "q = OptsPluggable ob"
  using assms by (cases q) auto

context decimal_lib
begin

lemma Pluggable_OutGivenIn_eq:
  "Pluggable_OutGivenIn D (OptsPluggable ob) x =
    (if val x = 0 then Inl ErrAmountTooLow
     else let a = d_Round D 8 (d_Mul D x (po_Price ob))
          in if val a \<le> 0 then Inl ErrAmountTooLow
             else if val (po_BalanceOut ob) \<le> val a then Inl ErrAmountTooBig else Inr a)"
  by (simp add: Pluggable_OutGivenIn_def dec_val val_Zero Let_def)

lemma Pluggable_InGivenOut_eq:
  "Pluggable_InGivenOut D (OptsPluggable ob) y =
    (if val y = 0 then Inl ErrAmountTooLow
     else if val (po_BalanceOut ob) \<le> val y then Inl ErrAmountTooBig
     else let a = d_Round D 8 (d_Mul D y (po_Price ob))
          in if val a \<le> 0 then Inl ErrAmountTooLow else Inr a)"
  by (simp add: Pluggable_InGivenOut_def dec_val val_Zero Let_def)

lemma balanced_contract:
  "making_formula (NewBalancedReservedFormula D p) val (balanced_ok val) reserve_out"
  by unfold_locales
    (auto elim!: balanced_okE split: if_splits
      simp: NewBalancedReservedFormula_def Let_def
        BalancedReserves_OutGivenIn_eq BalancedReserves_InGivenOut_eq)

lemma pluggable_contract:
  "making_formula (NewPluggableFormula D) val pluggable_ok reserve_out"
  by unfold_locales
    (auto elim!: pluggable_okE split: if_splits
      simp: NewPluggableFormula_def Let_def Pluggable_OutGivenIn_eq Pluggable_InGivenOut_eq)

end

sublocale decimal_lib \<subseteq> balanced: making_formula "NewBalancedReservedFormula D p" val "balanced_ok val" reserve_out
  for p
  by (rule balanced_contract)

sublocale decimal_lib \<subseteq> pluggable: making_formula "NewPluggableFormula D" val pluggable_ok reserve_out
  by (rule pluggable_contract)

interpretation fixed_balanced: making_formula
  "NewBalancedReservedFormula fixdec DivisionPrecision" fd_val "balanced_ok fd_val" reserve_out
  by (rule fixed.balanced_contract)

interpretation fixed_pluggable: making_formula
  "NewPluggableFormula fixdec" fd_val pluggable_ok reserve_out
  by (rule fixed.pluggable_contract)

section \<open>Properties\<close>

text \<open>
  C14. Balanced reserves, selling: with positive reserves \<open>OutGivenIn\<close> never panics; it refuses
  non-positive amounts, it refuses exactly the amounts whose rounded output is not strictly
  between zero and the reserve, and otherwise returns the output of the constant-product curve
  up to half a unit of the division precision times the reserve plus half a satoshi.
\<close>

theorem OutGivenIn_correct:
  assumes "decimal_lib D val"
    and "0 < val (bro_BalanceIn ob)" and "0 < val (bro_BalanceOut ob)"
  shows "case BalancedReserves_OutGivenIn D p (OptsBalanced ob) x of
      Inr a \<Rightarrow> 0 < val x \<and> 0 < val a \<and> val a < val (bro_BalanceOut ob)
        \<and> \<bar>val a - cp_out (val (bro_BalanceIn ob)) (val (bro_BalanceOut ob)) (val x)\<bar>
            \<le> rounding_err p (val (bro_BalanceOut ob))
    | Inl e \<Rightarrow> e = ErrAmountTooLow \<and> (val x \<le> 0
                 \<or> out_rounded p (val (bro_BalanceIn ob)) (val (bro_BalanceOut ob)) (val x) \<le> 0)
        \<or> e = ErrAmountTooBig
           \<and> val (bro_BalanceOut ob) \<le> out_rounded p (val (bro_BalanceIn ob)) (val (bro_BalanceOut ob)) (val x)"
  using assms(2,3)
  by (auto simp: decimal_lib.BalancedReserves_OutGivenIn_eq [OF assms] Let_def not_le
      decimal_lib.val_out_amount [OF assms(1)] intro: out_rounded_err)

text \<open>The reserves and the amount of the repository's own unit test of the formula.\<close>

definition test_opts :: "fdec BalancedReservesOpts" where
  "test_opts = \<lparr> bro_BalanceIn = (1, 0), bro_BalanceOut = (6500, 0), bro_WeightIn = 50, bro_WeightOut = 50 \<rparr>"

theorem OutGivenIn_correct_witness:
  "BalancedReserves_OutGivenIn fixdec 16 (OptsBalanced test_opts) (1, 4) = Inr (64993501, 8)
   \<and> \<bar>fd_val (64993501, 8) - cp_out 1 6500 (1 / 10 ^ 4)\<bar> \<le> rounding_err 16 6500"
proof -
  have e: "BalancedReserves_OutGivenIn fixdec 16 (OptsBalanced test_opts) (1, 4) = Inr (64993501, 8)"
    by code_simp
  have v: "fd_val (bro_BalanceIn test_opts) = 1" "fd_val (bro_BalanceOut test_opts) = 6500"
    "fd_val (1, 4) = 1 / 10 ^ 4"
    by (simp_all add: test_opts_def fd_val_def)
  show ?thesis
    using OutGivenIn_correct [OF fixed.decimal_lib_axioms, where ob = test_opts and p = 16 and x = "(1, 4)"] e
    by (simp only: v sum.case)
qed

text \<open>
  Balanced reserves, buying: with positive reserves \<open>InGivenOut\<close> never panics; it refuses a
  zero amount, an amount not below the reserve and an amount whose price rounds to nothing, and
  otherwise returns what the constant-product curve asks, up to half a unit of the division
  precision times the incoming reserve plus half a satoshi.
\<close>

lemma InGivenOut_correct:
  assumes "decimal_lib D val"
    and "0 < val (bro_BalanceIn ob)" and "0 < val (bro_BalanceOut ob)"
  shows "case BalancedReserves_InGivenOut D p (OptsBalanced ob) y of
      Inr a \<Rightarrow> val y \<noteq> 0 \<and> val y < val (bro_BalanceOut ob) \<and> 0 < val a
        \<and> \<bar>val a - cp_in (val (bro_BalanceIn ob)) (val (bro_BalanceOut ob)) (val y)\<bar>
            \<le> rounding_err p (val (bro_BalanceIn ob))
    | Inl e \<Rightarrow> e = ErrAmountTooBig \<and> val (bro_BalanceOut ob) \<le> val y
        \<or> e = ErrAmountTooLow \<and> (val y = 0
            \<or> in_rounded p (val (bro_BalanceIn ob)) (val (bro_BalanceOut ob)) (val y) \<le> 0)"
  using assms(2,3)
  by (auto simp: decimal_lib.BalancedReserves_InGivenOut_eq [OF assms] Let_def not_le
      decimal_lib.val_in_amount [OF assms(1)] intro: in_rounded_err)

lemma InGivenOut_correct_example:
  "BalancedReserves_InGivenOut fixdec 8 (OptsBalanced test_opts) (1, 0) = Inr (15387, 8)
   \<and> \<bar>fd_val (15387, 8) - cp_in 1 6500 1\<bar> \<le> rounding_err 8 1"
proof -
  have e: "BalancedReserves_InGivenOut fixdec 8 (OptsBalanced test_opts) (1, 0) = Inr (15387, 8)"
    by code_simp
  have v: "fd_val (bro_BalanceIn test_opts) = 1" "fd_val (bro_BalanceOut test_opts) = 6500"
    "fd_val (1, 0) = 1"
    by (simp_all add: test_opts_def fd_val_def)
  show ?thesis
    using InGivenOut_correct [OF fixed.decimal_lib_axioms, where ob = test_opts and p = 8 and y = "(1, 0)"] e
    by (simp only: v sum.case)
qed

text \<open>
  Selling more never yields less: \<open>OutGivenIn\<close> is monotone in the amount, roundings included.
\<close>

lemma OutGivenIn_mono:
  assumes "decimal_lib D val"
    and "0 < val (bro_BalanceIn ob)" and "0 < val (bro_BalanceOut ob)"
    and "val x \<le> val x'"
    and "BalancedReserves_OutGivenIn D p (OptsBalanced ob) x = Inr a"
    and "BalancedReserves_OutGivenIn D p (OptsBalanced ob) x' = Inr a'"
  shows "val a \<le> val a'"
  using assms(2-) out_rounded_mono [OF assms(2,3) _ assms(4), of p]
  by (auto simp: decimal_lib.BalancedReserves_OutGivenIn_eq [OF assms(1-3)] Let_def not_le
      decimal_lib.val_out_amount [OF assms(1)] split: if_splits)

lemma OutGivenIn_mono_example:
  "BalancedReserves_OutGivenIn fixdec 8 (OptsBalanced test_opts) (1, 4) = Inr (64993500, 8)
   \<and> BalancedReserves_OutGivenIn fixdec 8 (OptsBalanced test_opts) (2, 4) = Inr (129974000, 8)
   \<and> fd_val (64993500, 8) \<le> fd_val (129974000, 8)"
proof -
  have e: "BalancedReserves_OutGivenIn fixdec 8 (OptsBalanced test_opts) (1, 4) = Inr (64993500, 8)"
    "BalancedReserves_OutGivenIn fixdec 8 (OptsBalanced test_opts) (2, 4) = Inr (129974000, 8)"
    by code_simp+
  show ?thesis
    using e OutGivenIn_mono [OF fixed.decimal_lib_axioms _ _ _ e]
    by (simp add: test_opts_def fd_val_def)
qed

text \<open>
  The precision the daemon runs with (8) gives another amount than the precision the formula's
  own unit test runs with (16): the test expects 0.64993501.
\<close>

lemma precision_matters:
  "BalancedReserves_OutGivenIn fixdec 16 (OptsBalanced test_opts) (1, 4) = Inr (64993501, 8)"
  "BalancedReserves_OutGivenIn fixdec DivisionPrecision (OptsBalanced test_opts) (1, 4) = Inr (64993500, 8)"
  by code_simp+

text \<open>
  C20. Pluggable markets: both operations return the amount times the market price rounded to
  satoshis and nothing else; an output is positive and below the reserve, an input is positive and
  buys an amount below the reserve; zero and dust are refused as too low, the rest as too big.
\<close>

theorem Pluggable_correct:
  assumes "decimal_lib D val"
  shows "(case Pluggable_OutGivenIn D (OptsPluggable ob) x of
      Inr a \<Rightarrow> val a = round_to 8 (val x * val (po_Price ob)) \<and> 0 < val a \<and> val a < val (po_BalanceOut ob)
    | Inl e \<Rightarrow> e = ErrAmountTooLow \<and> round_to 8 (val x * val (po_Price ob)) \<le> 0
        \<or> e = ErrAmountTooBig \<and> val (po_BalanceOut ob) \<le> round_to 8 (val x * val (po_Price ob)))
   \<and> (case Pluggable_InGivenOut D (OptsPluggable ob) y of
      Inr a \<Rightarrow> val a = round_to 8 (val y * val (po_Price ob)) \<and> 0 < val a \<and> val y < val (po_BalanceOut ob)
    | Inl e \<Rightarrow> e = ErrAmountTooLow \<and> round_to 8 (val y * val (po_Price ob)) \<le> 0
        \<or> e = ErrAmountTooBig \<and> val (po_BalanceOut ob) \<le> val y)"
  by (auto simp: decimal_lib.Pluggable_OutGivenIn_eq [OF assms] decimal_lib.Pluggable_InGivenOut_eq [OF assms]
      decimal_lib.val_Round [OF assms] decimal_lib.val_Mul [OF assms] Let_def not_le round_to_0)

theorem Pluggable_correct_witness:
  "let ob = \<lparr> po_BalanceIn = (1, 0), po_BalanceOut = (6500, 0), po_Price = (6500, 0) \<rparr> in
   Pluggable_OutGivenIn fixdec (OptsPluggable ob) (1, 4) = Inr (65000000, 8)
   \<and> fd_val (65000000, 8) = round_to 8 (fd_val (1, 4) * fd_val (6500, 0))
   \<and> fd_val (65000000, 8) < fd_val (6500, 0)"
proof -
  let ?ob = "\<lparr> po_BalanceIn = (1, 0), po_BalanceOut = (6500, 0), po_Price = (6500, 0) \<rparr>"
  have e: "Pluggable_OutGivenIn fixdec (OptsPluggable ?ob) (1, 4) = Inr (65000000, 8)"
    by code_simp
  show ?thesis
    using Pluggable_correct [OF fixed.decimal_lib_axioms, where ob = ?ob and x = "(1, 4)" and y = "(1, 4)"] e
    by (simp only: Let_def sum.case PluggableOpts.simps) simp
qed

end
