(* ===== verification/Hex.thy ===== *)
theory Hex
  imports Prelude
begin

text \<open>
  \<open>encoding/hex\<close> of the Go library, as the domain uses it: \<open>DecodeString\<close> (the bytes decoded
  before the first bad digit, and whether there was none) and \<open>EncodeToString\<close> (lower case).
\<close>

definition hex_digit :: "char \<Rightarrow> nat option" where
  "hex_digit c = (let n = of_char c :: nat in
     if 48 \<le> n \<and> n \<le> 57 then Some (n - 48)
     else if 97 \<le> n \<and> n \<le> 102 then Some (n - 87)
     else if 65 \<le> n \<and> n \<le> 70 then Some (n - 55)
     else None)"

definition is_hex :: "char \<Rightarrow> bool" where
  "is_hex c \<longleftrightarrow> hex_digit c \<noteq> None"

fun hex_DecodeString :: "string \<Rightarrow> bytes \<times> bool" where
  "hex_DecodeString [] = ([], True)"
| "hex_DecodeString [c] = ([], False)"
| "hex_DecodeString (a # b # s) = (case (hex_digit a, hex_digit b) of
     (Some x, Some y) \<Rightarrow> (let (r, ok) = hex_DecodeString s in (word_of_nat (16 * x + y) # r, ok))
   | _ \<Rightarrow> ([], False))"

definition hex_char :: "nat \<Rightarrow> char" where
  "hex_char n = char_of (if n < 10 then n + 48 else n + 87)"

fun hex_EncodeToString :: "bytes \<Rightarrow> string" where
  "hex_EncodeToString [] = []"
| "hex_EncodeToString (b # bs) = hex_char (unat b div 16) # hex_char (unat b mod 16) # hex_EncodeToString bs"

lemma hex_digit_hex_char [simp]: "n < 16 \<Longrightarrow> hex_digit (hex_char n) = Some n"
  by (auto simp: hex_digit_def hex_char_def Let_def)

lemma hex_digit_bound: "hex_digit c = Some n \<Longrightarrow> n < 16"
  by (auto simp: hex_digit_def Let_def split: if_splits)

lemma unat_byte_split: "unat (b :: 8 word) div 16 < 16" "16 * (unat b div 16) + unat b mod 16 = unat b"
proof -
  have "unat b < 256"
    using unsigned_less [of b] by simp
  then show "unat b div 16 < 16" "16 * (unat b div 16) + unat b mod 16 = unat b"
    by simp_all
qed

lemma hex_DecodeString_EncodeToString [simp]: "hex_DecodeString (hex_EncodeToString bs) = (bs, True)"
  by (induction bs) (simp_all add: unat_byte_split)

lemma hex_DecodeString_length:
  "hex_DecodeString s = (bs, True) \<Longrightarrow> length s = 2 * length bs \<and> list_all is_hex s"
  by (induction s arbitrary: bs rule: hex_DecodeString.induct)
    (auto simp: is_hex_def split: option.splits prod.splits)

lemma hex_DecodeString_ok:
  "snd (hex_DecodeString s) \<longleftrightarrow> even (length s) \<and> list_all is_hex s"
  by (induction s rule: hex_DecodeString.induct)
    (auto simp: is_hex_def split: option.splits prod.splits)

lemma length_hex_EncodeToString [simp]: "length (hex_EncodeToString bs) = 2 * length bs"
  by (induction bs) simp_all

lemma hex_decodes_iff:
  "(case hex_DecodeString s of (buf, ok) \<Rightarrow> ok \<and> length buf = n)
   \<longleftrightarrow> length s = 2 * n \<and> list_all is_hex s"
proof (cases "hex_DecodeString s")
  case (Pair buf ok)
  then show ?thesis
    using hex_DecodeString_ok [of s] hex_DecodeString_length [of s buf] by auto
qed

end
