(* ===== verification/Market.thy ===== *)
theory Market
  imports Formula Hex
begin

text \<open>
  \<open>internal/core/domain/market.go\<close>: the market entity, its configuration operations and the
  preview of a swap. A method that changes the market returns the changed market, or the error it
  returns before changing anything. \<open>D\<close> is the decimal package, \<open>hash160\<close> is
  \<open>btcutil.Hash160\<close>. All decimal divisions run with \<^const>\<open>DivisionPrecision\<close>.
\<close>

section \<open>Data\<close>

definition StrategyTypeUndefined :: int where "StrategyTypeUndefined = 0"
definition StrategyTypePluggable :: int where "StrategyTypePluggable = 1"
definition StrategyTypeBalanced :: int where "StrategyTypeBalanced = 2"

lemmas strategy_defs = StrategyTypeUndefined_def StrategyTypePluggable_def StrategyTypeBalanced_def

record MarketFee =
  mf_BaseAsset :: u64
  mf_QuoteAsset :: u64

record MarketPrice =
  mp_BasePrice :: string
  mp_QuotePrice :: string

record PreviewInfo =
  pi_Price :: MarketPrice
  pi_Amount :: u64
  pi_Asset :: string
  pi_FeeAsset :: string
  pi_FeeAmount :: u64

record Market =
  mkt_BaseAsset :: string
  mkt_QuoteAsset :: string
  mkt_Name :: string
  mkt_BaseAssetPrecision :: u64
  mkt_QuoteAssetPrecision :: u64
  mkt_PercentageFee :: MarketFee
  mkt_FixedFee :: MarketFee
  mkt_Tradable :: bool
  mkt_StrategyType :: int
  mkt_Price :: MarketPrice

definition empty_price :: MarketPrice where
  "empty_price = \<lparr> mp_BasePrice = '''', mp_QuotePrice = '''' \<rparr>"

text \<open>\<open>p, _ := decimal.NewFromString(s)\<close>: on a parse error \<open>p\<close> is the zero decimal.\<close>

definition decimal_or_zero :: "'d decimal_ops \<Rightarrow> string \<Rightarrow> 'd" where
  "decimal_or_zero D s = (case d_NewFromString D s of Some p \<Rightarrow> p | None \<Rightarrow> d_Zero D)"

definition GetBasePrice :: "'d decimal_ops \<Rightarrow> MarketPrice \<Rightarrow> 'd" where
  "GetBasePrice D mp = decimal_or_zero D (mp_BasePrice mp)"

definition GetQuotePrice :: "'d decimal_ops \<Rightarrow> MarketPrice \<Rightarrow> 'd" where
  "GetQuotePrice D mp = decimal_or_zero D (mp_QuotePrice mp)"

definition MarketPrice_IsZero :: "'d decimal_ops \<Rightarrow> MarketPrice \<Rightarrow> bool" where
  "MarketPrice_IsZero D mp = (if mp = empty_price then True
     else d_IsZero D (GetBasePrice D mp) \<and> d_IsZero D (GetQuotePrice D mp))"

section \<open>Validation\<close>

definition isValidAsset :: "string \<Rightarrow> bool" where
  "isValidAsset asset = (case hex_DecodeString asset of (buf, ok) \<Rightarrow> ok \<and> length buf = 32)"

definition isValidPercentageFee :: "i64 \<Rightarrow> i64 \<Rightarrow> bool" where
  "isValidPercentageFee baseFee quoteFee =
     (let isValid = (\<lambda>v. v \<ge> 0 \<and> v \<le> 9999) in isValid baseFee \<and> isValid quoteFee)"

definition isValidFixedFee :: "i64 \<Rightarrow> i64 \<Rightarrow> bool" where
  "isValidFixedFee baseFee quoteFee =
     (let isValid = (\<lambda>v. v \<ge> - 1) in isValid baseFee \<and> isValid quoteFee)"

definition isValidPrecision :: "u64 \<Rightarrow> bool" where
  "isValidPrecision precision \<longleftrightarrow> int64 precision \<ge> 0 \<and> precision \<le> 8"

definition isValidStrategy :: "u64 \<Rightarrow> bool" where
  "isValidStrategy strategy \<longleftrightarrow>
     uint strategy \<ge> StrategyTypeUndefined \<and> uint strategy \<le> StrategyTypeBalanced"

definition makeAccountName :: "(bytes \<Rightarrow> bytes) \<Rightarrow> string \<Rightarrow> string \<Rightarrow> string" where
  "makeAccountName hash160 baseAsset quoteAsset =
     (let buf = fst (hex_DecodeString (baseAsset @ quoteAsset))
      in take 5 (hex_EncodeToString (hash160 buf)))"

section \<open>Construction and configuration\<close>

definition NewMarket :: "(bytes \<Rightarrow> bytes) \<Rightarrow> string \<Rightarrow> string \<Rightarrow> string \<Rightarrow> u64 \<Rightarrow> u64 \<Rightarrow> u64 \<Rightarrow> u64
    \<Rightarrow> u64 \<Rightarrow> u64 \<Rightarrow> u64 \<Rightarrow> Market res" where
  "NewMarket hash160 baseAsset quoteAsset name basePercentageFee quotePercentageFee
     baseFixedFee quoteFixedFee baseAssetPrecision quoteAssetPrecision strategyType =
   (if \<not> isValidAsset baseAsset then Inl ErrMarketInvalidBaseAsset
    else if \<not> isValidAsset quoteAsset then Inl ErrMarketInvalidQuoteAsset
    else if \<not> isValidPercentageFee (int64 basePercentageFee) (int64 quotePercentageFee)
    then Inl ErrMarketInvalidPercentageFee
    else if \<not> isValidFixedFee (int64 baseFixedFee) (int64 quoteFixedFee)
    then Inl ErrMarketInvalidFixedFee
    else if \<not> isValidPrecision baseAssetPrecision then Inl ErrMarketInvalidBaseAssetPrecision
    else if \<not> isValidPrecision quoteAssetPrecision then Inl ErrMarketInvalidQuoteAssetPrecision
    else if \<not> isValidStrategy strategyType then Inl ErrMarketUnknownStrategy
    else
      let strategyType = (if uint strategyType = StrategyTypeUndefined
                          then StrategyTypeBalanced else int64 strategyType);
          name = (if name = '''' then makeAccountName hash160 baseAsset quoteAsset else name)
      in Inr \<lparr> mkt_BaseAsset = baseAsset, mkt_QuoteAsset = quoteAsset, mkt_Name = name,
               mkt_BaseAssetPrecision = baseAssetPrecision,
               mkt_QuoteAssetPrecision = quoteAssetPrecision,
               mkt_PercentageFee = \<lparr> mf_BaseAsset = basePercentageFee, mf_QuoteAsset = quotePercentageFee \<rparr>,
               mkt_FixedFee = \<lparr> mf_BaseAsset = baseFixedFee, mf_QuoteAsset = quoteFixedFee \<rparr>,
               mkt_Tradable = False, mkt_StrategyType = strategyType, mkt_Price = empty_price \<rparr>)"

definition IsTradable :: "Market \<Rightarrow> bool" where
  "IsTradable m = mkt_Tradable m"

definition IsStrategyBalanced :: "Market \<Rightarrow> bool" where
  "IsStrategyBalanced m \<longleftrightarrow> mkt_StrategyType m = StrategyTypeBalanced"

definition IsStrategyPluggable :: "Market \<Rightarrow> bool" where
  "IsStrategyPluggable m \<longleftrightarrow> mkt_StrategyType m = StrategyTypePluggable"

definition MakeTradable :: "'d decimal_ops \<Rightarrow> Market \<Rightarrow> Market res" where
  "MakeTradable D m =
     (if IsStrategyPluggable m \<and> MarketPrice_IsZero D (mkt_Price m) then Inl ErrMarketNotPriced
      else Inr (m \<lparr> mkt_Tradable := True \<rparr>))"

definition MakeNotTradable :: "Market \<Rightarrow> Market" where
  "MakeNotTradable m = m \<lparr> mkt_Tradable := False \<rparr>"

definition MakeStrategyPluggable :: "Market \<Rightarrow> Market res" where
  "MakeStrategyPluggable m =
     (if IsTradable m then Inl ErrMarketIsOpen
      else Inr (m \<lparr> mkt_StrategyType := StrategyTypePluggable, mkt_Price := empty_price \<rparr>))"

definition MakeStrategyBalanced :: "Market \<Rightarrow> Market res" where
  "MakeStrategyBalanced m =
     (if IsTradable m then Inl ErrMarketIsOpen
      else Inr (m \<lparr> mkt_StrategyType := StrategyTypeBalanced \<rparr>))"

text \<open>\<open>if baseFee >= 0 { fee.BaseAsset = uint64(baseFee) }\<close>, and the same for the quote asset.\<close>

definition change_fee :: "i64 \<Rightarrow> i64 \<Rightarrow> MarketFee \<Rightarrow> MarketFee" where
  "change_fee baseFee quoteFee fee =
     (let fee = (if baseFee \<ge> 0 then fee \<lparr> mf_BaseAsset := uint64 baseFee \<rparr> else fee)
      in if quoteFee \<ge> 0 then fee \<lparr> mf_QuoteAsset := uint64 quoteFee \<rparr> else fee)"

definition ChangePercentageFee :: "i64 \<Rightarrow> i64 \<Rightarrow> Market \<Rightarrow> Market res" where
  "ChangePercentageFee baseFee quoteFee m =
     (if IsTradable m then Inl ErrMarketIsOpen
      else if \<not> isValidPercentageFee baseFee quoteFee then Inl ErrMarketInvalidPercentageFee
      else Inr (m \<lparr> mkt_PercentageFee := change_fee baseFee quoteFee (mkt_PercentageFee m) \<rparr>))"

definition ChangeFixedFee :: "i64 \<Rightarrow> i64 \<Rightarrow> Market \<Rightarrow> Market res" where
  "ChangeFixedFee baseFee quoteFee m =
     (if IsTradable m then Inl ErrMarketIsOpen
      else if \<not> isValidFixedFee baseFee quoteFee then Inl ErrMarketInvalidFixedFee
      else Inr (m \<lparr> mkt_FixedFee := change_fee baseFee quoteFee (mkt_FixedFee m) \<rparr>))"

definition ChangePrice :: "'d decimal_ops \<Rightarrow> 'd \<Rightarrow> 'd \<Rightarrow> Market \<Rightarrow> Market res" where
  "ChangePrice D basePrice quotePrice m =
     (if d_LessThanOrEqual D basePrice (d_Zero D) then Inl ErrMarketInvalidBasePrice
      else if d_LessThanOrEqual D quotePrice (d_Zero D) then Inl ErrMarketInvalidQuotePrice
      else Inr (m \<lparr> mkt_Price := \<lparr> mp_BasePrice = d_String D basePrice,
                                  mp_QuotePrice = d_String D quotePrice \<rparr> \<rparr>))"

definition ChangeAssetPrecision :: "int \<Rightarrow> int \<Rightarrow> Market \<Rightarrow> Market res" where
  "ChangeAssetPrecision baseAssetPrecision quoteAssetPrecision m =
     (if IsTradable m then Inl ErrMarketIsOpen
      else if baseAssetPrecision \<ge> 0 \<and> \<not> isValidPrecision (uint64 baseAssetPrecision)
      then Inl ErrMarketInvalidBaseAssetPrecision
      else if quoteAssetPrecision \<ge> 0 \<and> \<not> isValidPrecision (uint64 quoteAssetPrecision)
      then Inl ErrMarketInvalidQuoteAssetPrecision
      else
        let m = (if baseAssetPrecision \<ge> 0
                 then m \<lparr> mkt_BaseAssetPrecision := uint64 baseAssetPrecision \<rparr> else m)
        in Inr (if quoteAssetPrecision \<ge> 0
                then m \<lparr> mkt_QuoteAssetPrecision := uint64 quoteAssetPrecision \<rparr> else m))"

section \<open>Prices and previews\<close>

text \<open>
  \<open>uint64(math.Pow10(int(precision)))\<close>; the two agree for precisions up to 19, and those of a
  market are at most 8.
\<close>

definition pow10 :: "u64 \<Rightarrow> u64" where
  "pow10 precision = 10 ^ unat precision"

definition strategy :: "'d decimal_ops \<Rightarrow> Market \<Rightarrow> 'd MakingFormula" where
  "strategy D m = (if mkt_StrategyType m = StrategyTypePluggable then NewPluggableFormula D
                   else NewBalancedReservedFormula D DivisionPrecision)"

definition formula :: "'d decimal_ops \<Rightarrow> Market \<Rightarrow> bool \<Rightarrow> bool \<Rightarrow> 'd opts \<Rightarrow> 'd \<Rightarrow> 'd res" where
  "formula D m isBaseAsset isBuy =
     (if isBuy then if isBaseAsset then mf_InGivenOut (strategy D m) else mf_OutGivenIn (strategy D m)
      else if isBaseAsset then mf_OutGivenIn (strategy D m) else mf_InGivenOut (strategy D m))"

text \<open>
  The reserves in units of the assets, incoming first; a decimal division, hence the error.
\<close>

definition formula_balances :: "'d decimal_ops \<Rightarrow> Market \<Rightarrow> u64 \<Rightarrow> u64 \<Rightarrow> bool \<Rightarrow> ('d \<times> 'd) res" where
  "formula_balances D m baseBalance quoteBalance isBuy =
     rbind (mathutil_Div D baseBalance (pow10 (mkt_BaseAssetPrecision m))) (\<lambda>balanceIn.
     rbind (mathutil_Div D quoteBalance (pow10 (mkt_QuoteAssetPrecision m))) (\<lambda>balanceOut.
     Inr (if isBuy then (balanceOut, balanceIn) else (balanceIn, balanceOut))))"

definition formulaOptsForPluggable ::
    "'d decimal_ops \<Rightarrow> Market \<Rightarrow> u64 \<Rightarrow> u64 \<Rightarrow> bool \<Rightarrow> bool \<Rightarrow> 'd opts res" where
  "formulaOptsForPluggable D m baseBalance quoteBalance isBaseAsset isBuy =
     rbind (formula_balances D m baseBalance quoteBalance isBuy) (\<lambda>(balanceIn, balanceOut).
     let price = (if isBaseAsset then GetQuotePrice D (mkt_Price m) else GetBasePrice D (mkt_Price m))
     in Inr (OptsPluggable \<lparr> po_BalanceIn = balanceIn, po_BalanceOut = balanceOut, po_Price = price \<rparr>))"

definition formulaOptsForBalanced ::
    "'d decimal_ops \<Rightarrow> Market \<Rightarrow> u64 \<Rightarrow> u64 \<Rightarrow> bool \<Rightarrow> bool \<Rightarrow> 'd opts res" where
  "formulaOptsForBalanced D m baseBalance quoteBalance isBaseAsset isBuy =
     rbind (formula_balances D m baseBalance quoteBalance isBuy) (\<lambda>(balanceIn, balanceOut).
     Inr (OptsBalanced \<lparr> bro_BalanceIn = balanceIn, bro_BalanceOut = balanceOut,
                         bro_WeightIn = 0, bro_WeightOut = 0 \<rparr>))"

definition priceFromBalances :: "'d decimal_ops \<Rightarrow> Market \<Rightarrow> u64 \<Rightarrow> u64 \<Rightarrow> MarketPrice res" where
  "priceFromBalances D m baseBalance quoteBalance =
     rbind (formula_balances D m baseBalance quoteBalance False) (\<lambda>(balanceIn, balanceOut).
     rbind (mf_SpotPrice (strategy D m)
              (OptsBalanced \<lparr> bro_BalanceIn = balanceIn, bro_BalanceOut = balanceOut,
                              bro_WeightIn = 0, bro_WeightOut = 0 \<rparr>)) (\<lambda>quotePrice.
     rbind (Div D DivisionPrecision (d_NewFromInt D 1) quotePrice) (\<lambda>basePrice.
     Inr \<lparr> mp_BasePrice = d_String D basePrice, mp_QuotePrice = d_String D quotePrice \<rparr>)))"

definition priceForStrategy :: "'d decimal_ops \<Rightarrow> Market \<Rightarrow> u64 \<Rightarrow> u64 \<Rightarrow> MarketPrice res" where
  "priceForStrategy D m baseBalance quoteBalance =
     (if IsStrategyPluggable m then Inr (mkt_Price m)
      else priceFromBalances D m baseBalance quoteBalance)"

definition SpotPrice :: "'d decimal_ops \<Rightarrow> Market \<Rightarrow> u64 \<Rightarrow> u64 \<Rightarrow> MarketPrice res" where
  "SpotPrice D m baseBalance quoteBalance = priceForStrategy D m baseBalance quoteBalance"

definition previewFees :: "'d decimal_ops \<Rightarrow> Market \<Rightarrow> u64 \<Rightarrow> string \<Rightarrow> bool \<Rightarrow> u64 res" where
  "previewFees D m amount asset isBuy =
     (let onQuote = (asset = mkt_QuoteAsset m);
          percentageFee = (if onQuote then mf_QuoteAsset (mkt_PercentageFee m)
                           else mf_BaseAsset (mkt_PercentageFee m));
          fixedFee = (if onQuote then mf_QuoteAsset (mkt_FixedFee m) else mf_BaseAsset (mkt_FixedFee m));
          fee = d_Div D DivisionPrecision (d_NewFromInt D (int64 percentageFee)) (d_NewFromInt D 10000);
          feeAmount = big_Uint64 (d_BigInt D (d_Mul D (d_NewFromInt D (int64 amount)) fee)) + fixedFee;
          feesToSubtract = (isBuy \<and> asset = mkt_BaseAsset m \<or> \<not> isBuy \<and> asset = mkt_QuoteAsset m)
      in if feesToSubtract \<and> feeAmount \<ge> amount then Inl ErrMarketPreviewAmountTooLow
         else Inr feeAmount)"

definition Preview :: "'d decimal_ops \<Rightarrow> Market \<Rightarrow> u64 \<Rightarrow> u64 \<Rightarrow> u64 \<Rightarrow> string \<Rightarrow> string \<Rightarrow> bool
    \<Rightarrow> PreviewInfo res" where
  "Preview D m baseBalance quoteBalance amount asset feeAsset isBuy =
   (if \<not> IsTradable m then Inl ErrMarketIsClosed
    else if asset \<noteq> mkt_BaseAsset m \<and> asset \<noteq> mkt_QuoteAsset m
    then Inl (Errorf ''asset must be either base or quote asset'' [])
    else if feeAsset \<noteq> mkt_BaseAsset m \<and> feeAsset \<noteq> mkt_QuoteAsset m
    then Inl (Errorf ''fee asset must be either base or quote asset'' [])
    else
      let isBaseAsset = (asset = mkt_BaseAsset m) in
      rbind (if IsStrategyPluggable m
             then formulaOptsForPluggable D m baseBalance quoteBalance isBaseAsset isBuy
             else formulaOptsForBalanced D m baseBalance quoteBalance isBaseAsset isBuy) (\<lambda>args.
      rbind (priceForStrategy D m baseBalance quoteBalance) (\<lambda>price.
      let assetPrecision = (if isBaseAsset then mkt_BaseAssetPrecision m else mkt_QuoteAssetPrecision m) in
      rbind (mathutil_Div D amount (pow10 assetPrecision)) (\<lambda>amountDecimal.
      rbind (formula D m isBaseAsset isBuy args amountDecimal) (\<lambda>previewAmount.
      let previewAsset = (if isBaseAsset then mkt_QuoteAsset m else mkt_BaseAsset m);
          previewAssetPrecision = (if isBaseAsset then mkt_QuoteAssetPrecision m
                                   else mkt_BaseAssetPrecision m);
          previewAmountInSats = big_Uint64 (d_BigInt D (d_Mul D previewAmount
            (d_NewFromFloat D 1 (uint previewAssetPrecision))))
      in if previewAmountInSats = 0 then Inl ErrMarketPreviewAmountTooLow
         else
           let amountForFees = (if feeAsset = previewAsset then previewAmountInSats else amount) in
           rbind (previewFees D m amountForFees feeAsset isBuy) (\<lambda>previewFeeAmount.
           Inr \<lparr> pi_Price = price, pi_Amount = previewAmountInSats, pi_Asset = previewAsset,
                 pi_FeeAsset = feeAsset, pi_FeeAmount = previewFeeAmount \<rparr>))))))"

section \<open>Invariant\<close>

definition market_wf :: "Market \<Rightarrow> bool" where
  "market_wf m \<longleftrightarrow> isValidAsset (mkt_BaseAsset m) \<and> isValidAsset (mkt_QuoteAsset m)
     \<and> mkt_BaseAssetPrecision m \<le> 8 \<and> mkt_QuoteAssetPrecision m \<le> 8
     \<and> mf_BaseAsset (mkt_PercentageFee m) \<le> 9999 \<and> mf_QuoteAsset (mkt_PercentageFee m) \<le> 9999
     \<and> mkt_StrategyType m \<in> {StrategyTypePluggable, StrategyTypeBalanced}"

definition priced :: "'d decimal_ops \<Rightarrow> MarketPrice \<Rightarrow> bool" where
  "priced D mp \<longleftrightarrow> d_GreaterThan D (GetBasePrice D mp) (d_Zero D)
     \<and> d_GreaterThan D (GetQuotePrice D mp) (d_Zero D)"

definition market_inv :: "'d decimal_ops \<Rightarrow> Market \<Rightarrow> bool" where
  "market_inv D m \<longleftrightarrow> market_wf m
     \<and> (mkt_Price m = empty_price \<or> priced D (mkt_Price m))
     \<and> (IsTradable m \<and> IsStrategyPluggable m \<longrightarrow> priced D (mkt_Price m))"

text \<open>The configuration steps of a market, and the markets they reach.\<close>

inductive market_step :: "'d decimal_ops \<Rightarrow> Market \<Rightarrow> Market \<Rightarrow> bool" for D where
  open_step: "MakeTradable D m = Inr m' \<Longrightarrow> market_step D m m'"
| close_step: "market_step D m (MakeNotTradable m)"
| pluggable_step: "MakeStrategyPluggable m = Inr m' \<Longrightarrow> market_step D m m'"
| balanced_step: "MakeStrategyBalanced m = Inr m' \<Longrightarrow> market_step D m m'"
| percentage_step: "ChangePercentageFee b q m = Inr m' \<Longrightarrow> market_step D m m'"
| fixed_step: "ChangeFixedFee b q m = Inr m' \<Longrightarrow> market_step D m m'"
| price_step: "ChangePrice D bp qp m = Inr m' \<Longrightarrow> market_step D m m'"
| precision_step: "ChangeAssetPrecision b q m = Inr m' \<Longrightarrow> market_step D m m'"

inductive market_reachable :: "'d decimal_ops \<Rightarrow> (bytes \<Rightarrow> bytes) \<Rightarrow> Market \<Rightarrow> bool" for D hash160 where
  new: "NewMarket hash160 base quote nm bpf qpf bff qff bp qp st = Inr m
        \<Longrightarrow> market_reachable D hash160 m"
| step: "market_reachable D hash160 m \<Longrightarrow> market_step D m m' \<Longrightarrow> market_reachable D hash160 m'"

inductive_cases market_stepE: "market_step D m m'"

section \<open>Lemmas\<close>

lemma isValidAsset_iff: "isValidAsset s \<longleftrightarrow> length s = 64 \<and> list_all is_hex s"
  using hex_decodes_iff [where s = s and n = 32] by (simp add: isValidAsset_def)

lemma isValidPrecision_iff [simp]: "isValidPrecision p \<longleftrightarrow> p \<le> 8"
proof -
  have "uint p \<le> 8 \<Longrightarrow> int64 p = uint p"
    by (rule int64_small) simp
  then show ?thesis
    by (auto simp: isValidPrecision_def word_le_def)
qed

lemma isValidPercentageFee_word:
  "isValidPercentageFee (int64 b) (int64 q) \<longleftrightarrow> b \<le> 9999 \<and> q \<le> 9999"
proof -
  have "0 \<le> int64 v \<and> int64 v \<le> 9999 \<longleftrightarrow> v \<le> 9999" for v :: u64
    using int64_small [of v] int64_nonneg [of v] by (auto simp: word_le_def)
  then show ?thesis
    by (simp add: isValidPercentageFee_def)
qed

lemma uint64_le_9999: "0 \<le> v \<Longrightarrow> v \<le> 9999 \<Longrightarrow> uint64 v \<le> 9999"
  by (simp add: word_le_def uint_uint64)

lemma change_fee_le_9999:
  "isValidPercentageFee b q \<Longrightarrow>
   mf_BaseAsset (change_fee b q f) \<le> 9999 \<and> mf_QuoteAsset (change_fee b q f) \<le> 9999"
  by (auto simp: isValidPercentageFee_def change_fee_def Let_def uint64_le_9999)

lemmas market_ops = MakeTradable_def MakeNotTradable_def MakeStrategyPluggable_def
  MakeStrategyBalanced_def ChangePercentageFee_def ChangeFixedFee_def ChangePrice_def
  ChangeAssetPrecision_def IsTradable_def IsStrategyPluggable_def

lemma isValidFixedFee_iff: "isValidFixedFee b q \<longleftrightarrow> - 1 \<le> b \<and> - 1 \<le> q"
  by (simp add: isValidFixedFee_def Let_def)

lemma int64_numerals [simp]: "int64 0 = 0" "int64 1 = 1" "int64 2 = 2"
  by (simp_all add: int64_def)

lemma isValidStrategy_le: "isValidStrategy st \<longleftrightarrow> st \<le> 2"
  by (simp add: isValidStrategy_def strategy_defs word_le_def)

lemma isValidStrategy_iff: "isValidStrategy st \<longleftrightarrow> st \<in> {0, 1, 2}"
proof -
  have "0 \<le> uint st" by simp
  then have "uint st \<le> 2 \<longleftrightarrow> uint st = 0 \<or> uint st = 1 \<or> uint st = 2"
    by linarith
  then show ?thesis
    by (simp add: isValidStrategy_def strategy_defs word_uint_eq_iff)
qed

lemma NewMarket_wf:
  assumes "NewMarket hash160 base quote nm bpf qpf bff qff bp qp st = Inr m"
  shows "market_wf m \<and> mkt_Price m = empty_price \<and> \<not> mkt_Tradable m"
  using assms
  by (auto simp: NewMarket_def market_wf_def Let_def isValidPercentageFee_word
      isValidStrategy_iff strategy_defs split: if_splits)

lemma step_keeps_wf: "market_step D m m' \<Longrightarrow> market_wf m \<Longrightarrow> market_wf m'"
  by (erule market_stepE)
    (auto simp: market_ops market_wf_def Let_def change_fee_le_9999 split: if_splits)

context decimal_lib
begin

lemma price_of_String: "val (decimal_or_zero D (d_String D x)) = val x"
  using NewFromString_String [of x] by (auto simp: decimal_or_zero_def)

lemma priced_val:
  "priced D mp \<longleftrightarrow> 0 < val (GetBasePrice D mp) \<and> 0 < val (GetQuotePrice D mp)"
  by (simp add: priced_def dec_val)

lemma priced_String [simp]:
  "priced D \<lparr> mp_BasePrice = d_String D bp, mp_QuotePrice = d_String D qp \<rparr> \<longleftrightarrow> 0 < val bp \<and> 0 < val qp"
  by (simp add: priced_val GetBasePrice_def GetQuotePrice_def price_of_String)

lemma MarketPrice_IsZero_priced: "priced D mp \<Longrightarrow> mp \<noteq> empty_price \<Longrightarrow> \<not> MarketPrice_IsZero D mp"
  by (simp add: MarketPrice_IsZero_def priced_val IsZero_val)

lemma step_keeps_inv:
  assumes "market_step D m m'" "market_inv D m"
  shows "market_inv D m'"
proof -
  have "market_wf m'"
    using assms step_keeps_wf by (auto simp: market_inv_def)
  with assms show ?thesis
    by (cases rule: market_stepE)
      (auto simp: market_inv_def market_ops MarketPrice_IsZero_def strategy_defs Let_def dec_val
        split: if_splits)
qed

end

section \<open>Properties\<close>

text \<open>
  Every market that creation and configuration can produce is well formed: both assets are
  32-byte hex strings, both precisions at most 8, both percentage fees at most 99.99\%, the
  strategy is one of the two supported, a stored price is empty or positive on both sides, and a
  pluggable market that is open for trades has a positive price.
\<close>

lemma reachable_market_inv:
  assumes "decimal_lib D val" and "market_reachable D hash160 m"
  shows "market_inv D m"
  using assms(2)
proof induction
  case (new base quote nm bpf qpf bff qff bp qp st m)
  then show ?case
    using NewMarket_wf [OF new] by (simp add: market_inv_def IsTradable_def)
next
  case (step m m')
  then show ?case
    by (blast intro: decimal_lib.step_keeps_inv [OF assms(1)])
qed

text \<open>A market of two concrete assets, as the operations build it.\<close>

definition ex_base :: string where
  "ex_base = replicate 64 CHR ''5''"

definition ex_quote :: string where
  "ex_quote = replicate 64 CHR ''f''"

definition ex_market :: "u64 \<Rightarrow> Market res" where
  "ex_market st = NewMarket (\<lambda>bs. replicate 20 1) ex_base ex_quote '''' 25 25 0 0 8 8 st"

definition ex_pluggable :: "Market res" where
  "ex_pluggable = rbind (ex_market 1) (\<lambda>m. rbind (ChangePrice fixdec (2, 5) (50000, 0) m) (MakeTradable fixdec))"

lemma reachable_market_inv_example:
  "case ex_pluggable of Inr m \<Rightarrow> market_inv fixdec m \<and> IsTradable m | Inl e \<Rightarrow> False"
proof -
  have "case ex_pluggable of Inl e \<Rightarrow> False | Inr m \<Rightarrow> True"
    by code_simp
  then obtain m where m: "ex_pluggable = Inr m"
    by (auto split: sum.splits)
  then obtain m1 m2 where m1: "ex_market 1 = Inr m1"
    and m2: "ChangePrice fixdec (2, 5) (50000, 0) m1 = Inr m2" and m3: "MakeTradable fixdec m2 = Inr m"
    by (auto simp: ex_pluggable_def rbind_eq_Inr)
  have "market_reachable fixdec (\<lambda>bs. replicate 20 1) m1"
    using m1 unfolding ex_market_def by (rule market_reachable.new)
  then have "market_reachable fixdec (\<lambda>bs. replicate 20 1) m2"
    by (rule market_reachable.step) (rule market_step.price_step [OF m2])
  then have "market_reachable fixdec (\<lambda>bs. replicate 20 1) m"
    by (rule market_reachable.step) (rule market_step.open_step [OF m3])
  then have "market_inv fixdec m"
    by (rule reachable_market_inv [OF fixed.decimal_lib_axioms])
  moreover have "IsTradable m"
    using m3 by (auto simp: MakeTradable_def IsTradable_def split: if_splits)
  ultimately show ?thesis
    by (simp add: m)
qed

text \<open>
  Creating a market succeeds exactly on valid arguments, and the market it returns is closed,
  unpriced, carries the arguments unchanged (an undefined strategy becomes the balanced one, an
  empty name the account name derived from the asset pair).
\<close>

lemma NewMarket_correct:
  "NewMarket hash160 base quote nm bpf qpf bff qff bp qp st = Inr m \<longleftrightarrow>
     isValidAsset base \<and> isValidAsset quote \<and> bpf \<le> 9999 \<and> qpf \<le> 9999
     \<and> - 1 \<le> int64 bff \<and> - 1 \<le> int64 qff \<and> bp \<le> 8 \<and> qp \<le> 8 \<and> st \<le> 2
     \<and> m = \<lparr> mkt_BaseAsset = base, mkt_QuoteAsset = quote,
            mkt_Name = (if nm = [] then makeAccountName hash160 base quote else nm),
            mkt_BaseAssetPrecision = bp, mkt_QuoteAssetPrecision = qp,
            mkt_PercentageFee = \<lparr> mf_BaseAsset = bpf, mf_QuoteAsset = qpf \<rparr>,
            mkt_FixedFee = \<lparr> mf_BaseAsset = bff, mf_QuoteAsset = qff \<rparr>,
            mkt_Tradable = False,
            mkt_StrategyType = (if st = 1 then StrategyTypePluggable else StrategyTypeBalanced),
            mkt_Price = empty_price \<rparr>"
proof (cases "isValidStrategy st")
  case True
  then have e: "(if uint st = StrategyTypeUndefined then StrategyTypeBalanced else int64 st)
             = (if st = 1 then StrategyTypePluggable else StrategyTypeBalanced)"
    by (auto simp: isValidStrategy_iff strategy_defs)
  show ?thesis
    unfolding NewMarket_def Let_def e isValidPercentageFee_word isValidFixedFee_iff
      isValidPrecision_iff isValidStrategy_le
    by (simp only: if_not_P if_P if_Inl_eq_Inr not_not sum.inject eq_commute [of _ m] conj_assoc not_not)
next
  case False
  then show ?thesis
    by (simp add: NewMarket_def isValidStrategy_le)
qed

end
