(* ===== verification/Market_Repo.thy ===== *)
theory Market_Repo
  imports Market
begin

text \<open>
  \<open>internal/infrastructure/storage/db/inmemory/market_memory_repository_impl.go\<close>: the market
  repository over two Go maps, the markets by name and the name by asset pair. Every method takes
  the store's lock for its whole body, so it is one step on the store. \<open>sha256\<close> is
  \<open>crypto/sha256.Sum256\<close>; \<open>ord\<close> is the order in which a \<open>range\<close> visits a map.
\<close>

section \<open>Store\<close>

record marketInmemoryStore =
  markets :: "(string, Market) gomap"
  nameByAssetsKey :: "(string, string) gomap"

definition NewMarketRepositoryImpl :: marketInmemoryStore where
  "NewMarketRepositoryImpl = \<lparr> markets = [], nameByAssetsKey = [] \<rparr>"

text \<open>The zero value of \<open>domain.Market\<close>, what a map lookup returns for a missing key.\<close>

definition zero_market :: Market where
  "zero_market = \<lparr> mkt_BaseAsset = '''', mkt_QuoteAsset = '''', mkt_Name = '''',
     mkt_BaseAssetPrecision = 0, mkt_QuoteAssetPrecision = 0,
     mkt_PercentageFee = \<lparr> mf_BaseAsset = 0, mf_QuoteAsset = 0 \<rparr>,
     mkt_FixedFee = \<lparr> mf_BaseAsset = 0, mf_QuoteAsset = 0 \<rparr>,
     mkt_Tradable = False, mkt_StrategyType = 0, mkt_Price = empty_price \<rparr>"

definition keyFromAssets :: "(string \<Rightarrow> bytes) \<Rightarrow> string \<Rightarrow> string \<Rightarrow> string" where
  "keyFromAssets sha256 baseAsset quoteAsset = hex_EncodeToString (sha256 (baseAsset @ quoteAsset))"

section \<open>Operations\<close>

definition getMarketByName :: "marketInmemoryStore \<Rightarrow> string \<Rightarrow> Market res" where
  "getMarketByName s name = (case gm_get (markets s) name of
     None \<Rightarrow> Inl (Errorf ''market with name %s not found'' [name])
   | Some market \<Rightarrow> Inr market)"

definition getMarketByAssets :: "(string \<Rightarrow> bytes) \<Rightarrow> marketInmemoryStore \<Rightarrow> string \<Rightarrow> string \<Rightarrow> Market res" where
  "getMarketByAssets sha256 s baseAsset quoteAsset =
     (case gm_get (nameByAssetsKey s) (keyFromAssets sha256 baseAsset quoteAsset) of
       None \<Rightarrow> Inl (Errorf ''market with assets %s %s not found'' [baseAsset, quoteAsset])
     | Some marketName \<Rightarrow> Inr (case gm_get (markets s) marketName of Some m \<Rightarrow> m | None \<Rightarrow> zero_market))"

definition createMarket :: "(string \<Rightarrow> bytes) \<Rightarrow> Market \<Rightarrow> marketInmemoryStore \<Rightarrow> marketInmemoryStore \<times> unit res" where
  "createMarket sha256 market s = (case getMarketByName s (mkt_Name market) of
     Inr _ \<Rightarrow> (s, Inl (Errorf ''market with assets %s %s already exists''
                       [mkt_BaseAsset market, mkt_QuoteAsset market]))
   | Inl _ \<Rightarrow>
       (s \<lparr> markets := gm_put (mkt_Name market) market (markets s),
            nameByAssetsKey := gm_put (keyFromAssets sha256 (mkt_BaseAsset market) (mkt_QuoteAsset market))
              (mkt_Name market) (nameByAssetsKey s) \<rparr>, Inr ()))"

definition AddMarket :: "(string \<Rightarrow> bytes) \<Rightarrow> Market \<Rightarrow> marketInmemoryStore \<Rightarrow> marketInmemoryStore \<times> unit res" where
  "AddMarket sha256 market s = createMarket sha256 market s"

definition GetMarketByName :: "marketInmemoryStore \<Rightarrow> string \<Rightarrow> Market res" where
  "GetMarketByName s marketName = getMarketByName s marketName"

definition GetMarketByAssets :: "(string \<Rightarrow> bytes) \<Rightarrow> marketInmemoryStore \<Rightarrow> string \<Rightarrow> string \<Rightarrow> Market res" where
  "GetMarketByAssets sha256 s baseAsset quoteAsset = getMarketByAssets sha256 s baseAsset quoteAsset"

definition GetTradableMarkets ::
    "((string \<times> Market) list \<Rightarrow> (string \<times> Market) list) \<Rightarrow> marketInmemoryStore \<Rightarrow> Market list" where
  "GetTradableMarkets ord s = filter IsTradable (map snd (ord (markets s)))"

definition GetAllMarkets ::
    "((string \<times> Market) list \<Rightarrow> (string \<times> Market) list) \<Rightarrow> marketInmemoryStore \<Rightarrow> Market list" where
  "GetAllMarkets ord s = map snd (ord (markets s))"

definition UpdateMarket :: "(string \<Rightarrow> bytes) \<Rightarrow> string \<Rightarrow> (Market \<Rightarrow> Market res) \<Rightarrow> marketInmemoryStore
    \<Rightarrow> marketInmemoryStore \<times> unit res" where
  "UpdateMarket sha256 marketName updateFn s =
     (case rbind (getMarketByName s marketName) updateFn of
       Inl e \<Rightarrow> (s, Inl e)
     | Inr updatedMarket \<Rightarrow>
         (s \<lparr> markets := gm_put marketName updatedMarket (markets s),
              nameByAssetsKey := gm_put (keyFromAssets sha256 (mkt_BaseAsset updatedMarket)
                (mkt_QuoteAsset updatedMarket)) marketName (nameByAssetsKey s) \<rparr>, Inr ()))"

definition OpenMarket :: "'d decimal_ops \<Rightarrow> string \<Rightarrow> marketInmemoryStore \<Rightarrow> marketInmemoryStore \<times> unit res" where
  "OpenMarket D marketName s = (case getMarketByName s marketName of
     Inl e \<Rightarrow> (s, Inl e)
   | Inr currentMarket \<Rightarrow>
       if IsTradable currentMarket then (s, Inr ())
       else case MakeTradable D currentMarket of
           Inl e \<Rightarrow> (s, Inl e)
         | Inr currentMarket \<Rightarrow> (s \<lparr> markets := gm_put marketName currentMarket (markets s) \<rparr>, Inr ()))"

definition CloseMarket :: "string \<Rightarrow> marketInmemoryStore \<Rightarrow> marketInmemoryStore \<times> unit res" where
  "CloseMarket marketName s = (case getMarketByName s marketName of
     Inl e \<Rightarrow> (s, Inl e)
   | Inr currentMarket \<Rightarrow>
       if \<not> IsTradable currentMarket then (s, Inr ())
       else (s \<lparr> markets := gm_put marketName (MakeNotTradable currentMarket) (markets s) \<rparr>, Inr ()))"

definition UpdateMarketPrice :: "'d decimal_ops \<Rightarrow> string \<Rightarrow> MarketPrice \<Rightarrow> marketInmemoryStore
    \<Rightarrow> marketInmemoryStore \<times> unit res" where
  "UpdateMarketPrice D marketName price s =
     (case rbind (getMarketByName s marketName) (ChangePrice D (GetBasePrice D price) (GetQuotePrice D price)) of
       Inl e \<Rightarrow> (s, Inl e)
     | Inr market \<Rightarrow> (s \<lparr> markets := gm_put marketName market (markets s) \<rparr>, Inr ()))"

definition DeleteMarket :: "string \<Rightarrow> marketInmemoryStore \<Rightarrow> marketInmemoryStore \<times> unit res" where
  "DeleteMarket marketName s = (case gm_get (markets s) marketName of
     None \<Rightarrow> (s, Inl (Errorf ''market with name %s not found'' [marketName]))
   | Some _ \<Rightarrow> (s \<lparr> markets := gm_del marketName (markets s) \<rparr>, Inr ()))"

section \<open>The contract of a market repository\<close>

text \<open>
  \<open>view\<close> is what the repository stores: the markets by name. \<open>repo_inv\<close> is the invariant of the
  implementation, kept by every operation.
\<close>

locale market_repository =
  fixes view :: "'s \<Rightarrow> string \<Rightarrow> Market option"
    and repo_inv :: "'s \<Rightarrow> bool"
    and by_name :: "'s \<Rightarrow> string \<Rightarrow> Market res"
    and add :: "Market \<Rightarrow> 's \<Rightarrow> 's \<times> unit res"
    and update :: "string \<Rightarrow> (Market \<Rightarrow> Market res) \<Rightarrow> 's \<Rightarrow> 's \<times> unit res"
    and delete :: "string \<Rightarrow> 's \<Rightarrow> 's \<times> unit res"
    and not_found :: "string \<Rightarrow> error"
  assumes by_name_view: "repo_inv s \<Longrightarrow> by_name s n = (case view s n of None \<Rightarrow> Inl (not_found n) | Some m \<Rightarrow> Inr m)"
    and add_new: "repo_inv s \<Longrightarrow> view s (mkt_Name m) = None \<Longrightarrow>
      \<exists>s'. add m s = (s', Inr ()) \<and> repo_inv s' \<and> view s' = (view s)(mkt_Name m \<mapsto> m)"
    and add_old: "repo_inv s \<Longrightarrow> view s (mkt_Name m) \<noteq> None \<Longrightarrow> \<exists>e. add m s = (s, Inl e)"
    and update_ok: "repo_inv s \<Longrightarrow> view s n = Some m \<Longrightarrow> f m = Inr m' \<Longrightarrow>
      \<exists>s'. update n f s = (s', Inr ()) \<and> repo_inv s' \<and> view s' = (view s)(n \<mapsto> m')"
    and update_err: "repo_inv s \<Longrightarrow> rbind (by_name s n) f = Inl e \<Longrightarrow> update n f s = (s, Inl e)"
    and delete_ok: "repo_inv s \<Longrightarrow> view s n = Some m \<Longrightarrow>
      \<exists>s'. delete n s = (s', Inr ()) \<and> repo_inv s' \<and> view s' = (view s)(n := None)"
    and delete_err: "repo_inv s \<Longrightarrow> view s n = None \<Longrightarrow> delete n s = (s, Inl (not_found n))"
begin

lemma add_cases:
  assumes "repo_inv s"
  shows "repo_inv (fst (add m s))"
    "view (fst (add m s)) = (if view s (mkt_Name m) = None then (view s)(mkt_Name m \<mapsto> m) else view s)"
  using add_new [OF assms, of m] add_old [OF assms, of m] assms by (cases "view s (mkt_Name m)"; auto)+

lemma update_cases:
  assumes "repo_inv s"
  shows "repo_inv (fst (update n f s))"
    "view (fst (update n f s)) = (case view s n of None \<Rightarrow> view s | Some m \<Rightarrow>
       (case f m of Inl e \<Rightarrow> view s | Inr m' \<Rightarrow> (view s)(n \<mapsto> m')))"
  using update_ok [OF assms, of n _ f] update_err [OF assms, of n f] by_name_view [OF assms, of n] assms
  by (cases "view s n"; cases "f (the (view s n))"; fastforce)+

lemma delete_cases:
  assumes "repo_inv s"
  shows "repo_inv (fst (delete n s))" "view (fst (delete n s)) = (view s)(n := None)"
  using delete_ok [OF assms, of n] delete_err [OF assms, of n] assms
  by (cases "view s n"; auto simp: fun_eq_iff)+

text \<open>A property of markets that additions and updates respect holds of every stored market.\<close>

lemma all_markets_add:
  assumes "repo_inv s" "\<And>n x. view s n = Some x \<Longrightarrow> Q x" "Q m"
  shows "view (fst (add m s)) n = Some x \<Longrightarrow> Q x"
  using assms(2,3) by (auto simp: add_cases(2) [OF assms(1)] split: if_splits)

lemma all_markets_update:
  assumes "repo_inv s" "\<And>n x. view s n = Some x \<Longrightarrow> Q x" "\<And>x y. Q x \<Longrightarrow> f x = Inr y \<Longrightarrow> Q y"
  shows "view (fst (update n f s)) k = Some x \<Longrightarrow> Q x"
  using assms(2,3) by (auto simp: update_cases(2) [OF assms(1)] split: option.splits sum.splits if_splits)

end

lemma getMarketByName_simps:
  "gm_get (markets s) n = Some m \<Longrightarrow> getMarketByName s n = Inr m"
  "gm_get (markets s) n = None \<Longrightarrow> getMarketByName s n = Inl (Errorf ''market with name %s not found'' [n])"
  by (simp_all add: getMarketByName_def)

definition market_store_ok :: "marketInmemoryStore \<Rightarrow> bool" where
  "market_store_ok s \<longleftrightarrow> gm_ok (markets s) \<and> gm_ok (nameByAssetsKey s)"

interpretation inmemory_markets: market_repository
  "\<lambda>s n. gm_get (markets s) n" market_store_ok GetMarketByName "AddMarket sha256" "UpdateMarket sha256"
  DeleteMarket "\<lambda>n. Errorf ''market with name %s not found'' [n]" for sha256
  by unfold_locales
    (auto simp: market_store_ok_def GetMarketByName_def getMarketByName_def AddMarket_def createMarket_def
      UpdateMarket_def DeleteMarket_def fun_eq_iff split: option.splits sum.splits)

section \<open>Reachable stores\<close>

text \<open>
  The steps of the repository: adding a market the daemon created, updating one with a function
  that runs configuration steps, and the other operations with any arguments.
\<close>

inductive store_step :: "'d decimal_ops \<Rightarrow> (bytes \<Rightarrow> bytes) \<Rightarrow> (string \<Rightarrow> bytes)
    \<Rightarrow> marketInmemoryStore \<Rightarrow> marketInmemoryStore \<Rightarrow> bool" for D hash160 sha256 where
  add_step: "market_reachable D hash160 m \<Longrightarrow> store_step D hash160 sha256 s (fst (AddMarket sha256 m s))"
| update_step: "(\<And>x y. f x = Inr y \<Longrightarrow> (market_step D)\<^sup>*\<^sup>* x y)
    \<Longrightarrow> store_step D hash160 sha256 s (fst (UpdateMarket sha256 n f s))"
| open_store_step: "store_step D hash160 sha256 s (fst (OpenMarket D n s))"
| close_store_step: "store_step D hash160 sha256 s (fst (CloseMarket n s))"
| price_store_step: "store_step D hash160 sha256 s (fst (UpdateMarketPrice D n p s))"
| delete_step: "store_step D hash160 sha256 s (fst (DeleteMarket n s))"

inductive_cases store_stepE: "store_step D hash160 sha256 s s'"

definition stored_inv :: "'d decimal_ops \<Rightarrow> marketInmemoryStore \<Rightarrow> bool" where
  "stored_inv D s \<longleftrightarrow> market_store_ok s \<and> list_all (market_inv D \<circ> snd) (markets s)"

lemma stored_inv_iff:
  "stored_inv D s \<longleftrightarrow> market_store_ok s \<and> (\<forall>n m. gm_get (markets s) n = Some m \<longrightarrow> market_inv D m)"
  by (force simp: stored_inv_def market_store_ok_def list_all_iff gm_get_Some_iff)

lemma stored_inv_put:
  "stored_inv D s \<Longrightarrow> market_inv D m \<Longrightarrow> stored_inv D (s \<lparr> markets := gm_put n m (markets s) \<rparr>)"
  by (auto simp: stored_inv_iff market_store_ok_def split: if_splits)

lemma getMarketByName_inv: "stored_inv D s \<Longrightarrow> getMarketByName s n = Inr m \<Longrightarrow> market_inv D m"
  by (auto simp: stored_inv_iff getMarketByName_def split: option.splits)

context decimal_lib
begin

lemma steps_keep_inv: "(market_step D)\<^sup>*\<^sup>* m m' \<Longrightarrow> market_inv D m \<Longrightarrow> market_inv D m'"
  by (induction rule: rtranclp_induct) (auto intro: step_keeps_inv)

lemma reachable_inv:
  assumes "market_reachable D hash160 m"
  shows "market_inv D m"
  using assms
proof induction
  case (new base quote nm bpf qpf bff qff bp qp st m)
  then show ?case
    using NewMarket_wf [OF new] by (simp add: market_inv_def IsTradable_def)
qed (blast intro: step_keeps_inv)

lemma store_step_inv:
  assumes "store_step D hash160 sha256 s s'" and "stored_inv D s"
  shows "stored_inv D s'"
  using assms(1)
proof cases
  case (add_step m)
  then show ?thesis
    using assms(2) reachable_inv
    by (auto simp: stored_inv_iff inmemory_markets.add_cases split: if_splits)
next
  case (update_step f n)
  then show ?thesis
    using assms(2) steps_keep_inv
    by (fastforce simp: stored_inv_iff inmemory_markets.update_cases
        split: option.splits sum.splits if_splits)
next
  case (open_store_step n)
  then show ?thesis
    using assms(2) by (auto simp: OpenMarket_def intro!: stored_inv_put split: sum.splits
        intro: step_keeps_inv [OF market_step.open_step] dest: getMarketByName_inv)
next
  case (close_store_step n)
  then show ?thesis
    using assms(2) by (auto simp: CloseMarket_def intro!: stored_inv_put split: sum.splits
        intro: step_keeps_inv [OF market_step.close_step] dest: getMarketByName_inv)
next
  case (price_store_step n p)
  then show ?thesis
    using assms(2) by (auto simp: UpdateMarketPrice_def rbind_eq_Inr intro!: stored_inv_put
        split: sum.splits intro: step_keeps_inv [OF market_step.price_step] dest: getMarketByName_inv)
next
  case (delete_step n)
  then show ?thesis
    using assms(2) by (auto simp: stored_inv_iff inmemory_markets.delete_cases split: if_splits)
qed

end

section \<open>Properties\<close>

text \<open>
  Whatever sequence of repository calls led to it, a store holds well-formed markets only, and
  every open pluggable market in it has a positive price.
\<close>

lemma stored_markets_inv:
  assumes "decimal_lib D val"
    and "(store_step D hash160 sha256)\<^sup>*\<^sup>* NewMarketRepositoryImpl s"
  shows "stored_inv D s"
  using assms(2)
proof (induction rule: rtranclp_induct)
  case base
  then show ?case
    by (simp add: NewMarketRepositoryImpl_def stored_inv_def market_store_ok_def)
next
  case (step s s')
  then show ?case
    by (blast intro: decimal_lib.store_step_inv [OF assms(1)])
qed

definition ex_store :: marketInmemoryStore where
  "ex_store = fst (AddMarket (\<lambda>s. [1]) (case ex_pluggable of Inr m \<Rightarrow> m) NewMarketRepositoryImpl)"

lemma stored_markets_inv_example:
  "stored_inv fixdec ex_store \<and> length (markets ex_store) = 1"
proof -
  have "case ex_pluggable of Inl e \<Rightarrow> False | Inr m \<Rightarrow> True"
    by code_simp
  then obtain m where m: "ex_pluggable = Inr m"
    by (auto split: sum.splits)
  then obtain m1 m2 where "ex_market 1 = Inr m1"
    and "ChangePrice fixdec (2, 5) (50000, 0) m1 = Inr m2" and "MakeTradable fixdec m2 = Inr m"
    by (auto simp: ex_pluggable_def rbind_eq_Inr)
  then have "market_reachable fixdec (\<lambda>bs. replicate 20 1) m"
    unfolding ex_market_def
    by (blast intro: market_reachable.intros market_step.price_step market_step.open_step)
  then have "store_step fixdec (\<lambda>bs. replicate 20 1) (\<lambda>s. [1]) NewMarketRepositoryImpl ex_store"
    unfolding ex_store_def m by (simp add: add_step)
  then have "stored_inv fixdec ex_store"
    by (intro stored_markets_inv [OF fixed.decimal_lib_axioms] r_into_rtranclp)
  moreover have "length (markets ex_store) = 1"
    unfolding ex_store_def m
    by (simp add: AddMarket_def createMarket_def getMarketByName_def NewMarketRepositoryImpl_def)
  ultimately show ?thesis ..
qed

text \<open>
  A market that was added is found by its name and by its asset pair, exactly as it was added,
  and adding it changes no other market; adding a name that exists changes nothing and fails.
\<close>

lemma AddMarket_roundtrip:
  assumes "market_store_ok s" and "AddMarket sha256 m s = (s', r)"
  shows "if gm_get (markets s) (mkt_Name m) = None
    then r = Inr () \<and> market_store_ok s'
      \<and> GetMarketByAssets sha256 s' (mkt_BaseAsset m) (mkt_QuoteAsset m) = Inr m
      \<and> (\<forall>n. GetMarketByName s' n = (if n = mkt_Name m then Inr m else GetMarketByName s n))
    else s' = s \<and> r \<noteq> Inr ()"
  using assms inmemory_markets.add_cases(1) [OF assms(1), of sha256 m]
  by (auto simp: AddMarket_def createMarket_def GetMarketByAssets_def getMarketByAssets_def
      GetMarketByName_def getMarketByName_def split: option.splits if_splits)

lemma AddMarket_roundtrip_example:
  "GetMarketByName (fst (AddMarket (\<lambda>s. [1]) (zero_market \<lparr> mkt_Name := ''a'' \<rparr>) NewMarketRepositoryImpl)) ''a''
     = Inr (zero_market \<lparr> mkt_Name := ''a'' \<rparr>)"
proof -
  let ?m = "zero_market \<lparr> mkt_Name := ''a'' \<rparr>"
  let ?p = "AddMarket (\<lambda>s. [1]) ?m NewMarketRepositoryImpl"
  have "?p = (fst ?p, snd ?p)" by simp
  from AddMarket_roundtrip [OF _ this] show ?thesis
    by (simp add: NewMarketRepositoryImpl_def market_store_ok_def)
qed

text \<open>
  The markets a caller sees: \<open>GetTradableMarkets\<close> returns each stored market that is open
  once and nothing else, in whatever order the map is visited.
\<close>

lemma GetTradableMarkets_correct:
  assumes "visits_all ord"
  shows "mset (GetTradableMarkets ord s) = filter_mset IsTradable (mset (map snd (markets s)))"
proof -
  have "mset (map snd (ord (markets s))) = mset (map snd (markets s))"
    using assms by (simp add: visits_all_def mset_map)
  then show ?thesis
    by (simp add: GetTradableMarkets_def mset_filter)
qed

lemma GetTradableMarkets_correct_example:
  "mset (GetTradableMarkets rev \<lparr> markets = [(''a'', zero_market), (''b'', zero_market \<lparr> mkt_Tradable := True \<rparr>)],
      nameByAssetsKey = [] \<rparr>) = {# zero_market \<lparr> mkt_Tradable := True \<rparr> #}"
  using GetTradableMarkets_correct [OF visits_all_rev]
  by (simp add: IsTradable_def zero_market_def)

text \<open>
  Deleting a market leaves its entry in the index by asset pair: a lookup by assets then returns
  the zero market and no error.
\<close>

lemma deleted_market_by_assets:
  assumes "AddMarket sha256 m NewMarketRepositoryImpl = (s, Inr ())"
    and "DeleteMarket (mkt_Name m) s = (s', Inr ())"
  shows "GetMarketByAssets sha256 s' (mkt_BaseAsset m) (mkt_QuoteAsset m) = Inr zero_market"
  using assms
  by (auto simp: AddMarket_def createMarket_def NewMarketRepositoryImpl_def getMarketByName_def
      DeleteMarket_def GetMarketByAssets_def getMarketByAssets_def split: option.splits)

end
