(* ===== verification/Swap.thy ===== *)
theory Swap
  imports Prelude
begin

text \<open>
  \<open>internal/core/domain/swap.go\<close>: the swap messages of a trade and the interface of the message
  parser. The getters of the Go types are the selectors of the records. A parser is a value of
  \<open>SwapParser\<close>: the identifiers it makes are random, so each call of an operation that uses one
  may use another parser.
\<close>

record UnblindedInput =
  ui_Index :: u32
  ui_Asset :: string
  ui_Amount :: u64
  ui_AssetBlinder :: string
  ui_AmountBlinder :: string

record Swap =
  swap_Id :: string
  swap_Message :: bytes
  swap_Timestamp :: i64

record SwapRequest =
  sr_Id :: string
  sr_AssetP :: string
  sr_AssetR :: string
  sr_AmountP :: u64
  sr_AmountR :: u64
  sr_Transaction :: string
  sr_FeeAsset :: string
  sr_FeeAmount :: u64
  sr_UnblindedInputs :: "UnblindedInput list"

record SwapAccept =
  sa_Id :: string
  sa_RequestId :: string
  sa_Transaction :: string
  sa_UnblindedInputs :: "UnblindedInput list"

record SwapComplete =
  sc_Id :: string
  sc_AcceptId :: string
  sc_Transaction :: string

record SwapFail =
  sf_Id :: string
  sf_MessageId :: string
  sf_FailureCode :: u32
  sf_FailureMessage :: string

record SwapTransactionDetails =
  std_PsetBase64 :: string
  std_TxHex :: string
  std_Txid :: string

text \<open>
  The last component of a serialiser's result, and of the transaction parser's, is an error code:
  negative when there is no error. A \<open>nil\<close> pointer result is \<open>None\<close>.
\<close>

record SwapParser =
  SerializeRequest :: "SwapRequest \<Rightarrow> bytes \<times> int"
  SerializeAccept :: "bytes \<Rightarrow> string \<Rightarrow> UnblindedInput list \<Rightarrow> string \<times> bytes \<times> int"
  SerializeComplete :: "bytes \<Rightarrow> string \<Rightarrow> string \<times> bytes \<times> int"
  SerializeFail :: "string \<Rightarrow> int \<Rightarrow> string \<times> bytes"
  DeserializeRequest :: "bytes \<Rightarrow> string \<Rightarrow> u64 \<Rightarrow> SwapRequest option"
  DeserializeAccept :: "bytes \<Rightarrow> SwapAccept option"
  DeserializeComplete :: "bytes \<Rightarrow> SwapComplete option"
  DeserializeFail :: "bytes \<Rightarrow> SwapFail option"
  ParseSwapTransaction :: "string \<Rightarrow> SwapTransactionDetails option \<times> int"

end
