(* ===== verification/Trade.thy ===== *)
theory Trade
  imports Market Swap
begin

text \<open>
  \<open>internal/core/domain/trade.go\<close>: the trade entity and its life cycle. A method that changes the
  trade returns the trade after the call and its result: \<open>(true, nil)\<close> and \<open>(false, nil)\<close> are
  \<open>Inr True\<close> and \<open>Inr False\<close>, an error is \<open>Inl\<close>. \<open>now\<close> is what \<open>time.Now()\<close> returns, \<open>P\<close> is
  \<open>SwapParserManager\<close>.
\<close>

section \<open>Data\<close>

datatype TradeStatusCode =
    TradeStatusCodeUndefined | TradeStatusCodeProposal | TradeStatusCodeAccepted
  | TradeStatusCodeCompleted | TradeStatusCodeSettled | TradeStatusCodeExpired

fun status_num :: "TradeStatusCode \<Rightarrow> nat" where
  "status_num TradeStatusCodeUndefined = 0"
| "status_num TradeStatusCodeProposal = 1"
| "status_num TradeStatusCodeAccepted = 2"
| "status_num TradeStatusCodeCompleted = 3"
| "status_num TradeStatusCodeSettled = 4"
| "status_num TradeStatusCodeExpired = 5"

lemma status_num_inject [simp]: "status_num a = status_num b \<longleftrightarrow> a = b"
  by (cases a; cases b) simp_all

instantiation TradeStatusCode :: linorder
begin

definition less_eq_TradeStatusCode :: "TradeStatusCode \<Rightarrow> TradeStatusCode \<Rightarrow> bool" where
  "less_eq_TradeStatusCode a b \<longleftrightarrow> status_num a \<le> status_num b"

definition less_TradeStatusCode :: "TradeStatusCode \<Rightarrow> TradeStatusCode \<Rightarrow> bool" where
  "less_TradeStatusCode a b \<longleftrightarrow> status_num a < status_num b"

instance
  by standard (auto simp: less_eq_TradeStatusCode_def less_TradeStatusCode_def)

end

type_synonym TradeType = int

definition TradeBuy :: TradeType where "TradeBuy = 0"
definition TradeSell :: TradeType where "TradeSell = 1"

definition tradeTypes :: "(TradeType, string) gomap" where
  "tradeTypes = [(TradeBuy, ''BUY''), (TradeSell, ''SELL'')]"

definition TradeType_String :: "TradeType \<Rightarrow> string" where
  "TradeType_String t = (case gm_get tradeTypes t of Some str \<Rightarrow> str | None \<Rightarrow> ''UNKNOWN'')"

record TradeStatus =
  ts_Code :: TradeStatusCode
  ts_Failed :: bool

record Trade =
  trd_Id :: string
  trd_Type :: TradeType
  trd_MarketName :: string
  trd_MarketBaseAsset :: string
  trd_MarketQuoteAsset :: string
  trd_MarketPrice :: MarketPrice
  trd_MarketPercentageFee :: MarketFee
  trd_MarketFixedFee :: MarketFee
  trd_FeeAsset :: string
  trd_FeeAmount :: u64
  trd_TraderPubkey :: bytes
  trd_Status :: TradeStatus
  trd_PsetBase64 :: string
  trd_TxId :: string
  trd_TxHex :: string
  trd_ExpiryTime :: i64
  trd_SettlementTime :: i64
  trd_SwapRequest :: "Swap option"
  trd_SwapAccept :: "Swap option"
  trd_SwapComplete :: "Swap option"
  trd_SwapFail :: "Swap option"

abbreviation trd_Code :: "Trade \<Rightarrow> TradeStatusCode" where
  "trd_Code t \<equiv> ts_Code (trd_Status t)"

abbreviation trd_Failed :: "Trade \<Rightarrow> bool" where
  "trd_Failed t \<equiv> ts_Failed (trd_Status t)"

abbreviation set_code :: "TradeStatusCode \<Rightarrow> Trade \<Rightarrow> Trade" where
  "set_code c t \<equiv> t \<lparr> trd_Status := trd_Status t \<lparr> ts_Code := c \<rparr> \<rparr>"

definition NewTrade :: "string \<Rightarrow> Trade" where
  "NewTrade uuid = \<lparr> trd_Id = uuid, trd_Type = 0, trd_MarketName = '''', trd_MarketBaseAsset = '''',
     trd_MarketQuoteAsset = '''', trd_MarketPrice = empty_price,
     trd_MarketPercentageFee = \<lparr> mf_BaseAsset = 0, mf_QuoteAsset = 0 \<rparr>,
     trd_MarketFixedFee = \<lparr> mf_BaseAsset = 0, mf_QuoteAsset = 0 \<rparr>,
     trd_FeeAsset = '''', trd_FeeAmount = 0, trd_TraderPubkey = [],
     trd_Status = \<lparr> ts_Code = TradeStatusCodeUndefined, ts_Failed = False \<rparr>,
     trd_PsetBase64 = '''', trd_TxId = '''', trd_TxHex = '''', trd_ExpiryTime = 0,
     trd_SettlementTime = 0, trd_SwapRequest = None, trd_SwapAccept = None,
     trd_SwapComplete = None, trd_SwapFail = None \<rparr>"

section \<open>Status predicates\<close>

definition IsEmpty :: "Trade \<Rightarrow> bool" where
  "IsEmpty t \<longleftrightarrow> trd_Code t = TradeStatusCodeUndefined"

definition IsProposal :: "Trade \<Rightarrow> bool" where
  "IsProposal t \<longleftrightarrow> trd_Code t = TradeStatusCodeProposal"

definition IsAccepted :: "Trade \<Rightarrow> bool" where
  "IsAccepted t \<longleftrightarrow> trd_Code t = TradeStatusCodeAccepted"

definition IsCompleted :: "Trade \<Rightarrow> bool" where
  "IsCompleted t \<longleftrightarrow> trd_Code t = TradeStatusCodeCompleted"

definition IsSettled :: "Trade \<Rightarrow> bool" where
  "IsSettled t \<longleftrightarrow> trd_Code t = TradeStatusCodeSettled"

definition IsRejected :: "Trade \<Rightarrow> bool" where
  "IsRejected t = trd_Failed t"

definition IsExpired :: "time \<Rightarrow> Trade \<Rightarrow> bool" where
  "IsExpired now t \<longleftrightarrow> trd_Code t = TradeStatusCodeExpired
     \<or> trd_ExpiryTime t > 0 \<and> now > time_Unix (trd_ExpiryTime t)"

lemmas status_preds = IsEmpty_def IsProposal_def IsAccepted_def IsCompleted_def IsSettled_def IsRejected_def

section \<open>Life cycle\<close>

definition Trade_Fail :: "SwapParser \<Rightarrow> string \<Rightarrow> int \<Rightarrow> Trade \<Rightarrow> Trade" where
  "Trade_Fail P swapID errCode t =
     (if trd_Failed t then t
      else case SerializeFail P swapID errCode of (swapFailID, swapFailMsg) \<Rightarrow>
        t \<lparr> trd_SwapFail := Some \<lparr> swap_Id = swapFailID, swap_Message = swapFailMsg, swap_Timestamp = 0 \<rparr>,
            trd_Status := trd_Status t \<lparr> ts_Failed := True \<rparr> \<rparr>)"

text \<open>Both divisions panic on a zero divisor.\<close>

definition calculateMarketMarketPrice :: "'d decimal_ops \<Rightarrow> SwapRequest \<Rightarrow> string \<Rightarrow> MarketPrice res" where
  "calculateMarketMarketPrice D swapRequest marketQuoteAsset =
     (let p = d_NewFromInt D (int64 (sr_AmountP swapRequest));
          r = d_NewFromInt D (int64 (sr_AmountR swapRequest)) in
      if d_IsZero D r \<or> d_IsZero D p then Inl div_by_zero
      else
        let pricePR = d_Truncate D 8 (d_Div D DivisionPrecision p r);
            priceRP = d_Truncate D 8 (d_Div D DivisionPrecision r p)
        in Inr (if sr_AssetP swapRequest = marketQuoteAsset
                then \<lparr> mp_BasePrice = d_String D priceRP, mp_QuotePrice = d_String D pricePR \<rparr>
                else \<lparr> mp_BasePrice = d_String D pricePR, mp_QuotePrice = d_String D priceRP \<rparr>))"

definition Propose :: "'d decimal_ops \<Rightarrow> SwapParser \<Rightarrow> time \<Rightarrow> TradeType \<Rightarrow> SwapRequest \<Rightarrow> string \<Rightarrow> string
    \<Rightarrow> string \<Rightarrow> MarketFee \<Rightarrow> MarketFee \<Rightarrow> bytes \<Rightarrow> Trade \<Rightarrow> Trade \<times> bool res" where
  "Propose D P now tradeType swapRequest mktName mktBaseAsset mktQuoteAsset
     mktPercentageFee mktFixedFee traderPubkey t =
   (if trd_Code t \<ge> TradeStatusCodeProposal then (t, Inr True)
    else if gm_get tradeTypes tradeType = None then (t, Inl ErrTradeUnknownType)
    else
      let request = \<lparr> swap_Id = sr_Id swapRequest, swap_Message = [], swap_Timestamp = Unix now \<rparr>;
          t = set_code TradeStatusCodeProposal (t \<lparr> trd_Type := tradeType, trd_MarketName := mktName,
                trd_MarketBaseAsset := mktBaseAsset, trd_MarketQuoteAsset := mktQuoteAsset,
                trd_TraderPubkey := traderPubkey, trd_SwapRequest := Some request,
                trd_PsetBase64 := sr_Transaction swapRequest,
                trd_FeeAsset := sr_FeeAsset swapRequest, trd_FeeAmount := sr_FeeAmount swapRequest \<rparr>)
      in case SerializeRequest P swapRequest of (msg, errCode) \<Rightarrow>
        if errCode \<ge> 0 then (Trade_Fail P (sr_Id swapRequest) errCode t, Inr False)
        else case calculateMarketMarketPrice D swapRequest mktQuoteAsset of
            Inl e \<Rightarrow> (t, Inl e)
          | Inr price \<Rightarrow>
              (t \<lparr> trd_SwapRequest := Some (request \<lparr> swap_Message := msg \<rparr>), trd_MarketPrice := price,
                   trd_MarketPercentageFee := mktPercentageFee, trd_MarketFixedFee := mktFixedFee \<rparr>,
               Inr True))"

definition Accept :: "SwapParser \<Rightarrow> time \<Rightarrow> string \<Rightarrow> UnblindedInput list \<Rightarrow> i64 \<Rightarrow> Trade \<Rightarrow> Trade \<times> bool res" where
  "Accept P now psetBase64 unblindedIns expiryTime t =
   (if trd_Code t \<ge> TradeStatusCodeAccepted then (t, Inr True)
    else if trd_Code t \<noteq> TradeStatusCodeProposal then (t, Inl ErrTradeMustBeProposal)
    else case trd_SwapRequest t of None \<Rightarrow> (t, Inl nil_deref) | Some request \<Rightarrow>
      if \<not> time_Unix expiryTime > time_Unix (swap_Timestamp request) then (t, Inl ErrTradeInvalidExpiryTime)
      else case SerializeAccept P (swap_Message request) psetBase64 unblindedIns of
        (swapAcceptID, swapAcceptMsg, errCode) \<Rightarrow>
          if errCode \<ge> 0 then (Trade_Fail P (swap_Id request) errCode t, Inr False)
          else (set_code TradeStatusCodeAccepted (t \<lparr> trd_ExpiryTime := expiryTime,
                  trd_SwapAccept := Some \<lparr> swap_Id = swapAcceptID, swap_Message = swapAcceptMsg,
                                          swap_Timestamp = Unix now \<rparr>,
                  trd_PsetBase64 := psetBase64 \<rparr>), Inr True))"

text \<open>\<open>Complete\<close> reads the clock twice: \<open>now\<close> for the expiration, \<open>later\<close> for the timestamp.\<close>

definition Complete :: "SwapParser \<Rightarrow> time \<Rightarrow> time \<Rightarrow> string \<Rightarrow> Trade \<Rightarrow> Trade \<times> bool res" where
  "Complete P now later tx t =
   (if trd_Code t \<ge> TradeStatusCodeCompleted then (t, Inr True)
    else if \<not> IsAccepted t then (t, Inl ErrTradeMustBeAccepted)
    else if IsExpired now t
    then (t \<lparr> trd_Status := trd_Status t \<lparr> ts_Failed := True \<rparr> \<rparr>, Inl ErrTradeExpired)
    else case trd_SwapAccept t of None \<Rightarrow> (t, Inl nil_deref) | Some accept \<Rightarrow>
      (case ParseSwapTransaction P tx of (txDetails, errCode) \<Rightarrow>
         if errCode \<ge> 0 then (Trade_Fail P (swap_Id accept) errCode t, Inr False)
         else case SerializeComplete P (swap_Message accept) tx of
           (swapCompleteId, swapCompleteMsg, errCode) \<Rightarrow>
             if errCode \<ge> 0 then (Trade_Fail P (swap_Id accept) errCode t, Inr False)
             else
               let t = set_code TradeStatusCodeCompleted (t \<lparr> trd_SwapComplete :=
                     Some \<lparr> swap_Id = swapCompleteId, swap_Message = swapCompleteMsg,
                            swap_Timestamp = Unix later \<rparr> \<rparr>)
               in case txDetails of None \<Rightarrow> (t, Inl nil_deref) | Some d \<Rightarrow>
                 (t \<lparr> trd_TxHex := std_TxHex d, trd_TxId := std_Txid d,
                      trd_PsetBase64 := (if length (trd_PsetBase64 t) > 0 then std_PsetBase64 d
                                         else trd_PsetBase64 t) \<rparr>, Inr True)))"

definition Settle :: "i64 \<Rightarrow> Trade \<Rightarrow> Trade \<times> bool res" where
  "Settle settlementTime t =
   (if trd_Code t = TradeStatusCodeSettled then (t, Inr True)
    else if \<not> (IsCompleted t \<or> IsAccepted t) \<or> trd_Failed t
    then (t, Inl ErrTradeMustBeCompletedOrAccepted)
    else (set_code TradeStatusCodeSettled (t \<lparr> trd_ExpiryTime := 0, trd_SettlementTime := settlementTime \<rparr>),
          Inr True))"

definition Expire :: "time \<Rightarrow> Trade \<Rightarrow> Trade \<times> bool res" where
  "Expire now t =
   (if trd_Code t = TradeStatusCodeExpired then (t, Inr True)
    else if trd_ExpiryTime t \<le> 0 then (t, Inl ErrTradeNullExpiryTime)
    else if now < time_Unix (trd_ExpiryTime t) then (t, Inl ErrTradeExpiryTimeNotReached)
    else (set_code TradeStatusCodeExpired t, Inr True))"

section \<open>Messages\<close>

text \<open>\<open>swapID == a.Id || swapID == b.Id || ...\<close>, left to right, on pointers that may be nil.\<close>

fun any_id :: "string \<Rightarrow> Swap option list \<Rightarrow> bool res" where
  "any_id swapID [] = Inr False"
| "any_id swapID (None # ss) = Inl nil_deref"
| "any_id swapID (Some s # ss) = (if swapID = swap_Id s then Inr True else any_id swapID ss)"

definition ContainsSwap :: "string \<Rightarrow> Trade \<Rightarrow> bool res" where
  "ContainsSwap swapID t = any_id swapID [trd_SwapRequest t, trd_SwapAccept t, trd_SwapComplete t]"

definition SwapRequestMessage :: "SwapParser \<Rightarrow> Trade \<Rightarrow> SwapRequest option res" where
  "SwapRequestMessage P t = (if IsEmpty t then Inr None
     else case trd_SwapRequest t of None \<Rightarrow> Inl nil_deref
       | Some s \<Rightarrow> Inr (DeserializeRequest P (swap_Message s) (trd_FeeAsset t) (trd_FeeAmount t)))"

definition SwapAcceptMessage :: "SwapParser \<Rightarrow> Trade \<Rightarrow> SwapAccept option res" where
  "SwapAcceptMessage P t = (if IsEmpty t \<or> IsProposal t then Inr None
     else case trd_SwapAccept t of None \<Rightarrow> Inl nil_deref
       | Some s \<Rightarrow> Inr (DeserializeAccept P (swap_Message s)))"

definition SwapCompleteMessage :: "SwapParser \<Rightarrow> Trade \<Rightarrow> SwapComplete option res" where
  "SwapCompleteMessage P t = (if \<not> IsCompleted t then Inr None
     else case trd_SwapComplete t of None \<Rightarrow> Inl nil_deref
       | Some s \<Rightarrow> Inr (DeserializeComplete P (swap_Message s)))"

definition SwapFailMessage :: "SwapParser \<Rightarrow> Trade \<Rightarrow> SwapFail option res" where
  "SwapFailMessage P t = (if \<not> IsRejected t then Inr None
     else case trd_SwapFail t of None \<Rightarrow> Inl nil_deref
       | Some s \<Rightarrow> Inr (DeserializeFail P (swap_Message s)))"

end
