(* ===== verification/Trade_Lifecycle.thy ===== *)
theory Trade_Lifecycle
  imports Trade
begin

text \<open>
  The life cycle of a trade as a state machine: the steps are the calls of the methods of
  \<open>domain.Trade\<close> with any arguments, any parser and any clock after 1970, whether they succeed or
  not. Reachability, invariant, monotonicity of the status, absence of nil dereferences.
\<close>

section \<open>Steps\<close>

inductive trade_step :: "'d decimal_ops \<Rightarrow> Trade \<Rightarrow> Trade \<Rightarrow> bool" for D where
  propose_step: "0 \<le> now \<Longrightarrow> trade_step D t (fst (Propose D P now ty r n b q pf ff pk t))"
| accept_step: "trade_step D t (fst (Accept P now pset ins expiry t))"
| complete_step: "trade_step D t (fst (Complete P now later tx t))"
| settle_step: "trade_step D t (fst (Settle time t))"
| expire_step: "trade_step D t (fst (Expire now t))"
| fail_step: "trade_step D t (Trade_Fail P i c t)"

inductive trade_steps :: "'d decimal_ops \<Rightarrow> Trade \<Rightarrow> Trade \<Rightarrow> bool" for D where
  refl: "trade_steps D t t"
| step: "trade_steps D t t' \<Longrightarrow> trade_step D t' t'' \<Longrightarrow> trade_steps D t t''"

inductive_cases trade_stepE: "trade_step D t t'"

section \<open>Invariant\<close>

definition live_codes :: "TradeStatusCode set" where
  "live_codes = {TradeStatusCodeAccepted, TradeStatusCodeCompleted, TradeStatusCodeExpired}"

definition trade_inv :: "Trade \<Rightarrow> bool" where
  "trade_inv t \<longleftrightarrow>
     (trd_SwapRequest t = None \<longleftrightarrow> trd_Code t = TradeStatusCodeUndefined)
   \<and> (trd_SwapAccept t \<noteq> None \<longleftrightarrow> TradeStatusCodeAccepted \<le> trd_Code t)
   \<and> (trd_Code t = TradeStatusCodeCompleted \<longrightarrow> trd_SwapComplete t \<noteq> None)
   \<and> (trd_SwapComplete t \<noteq> None \<longrightarrow> TradeStatusCodeCompleted \<le> trd_Code t)
   \<and> (trd_SwapFail t \<noteq> None \<longrightarrow> trd_Failed t)
   \<and> (case trd_SwapRequest t of None \<Rightarrow> trd_ExpiryTime t = 0
      | Some r \<Rightarrow> 0 \<le> swap_Timestamp r
          \<and> (if trd_Code t \<in> live_codes then swap_Timestamp r < trd_ExpiryTime t else trd_ExpiryTime t = 0))"

text \<open>The edges of the state machine.\<close>

definition trade_edges :: "(TradeStatusCode \<times> TradeStatusCode) set" where
  "trade_edges = {(TradeStatusCodeUndefined, TradeStatusCodeProposal),
     (TradeStatusCodeProposal, TradeStatusCodeAccepted),
     (TradeStatusCodeAccepted, TradeStatusCodeCompleted),
     (TradeStatusCodeAccepted, TradeStatusCodeSettled), (TradeStatusCodeCompleted, TradeStatusCodeSettled),
     (TradeStatusCodeAccepted, TradeStatusCodeExpired), (TradeStatusCodeCompleted, TradeStatusCodeExpired)}"

lemma Unix_nonneg [simp]: "0 \<le> now \<Longrightarrow> 0 \<le> Unix now"
  by (simp add: Unix_def pos_imp_zdiv_nonneg_iff)

lemmas status_ord = less_eq_TradeStatusCode_def less_TradeStatusCode_def

lemma NewTrade_inv: "trade_inv (NewTrade uuid)"
  by (simp add: trade_inv_def NewTrade_def status_ord)

text \<open>What each step does to the trade.\<close>

lemma Trade_Fail_inv: "trade_inv t \<Longrightarrow> trade_inv (Trade_Fail P i c t)"
  by (auto simp: Trade_Fail_def trade_inv_def split: prod.splits)

lemma Trade_Fail_code [simp]: "trd_Code (Trade_Fail P i c t) = trd_Code t"
  by (simp add: Trade_Fail_def split: prod.splits)

lemma Propose_code:
  "trd_Code (fst (Propose D P now ty r n b q pf ff pk t)) =
     (if trd_Code t = TradeStatusCodeUndefined \<and> gm_get tradeTypes ty \<noteq> None
      then TradeStatusCodeProposal else trd_Code t)"
  by (cases "trd_Code t") (auto simp: Propose_def status_ord Let_def split: prod.splits sum.splits)

lemma Propose_inv:
  "trade_inv t \<Longrightarrow> 0 \<le> now \<Longrightarrow> trade_inv (fst (Propose D P now ty r n b q pf ff pk t))"
  by (cases "trd_Code t")
    (auto simp: Propose_def status_ord Let_def trade_inv_def live_codes_def Trade_Fail_def
      split: prod.splits sum.splits option.splits)

lemma Accept_code:
  "trd_Code (fst (Accept P now pset ins expiry t)) \<in> {trd_Code t, TradeStatusCodeAccepted}
   \<and> (trd_Code t \<noteq> TradeStatusCodeProposal \<longrightarrow> fst (Accept P now pset ins expiry t) = t)"
  by (cases "trd_Code t") (auto simp: Accept_def status_ord split: prod.splits option.splits)

lemma Accept_inv: "trade_inv t \<Longrightarrow> trade_inv (fst (Accept P now pset ins expiry t))"
  by (cases "trd_Code t")
    (auto simp: Accept_def status_ord trade_inv_def live_codes_def Trade_Fail_def
      split: prod.splits option.splits)

lemma Complete_code:
  "trd_Code (fst (Complete P now later tx t)) \<in> {trd_Code t, TradeStatusCodeCompleted}
   \<and> (trd_Code t \<noteq> TradeStatusCodeAccepted \<longrightarrow> fst (Complete P now later tx t) = t)"
  by (cases "trd_Code t")
    (auto simp: Complete_def status_ord status_preds Let_def split: prod.splits option.splits)

lemma Complete_inv: "trade_inv t \<Longrightarrow> trade_inv (fst (Complete P now later tx t))"
  by (cases "trd_Code t")
    (auto simp: Complete_def status_ord status_preds Let_def trade_inv_def live_codes_def Trade_Fail_def
      split: prod.splits option.splits)

lemma Settle_inv: "trade_inv t \<Longrightarrow> trade_inv (fst (Settle time t))"
  by (cases "trd_Code t")
    (auto simp: Settle_def status_ord status_preds trade_inv_def live_codes_def split: option.splits)

lemma Expire_inv: "trade_inv t \<Longrightarrow> trade_inv (fst (Expire now t))"
  by (cases "trd_Code t")
    (auto simp: Expire_def status_ord trade_inv_def live_codes_def split: option.splits)

lemma Settle_code:
  "trd_Code (fst (Settle time t)) =
     (if trd_Code t \<in> {TradeStatusCodeAccepted, TradeStatusCodeCompleted} \<and> \<not> trd_Failed t
      then TradeStatusCodeSettled else trd_Code t)"
  by (cases "trd_Code t") (auto simp: Settle_def status_preds)

lemma Expire_code:
  "trade_inv t \<Longrightarrow> trd_Code (fst (Expire now t)) \<noteq> trd_Code t \<Longrightarrow>
   trd_Code (fst (Expire now t)) = TradeStatusCodeExpired
   \<and> trd_Code t \<in> {TradeStatusCodeAccepted, TradeStatusCodeCompleted}"
  by (cases "trd_Code t") (auto simp: Expire_def trade_inv_def live_codes_def split: if_splits option.splits)

lemma trade_step_inv: "trade_step D t t' \<Longrightarrow> trade_inv t \<Longrightarrow> trade_inv t'"
  by (erule trade_stepE)
    (simp_all add: Propose_inv Accept_inv Complete_inv Settle_inv Expire_inv Trade_Fail_inv)

lemma trade_steps_inv: "trade_steps D t t' \<Longrightarrow> trade_inv t \<Longrightarrow> trade_inv t'"
  by (induction rule: trade_steps.induct) (blast intro: trade_step_inv)+

lemma trade_step_edge:
  assumes "trade_step D t t'" and "trade_inv t"
  shows "trd_Code t' = trd_Code t \<or> (trd_Code t, trd_Code t') \<in> trade_edges"
  using assms(1)
proof cases
  case (accept_step P now pset ins expiry)
  then show ?thesis
    using Accept_code [of P now pset ins expiry t] by (auto simp: trade_edges_def)
next
  case (complete_step P now later tx)
  then show ?thesis
    using Complete_code [of P now later tx t] by (auto simp: trade_edges_def)
next
  case (expire_step now)
  then show ?thesis
    using Expire_code [OF assms(2), of now] by (auto simp: trade_edges_def)
qed (auto simp: trade_edges_def Propose_code Settle_code)

lemma trade_edges_less: "(a, b) \<in> trade_edges \<Longrightarrow> a < b"
  by (auto simp: trade_edges_def status_ord)

lemma trade_steps_mono: "trade_steps D t t' \<Longrightarrow> trade_inv t \<Longrightarrow> trd_Code t \<le> trd_Code t'"
proof (induction rule: trade_steps.induct)
  case (step t t' t'')
  then show ?case
    using trade_step_edge [OF step.hyps(2) trade_steps_inv [OF step.hyps(1) step.prems]]
    by (auto dest: trade_edges_less)
qed simp

lemma trade_steps_terminal:
  "trade_steps D t t' \<Longrightarrow> trade_inv t \<Longrightarrow> trd_Code t \<in> {TradeStatusCodeSettled, TradeStatusCodeExpired}
   \<Longrightarrow> trd_Code t' = trd_Code t"
proof (induction rule: trade_steps.induct)
  case (step t t' t'')
  then show ?case
    using trade_step_edge [OF step.hyps(2) trade_steps_inv [OF step.hyps(1) step.prems(1)]]
    by (auto simp: trade_edges_def)
qed simp

section \<open>Properties\<close>

text \<open>
  C16. Every trade that \<open>NewTrade\<close> and any sequence of method calls can produce satisfies the
  invariant: the swap messages stored are those its status calls for, the expiration time is set
  exactly while the trade is accepted, completed or expired, and is then later than the request.
\<close>

theorem reachable_trade_inv:
  assumes "trade_steps D (NewTrade uuid) t"
  shows "trade_inv t"
  by (rule trade_steps_inv [OF assms NewTrade_inv])

text \<open>
  The status of a trade only moves along the edges of its state machine, so it never goes
  back, and a settled or expired trade keeps that status whatever is called on it.
\<close>

lemma trade_status_progress:
  assumes "trade_steps D (NewTrade uuid) t" and "trade_steps D t t'"
  shows "trd_Code t \<le> trd_Code t'
    \<and> (trd_Code t \<in> {TradeStatusCodeSettled, TradeStatusCodeExpired} \<longrightarrow> trd_Code t' = trd_Code t)
    \<and> (trade_step D t t' \<longrightarrow> trd_Code t' = trd_Code t \<or> (trd_Code t, trd_Code t') \<in> trade_edges)"
  using trade_steps_inv [OF assms(1) NewTrade_inv] trade_steps_mono [OF assms(2)]
    trade_steps_terminal [OF assms(2)] trade_step_edge by blast

text \<open>A run of the life cycle with a parser that always succeeds.\<close>

definition ex_parser :: SwapParser where
  "ex_parser = \<lparr>
     SerializeRequest = (\<lambda>r. ([1], - 1)),
     SerializeAccept = (\<lambda>m tx ins. (''accept'', [2], - 1)),
     SerializeComplete = (\<lambda>m tx. (''complete'', [3], - 1)),
     SerializeFail = (\<lambda>i c. (''fail'', [4])),
     DeserializeRequest = (\<lambda>m a f. None), DeserializeAccept = (\<lambda>m. None),
     DeserializeComplete = (\<lambda>m. None), DeserializeFail = (\<lambda>m. None),
     ParseSwapTransaction = (\<lambda>tx. (Some \<lparr> std_PsetBase64 = ''pset'', std_TxHex = ''hex'', std_Txid = ''txid'' \<rparr>, - 1)) \<rparr>"

definition ex_request :: SwapRequest where
  "ex_request = \<lparr> sr_Id = ''req'', sr_AssetP = ex_base, sr_AssetR = ex_quote, sr_AmountP = 100,
     sr_AmountR = 5000000, sr_Transaction = ''tx'', sr_FeeAsset = ex_quote, sr_FeeAmount = 3,
     sr_UnblindedInputs = [] \<rparr>"

definition ex_fee :: MarketFee where
  "ex_fee = \<lparr> mf_BaseAsset = 25, mf_QuoteAsset = 25 \<rparr>"

definition ex_proposed :: Trade where
  "ex_proposed = fst (Propose fixdec ex_parser (time_Unix 1000) TradeSell ex_request ''mkt'' ex_base ex_quote
     ex_fee ex_fee [] (NewTrade ''id''))"

definition ex_accepted :: Trade where
  "ex_accepted = fst (Accept ex_parser (time_Unix 1001) ''pset'' [] 1120 ex_proposed)"

definition ex_completed :: Trade where
  "ex_completed = fst (Complete ex_parser (time_Unix 1050) (time_Unix 1050) ''tx'' ex_accepted)"

definition ex_settled :: Trade where
  "ex_settled = fst (Settle 1100 ex_completed)"

lemma ex_run:
  "trade_steps fixdec (NewTrade ''id'') ex_accepted"
  "trade_steps fixdec (NewTrade ''id'') ex_completed"
  "trade_step fixdec ex_completed ex_settled"
proof -
  have "trade_step fixdec (NewTrade ''id'') ex_proposed"
    unfolding ex_proposed_def by (rule propose_step) (simp add: time_Unix_def)
  moreover have "trade_step fixdec ex_proposed ex_accepted"
    unfolding ex_accepted_def by (rule accept_step)
  ultimately show a: "trade_steps fixdec (NewTrade ''id'') ex_accepted"
    by (blast intro: trade_steps.intros)
  have "trade_step fixdec ex_accepted ex_completed"
    unfolding ex_completed_def by (rule complete_step)
  with a show "trade_steps fixdec (NewTrade ''id'') ex_completed"
    by (rule trade_steps.step)
  show "trade_step fixdec ex_completed ex_settled"
    unfolding ex_settled_def by (rule settle_step)
qed

lemma ex_codes:
  "trd_Code ex_accepted = TradeStatusCodeAccepted" "trd_Code ex_completed = TradeStatusCodeCompleted"
  "trd_Code ex_settled = TradeStatusCodeSettled"
  by code_simp+

theorem reachable_trade_inv_witness:
  "trade_inv ex_completed \<and> trd_Code ex_completed = TradeStatusCodeCompleted"
  using reachable_trade_inv [OF ex_run(2)] ex_codes by simp

lemma trade_status_progress_example:
  "trd_Code ex_completed \<le> trd_Code ex_settled
   \<and> (trd_Code ex_completed, trd_Code ex_settled) \<in> trade_edges"
proof -
  have "trade_steps fixdec ex_completed ex_settled"
    using trade_steps.step [OF trade_steps.refl ex_run(3)] .
  from trade_status_progress [OF ex_run(2) this] show ?thesis
    using ex_run(3) ex_codes by simp
qed

lemma calc_panic: "calculateMarketMarketPrice D r q = Inl e \<Longrightarrow> e = div_by_zero"
  by (simp add: calculateMarketMarketPrice_def Let_def split: if_splits)

lemma Propose_no_nil: "snd (Propose D P now ty r n b q pf ff pk t) \<noteq> Inl nil_deref"
  by (auto simp: Propose_def Let_def dest: calc_panic split: prod.splits sum.splits)

lemma Accept_no_panic: "trade_inv t \<Longrightarrow> \<not> panics (snd (Accept P now pset ins expiry t))"
  by (cases "trd_Code t")
    (auto simp: Accept_def status_ord trade_inv_def split: prod.splits option.splits)

lemma Complete_no_panic:
  assumes "trade_inv t" and "\<And>tx d c. ParseSwapTransaction P tx = (d, c) \<Longrightarrow> c < 0 \<Longrightarrow> d \<noteq> None"
  shows "\<not> panics (snd (Complete P now later tx t))"
proof (cases "ParseSwapTransaction P tx")
  case (Pair d c)
  show ?thesis
    using assms(1) assms(2) [OF Pair]
    by (cases "trd_Code t")
      (auto simp: Complete_def Pair status_ord status_preds trade_inv_def Let_def not_le
        split: prod.splits option.splits)
qed

lemma messages_no_panic:
  "trade_inv t \<Longrightarrow> \<not> panics (SwapRequestMessage P t)"
  "trade_inv t \<Longrightarrow> \<not> panics (SwapAcceptMessage P t)"
  "trade_inv t \<Longrightarrow> \<not> panics (SwapCompleteMessage P t)"
  by (cases "trd_Code t";
      auto simp: SwapRequestMessage_def SwapAcceptMessage_def SwapCompleteMessage_def status_preds
        status_ord trade_inv_def split: option.splits)+

text \<open>
  On every reachable trade no method dereferences a nil swap: the requests, accepts and
  completes a status promises are there; a panic of \<open>Propose\<close> is a division by zero, and the
  others never panic, given a parser that returns the details of the transactions it accepts.
\<close>

lemma no_nil_dereference:
  assumes "trade_steps D (NewTrade uuid) t"
    and "\<And>tx d c. ParseSwapTransaction P tx = (d, c) \<Longrightarrow> c < 0 \<Longrightarrow> d \<noteq> None"
  shows "\<not> panics (snd (Accept P now pset ins expiry t)) \<and> \<not> panics (snd (Complete P now later tx t))
    \<and> \<not> panics (SwapRequestMessage P t) \<and> \<not> panics (SwapAcceptMessage P t)
    \<and> \<not> panics (SwapCompleteMessage P t)
    \<and> snd (Propose D P now ty r n b q pf ff pk t) \<noteq> Inl nil_deref"
proof -
  have "trade_inv t"
    by (rule trade_steps_inv [OF assms(1) NewTrade_inv])
  then show ?thesis
    using assms(2) by (simp add: Accept_no_panic Complete_no_panic messages_no_panic Propose_no_nil)
qed

lemma no_nil_dereference_example:
  "\<not> panics (snd (Complete ex_parser 0 0 ''tx'' ex_accepted)) \<and> \<not> panics (SwapAcceptMessage ex_parser ex_accepted)"
  using no_nil_dereference [OF ex_run(1), of ex_parser] by (auto simp: ex_parser_def)

text \<open>
  Accepting: on a reachable proposal \<open>Accept\<close> refuses an expiration that is not later than the
  request, records the failure of the parser, and otherwise stores the expiration time and the
  accept message; only the last case changes the status, and it is the only case reported as
  success.
\<close>

lemma Accept_correct:
  assumes "trade_steps D (NewTrade uuid) t" and "trd_Code t = TradeStatusCodeProposal"
    and "trd_SwapRequest t = Some rq"
    and "SerializeAccept P (swap_Message rq) pset ins = (aid, msg, code)"
  shows "case Accept P now pset ins expiry t of (t', r) \<Rightarrow>
    (r = Inr True \<longleftrightarrow> trd_Code t' = TradeStatusCodeAccepted)
    \<and> (r = Inr True \<longrightarrow> trd_ExpiryTime t' = expiry \<and> swap_Timestamp rq < expiry
        \<and> trd_SwapAccept t' = Some \<lparr> swap_Id = aid, swap_Message = msg, swap_Timestamp = Unix now \<rparr>)
    \<and> (r = Inl ErrTradeInvalidExpiryTime \<longleftrightarrow> expiry \<le> swap_Timestamp rq)
    \<and> (r = Inr False \<longleftrightarrow> swap_Timestamp rq < expiry \<and> 0 \<le> code)
    \<and> (r = Inr False \<longrightarrow> trd_Failed t')
    \<and> (expiry \<le> swap_Timestamp rq \<longrightarrow> t' = t)"
  using assms(2-) by (auto simp: Accept_def status_ord Trade_Fail_def split: prod.splits)

lemma Accept_correct_example:
  "snd (Accept ex_parser (time_Unix 1001) ''pset'' [] 1120 ex_proposed) = Inr True
   \<and> trd_ExpiryTime (fst (Accept ex_parser (time_Unix 1001) ''pset'' [] 1120 ex_proposed)) = 1120"
proof -
  have s: "trade_steps fixdec (NewTrade ''id'') ex_proposed"
    unfolding ex_proposed_def
    by (rule trade_steps.step [OF trade_steps.refl propose_step]) (simp add: time_Unix_def)
  have c: "trd_Code ex_proposed = TradeStatusCodeProposal"
    "trd_SwapRequest ex_proposed = Some \<lparr> swap_Id = ''req'', swap_Message = [1], swap_Timestamp = 1000 \<rparr>"
    "SerializeAccept ex_parser [1] ''pset'' [] = (''accept'', [2], - 1)"
    "snd (Accept ex_parser (time_Unix 1001) ''pset'' [] 1120 ex_proposed) = Inr True"
    by code_simp+
  show ?thesis
    using Accept_correct [OF s c(1,2), where P = ex_parser and now = "time_Unix 1001" and expiry = 1120
        and pset = "''pset''" and ins = "[]" and aid = "''accept''" and msg = "[2]" and code = "- 1"] c(3,4)
    by (simp split: prod.splits)
qed

text \<open>
  Completing: a call of \<open>Complete\<close> that moves an accepted trade to completed happens no later
  than its expiration time, with a transaction that the parser accepts, and stores the identifier
  and the hex of that transaction.
\<close>

lemma Complete_correct:
  assumes "trade_steps D (NewTrade uuid) t" and "trd_Code t = TradeStatusCodeAccepted"
    and "Complete P now later tx t = (t', Inr True)"
  shows "trd_Code t' = TradeStatusCodeCompleted \<and> now \<le> time_Unix (trd_ExpiryTime t)
    \<and> trd_ExpiryTime t' = trd_ExpiryTime t
    \<and> (\<exists>d c. ParseSwapTransaction P tx = (Some d, c) \<and> c < 0 \<and> trd_TxHex t' = std_TxHex d \<and> trd_TxId t' = std_Txid d)"
proof -
  have "trade_inv t"
    by (rule trade_steps_inv [OF assms(1) NewTrade_inv])
  then have e: "0 < trd_ExpiryTime t"
    using assms(2) by (auto simp: trade_inv_def live_codes_def split: option.splits)
  show ?thesis
    using assms(2,3) e
    by (auto simp: Complete_def status_ord status_preds IsExpired_def Let_def not_less
        split: if_splits option.splits prod.splits)
qed

lemma Complete_correct_example:
  "trd_TxId ex_completed = ''txid'' \<and> time_Unix 1050 \<le> time_Unix (trd_ExpiryTime ex_accepted)"
proof -
  have r: "snd (Complete ex_parser (time_Unix 1050) (time_Unix 1050) ''tx'' ex_accepted) = Inr True"
    by code_simp
  have "Complete ex_parser (time_Unix 1050) (time_Unix 1050) ''tx'' ex_accepted = (ex_completed, Inr True)"
    unfolding ex_completed_def by (rule prod_eqI) (simp_all add: r)
  from Complete_correct [OF ex_run(1) ex_codes(1) this] show ?thesis
    by (auto simp: ex_parser_def)
qed

text \<open>
  A trade settles from the accepted or completed status only, and never once it failed; it
  then has no expiration time, and so it can no longer expire. An expired trade cannot settle.
\<close>

lemma Settle_Expire_exclusive:
  assumes "trade_steps D (NewTrade uuid) t"
  shows "(trd_Code (fst (Settle st t)) = TradeStatusCodeSettled \<and> trd_Code t \<noteq> TradeStatusCodeSettled
           \<longleftrightarrow> trd_Code t \<in> {TradeStatusCodeAccepted, TradeStatusCodeCompleted} \<and> \<not> trd_Failed t)
    \<and> (trd_Code t = TradeStatusCodeSettled \<longrightarrow> Expire now t = (t, Inl ErrTradeNullExpiryTime))
    \<and> (trd_Code t = TradeStatusCodeExpired \<longrightarrow> Settle st t = (t, Inl ErrTradeMustBeCompletedOrAccepted))
    \<and> (trd_Code t \<in> {TradeStatusCodeAccepted, TradeStatusCodeCompleted} \<longrightarrow>
         Expire now t = (if now < time_Unix (trd_ExpiryTime t) then (t, Inl ErrTradeExpiryTimeNotReached)
                         else (set_code TradeStatusCodeExpired t, Inr True)))"
proof -
  have "trade_inv t"
    by (rule trade_steps_inv [OF assms NewTrade_inv])
  then show ?thesis
    by (cases "trd_Code t")
      (auto simp: Settle_def Expire_def status_preds trade_inv_def live_codes_def split: option.splits)
qed

lemma Settle_Expire_exclusive_example:
  "trd_Code ex_settled = TradeStatusCodeSettled \<and> Expire (time_Unix 2000) ex_settled = (ex_settled, Inl ErrTradeNullExpiryTime)"
  using Settle_Expire_exclusive [OF trade_steps.step [OF ex_run(2,3)], of 0 "time_Unix 2000"] ex_codes(3)
  by simp

section \<open>Behaviours of note\<close>

text \<open>
  A trade found expired by \<open>Complete\<close> is marked as failed without a fail message: reading that
  message dereferences nil.
\<close>

lemma expired_fail_message_panics:
  "SwapFailMessage ex_parser (fst (Complete ex_parser (time_Unix 1121) (time_Unix 1121) ''tx'' ex_accepted))
     = Inl nil_deref"
  by code_simp

text \<open>An aborted trade (failed by its trader) can still be completed.\<close>

lemma failed_trade_completes:
  "let t = Trade_Fail ex_parser ''accept'' 11 ex_accepted;
       (t', r) = Complete ex_parser (time_Unix 1050) (time_Unix 1050) ''tx'' t
   in trd_Failed t \<and> r = Inr True \<and> trd_Code t' = TradeStatusCodeCompleted"
  by code_simp

text \<open>Looking up a foreign swap in a trade that is not completed dereferences nil.\<close>

lemma ContainsSwap_panics: "ContainsSwap ''other'' ex_accepted = Inl nil_deref"
  by code_simp

end
