(* ===== verification/Trade_Repo.thy ===== *)
theory Trade_Repo
  imports Trade_Lifecycle
begin

text \<open>
  \<open>internal/infrastructure/storage/db/inmemory/trade_memory_repository_impl.go\<close>: the trade
  repository over three Go maps: the trades by identifier, and two indexes, by the identifier of
  the accept message and by market name. \<open>ord\<close> is the order in which a \<open>range\<close> visits a map.
\<close>

section \<open>Store\<close>

record tradeInmemoryStore =
  trades :: "(string, Trade) gomap"
  tradesBySwapAcceptId :: "(string, string) gomap"
  tradesByMarket :: "(string, string list) gomap"

definition NewTradeRepositoryImpl :: tradeInmemoryStore where
  "NewTradeRepositoryImpl = \<lparr> trades = [], tradesBySwapAcceptId = [], tradesByMarket = [] \<rparr>"

text \<open>The zero value of \<open>domain.Trade\<close>.\<close>

definition zero_trade :: Trade where
  "zero_trade = NewTrade ''''"

definition lookup_trade :: "tradeInmemoryStore \<Rightarrow> string \<Rightarrow> Trade" where
  "lookup_trade s tradeId = (case gm_get (trades s) tradeId of Some t \<Rightarrow> t | None \<Rightarrow> zero_trade)"

section \<open>Sorting and pages\<close>

text \<open>
  \<open>sort.SliceStable\<close> by the timestamp of the request. With two trades or more every trade is
  compared at least once, and a comparison dereferences the request of both.
\<close>

definition request_time :: "Trade \<Rightarrow> i64" where
  "request_time t = (case trd_SwapRequest t of Some r \<Rightarrow> swap_Timestamp r | None \<Rightarrow> 0)"

definition sort_trades :: "Trade list \<Rightarrow> Trade list res" where
  "sort_trades ts = (if 2 \<le> length ts \<and> list_ex (\<lambda>t. trd_SwapRequest t = None) ts
     then Inl nil_deref else Inr (sort_newest request_time ts))"

text \<open>\<open>make([]T, 0, page.GetSize())\<close> panics on a negative size.\<close>

definition make_page :: "page option \<Rightarrow> unit res" where
  "make_page p = (case p of None \<Rightarrow> Inr ()
     | Some p \<Rightarrow> reject (page_size p < 0) (Panic ''makeslice: cap out of range''))"

section \<open>Operations\<close>

definition addTrade :: "Trade \<Rightarrow> tradeInmemoryStore \<Rightarrow> tradeInmemoryStore \<times> unit res" where
  "addTrade trade s = (case gm_get (trades s) (trd_Id trade) of
     Some _ \<Rightarrow> (s, Inl (Errorf ''trade with id %s already exists'' [trd_Id trade]))
   | None \<Rightarrow>
       (s \<lparr> trades := gm_put (trd_Id trade) trade (trades s),
            tradesByMarket := gm_put (trd_MarketName trade)
              ((case gm_get (tradesByMarket s) (trd_MarketName trade) of Some ids \<Rightarrow> ids | None \<Rightarrow> [])
               @ [trd_Id trade]) (tradesByMarket s) \<rparr>, Inr ()))"

definition getTrade :: "tradeInmemoryStore \<Rightarrow> string \<Rightarrow> Trade res" where
  "getTrade s tid = (case gm_get (trades s) tid of
     None \<Rightarrow> Inl (Errorf ''trade with id %s not found'' [tid]) | Some trade \<Rightarrow> Inr trade)"

definition getAllTrades ::
    "((string \<times> Trade) list \<Rightarrow> (string \<times> Trade) list) \<Rightarrow> tradeInmemoryStore \<Rightarrow> page option \<Rightarrow> Trade list res" where
  "getAllTrades ord s p = rbind (sort_trades (map snd (ord (trades s)))) (\<lambda>ts. Inr (paginate p ts))"

definition tradesFromIds :: "tradeInmemoryStore \<Rightarrow> string list \<Rightarrow> page option \<Rightarrow> Trade list res" where
  "tradesFromIds s tradeIds p =
     rbind (sort_trades (map (lookup_trade s) tradeIds)) (\<lambda>ts.
     rbind (make_page p) (\<lambda>_. Inr (paginate p ts)))"

text \<open>The market has no entry: \<open>nil, nil\<close>, the empty list.\<close>

definition getAllTradesByMarket :: "tradeInmemoryStore \<Rightarrow> string \<Rightarrow> page option \<Rightarrow> Trade list res" where
  "getAllTradesByMarket s marketName p = (case gm_get (tradesByMarket s) marketName of
     None \<Rightarrow> Inr [] | Some tradeIds \<Rightarrow> tradesFromIds s tradeIds p)"

definition getTradeBySwapAcceptId :: "tradeInmemoryStore \<Rightarrow> string \<Rightarrow> Trade res" where
  "getTradeBySwapAcceptId s swapAcceptId = (case gm_get (tradesBySwapAcceptId s) swapAcceptId of
     None \<Rightarrow> Inl (Errorf ''trade with swap accept id %s not found'' [swapAcceptId])
   | Some tradeId \<Rightarrow> Inr (lookup_trade s tradeId))"

fun contain :: "string list \<Rightarrow> string \<Rightarrow> bool" where
  "contain [] k = False"
| "contain (l # ls) k = (if k = l then True else contain ls k)"

definition addTradeByMarket :: "string \<Rightarrow> string \<Rightarrow> tradeInmemoryStore \<Rightarrow> tradeInmemoryStore" where
  "addTradeByMarket key v s = (case gm_get (tradesByMarket s) key of
     None \<Rightarrow> s \<lparr> tradesByMarket := gm_put key [v] (tradesByMarket s) \<rparr>
   | Some ids \<Rightarrow> if \<not> contain ids v
       then s \<lparr> tradesByMarket := gm_put key (ids @ [v]) (tradesByMarket s) \<rparr> else s)"

definition AddTrade :: "Trade \<Rightarrow> tradeInmemoryStore \<Rightarrow> tradeInmemoryStore \<times> unit res" where
  "AddTrade trade s = addTrade trade s"

definition GetTradeById :: "tradeInmemoryStore \<Rightarrow> string \<Rightarrow> Trade res" where
  "GetTradeById s tradeId = getTrade s tradeId"

definition GetAllTrades ::
    "((string \<times> Trade) list \<Rightarrow> (string \<times> Trade) list) \<Rightarrow> tradeInmemoryStore \<Rightarrow> page option \<Rightarrow> Trade list res" where
  "GetAllTrades ord s p = getAllTrades ord s p"

definition GetAllTradesByMarket :: "tradeInmemoryStore \<Rightarrow> string \<Rightarrow> page option \<Rightarrow> Trade list res" where
  "GetAllTradesByMarket s marketName p = getAllTradesByMarket s marketName p"

definition GetCompletedTradesByMarket :: "tradeInmemoryStore \<Rightarrow> string \<Rightarrow> page option \<Rightarrow> Trade list res" where
  "GetCompletedTradesByMarket s marketName p =
     rbind (getAllTradesByMarket s marketName p) (\<lambda>ts.
     Inr (filter (\<lambda>t. trd_Code t \<ge> TradeStatusCodeCompleted \<and> \<not> trd_Failed t) ts))"

definition GetTradeByTxId ::
    "((string \<times> Trade) list \<Rightarrow> (string \<times> Trade) list) \<Rightarrow> tradeInmemoryStore \<Rightarrow> string \<Rightarrow> Trade option res" where
  "GetTradeByTxId ord s txid =
     rbind (getAllTrades ord s None) (\<lambda>ts. Inr (find (\<lambda>t. trd_TxId t = txid) ts))"

definition GetTradeBySwapAcceptId :: "tradeInmemoryStore \<Rightarrow> string \<Rightarrow> Trade res" where
  "GetTradeBySwapAcceptId s swapAcceptId = getTradeBySwapAcceptId s swapAcceptId"

definition UpdateTrade :: "string \<Rightarrow> (Trade \<Rightarrow> Trade res) \<Rightarrow> tradeInmemoryStore \<Rightarrow> tradeInmemoryStore \<times> unit res" where
  "UpdateTrade tradeId updateFn s = (case getTrade s tradeId of
     Inl e \<Rightarrow> (s, Inl e)
   | Inr currentTrade \<Rightarrow> (case updateFn currentTrade of
       Inl e \<Rightarrow> (s, Inl e)
     | Inr updatedTrade \<Rightarrow>
         let s = (case trd_SwapAccept updatedTrade of
               None \<Rightarrow> s
             | Some swapAccept \<Rightarrow> (case gm_get (tradesBySwapAcceptId s) (swap_Id swapAccept) of
                 Some _ \<Rightarrow> s
               | None \<Rightarrow> s \<lparr> tradesBySwapAcceptId :=
                     gm_put (swap_Id swapAccept) (trd_Id currentTrade) (tradesBySwapAcceptId s) \<rparr>));
             s = addTradeByMarket (trd_MarketName updatedTrade) (trd_Id currentTrade) s
         in (s \<lparr> trades := gm_put (trd_Id updatedTrade) updatedTrade (trades s) \<rparr>, Inr ())))"

section \<open>Lemmas\<close>

lemma contain_iff [simp]: "contain ls k \<longleftrightarrow> k \<in> set ls"
  by (induction ls) auto

lemma addTradeByMarket_trades [simp]:
  "trades (addTradeByMarket k v s) = trades s"
  "tradesBySwapAcceptId (addTradeByMarket k v s) = tradesBySwapAcceptId s"
  by (simp_all add: addTradeByMarket_def split: option.splits)

text \<open>
  What a well-formed store is: trades are filed under their own identifier, the market index
  holds each trade once, under its market, and nothing else, and the accept index leads to
  trades whose accept message has that identifier.
\<close>

definition trade_store_ok :: "tradeInmemoryStore \<Rightarrow> bool" where
  "trade_store_ok s \<longleftrightarrow> gm_ok (trades s) \<and> gm_ok (tradesByMarket s) \<and> gm_ok (tradesBySwapAcceptId s)
   \<and> list_all (\<lambda>(k, t). trd_Id t = k
        \<and> (case gm_get (tradesByMarket s) (trd_MarketName t) of Some ids \<Rightarrow> k \<in> set ids | None \<Rightarrow> False)) (trades s)
   \<and> list_all (\<lambda>(n, ids). distinct ids \<and> (\<forall>k\<in>set ids. case gm_get (trades s) k of
        Some t \<Rightarrow> trd_MarketName t = n | None \<Rightarrow> False)) (tradesByMarket s)
   \<and> list_all (\<lambda>(a, k). case gm_get (trades s) k of
        Some t \<Rightarrow> map_option swap_Id (trd_SwapAccept t) = Some a | None \<Rightarrow> False) (tradesBySwapAcceptId s)"

lemma list_all_gm: "gm_ok m \<Longrightarrow> list_all (\<lambda>(k, v). Q k v) m \<longleftrightarrow> (\<forall>k v. gm_get m k = Some v \<longrightarrow> Q k v)"
  by (auto simp: list_all_iff gm_get_Some_iff)

lemma case_option_False: "(case x of None \<Rightarrow> False | Some t \<Rightarrow> Q t) \<longleftrightarrow> (\<exists>t. x = Some t \<and> Q t)"
  by (simp split: option.split)

lemma trade_store_ok_iff:
  "trade_store_ok s \<longleftrightarrow> gm_ok (trades s) \<and> gm_ok (tradesByMarket s) \<and> gm_ok (tradesBySwapAcceptId s)
   \<and> (\<forall>k t. gm_get (trades s) k = Some t \<longrightarrow> trd_Id t = k
        \<and> (\<exists>ids. gm_get (tradesByMarket s) (trd_MarketName t) = Some ids \<and> k \<in> set ids))
   \<and> (\<forall>n ids. gm_get (tradesByMarket s) n = Some ids \<longrightarrow> distinct ids
        \<and> (\<forall>k\<in>set ids. \<exists>t. gm_get (trades s) k = Some t \<and> trd_MarketName t = n))
   \<and> (\<forall>a k. gm_get (tradesBySwapAcceptId s) a = Some k \<longrightarrow>
        (\<exists>t. gm_get (trades s) k = Some t \<and> map_option swap_Id (trd_SwapAccept t) = Some a))"
  unfolding trade_store_ok_def by (simp add: list_all_gm case_option_False cong: conj_cong)

lemma trade_store_ok_gm: "trade_store_ok s \<Longrightarrow> gm_ok (trades s)"
  unfolding trade_store_ok_iff by blast

lemma trade_store_ok_market:
  "trade_store_ok s \<Longrightarrow> gm_get (trades s) k = Some t \<Longrightarrow> \<exists>ids. gm_get (tradesByMarket s) (trd_MarketName t) = Some ids"
  unfolding trade_store_ok_iff by blast

lemma addTrade_ok:
  assumes "trade_store_ok s"
  shows "trade_store_ok (fst (addTrade t s))"
proof (cases "gm_get (trades s) (trd_Id t)")
  case None
  then have "trd_Id t \<notin> set ids" if "gm_get (tradesByMarket s) n = Some ids" for n ids
    using assms that by (force simp: trade_store_ok_iff)
  with assms None show ?thesis
    unfolding trade_store_ok_iff addTrade_def
    by (fastforce split: option.splits if_splits)
next
  case (Some t')
  with assms show ?thesis
    by (simp add: addTrade_def)
qed

text \<open>An update that respects what identifies a trade: its identifier, its market, its accept.\<close>

definition keeps_keys :: "Trade \<Rightarrow> Trade \<Rightarrow> bool" where
  "keeps_keys t t' \<longleftrightarrow> trd_Id t' = trd_Id t \<and> trd_MarketName t' = trd_MarketName t
     \<and> (trd_SwapAccept t \<noteq> None \<longrightarrow> trd_SwapAccept t' = trd_SwapAccept t)"

lemma UpdateTrade_cases:
  assumes "UpdateTrade tid f s = (s', r)"
  obtains (error) e where "s' = s" "r = Inl e" "rbind (getTrade s tid) f = Inl e"
  | (update) t t' where "gm_get (trades s) tid = Some t" "f t = Inr t'" "r = Inr ()"
      "trades s' = gm_put (trd_Id t') t' (trades s)"
      "tradesByMarket s' = tradesByMarket (addTradeByMarket (trd_MarketName t') (trd_Id t) s)"
      "tradesBySwapAcceptId s' = (case trd_SwapAccept t' of None \<Rightarrow> tradesBySwapAcceptId s
         | Some a \<Rightarrow> if gm_get (tradesBySwapAcceptId s) (swap_Id a) = None
             then gm_put (swap_Id a) (trd_Id t) (tradesBySwapAcceptId s) else tradesBySwapAcceptId s)"
proof (cases "getTrade s tid")
  case (Inl e)
  with assms show thesis
    by (intro error) (auto simp: UpdateTrade_def)
next
  case (Inr t)
  then have t: "gm_get (trades s) tid = Some t"
    by (simp add: getTrade_def split: option.splits)
  show thesis
  proof (cases "f t")
    case (Inl e)
    with assms Inr show thesis
      by (intro error) (auto simp: UpdateTrade_def)
  next
    case (Inr t')
    with assms \<open>getTrade s tid = Inr t\<close> show thesis
      by (intro update [OF t Inr])
        (auto simp: UpdateTrade_def addTradeByMarket_def Let_def split: option.splits)
  qed
qed

lemma UpdateTrade_ok:
  assumes "trade_store_ok s" and "\<And>t t'. f t = Inr t' \<Longrightarrow> keeps_keys t t'"
  shows "trade_store_ok (fst (UpdateTrade tid f s))"
proof -
  obtain s' r where u: "UpdateTrade tid f s = (s', r)" by fastforce
  show ?thesis
    using u
  proof (cases rule: UpdateTrade_cases)
    case (error e)
    with u assms(1) show ?thesis by simp
  next
    case (update t t')
    from assms(2) [OF update(2)] have k: "trd_Id t' = trd_Id t" "trd_MarketName t' = trd_MarketName t"
      "trd_SwapAccept t \<noteq> None \<Longrightarrow> trd_SwapAccept t' = trd_SwapAccept t"
      by (auto simp: keeps_keys_def)
    from assms(1) update(1) have i: "trd_Id t = tid"
      "\<exists>ids. gm_get (tradesByMarket s) (trd_MarketName t) = Some ids \<and> tid \<in> set ids"
      by (auto simp: trade_store_ok_iff)
    then have m: "tradesByMarket s' = tradesByMarket s"
      using update(5) k by (auto simp: addTradeByMarket_def)
    have tr: "gm_get (trades s') x = (if x = tid then Some t' else gm_get (trades s) x)" for x
      by (simp add: update(4) k i)
    have ac: "gm_get (tradesBySwapAcceptId s') a = Some x \<Longrightarrow>
        gm_get (tradesBySwapAcceptId s) a = Some x
        \<or> x = tid \<and> map_option swap_Id (trd_SwapAccept t') = Some a" for a x
      using update(6) i(1) by (auto split: option.splits if_splits)
    note ok = assms(1) [unfolded trade_store_ok_iff]
    have g: "gm_ok (trades s')" "gm_ok (tradesBySwapAcceptId s')"
      using ok update(4,6) by (auto split: option.splits)
    have A: "trd_Id x = y \<and> (\<exists>ids. gm_get (tradesByMarket s) (trd_MarketName x) = Some ids \<and> y \<in> set ids)"
      if "gm_get (trades s') y = Some x" for x y
      using that ok i k by (cases "y = tid") (auto simp: tr)
    have B: "distinct ids \<and> (\<forall>y\<in>set ids. \<exists>x. gm_get (trades s') y = Some x \<and> trd_MarketName x = n)"
      if "gm_get (tradesByMarket s) n = Some ids" for n ids
    proof -
      have "distinct ids \<and> (\<forall>y\<in>set ids. \<exists>x. gm_get (trades s) y = Some x \<and> trd_MarketName x = n)"
        using that ok by blast
      with update(1) k(2) show ?thesis
        by (fastforce simp: tr)
    qed
    have C: "\<exists>x. gm_get (trades s') y = Some x \<and> map_option swap_Id (trd_SwapAccept x) = Some a"
      if "gm_get (tradesBySwapAcceptId s') a = Some y" for a y
    proof (cases "y = tid")
      case True
      have "map_option swap_Id (trd_SwapAccept t') = Some a"
        using ac [OF that]
      proof
        assume "gm_get (tradesBySwapAcceptId s) a = Some y"
        then have "map_option swap_Id (trd_SwapAccept t) = Some a"
          using ok update(1) True by fastforce
        then show ?thesis using k(3) by auto
      qed simp
      with True show ?thesis by (simp add: tr)
    next
      case False
      then show ?thesis
        using ac [OF that] ok by (simp add: tr)
    qed
    have "trade_store_ok s'"
      unfolding trade_store_ok_iff m using g ok A B C by blast
    with u show ?thesis by simp
  qed
qed

lemma steps_keep_keys:
  "keeps_keys t (fst (Complete P now later tx t))" "keeps_keys t (fst (Settle st t))"
  "keeps_keys t (fst (Expire now t))" "keeps_keys t (Trade_Fail P i c t)"
  by (auto simp: keeps_keys_def Complete_def Settle_def Expire_def Trade_Fail_def Let_def
      split: prod.splits option.splits)

lemma sort_trades_ok:
  "list_all (\<lambda>t. trd_SwapRequest t \<noteq> None) ts \<Longrightarrow> sort_trades ts = Inr (sort_newest request_time ts)"
  by (auto simp: sort_trades_def list_all_iff list_ex_iff)

lemma market_trades:
  assumes "trade_store_ok s" and "gm_get (tradesByMarket s) n = Some ids"
  shows "distinct (map (lookup_trade s) ids)"
    "set (map (lookup_trade s) ids) = {t. (trd_Id t, t) \<in> set (trades s) \<and> trd_MarketName t = n}"
proof -
  have l: "\<exists>t. gm_get (trades s) k = Some t \<and> lookup_trade s k = t \<and> trd_MarketName t = n \<and> trd_Id t = k"
    if "k \<in> set ids" for k
    using assms that by (fastforce simp: trade_store_ok_iff lookup_trade_def)
  have "inj_on (lookup_trade s) (set ids)"
    by (rule inj_onI) (metis l)
  then show "distinct (map (lookup_trade s) ids)"
    using assms by (simp add: distinct_map trade_store_ok_iff)
  have "k \<in> set ids" if "gm_get (trades s) k = Some t" "trd_MarketName t = n" for k t
    using assms that by (fastforce simp: trade_store_ok_iff)
  moreover have "gm_ok (trades s)"
    using assms(1) by (simp add: trade_store_ok_iff)
  ultimately have r: "k \<in> set ids" "lookup_trade s k = t" if "(k, t) \<in> set (trades s)" "trd_MarketName t = n" for k t
    using that by (simp_all add: gm_get_Some_iff [symmetric] lookup_trade_def)
  show "set (map (lookup_trade s) ids) = {t. (trd_Id t, t) \<in> set (trades s) \<and> trd_MarketName t = n}"
  proof (intro equalityI subsetI)
    fix t assume "t \<in> set (map (lookup_trade s) ids)"
    then obtain k where "k \<in> set ids" "t = lookup_trade s k" by auto
    with l [of k] show "t \<in> {t. (trd_Id t, t) \<in> set (trades s) \<and> trd_MarketName t = n}"
      by (auto dest: gm_get_SomeD)
  next
    fix t assume "t \<in> {t. (trd_Id t, t) \<in> set (trades s) \<and> trd_MarketName t = n}"
    then show "t \<in> set (map (lookup_trade s) ids)"
      using r [of "trd_Id t" t] by force
  qed
qed

section \<open>Reachable stores\<close>

inductive trade_store_step :: "tradeInmemoryStore \<Rightarrow> tradeInmemoryStore \<Rightarrow> bool" where
  add_trade: "trade_store_step s (fst (AddTrade t s))"
| update_trade: "(\<And>t t'. f t = Inr t' \<Longrightarrow> keeps_keys t t') \<Longrightarrow> trade_store_step s (fst (UpdateTrade tid f s))"

inductive_cases trade_store_stepE: "trade_store_step s s'"

lemma trade_store_step_ok: "trade_store_step s s' \<Longrightarrow> trade_store_ok s \<Longrightarrow> trade_store_ok s'"
  by (erule trade_store_stepE) (auto simp: AddTrade_def intro: addTrade_ok UpdateTrade_ok)

lemma trade_store_steps_ok: "trade_store_step\<^sup>*\<^sup>* NewTradeRepositoryImpl s \<Longrightarrow> trade_store_ok s"
proof (induction rule: rtranclp_induct)
  case base
  show ?case by (simp add: NewTradeRepositoryImpl_def trade_store_ok_def)
next
  case (step s s')
  then show ?case by (blast intro: trade_store_step_ok)
qed

section \<open>Properties\<close>

text \<open>
  C23. Whatever sequence of additions and of updates that keep identifier, market and accept
  message (as all updates of the daemon do) led to it, the three maps of the trade store agree:
  trades are filed under their identifier, each exactly once under its market, and the accept
  index leads to the trade with that accept message.
\<close>

theorem trade_store_consistent:
  assumes "trade_store_step\<^sup>*\<^sup>* NewTradeRepositoryImpl s"
  shows "trade_store_ok s"
  by (rule trade_store_steps_ok [OF assms])

definition ex_trades :: tradeInmemoryStore where
  "ex_trades = fst (UpdateTrade ''id'' (\<lambda>t. Inr (fst (Settle 1100 t))) (fst (AddTrade ex_completed NewTradeRepositoryImpl)))"

lemma ex_trades_reachable: "trade_store_step\<^sup>*\<^sup>* NewTradeRepositoryImpl ex_trades"
proof -
  have "trade_store_step (fst (AddTrade ex_completed NewTradeRepositoryImpl)) ex_trades"
    unfolding ex_trades_def by (rule update_trade) (auto simp: steps_keep_keys)
  then show ?thesis
    using add_trade [of NewTradeRepositoryImpl ex_completed] by (meson converse_rtranclp_into_rtranclp r_into_rtranclp)
qed

theorem trade_store_consistent_witness:
  "trade_store_ok ex_trades \<and> gm_get (tradesBySwapAcceptId ex_trades) ''accept'' = Some ''id''"
proof -
  have "gm_get (tradesBySwapAcceptId ex_trades) ''accept'' = Some ''id''"
    by code_simp
  with trade_store_consistent [OF ex_trades_reachable] show ?thesis by simp
qed

text \<open>
  A stored trade is read back as it was written: after a successful addition or update the
  trade is found by its identifier, after an update also by its accept message unless that
  identifier was already taken, and no other trade changes; a failed call changes nothing.
\<close>

lemma UpdateTrade_roundtrip:
  assumes "trade_store_ok s" and "gm_get (trades s) tid = Some t" and "keeps_keys t t'"
    and "f t = Inr t'" and "UpdateTrade tid f s = (s', r)"
  shows "r = Inr ()
    \<and> (\<forall>k. GetTradeById s' k = (if k = tid then Inr t' else GetTradeById s k))
    \<and> (\<forall>a. trd_SwapAccept t' = Some a \<and> gm_get (tradesBySwapAcceptId s) (swap_Id a) \<in> {None, Some tid}
         \<longrightarrow> GetTradeBySwapAcceptId s' (swap_Id a) = Inr t')"
proof -
  have i: "trd_Id t = tid"
    using assms(1,2) by (simp add: trade_store_ok_iff)
  show ?thesis
    using assms(5)
  proof (cases rule: UpdateTrade_cases)
    case (error e)
    then show ?thesis
      using assms(2,4) by (simp add: getTrade_def)
  next
    case (update u u')
    then show ?thesis
      using assms(2-4) i
      by (auto simp: GetTradeById_def getTrade_def GetTradeBySwapAcceptId_def getTradeBySwapAcceptId_def
          lookup_trade_def keeps_keys_def)
  qed
qed

lemma UpdateTrade_roundtrip_example:
  "GetTradeById ex_trades ''id'' = Inr ex_settled \<and> GetTradeBySwapAcceptId ex_trades ''accept'' = Inr ex_settled"
proof -
  let ?s = "fst (AddTrade ex_completed NewTradeRepositoryImpl)"
  let ?f = "\<lambda>t. Inr (fst (Settle 1100 t))"
  have ok: "trade_store_ok ?s"
    by (rule trade_store_step_ok [OF add_trade]) (simp add: NewTradeRepositoryImpl_def trade_store_ok_def)
  have i: "trd_Id ex_completed = ''id''" "map_option swap_Id (trd_SwapAccept ex_settled) = Some ''accept''"
    by code_simp+
  then have g: "gm_get (trades ?s) ''id'' = Some ex_completed"
    "gm_get (tradesBySwapAcceptId ?s) ''accept'' = None"
    by (simp_all add: AddTrade_def addTrade_def NewTradeRepositoryImpl_def)
  have k: "keeps_keys ex_completed ex_settled"
    by (simp add: ex_settled_def steps_keep_keys)
  have "UpdateTrade ''id'' ?f ?s = (ex_trades, snd (UpdateTrade ''id'' ?f ?s))"
    by (simp add: ex_trades_def)
  from UpdateTrade_roundtrip [OF ok g(1) k _ this] show ?thesis
    using i(2) g(2) by (auto simp: ex_settled_def)
qed

text \<open>
  Listing all trades: when every stored trade has a request the call succeeds and returns each
  trade once, newest request first, whatever the order in which the map is visited; the pages of a
  listing, one after the other, make up the listing.
\<close>

lemma GetAllTrades_correct:
  assumes "visits_all ord" and "list_all (\<lambda>(k, t). trd_SwapRequest t \<noteq> None) (trades s)"
    and "0 < sz" and "int k * sz < 2 ^ 63" and "int (length (trades s)) \<le> int k * sz"
  shows "\<exists>ts. GetAllTrades ord s None = Inr ts \<and> mset ts = mset (map snd (trades s))
    \<and> sorted_wrt (\<lambda>a b. request_time a \<ge> request_time b) ts
    \<and> concat (map (\<lambda>n. case GetAllTrades ord s (Some \<lparr> page_number = int n, page_size = sz \<rparr>) of
        Inr p \<Rightarrow> p | Inl e \<Rightarrow> []) [1..<Suc k]) = ts"
proof -
  let ?ts = "sort_newest request_time (map snd (ord (trades s)))"
  have m: "mset (ord (trades s)) = mset (trades s)"
    using assms(1) by (simp add: visits_all_def)
  have "list_all (\<lambda>t. trd_SwapRequest t \<noteq> None) (map snd (ord (trades s)))"
    using assms(2) visits_all_set [OF assms(1), of "trades s"] by (auto simp: list_all_iff)
  then have r: "GetAllTrades ord s p = Inr (paginate p ?ts)" for p
    by (simp add: GetAllTrades_def getAllTrades_def sort_trades_ok)
  have "length ?ts = length (trades s)"
    using mset_eq_length [OF m] by simp
  then have "concat (map (\<lambda>n. paginate (Some \<lparr> page_number = int n, page_size = sz \<rparr>) ?ts) [1..<Suc k]) = ?ts"
    using assms(3-5) by (intro pages_partition) simp_all
  moreover have "mset ?ts = mset (map snd (trades s))"
    by (simp only: mset_sort_newest mset_map m)
  moreover have "paginate None ?ts = ?ts"
    by (simp add: paginate_def)
  ultimately show ?thesis
    unfolding r sum.case using sorted_sort_newest by (intro exI [of _ ?ts] conjI) simp_all
qed

lemma GetAllTrades_correct_example:
  "\<exists>ts. GetAllTrades rev ex_trades None = Inr ts \<and> mset ts = mset (map snd (trades ex_trades))
     \<and> sorted_wrt (\<lambda>a b. request_time a \<ge> request_time b) ts"
proof -
  have "list_all (\<lambda>(k, t). trd_SwapRequest t \<noteq> None) (trades ex_trades)" "length (trades ex_trades) = 1"
    by code_simp+
  then show ?thesis
    using GetAllTrades_correct [OF visits_all_rev, of ex_trades 1 1] by auto
qed

text \<open>
  The completed trades of a market, without a page: on a consistent store, each stored trade of
  that market that is completed, settled or expired and did not fail, once, and no other.
\<close>

lemma GetCompletedTradesByMarket_correct:
  assumes "trade_store_ok s"
    and "list_all (\<lambda>(k, t). trd_SwapRequest t \<noteq> None) (trades s)"
  shows "\<exists>ts. GetCompletedTradesByMarket s n None = Inr ts \<and> distinct ts
    \<and> set ts = {t. (trd_Id t, t) \<in> set (trades s) \<and> trd_MarketName t = n
         \<and> trd_Code t \<in> {TradeStatusCodeCompleted, TradeStatusCodeSettled, TradeStatusCodeExpired}
         \<and> \<not> trd_Failed t}"
proof (cases "gm_get (tradesByMarket s) n")
  case None
  have "trd_MarketName t \<noteq> n" if "(trd_Id t, t) \<in> set (trades s)" for t
  proof -
    have "gm_get (trades s) (trd_Id t) = Some t"
      using that by (simp add: gm_get_Some_iff [OF trade_store_ok_gm [OF assms(1)]])
    from trade_store_ok_market [OF assms(1) this] None show ?thesis
      by auto
  qed
  moreover have "GetCompletedTradesByMarket s n None = Inr []"
    by (simp add: GetCompletedTradesByMarket_def getAllTradesByMarket_def None)
  ultimately show ?thesis
    by (intro exI [of _ "[]"]) auto
next
  case (Some ids)
  note mt = market_trades [OF assms(1) Some]
  have "list_all (\<lambda>t. trd_SwapRequest t \<noteq> None) (map (lookup_trade s) ids)"
    unfolding list_all_iff mt(2) using assms(2)
    by (metis (mono_tags, lifting) case_prodD list_all_iff mem_Collect_eq)
  then have st: "sort_trades (map (lookup_trade s) ids) = Inr (sort_newest request_time (map (lookup_trade s) ids))"
    by (rule sort_trades_ok)
  let ?Q = "\<lambda>t. trd_Code t \<ge> TradeStatusCodeCompleted \<and> \<not> trd_Failed t"
  let ?ts = "sort_newest request_time (map (lookup_trade s) ids)"
  have r: "GetCompletedTradesByMarket s n None = Inr (filter ?Q ?ts)"
    unfolding GetCompletedTradesByMarket_def getAllTradesByMarket_def Some option.case tradesFromIds_def st
    by (simp only: rbind_Inr make_page_def paginate_def option.case)
  have c: "trd_Code t \<ge> TradeStatusCodeCompleted \<longleftrightarrow>
      trd_Code t \<in> {TradeStatusCodeCompleted, TradeStatusCodeSettled, TradeStatusCodeExpired}" for t
    by (cases "trd_Code t") (simp_all add: status_ord)
  have "distinct ?ts"
    using mt(1) by (metis mset_sort_newest mset_eq_imp_distinct_iff)
  moreover have "set ?ts = {t. (trd_Id t, t) \<in> set (trades s) \<and> trd_MarketName t = n}"
    unfolding set_sort_newest by (rule mt(2))
  ultimately show ?thesis
    unfolding r by (intro exI [of _ "filter ?Q ?ts"]) (auto simp only: c distinct_filter set_filter)
qed

lemma GetCompletedTradesByMarket_correct_example:
  "\<exists>ts. GetCompletedTradesByMarket ex_trades ''mkt'' None = Inr ts \<and> distinct ts \<and> ex_settled \<in> set ts"
proof -
  have a: "list_all (\<lambda>(k, t). trd_SwapRequest t \<noteq> None) (trades ex_trades)"
    by code_simp
  have b: "trades ex_trades = [(''id'', ex_settled)]"
  proof -
    have "trd_Id ex_completed = ''id''" "trd_Id ex_settled = ''id''"
      by code_simp+
    then show ?thesis
      by (simp add: ex_trades_def AddTrade_def addTrade_def NewTradeRepositoryImpl_def UpdateTrade_def
          getTrade_def Let_def ex_settled_def [symmetric] split: option.splits)
  qed
  have c: "trd_Id ex_settled = ''id''" "trd_MarketName ex_settled = ''mkt''"
    "trd_Code ex_settled = TradeStatusCodeSettled" "\<not> trd_Failed ex_settled"
    by code_simp+
  have "trade_store_ok ex_trades"
    by (rule trade_store_steps_ok [OF ex_trades_reachable])
  from GetCompletedTradesByMarket_correct [OF this a, of "''mkt''"] show ?thesis
    using b c by auto
qed

section \<open>Behaviours of note\<close>

text \<open>
  The repository files an accepted trade under its market but not under its accept message:
  after \<open>AddTrade\<close> alone it cannot be found by it.
\<close>

lemma added_trade_not_found_by_accept:
  "map_option swap_Id (trd_SwapAccept ex_accepted) = Some ''accept''"
  "GetTradeBySwapAcceptId (fst (AddTrade ex_accepted NewTradeRepositoryImpl)) ''accept''
     = Inl (Errorf ''trade with swap accept id %s not found'' [''accept''])"
  by code_simp+

text \<open>A proposal that failed before it was recorded has no request: listing it beside another panics.\<close>

lemma failed_proposal_breaks_listing:
  "GetAllTrades (\<lambda>m. m) (fst (AddTrade (Trade_Fail ex_parser ''r'' 3 (NewTrade ''x'')) ex_trades)) None
     = Inl nil_deref"
  by code_simp

end
