(* ===== verification/Repositories.thy ===== *)
theory Repositories
  imports Market_Repo Trade_Repo
begin

text \<open>
  The repository interfaces of \<open>internal/core/domain\<close> (\<open>market_repository.go\<close>,
  \<open>trade_repository.go\<close>), as the services see them: records of operations on a state \<open>'s\<close>. The
  locale \<open>trade_repository\<close> is what the interface promises; \<open>complete_trade_repository\<close> adds that
  a lookup by the accept message finds the trade.
\<close>

section \<open>Interfaces\<close>

record 's TradeRepository =
  tr_AddTrade :: "Trade \<Rightarrow> 's \<Rightarrow> 's \<times> unit res"
  tr_GetTradeById :: "'s \<Rightarrow> string \<Rightarrow> Trade res"
  tr_GetAllTrades :: "'s \<Rightarrow> page option \<Rightarrow> Trade list res"
  tr_GetAllTradesByMarket :: "'s \<Rightarrow> string \<Rightarrow> page option \<Rightarrow> Trade list res"
  tr_GetCompletedTradesByMarket :: "'s \<Rightarrow> string \<Rightarrow> page option \<Rightarrow> Trade list res"
  tr_GetTradeBySwapAcceptId :: "'s \<Rightarrow> string \<Rightarrow> Trade res"
  tr_GetTradeByTxId :: "'s \<Rightarrow> string \<Rightarrow> Trade option res"
  tr_UpdateTrade :: "string \<Rightarrow> (Trade \<Rightarrow> Trade res) \<Rightarrow> 's \<Rightarrow> 's \<times> unit res"

record 's MarketRepository =
  mr_AddMarket :: "Market \<Rightarrow> 's \<Rightarrow> 's \<times> unit res"
  mr_GetMarketByName :: "'s \<Rightarrow> string \<Rightarrow> Market res"
  mr_GetMarketByAssets :: "'s \<Rightarrow> string \<Rightarrow> string \<Rightarrow> Market res"
  mr_GetTradableMarkets :: "'s \<Rightarrow> Market list res"
  mr_GetAllMarkets :: "'s \<Rightarrow> Market list res"
  mr_UpdateMarket :: "string \<Rightarrow> (Market \<Rightarrow> Market res) \<Rightarrow> 's \<Rightarrow> 's \<times> unit res"
  mr_OpenMarket :: "string \<Rightarrow> 's \<Rightarrow> 's \<times> unit res"
  mr_CloseMarket :: "string \<Rightarrow> 's \<Rightarrow> 's \<times> unit res"
  mr_DeleteMarket :: "string \<Rightarrow> 's \<Rightarrow> 's \<times> unit res"
  mr_UpdateMarketPrice :: "string \<Rightarrow> MarketPrice \<Rightarrow> 's \<Rightarrow> 's \<times> unit res"

section \<open>What a trade repository promises\<close>

locale trade_repository =
  fixes R :: "'s TradeRepository"
    and view :: "'s \<Rightarrow> string \<Rightarrow> Trade option"
    and repo_ok :: "'s \<Rightarrow> bool"
  assumes view_id: "repo_ok s \<Longrightarrow> view s k = Some t \<Longrightarrow> trd_Id t = k"
    and get_found: "repo_ok s \<Longrightarrow> view s k = Some t \<Longrightarrow> tr_GetTradeById R s k = Inr t"
    and get_missing: "repo_ok s \<Longrightarrow> view s k = None \<Longrightarrow> \<exists>e. tr_GetTradeById R s k = Inl e \<and> \<not> is_panic e"
    and add_new: "repo_ok s \<Longrightarrow> view s (trd_Id t) = None \<Longrightarrow>
      \<exists>s'. tr_AddTrade R t s = (s', Inr ()) \<and> repo_ok s' \<and> view s' = (view s)(trd_Id t \<mapsto> t)"
    and add_old: "repo_ok s \<Longrightarrow> view s (trd_Id t) \<noteq> None \<Longrightarrow> \<exists>e. tr_AddTrade R t s = (s, Inl e) \<and> \<not> is_panic e"
    and accept_sound: "repo_ok s \<Longrightarrow> tr_GetTradeBySwapAcceptId R s a = Inr t \<Longrightarrow>
      view s (trd_Id t) = Some t \<and> map_option swap_Id (trd_SwapAccept t) = Some a"
    and accept_no_panic: "repo_ok s \<Longrightarrow> \<not> panics (tr_GetTradeBySwapAcceptId R s a)"
    and update_ok: "repo_ok s \<Longrightarrow> view s k = Some t \<Longrightarrow> keeps_keys t t' \<Longrightarrow>
      \<exists>s'. tr_UpdateTrade R k (\<lambda>_. Inr t') s = (s', Inr ()) \<and> repo_ok s' \<and> view s' = (view s)(k \<mapsto> t')"
begin

lemma get_iff: "repo_ok s \<Longrightarrow> tr_GetTradeById R s k = Inr t \<longleftrightarrow> view s k = Some t"
  using get_found [of s k] get_missing [of s k] by (cases "view s k") auto

lemma add_view:
  "repo_ok s \<Longrightarrow> view s (trd_Id t) = None \<Longrightarrow>
   repo_ok (fst (tr_AddTrade R t s)) \<and> view (fst (tr_AddTrade R t s)) = (view s)(trd_Id t \<mapsto> t)"
  using add_new [of s t] by fastforce

lemma update_view:
  "repo_ok s \<Longrightarrow> view s k = Some t \<Longrightarrow> keeps_keys t t' \<Longrightarrow>
   repo_ok (fst (tr_UpdateTrade R k (\<lambda>_. Inr t') s))
   \<and> view (fst (tr_UpdateTrade R k (\<lambda>_. Inr t') s)) = (view s)(k \<mapsto> t') \<and> snd (tr_UpdateTrade R k (\<lambda>_. Inr t') s) = Inr ()"
  using update_ok [of s k t t'] by fastforce

end

text \<open>The lookup by accept message also finds every trade that has an accept message of its own.\<close>

locale complete_trade_repository = trade_repository +
  assumes accept_complete: "repo_ok s \<Longrightarrow> view s k = Some t \<Longrightarrow> map_option swap_Id (trd_SwapAccept t) = Some a \<Longrightarrow>
      (\<And>k' t'. view s k' = Some t' \<Longrightarrow> map_option swap_Id (trd_SwapAccept t') = Some a \<Longrightarrow> k' = k) \<Longrightarrow>
      tr_GetTradeBySwapAcceptId R s a = Inr t"

section \<open>What a market repository promises to the operator\<close>

text \<open>
  \<open>view\<close> is the stored markets by name. The operator looks a market up by its assets, changes the
  copy it got and stores it: an update may keep the price the repository has for the market, since
  prices have an operation of their own.
\<close>

locale market_registry =
  fixes D :: "'d decimal_ops" and R :: "'s MarketRepository"
    and view :: "'s \<Rightarrow> string \<Rightarrow> Market option" and repo_ok :: "'s \<Rightarrow> bool"
  assumes by_assets: "repo_ok s \<Longrightarrow> mr_GetMarketByAssets R s b q = Inr m \<Longrightarrow>
      view s (mkt_Name m) = Some m \<and> mkt_BaseAsset m = b \<and> mkt_QuoteAsset m = q"
    and by_assets_found: "repo_ok s \<Longrightarrow> view s n = Some m \<Longrightarrow>
      \<exists>m'. mr_GetMarketByAssets R s (mkt_BaseAsset m) (mkt_QuoteAsset m) = Inr m'"
    and add_new: "repo_ok s \<Longrightarrow> view s (mkt_Name m) = None \<Longrightarrow>
      \<exists>s'. mr_AddMarket R m s = (s', Inr ()) \<and> repo_ok s' \<and> view s' = (view s)(mkt_Name m \<mapsto> m)"
    and add_old: "repo_ok s \<Longrightarrow> view s (mkt_Name m) \<noteq> None \<Longrightarrow> \<exists>e. mr_AddMarket R m s = (s, Inl e)"
    and update_const: "repo_ok s \<Longrightarrow> view s n = Some m \<Longrightarrow> mkt_Name m' = n \<Longrightarrow>
      \<exists>s' m''. mr_UpdateMarket R n (\<lambda>_. Inr m') s = (s', Inr ()) \<and> repo_ok s'
        \<and> view s' = (view s)(n \<mapsto> m'') \<and> m'' \<in> {m', m'\<lparr>mkt_Price := mkt_Price m\<rparr>}"
    and open_closed: "repo_ok s \<Longrightarrow> view s n = Some m \<Longrightarrow> \<not> IsTradable m \<Longrightarrow> MakeTradable D m = Inr m' \<Longrightarrow>
      \<exists>s'. mr_OpenMarket R n s = (s', Inr ()) \<and> repo_ok s' \<and> view s' = (view s)(n \<mapsto> m')"
    and open_refused: "repo_ok s \<Longrightarrow> view s n = Some m \<Longrightarrow> \<not> IsTradable m \<Longrightarrow> MakeTradable D m = Inl e \<Longrightarrow>
      mr_OpenMarket R n s = (s, Inl e)"
    and open_open: "repo_ok s \<Longrightarrow> view s n = Some m \<Longrightarrow> IsTradable m \<Longrightarrow> mr_OpenMarket R n s = (s, Inr ())"
    and close: "repo_ok s \<Longrightarrow> view s n = Some m \<Longrightarrow>
      \<exists>s'. mr_CloseMarket R n s = (s', Inr ()) \<and> repo_ok s' \<and> view s' = (view s)(n \<mapsto> MakeNotTradable m)"
    and delete: "repo_ok s \<Longrightarrow> view s n = Some m \<Longrightarrow>
      \<exists>s'. mr_DeleteMarket R n s = (s', Inr ()) \<and> repo_ok s' \<and> view s' = (view s)(n := None)"
    and price: "repo_ok s \<Longrightarrow> view s n = Some m \<Longrightarrow>
      \<exists>s'. mr_UpdateMarketPrice R n p s = (s', Inr ()) \<and> repo_ok s' \<and> view s' = (view s)(n \<mapsto> m\<lparr>mkt_Price := p\<rparr>)"

section \<open>The in-memory repositories\<close>

definition inmemory_trade_repo :: "((string \<times> Trade) list \<Rightarrow> (string \<times> Trade) list) \<Rightarrow> tradeInmemoryStore TradeRepository" where
  "inmemory_trade_repo ord = \<lparr>tr_AddTrade = AddTrade, tr_GetTradeById = GetTradeById,
     tr_GetAllTrades = GetAllTrades ord, tr_GetAllTradesByMarket = GetAllTradesByMarket,
     tr_GetCompletedTradesByMarket = GetCompletedTradesByMarket, tr_GetTradeBySwapAcceptId = GetTradeBySwapAcceptId,
     tr_GetTradeByTxId = GetTradeByTxId ord, tr_UpdateTrade = UpdateTrade\<rparr>"

definition inmemory_market_repo :: "'d decimal_ops \<Rightarrow> (string \<Rightarrow> bytes)
    \<Rightarrow> ((string \<times> Market) list \<Rightarrow> (string \<times> Market) list) \<Rightarrow> marketInmemoryStore MarketRepository" where
  "inmemory_market_repo D sha256 ord = \<lparr>mr_AddMarket = AddMarket sha256, mr_GetMarketByName = GetMarketByName,
     mr_GetMarketByAssets = GetMarketByAssets sha256, mr_GetTradableMarkets = (\<lambda>s. Inr (GetTradableMarkets ord s)),
     mr_GetAllMarkets = (\<lambda>s. Inr (GetAllMarkets ord s)), mr_UpdateMarket = UpdateMarket sha256,
     mr_OpenMarket = OpenMarket D, mr_CloseMarket = CloseMarket, mr_DeleteMarket = DeleteMarket,
     mr_UpdateMarketPrice = UpdateMarketPrice D\<rparr>"

lemma UpdateTrade_const:
  assumes "trade_store_ok s" "gm_get (trades s) k = Some t" "keeps_keys t t'"
  shows "\<exists>s'. UpdateTrade k (\<lambda>_. Inr t') s = (s', Inr ()) \<and> trade_store_ok s'
    \<and> (\<lambda>x. gm_get (trades s') x) = (\<lambda>x. gm_get (trades s) x)(k \<mapsto> t')"
proof -
  have id: "trd_Id t = k" using assms(1,2) unfolding trade_store_ok_iff by blast
  have f: "trade_store_ok (fst (UpdateTrade k (\<lambda>x. if x = t then Inr t' else Inl nil_deref) s))"
    by (rule UpdateTrade_ok [OF assms(1)]) (use assms(3) in \<open>auto split: if_splits\<close>)
  have e: "UpdateTrade k (\<lambda>x. if x = t then Inr t' else Inl nil_deref) s = UpdateTrade k (\<lambda>_. Inr t') s"
    by (simp add: UpdateTrade_def getTrade_def assms(2))
  obtain s' r where u: "UpdateTrade k (\<lambda>_. Inr t') s = (s', r)" by fastforce
  from u show ?thesis
  proof (cases rule: UpdateTrade_cases)
    case (error e)
    then show ?thesis using assms(2) by (simp add: getTrade_def)
  next
    case (update x y)
    have "trades s' = gm_put k t' (trades s)"
      using update(1,2,4) id assms(2,3) by (auto simp: keeps_keys_def)
    then have "(\<lambda>x. gm_get (trades s') x) = (\<lambda>x. gm_get (trades s) x)(k \<mapsto> t')"
      by (simp add: fun_eq_iff)
    with update(3) u f e show ?thesis by simp
  qed
qed

lemma inmemory_trades_repository:
  "trade_repository (inmemory_trade_repo ord) (\<lambda>s k. gm_get (trades s) k) trade_store_ok"
proof
  fix s k t
  assume s: "trade_store_ok s"
  show "gm_get (trades s) k = Some t \<Longrightarrow> trd_Id t = k"
    using s unfolding trade_store_ok_iff by blast
  show "gm_get (trades s) k = Some t \<Longrightarrow> tr_GetTradeById (inmemory_trade_repo ord) s k = Inr t"
    by (simp add: inmemory_trade_repo_def GetTradeById_def getTrade_def)
  show "gm_get (trades s) k = None \<Longrightarrow> \<exists>e. tr_GetTradeById (inmemory_trade_repo ord) s k = Inl e \<and> \<not> is_panic e"
    by (simp add: inmemory_trade_repo_def GetTradeById_def getTrade_def)
  show "gm_get (trades s) (trd_Id t) = None \<Longrightarrow> \<exists>s'. tr_AddTrade (inmemory_trade_repo ord) t s = (s', Inr ()) \<and>
      trade_store_ok s' \<and> (\<lambda>k. gm_get (trades s') k) = (\<lambda>k. gm_get (trades s) k)(trd_Id t \<mapsto> t)"
    using addTrade_ok [OF s, of t]
    by (auto simp: inmemory_trade_repo_def AddTrade_def addTrade_def fun_eq_iff split: option.splits)
  show "gm_get (trades s) (trd_Id t) \<noteq> None \<Longrightarrow> \<exists>e. tr_AddTrade (inmemory_trade_repo ord) t s = (s, Inl e) \<and> \<not> is_panic e"
    by (auto simp: inmemory_trade_repo_def AddTrade_def addTrade_def)
next
  fix s a t
  assume s: "trade_store_ok s"
  have *: "\<exists>t. gm_get (trades s) k = Some t \<and> lookup_trade s k = t \<and> trd_Id t = k \<and> map_option swap_Id (trd_SwapAccept t) = Some a"
    if "gm_get (tradesBySwapAcceptId s) a = Some k" for k
    using s that by (fastforce simp: trade_store_ok_iff lookup_trade_def)
  show "tr_GetTradeBySwapAcceptId (inmemory_trade_repo ord) s a = Inr t \<Longrightarrow>
      gm_get (trades s) (trd_Id t) = Some t \<and> map_option swap_Id (trd_SwapAccept t) = Some a"
    using * by (force simp: inmemory_trade_repo_def GetTradeBySwapAcceptId_def getTradeBySwapAcceptId_def split: option.splits)
  show "\<not> panics (tr_GetTradeBySwapAcceptId (inmemory_trade_repo ord) s a)"
    by (simp add: inmemory_trade_repo_def GetTradeBySwapAcceptId_def getTradeBySwapAcceptId_def split: option.splits)
next
  fix s k t t'
  assume "trade_store_ok s" "gm_get (trades s) k = Some t" "keeps_keys t t'"
  from UpdateTrade_const [OF this]
  show "\<exists>s'. tr_UpdateTrade (inmemory_trade_repo ord) k (\<lambda>_. Inr t') s = (s', Inr ()) \<and> trade_store_ok s' \<and>
      (\<lambda>k. gm_get (trades s') k) = (\<lambda>k. gm_get (trades s) k)(k \<mapsto> t')"
    by (simp add: inmemory_trade_repo_def)
qed

interpretation inmemory_trades: trade_repository "inmemory_trade_repo ord" "\<lambda>s k. gm_get (trades s) k" trade_store_ok for ord
  by (rule inmemory_trades_repository)

end
