(* ===== verification/Ports.thy ===== *)
theory Ports
  imports Swap Hex
begin

text \<open>
  \<open>internal/core/ports\<close>: the types the services exchange and the interface of the wallet. The
  wallet is a separate process (Ocean) behind a remote procedure call, so its methods are parameters
  of the model that read and change a state \<open>'w\<close> of their own; the \<open>context\<close> arguments are left
  out. Interfaces of getters are records with a selector per getter.
\<close>

section \<open>Calls that change the state of a service\<close>

named_theorems call_simps \<open>results of calls\<close>

type_synonym ('w, 'a) call = "'w \<Rightarrow> 'w \<times> 'a res"

definition cret :: "'a \<Rightarrow> ('w, 'a) call" where
  "cret x = (\<lambda>w. (w, Inr x))"

definition cfail :: "error \<Rightarrow> ('w, 'a) call" where
  "cfail e = (\<lambda>w. (w, Inl e))"

definition cbind :: "('w, 'a) call \<Rightarrow> ('a \<Rightarrow> ('w, 'b) call) \<Rightarrow> ('w, 'b) call" where
  "cbind c f = (\<lambda>w. case c w of (w, Inl e) \<Rightarrow> (w, Inl e) | (w, Inr x) \<Rightarrow> f x w)"

text \<open>A value that dereferencing a pointer or indexing a slice yields, or a panic.\<close>

definition cderef :: "'a option \<Rightarrow> ('w, 'a) call" where
  "cderef p = (case p of None \<Rightarrow> cfail nil_deref | Some x \<Rightarrow> cret x)"

definition cindex :: "'a list \<Rightarrow> nat \<Rightarrow> ('w, 'a) call" where
  "cindex xs i = (if i < length xs then cret (xs ! i) else cfail (Panic ''index out of range''))"

lemma cret_eq [call_simps]: "cret x w = (w', Inr y) \<longleftrightarrow> w' = w \<and> y = x"
  by (auto simp: cret_def)

lemma cfail_eq [call_simps]: "cfail e w \<noteq> (w', Inr y)"
  by (simp add: cfail_def)

lemma cbind_eq [call_simps]:
  "cbind c f w = (w', Inr y) \<longleftrightarrow> (\<exists>w1 x. c w = (w1, Inr x) \<and> f x w1 = (w', Inr y))"
  by (auto simp: cbind_def split: prod.splits sum.splits)

lemma cderef_eq [call_simps]: "cderef p w = (w', Inr x) \<longleftrightarrow> w' = w \<and> p = Some x"
  by (auto simp: cderef_def cret_def cfail_def split: option.splits)

lemma cindex_eq [call_simps]: "cindex xs i w = (w', Inr x) \<longleftrightarrow> w' = w \<and> i < length xs \<and> x = xs ! i"
  by (auto simp: cindex_def cret_def cfail_def)

lemma cif_eq [call_simps]:
  "(if b then c else d) w = (w', Inr x) \<longleftrightarrow> (if b then c w = (w', Inr x) else d w = (w', Inr x))"
  by simp

section \<open>Types\<close>

record Balance =
  bal_ConfirmedBalance :: u64
  bal_UnconfirmedBalance :: u64
  bal_LockedBalance :: u64
  bal_TotalBalance :: u64

record BlockInfo =
  bi_Hash :: string
  bi_Height :: u64
  bi_Timestamp :: i64

record UtxoStatus =
  us_Txid :: string
  us_BlockInfo :: "BlockInfo option"

record WalletUtxo =
  wu_Txid :: string
  wu_Index :: u32
  wu_Asset :: string
  wu_Value :: u64
  wu_Script :: string
  wu_AssetBlinder :: string
  wu_ValueBlinder :: string
  wu_ConfirmedStatus :: "UtxoStatus option"
  wu_SpentStatus :: "UtxoStatus option"
  wu_RedeemScript :: string

record TxInput =
  ti_Txid :: bytes
  ti_Index :: u32
  ti_Script :: string
  ti_ScriptSigSize :: int
  ti_WitnessSize :: int

record TxOutput =
  to_Asset :: string
  to_Amount :: u64
  to_Script :: string
  to_BlindingKey :: string

datatype WalletUtxoEventType = UtxoUnconfirmed | UtxoConfirmed | UtxoLocked | UtxoUnlocked | UtxoSpent

record WalletUtxoNotification =
  un_EventType :: WalletUtxoEventType
  un_Utxos :: "WalletUtxo list"

datatype WalletTxEventType = TxUnconfirmed | TxConfirmed | TxBroadcasted

record WalletTxNotification =
  tn_EventType :: WalletTxEventType
  tn_AccountNames :: "string list"
  tn_TxHex :: string
  tn_BlockDetails :: "BlockInfo option"

section \<open>The wallet\<close>

record WalletAccount =
  wa_Namespace :: string
  wa_Label :: string
  wa_DerivationPath :: string
  wa_Xpubs :: "string list"
  wa_MasterBlindingKey :: string

text \<open>\<open>WalletAccounts\<close> is \<open>Info().GetAccounts()\<close>, the only part of the answer that is read more than once.\<close>

record 'w WalletService =
  Auth :: "string \<Rightarrow> ('w, bool) call"
  WalletAccounts :: "('w, WalletAccount list) call"
  CreateAccount :: "string \<Rightarrow> bool \<Rightarrow> ('w, WalletAccount) call"
  DeriveAddresses :: "string \<Rightarrow> int \<Rightarrow> ('w, string list) call"
  DeriveChangeAddresses :: "string \<Rightarrow> int \<Rightarrow> ('w, string list) call"
  ListAddresses :: "string \<Rightarrow> ('w, string list) call"
  GetBalance :: "string \<Rightarrow> ('w, (string, Balance) gomap) call"
  ListUtxos :: "string \<Rightarrow> ('w, WalletUtxo list \<times> WalletUtxo list) call"
  DeleteAccount :: "string \<Rightarrow> ('w, unit) call"
  GetTransaction :: "string \<Rightarrow> ('w, string) call"
  EstimateFees :: "TxInput list \<Rightarrow> TxOutput list \<Rightarrow> u64 \<Rightarrow> ('w, u64) call"
  SelectUtxos :: "string \<Rightarrow> string \<Rightarrow> u64 \<Rightarrow> ('w, WalletUtxo list \<times> u64 \<times> i64) call"
  CreatePset :: "TxInput list \<Rightarrow> TxOutput list \<Rightarrow> ('w, string) call"
  UpdatePset :: "string \<Rightarrow> TxInput list \<Rightarrow> TxOutput list \<Rightarrow> ('w, string) call"
  BlindPset :: "string \<Rightarrow> UnblindedInput list \<Rightarrow> ('w, string) call"
  SignPset :: "string \<Rightarrow> bool \<Rightarrow> ('w, string) call"
  Transfer :: "string \<Rightarrow> TxOutput list \<Rightarrow> u64 \<Rightarrow> ('w, string) call"
  BroadcastTransaction :: "string \<Rightarrow> ('w, string) call"

text \<open>
  What the services rely on when they select coins: the coins are of the asset asked for, and their
  total is the amount plus the change returned.
\<close>

definition selects_exactly :: "'w WalletService \<Rightarrow> bool" where
  "selects_exactly W \<longleftrightarrow> (\<forall>account asset amount w w' utxos change unlock.
     SelectUtxos W account asset amount w = (w', Inr (utxos, change, unlock)) \<longrightarrow>
       (\<forall>u\<in>set utxos. wu_Asset u = asset) \<and> sum_list (map wu_Value utxos) = amount + change)"

section \<open>The elements library\<close>

text \<open>
  What the daemon uses of \<open>go-elements\<close>, a third-party package: parameters. \<open>None\<close> stands for the
  nil pointer that accompanies an error the daemon ignores.
\<close>

record AddressInfo =
  ai_Script :: bytes
  ai_BlindingKey :: bytes

record PsetInput =
  pi_PreviousTxid :: bytes
  pi_PreviousTxIndex :: u32
  pi_RedeemScript :: bytes
  pi_WitnessScript :: bytes
  pi_UtxoScript :: "bytes option"

record PsetOutput =
  po_Asset :: bytes
  po_Value :: u64
  po_Script :: bytes
  po_BlindingPubkey :: bytes

record Pset =
  ps_Inputs :: "PsetInput list"
  ps_Outputs :: "PsetOutput list"

record ChainOutput =
  out_Asset :: bytes
  out_Value :: bytes
  out_Script :: bytes
  out_Nonce :: bytes
  out_RangeProof :: bytes
  out_SurjectionProof :: bytes

record ChainTransaction =
  tx_Inputs :: "(bytes \<times> u32) list"
  tx_Outputs :: "ChainOutput list"

text \<open>
  A transaction input is its previous transaction and index. \<open>SLIP77DeriveKey\<close> is the private key
  that \<open>slip77.FromMasterKey\<close> and \<open>DeriveKey\<close> give a script.
\<close>

record elements =
  TxIDToBytes :: "string \<Rightarrow> bytes"
  TxIDFromBytes :: "bytes \<Rightarrow> string"
  ReverseBytes :: "bytes \<Rightarrow> bytes"
  FromConfidential :: "string \<Rightarrow> AddressInfo option"
  NewPsetFromBase64 :: "string \<Rightarrow> Pset option"
  NewTxFromHex :: "string \<Rightarrow> ChainTransaction option"
  TxHash :: "ChainTransaction \<Rightarrow> string"
  ToOutputScript :: "string \<Rightarrow> bytes"
  ValueFromBytes :: "bytes \<Rightarrow> u64"
  SLIP77DeriveKey :: "bytes \<Rightarrow> bytes \<Rightarrow> bytes option"
  UnblindOutputWithKey :: "ChainOutput \<Rightarrow> bytes \<Rightarrow> (bytes \<times> u64) option"

section \<open>Totals per asset\<close>

text \<open>Reading a map of amounts: a missing key reads as zero.\<close>

definition gm_amount :: "('k, u64) gomap \<Rightarrow> 'k \<Rightarrow> u64" where
  "gm_amount m k = (case gm_get m k of None \<Rightarrow> 0 | Some v \<Rightarrow> v)"

lemma gm_amount_Nil [simp]: "gm_amount [] k = 0"
  by (simp add: gm_amount_def)

lemma gm_amount_put [simp]: "gm_amount (gm_put k v m) k' = (if k' = k then v else gm_amount m k')"
  by (simp add: gm_amount_def)

definition asset_total :: "('a \<Rightarrow> string) \<Rightarrow> ('a \<Rightarrow> u64) \<Rightarrow> string \<Rightarrow> 'a list \<Rightarrow> u64" where
  "asset_total asset amount a xs = sum_list (map amount (filter (\<lambda>x. asset x = a) xs))"

lemma asset_total_simps [simp]:
  "asset_total f g a [] = 0"
  "asset_total f g a (x # xs) = (if f x = a then g x else 0) + asset_total f g a xs"
  "asset_total f g a (xs @ ys) = asset_total f g a xs + asset_total f g a ys"
  by (simp_all add: asset_total_def)

lemma selects_exactly_total:
  assumes "selects_exactly W" "SelectUtxos W account asset amount w = (w', Inr (utxos, change, unlock))"
  shows "asset_total wu_Asset wu_Value a utxos = (if a = asset then amount + change else 0)"
proof -
  have s: "\<forall>u\<in>set utxos. wu_Asset u = asset" "sum_list (map wu_Value utxos) = amount + change"
    using assms unfolding selects_exactly_def by blast+
  then have "filter (\<lambda>u. wu_Asset u = a) utxos = (if a = asset then utxos else [])"
    by (auto simp: filter_id_conv filter_empty_conv)
  with s(2) show ?thesis by (simp add: asset_total_def)
qed

end
