(* ===== verification/Wallet.thy ===== *)
theory Wallet
  imports Ports "HOL-Library.Sublist"
begin

text \<open>
  \<open>internal/core/application/wallet\<close>: sending funds and completing a swap with the coins of the
  wallet, and the queues of handlers of the wallet's notifications. \<open>W\<close> is the remote wallet, \<open>L\<close> the
  elements library, \<open>lbtc\<close> the native asset of \<open>staticInfo\<close>; \<open>ord\<close> parameters are the orders in
  which \<open>range\<close> visits the maps. A long function is split where it has a stage of its own: the
  inputs and outputs of the transaction first, then what is done with them.
\<close>

section \<open>Definitions\<close>

definition FeeAccount :: string where
  "FeeAccount = ''fee_account''"

definition totOutputAmountPerAsset :: "TxOutput list \<Rightarrow> (string, u64) gomap" where
  "totOutputAmountPerAsset outs =
     fold (\<lambda>out tot. gm_put (to_Asset out) (gm_amount tot (to_Asset out) + to_Amount out) tot) outs []"

text \<open>The input that spends a coin of an account, and one that spends a coin of the fee account.\<close>

definition coin_input :: "elements \<Rightarrow> WalletUtxo \<Rightarrow> TxInput" where
  "coin_input L u = (let (scriptSigSize, witnessSize) = if length (wu_RedeemScript u) > 0 then (35, 223) else (0, 0)
     in \<lparr>ti_Txid = TxIDToBytes L (wu_Txid u), ti_Index = wu_Index u, ti_Script = wu_Script u,
         ti_ScriptSigSize = scriptSigSize, ti_WitnessSize = witnessSize\<rparr>)"

definition fee_input :: "elements \<Rightarrow> WalletUtxo \<Rightarrow> TxInput" where
  "fee_input L u = \<lparr>ti_Txid = TxIDToBytes L (wu_Txid u), ti_Index = wu_Index u, ti_Script = wu_Script u,
     ti_ScriptSigSize = 0, ti_WitnessSize = 0\<rparr>"

text \<open>An output to a confidential address.\<close>

definition address_output :: "elements \<Rightarrow> string \<Rightarrow> string \<Rightarrow> u64 \<Rightarrow> ('w, TxOutput) call" where
  "address_output L addr asset amount = cbind (cderef (FromConfidential L addr)) (\<lambda>info.
     cret \<lparr>to_Asset = asset, to_Amount = amount, to_Script = hex_EncodeToString (ai_Script info),
           to_BlindingKey = hex_EncodeToString (ai_BlindingKey info)\<rparr>)"

text \<open>The loop over the assets to send: coins are selected for each, change is recorded when there is some.\<close>

fun select_loop :: "'w WalletService \<Rightarrow> elements \<Rightarrow> string \<Rightarrow> (string \<times> u64) list
    \<Rightarrow> (string, u64) gomap \<times> TxInput list \<Rightarrow> ('w, (string, u64) gomap \<times> TxInput list) call" where
  "select_loop W L account [] st = cret st"
| "select_loop W L account ((asset, amount) # rest) (changeAmountPerAsset, inputs) =
     cbind (SelectUtxos W account asset amount) (\<lambda>(utxos, change, _).
       select_loop W L account rest
         (if change > 0 then gm_put asset change changeAmountPerAsset else changeAmountPerAsset,
          inputs @ map (coin_input L) utxos))"

text \<open>The loop over the changes: the \<open>i\<close>-th one goes to the \<open>i\<close>-th address.\<close>

fun change_loop :: "elements \<Rightarrow> string list \<Rightarrow> nat \<Rightarrow> (string \<times> u64) list \<Rightarrow> TxOutput list \<Rightarrow> ('w, TxOutput list) call" where
  "change_loop L addresses i [] outputs = cret outputs"
| "change_loop L addresses i ((asset, amount) # rest) outputs =
     cbind (cindex addresses i) (\<lambda>addr.
     cbind (address_output L addr asset amount) (\<lambda>out.
       change_loop L addresses (Suc i) rest (outputs @ [out])))"

text \<open>
  The fee, in both operations: coins of the fee account for an estimate that includes a change
  output; with change, the fee is estimated again and the difference goes to the change. \<open>existing\<close>
  are the inputs and outputs already in the transaction, \<open>derive\<close> the call for the change address.
\<close>

definition add_fees :: "'w WalletService \<Rightarrow> elements \<Rightarrow> string \<Rightarrow> ('w, string list) call \<Rightarrow> u64
    \<Rightarrow> TxInput list \<times> TxOutput list \<Rightarrow> TxInput list \<Rightarrow> TxOutput list
    \<Rightarrow> ('w, TxInput list \<times> TxOutput list \<times> WalletUtxo list) call" where
  "add_fees W L lbtc derive msatsPerByte existing inputs outputs =
     cbind (EstimateFees W (fst existing @ inputs) (snd existing @ outputs) msatsPerByte) (\<lambda>dummyFeeAmount.
     let dummyFeeAmount = dummyFeeAmount + 150 in
     cbind (SelectUtxos W FeeAccount lbtc dummyFeeAmount) (\<lambda>(feeUtxos, change, _).
     let inputs = inputs @ map (fee_input L) feeUtxos in
     if change > 0 then
       cbind derive (\<lambda>addresses.
       cbind (cindex addresses 0) (\<lambda>addr.
       cbind (address_output L addr lbtc change) (\<lambda>out.
       cbind (EstimateFees W (fst existing @ inputs) (snd existing @ outputs @ [out]) msatsPerByte) (\<lambda>feeAmount.
       let diff = dummyFeeAmount - feeAmount;
           changeOut = out\<lparr>to_Amount := to_Amount out + diff\<rparr>
       in cret (inputs, outputs @ [changeOut] @
                  [\<lparr>to_Asset = lbtc, to_Amount = feeAmount, to_Script = '''', to_BlindingKey = ''''\<rparr>], feeUtxos)))))
     else cret (inputs, outputs @ [\<lparr>to_Asset = lbtc, to_Amount = dummyFeeAmount, to_Script = '''', to_BlindingKey = ''''\<rparr>],
                feeUtxos)))"

definition send_transaction :: "'w WalletService \<Rightarrow> elements \<Rightarrow> string
    \<Rightarrow> ((string \<times> u64) list \<Rightarrow> (string \<times> u64) list) \<Rightarrow> ((string \<times> u64) list \<Rightarrow> (string \<times> u64) list)
    \<Rightarrow> string \<Rightarrow> TxOutput list \<Rightarrow> u64 \<Rightarrow> ('w, TxInput list \<times> TxOutput list) call" where
  "send_transaction W L lbtc ord1 ord2 account outs msatsPerByte =
     cbind (select_loop W L account (ord1 (totOutputAmountPerAsset outs)) ([], [])) (\<lambda>(changeAmountPerAsset, inputs).
     let numOfAddress = length changeAmountPerAsset in
     cbind (if numOfAddress > 0
            then cbind (DeriveChangeAddresses W account (int numOfAddress)) (\<lambda>addresses.
                   change_loop L addresses 0 (ord2 changeAmountPerAsset) outs)
            else cret outs) (\<lambda>outputs.
     cbind (add_fees W L lbtc (DeriveAddresses W FeeAccount 1) msatsPerByte ([], []) inputs outputs)
       (\<lambda>(inputs, outputs, _). cret (inputs, outputs))))"

definition SendToMany :: "'w WalletService \<Rightarrow> elements \<Rightarrow> string
    \<Rightarrow> ((string \<times> u64) list \<Rightarrow> (string \<times> u64) list) \<Rightarrow> ((string \<times> u64) list \<Rightarrow> (string \<times> u64) list)
    \<Rightarrow> string \<Rightarrow> TxOutput list \<Rightarrow> u64 \<Rightarrow> ('w, string) call" where
  "SendToMany W L lbtc ord1 ord2 account outs msatsPerByte =
     cbind (send_transaction W L lbtc ord1 ord2 account outs msatsPerByte) (\<lambda>(inputs, outputs).
     cbind (CreatePset W inputs outputs) (\<lambda>pset.
     cbind (BlindPset W pset []) (\<lambda>blindedPset.
     cbind (SignPset W blindedPset True) (\<lambda>txhex.
     BroadcastTransaction W txhex))))"

text \<open>The inputs and outputs of the proposer's transaction.\<close>

definition existing_input :: "PsetInput \<Rightarrow> ('w, TxInput) call" where
  "existing_input inp = (
     let scriptSigSize = if length (pi_RedeemScript inp) > 0 then 223 else 0;
         (scriptSigSize, witnessSize) = if length (pi_WitnessScript inp) > 0
           then (if scriptSigSize > 0 then 35 else scriptSigSize, 223) else (scriptSigSize, 0)
     in cbind (cderef (pi_UtxoScript inp)) (\<lambda>script.
          cret \<lparr>ti_Txid = pi_PreviousTxid inp, ti_Index = pi_PreviousTxIndex inp, ti_Script = hex_EncodeToString script,
                ti_ScriptSigSize = scriptSigSize, ti_WitnessSize = witnessSize\<rparr>))"

fun existing_inputs :: "PsetInput list \<Rightarrow> ('w, TxInput list) call" where
  "existing_inputs [] = cret []"
| "existing_inputs (i # is) = cbind (existing_input i) (\<lambda>x. cbind (existing_inputs is) (\<lambda>xs. cret (x # xs)))"

definition existing_output :: "elements \<Rightarrow> PsetOutput \<Rightarrow> TxOutput" where
  "existing_output L out = \<lparr>to_Asset = hex_EncodeToString (ReverseBytes L (po_Asset out)), to_Amount = po_Value out,
     to_Script = hex_EncodeToString (po_Script out), to_BlindingKey = hex_EncodeToString (po_BlindingPubkey out)\<rparr>"

text \<open>The amounts the market pays and receives: the request's, less or plus the fee where it is charged on them.\<close>

definition paid_amount :: "SwapRequest \<Rightarrow> bool \<Rightarrow> u64" where
  "paid_amount swapRequest feesToAdd =
     (if sr_FeeAsset swapRequest = sr_AssetR swapRequest \<and> \<not> feesToAdd
      then sr_AmountR swapRequest - sr_FeeAmount swapRequest else sr_AmountR swapRequest)"

definition received_amount :: "SwapRequest \<Rightarrow> bool \<Rightarrow> u64" where
  "received_amount swapRequest feesToAdd =
     (if sr_FeeAsset swapRequest = sr_AssetP swapRequest \<and> feesToAdd
      then sr_AmountP swapRequest + sr_FeeAmount swapRequest else sr_AmountP swapRequest)"

definition swap_transaction :: "'w WalletService \<Rightarrow> elements \<Rightarrow> string \<Rightarrow> string \<Rightarrow> SwapRequest \<Rightarrow> u64 \<Rightarrow> bool
    \<Rightarrow> ('w, TxInput list \<times> TxOutput list \<times> WalletUtxo list \<times> i64) call" where
  "swap_transaction W L lbtc account swapRequest msatsPerByte feesToAdd =
     cbind (cderef (NewPsetFromBase64 L (sr_Transaction swapRequest))) (\<lambda>ptx.
     cbind (existing_inputs (ps_Inputs ptx)) (\<lambda>existingInputs.
     let existingOutputs = map (existing_output L) (ps_Outputs ptx);
         amountR = paid_amount swapRequest feesToAdd in
     cbind (SelectUtxos W account (sr_AssetR swapRequest) amountR) (\<lambda>(utxos, change, unlockTime).
     let inputs = map (coin_input L) utxos in
     cbind (DeriveAddresses W account 1) (\<lambda>addresses.
     cbind (cindex addresses 0) (\<lambda>addr.
     let amountP = received_amount swapRequest feesToAdd in
     cbind (address_output L addr (sr_AssetP swapRequest) amountP) (\<lambda>out.
     cbind (if change > 0
            then cbind (DeriveChangeAddresses W account 1) (\<lambda>addresses.
                 cbind (cindex addresses 0) (\<lambda>addr.
                 cbind (address_output L addr (sr_AssetR swapRequest) change) (\<lambda>chg. cret [out, chg])))
            else cret [out]) (\<lambda>outputs.
     cbind (add_fees W L lbtc (DeriveChangeAddresses W FeeAccount 1) msatsPerByte
              (existingInputs, existingOutputs) inputs outputs) (\<lambda>(inputs, outputs, feeUtxos).
     cret (inputs, outputs, utxos @ feeUtxos, unlockTime)))))))))"

definition CompleteSwap :: "'w WalletService \<Rightarrow> elements \<Rightarrow> string \<Rightarrow> string \<Rightarrow> SwapRequest \<Rightarrow> u64 \<Rightarrow> bool
    \<Rightarrow> ('w, string \<times> WalletUtxo list \<times> i64) call" where
  "CompleteSwap W L lbtc account swapRequest msatsPerByte feesToAdd =
     cbind (swap_transaction W L lbtc account swapRequest msatsPerByte feesToAdd) (\<lambda>(inputs, outputs, utxos, unlockTime).
     cbind (UpdatePset W (sr_Transaction swapRequest) inputs outputs) (\<lambda>pset.
     cbind (BlindPset W pset (sr_UnblindedInputs swapRequest)) (\<lambda>blindedPset.
     cbind (SignPset W blindedPset False) (\<lambda>signedPset.
     cret (signedPset, utxos, unlockTime)))))"


section \<open>What the transactions move\<close>

abbreviation utxo_total :: "string \<Rightarrow> WalletUtxo list \<Rightarrow> u64" where
  "utxo_total \<equiv> asset_total wu_Asset wu_Value"

abbreviation output_total :: "string \<Rightarrow> TxOutput list \<Rightarrow> u64" where
  "output_total \<equiv> asset_total to_Asset to_Amount"

abbreviation entry_total :: "string \<Rightarrow> (string \<times> u64) list \<Rightarrow> u64" where
  "entry_total \<equiv> asset_total fst snd"

lemma asset_total_mset:
  assumes "mset xs = mset ys"
  shows "asset_total f g a xs = asset_total f g a ys"
proof -
  have "asset_total f g a zs = sum_mset (image_mset g (filter_mset (\<lambda>x. f x = a) (mset zs)))" for zs
    by (simp only: asset_total_def sum_mset_sum_list mset_filter [symmetric] mset_map [symmetric])
  with assms show ?thesis by simp
qed

lemma entry_total_not_key: "a \<notin> fst ` set m \<Longrightarrow> entry_total a m = 0"
  by (induction m) auto

lemma entry_total_put:
  "gm_ok m \<Longrightarrow> entry_total a (gm_put k v m) = (if a = k then v else entry_total a m)"
proof (induction k v m rule: gm_put.induct)
  case (2 k v k' v' m)
  then show ?case
    using entry_total_not_key [of k m] by (auto simp: gm_ok_def)
qed (auto simp: gm_ok_def)

lemma entry_total_amount: "gm_ok m \<Longrightarrow> entry_total a m = gm_amount m a"
proof (induction m)
  case (Cons e m)
  then show ?case
    using entry_total_not_key [of "fst e" m] by (cases e) (auto simp: gm_ok_def gm_amount_def)
qed simp

lemma totOutputAmountPerAsset_correct:
  "gm_ok (totOutputAmountPerAsset outs) \<and> entry_total a (totOutputAmountPerAsset outs) = output_total a outs"
proof -
  let ?f = "\<lambda>out tot. gm_put (to_Asset out) (gm_amount tot (to_Asset out) + to_Amount out) tot"
  have step: "gm_ok (?f out m) \<and> entry_total a (?f out m) = entry_total a m + output_total a [out]" if "gm_ok m" for out m
    using that by (auto simp: entry_total_put entry_total_amount [OF that])
  have "gm_ok m \<Longrightarrow> gm_ok (fold ?f outs m) \<and> entry_total a (fold ?f outs m) = entry_total a m + output_total a outs" for m
  proof (induction outs arbitrary: m)
    case (Cons out outs)
    from Cons.IH [of "?f out m"] step [OF Cons.prems, of out] show ?case
      by (simp add: add.assoc)
  qed simp
  from this [of "[]"] show ?thesis
    by (simp add: totOutputAmountPerAsset_def)
qed

lemma address_output_eq:
  "address_output L addr asset amount w = (w', Inr out) \<Longrightarrow> w' = w \<and> to_Asset out = asset \<and> to_Amount out = amount"
  by (auto simp: address_output_def call_simps)

lemma change_loop_total:
  "change_loop L addresses i es outputs w = (w', Inr outs) \<Longrightarrow>
   output_total a outs = output_total a outputs + entry_total a es \<and> prefix outputs outs"
proof (induction es arbitrary: i outputs w)
  case (Cons e es)
  obtain asset amount where e: "e = (asset, amount)" by (cases e)
  from Cons.prems obtain w1 addr w2 out where a: "address_output L addr asset amount w1 = (w2, Inr out)"
    and c: "change_loop L addresses (Suc i) es (outputs @ [out]) w2 = (w', Inr outs)"
    unfolding e change_loop.simps call_simps by blast
  from Cons.IH [OF c] address_output_eq [OF a] show ?case
    by (auto simp: e add.assoc dest: append_prefixD)
qed (simp add: call_simps)

lemma select_loop_total:
  assumes "selects_exactly W"
    and "select_loop W L account es (m, ins) w = (w', Inr (m', ins'))"
    and "gm_ok m" "distinct (map fst es)" "set (map fst es) \<inter> set (map fst m) = {}"
  shows "gm_ok m' \<and> (\<exists>utxos. ins' = ins @ map (coin_input L) utxos \<and>
    (\<forall>a. utxo_total a utxos + entry_total a m = entry_total a es + entry_total a m'))"
  using assms(2-)
proof (induction es arbitrary: m ins w)
  case Nil
  then show ?case by (auto simp: call_simps intro!: exI [of _ "[]"])
next
  case (Cons e es)
  obtain asset amount where e: "e = (asset, amount)" by (cases e)
  from Cons.prems(1) obtain w1 utxos change t where
    s: "SelectUtxos W account asset amount w = (w1, Inr (utxos, change, t))" and
    r: "select_loop W L account es (if change > 0 then gm_put asset change m else m, ins @ map (coin_input L) utxos) w1
          = (w', Inr (m', ins'))"
    by (auto simp: e call_simps)
  let ?m = "if change > 0 then gm_put asset change m else m"
  have ok: "gm_ok ?m" "set (map fst es) \<inter> set (map fst ?m) = {}"
  proof -
    have "set (map fst ?m) \<subseteq> insert asset (set (map fst m))"
      using set_keys_gm_put [of asset change m] by (simp add: subset_insertI)
    moreover have "asset \<notin> set (map fst es)" "set (map fst es) \<inter> set (map fst m) = {}"
      using Cons.prems(3,4) by (auto simp: e)
    ultimately show "set (map fst es) \<inter> set (map fst ?m) = {}" by blast
  qed (use Cons.prems(2) in simp)
  then obtain us where us: "gm_ok m'" "ins' = (ins @ map (coin_input L) utxos) @ map (coin_input L) us"
    "\<forall>a. utxo_total a us + entry_total a ?m = entry_total a es + entry_total a m'"
    using Cons.IH [OF r] Cons.prems(3) by (auto simp: e)
  have new: "entry_total a m = 0" if "a = asset" for a
    using Cons.prems(4) that by (intro entry_total_not_key) (auto simp: e)
  have "utxo_total a (utxos @ us) + entry_total a m = entry_total a (e # es) + entry_total a m'" for a
  proof -
    have "utxo_total a utxos = (if a = asset then amount + change else 0)"
      by (rule selects_exactly_total [OF assms(1) s])
    moreover have "entry_total a ?m = (if a = asset then change else entry_total a m)"
      using Cons.prems(2) new by (auto simp: entry_total_put word_gt_0)
    ultimately show ?thesis
      using us(3) [rule_format, of a] new [of a] by (auto simp: e algebra_simps)
  qed
  with us(1,2) show ?case
    by (intro conjI exI [of _ "utxos @ us"]) auto
qed

text \<open>The fee stage adds as much of the native asset as it spends, whatever the two estimates are.\<close>

lemma add_fees_cases:
  assumes "add_fees W L lbtc derive msats ex inputs outputs w = (w', Inr (ins, outs, feeUtxos))"
  obtains w1 fee w2 change t where
    "SelectUtxos W FeeAccount lbtc (fee + 150) w1 = (w2, Inr (feeUtxos, change, t))"
    "ins = inputs @ map (fee_input L) feeUtxos"
    "if change > 0 then \<exists>out feeAmount. to_Asset out = lbtc \<and> to_Amount out = change \<and>
        outs = outputs @ [out\<lparr>to_Amount := to_Amount out + (fee + 150 - feeAmount)\<rparr>,
          \<lparr>to_Asset = lbtc, to_Amount = feeAmount, to_Script = '''', to_BlindingKey = ''''\<rparr>]
      else outs = outputs @ [\<lparr>to_Asset = lbtc, to_Amount = fee + 150, to_Script = '''', to_BlindingKey = ''''\<rparr>]"
proof -
  from assms obtain w1 fee w2 us change t where
    s: "SelectUtxos W FeeAccount lbtc (fee + 150) w1 = (w2, Inr (us, change, t))" and
    rest: "(if change > 0 then
       cbind derive (\<lambda>addresses. cbind (cindex addresses 0) (\<lambda>addr. cbind (address_output L addr lbtc change) (\<lambda>out.
       cbind (EstimateFees W (fst ex @ inputs @ map (fee_input L) us) (snd ex @ outputs @ [out]) msats) (\<lambda>feeAmount.
         cret (inputs @ map (fee_input L) us, outputs @ [out\<lparr>to_Amount := to_Amount out + (fee + 150 - feeAmount)\<rparr>] @
           [\<lparr>to_Asset = lbtc, to_Amount = feeAmount, to_Script = '''', to_BlindingKey = ''''\<rparr>], us)))))
     else cret (inputs @ map (fee_input L) us,
       outputs @ [\<lparr>to_Asset = lbtc, to_Amount = fee + 150, to_Script = '''', to_BlindingKey = ''''\<rparr>], us)) w2
     = (w', Inr (ins, outs, feeUtxos))"
    unfolding add_fees_def Let_def cbind_eq split_paired_Ex prod.case by blast
  show thesis
  proof (cases "change > 0")
    case True
    with rest obtain w3 addr w4 out feeAmount where
      a: "address_output L addr lbtc change w3 = (w4 :: 'a, Inr out)" and
      "(ins, outs, feeUtxos) = (inputs @ map (fee_input L) us, outputs @ [out\<lparr>to_Amount := to_Amount out + (fee + 150 - feeAmount)\<rparr>] @
           [\<lparr>to_Asset = lbtc, to_Amount = feeAmount, to_Script = '''', to_BlindingKey = ''''\<rparr>], us)"
      by (simp only: if_True cbind_eq cindex_eq cret_eq) (elim exE conjE, blast)
    with True s address_output_eq [OF a] show thesis
      by (intro that [of fee w1 w2 change t]) (simp_all, blast)
  next
    case False
    with rest s show thesis by (intro that) (auto simp: call_simps)
  qed
qed

lemma add_fees_total:
  assumes "selects_exactly W"
    and "add_fees W L lbtc derive msats ex inputs outputs w = (w', Inr (ins, outs, feeUtxos))"
  shows "ins = inputs @ map (fee_input L) feeUtxos \<and>
    output_total a outs = output_total a outputs + utxo_total a feeUtxos \<and> prefix outputs outs"
proof -
  from assms(2) obtain w1 fee w2 change t where
    s: "SelectUtxos W FeeAccount lbtc (fee + 150) w1 = (w2, Inr (feeUtxos, change, t))" and
    i: "ins = inputs @ map (fee_input L) feeUtxos" and
    outs: "if change > 0 then \<exists>out feeAmount. to_Asset out = lbtc \<and> to_Amount out = change \<and>
        outs = outputs @ [out\<lparr>to_Amount := to_Amount out + (fee + 150 - feeAmount)\<rparr>,
          \<lparr>to_Asset = lbtc, to_Amount = feeAmount, to_Script = '''', to_BlindingKey = ''''\<rparr>]
      else outs = outputs @ [\<lparr>to_Asset = lbtc, to_Amount = fee + 150, to_Script = '''', to_BlindingKey = ''''\<rparr>]"
    by (rule add_fees_cases)
  show ?thesis
  proof (cases "change = 0")
    case True
    then show ?thesis
      using i outs selects_exactly_total [OF assms(1) s, of a] by auto
  next
    case False
    then have "change > 0" by (simp add: word_gt_0)
    with outs obtain out feeAmount where "to_Asset out = lbtc" "to_Amount out = change"
       "outs = outputs @ [out\<lparr>to_Amount := to_Amount out + (fee + 150 - feeAmount)\<rparr>,
         \<lparr>to_Asset = lbtc, to_Amount = feeAmount, to_Script = '''', to_BlindingKey = ''''\<rparr>]"
      by (simp only: if_True) blast
    then show ?thesis
      using i selects_exactly_total [OF assms(1) s, of a] by auto
  qed
qed


lemma visits_all_distinct: "visits_all ord \<Longrightarrow> distinct (map fst (ord m)) = distinct (map fst m)"
  by (rule mset_eq_imp_distinct_iff) (simp add: visits_all_def)

lemma send_transaction_balanced:
  assumes "selects_exactly W" "visits_all ord1" "visits_all ord2"
    and "send_transaction W L lbtc ord1 ord2 account outs msats w = (w', Inr (ins, outs'))"
  shows "\<exists>utxos fees. ins = map (coin_input L) utxos @ map (fee_input L) fees \<and> prefix outs outs'
    \<and> (\<forall>a. utxo_total a (utxos @ fees) = output_total a outs')"
proof -
  let ?tot = "totOutputAmountPerAsset outs"
  from assms(4) obtain w1 m ins0 w2 outs0 fees where
    s: "select_loop W L account (ord1 ?tot) ([], []) w = (w1, Inr (m, ins0))" and
    c: "(if length m > 0 then cbind (DeriveChangeAddresses W account (int (length m)))
           (\<lambda>addresses. change_loop L addresses 0 (ord2 m) outs) else cret outs) w1 = (w2, Inr outs0)" and
    f: "add_fees W L lbtc (DeriveAddresses W FeeAccount 1) msats ([], []) ins0 outs0 w2 = (w', Inr (ins, outs', fees))"
    unfolding send_transaction_def Let_def by (auto simp: cbind_eq cret_eq)
  have "distinct (map fst (ord1 ?tot))"
    using totOutputAmountPerAsset_correct [of outs] visits_all_distinct [OF assms(2)] by (simp add: gm_ok_def)
  with select_loop_total [OF assms(1) s] obtain utxos where
    u: "gm_ok m" "ins0 = map (coin_input L) utxos" "\<forall>a. utxo_total a utxos = entry_total a (ord1 ?tot) + entry_total a m"
    by auto
  have o1: "output_total a outs0 = output_total a outs + entry_total a m \<and> prefix outs outs0" for a
  proof (cases "m = []")
    case False
    then obtain addresses w3 where "change_loop L addresses 0 (ord2 m) outs w3 = (w2, Inr outs0)"
      using c by (auto simp: cbind_eq)
    from change_loop_total [OF this, of a] show ?thesis
      using asset_total_mset [of "ord2 m" m fst snd a] assms(3) by (simp add: visits_all_def)
  qed (use c in \<open>simp add: call_simps\<close>)
  have o2: "entry_total a (ord1 ?tot) = output_total a outs" for a
    using asset_total_mset [of "ord1 ?tot" ?tot fst snd a] assms(2) totOutputAmountPerAsset_correct [of outs a]
    by (simp add: visits_all_def)
  show ?thesis
    using add_fees_total [OF assms(1) f] o1 u(2,3) o2
    by (intro exI [of _ utxos] exI [of _ fees]) (auto intro: prefix_order.trans)
qed

lemma swap_transaction_balanced:
  assumes "selects_exactly W"
    and "swap_transaction W L lbtc account r msats feesToAdd w = (w', Inr (ins, outs, utxos, unlock))"
  shows "\<exists>coins fees. utxos = coins @ fees \<and> ins = map (coin_input L) coins @ map (fee_input L) fees
    \<and> (\<forall>a. utxo_total a utxos + (if a = sr_AssetP r then received_amount r feesToAdd else 0)
         = output_total a outs + (if a = sr_AssetR r then paid_amount r feesToAdd else 0))"
proof -
  from assms(2) obtain w1 w2 coins change t w3 addr w4 out w5 w6 outs0 ex fees where
    s: "SelectUtxos W account (sr_AssetR r) (paid_amount r feesToAdd) w1 = (w2, Inr (coins, change, t))" and
    a: "address_output L addr (sr_AssetP r) (received_amount r feesToAdd) w3 = (w4 :: 'a, Inr out)" and
    c: "(if change > 0 then cbind (DeriveChangeAddresses W account 1) (\<lambda>addresses. cbind (cindex addresses 0)
           (\<lambda>addr. cbind (address_output L addr (sr_AssetR r) change) (\<lambda>chg. cret [out, chg])))
         else cret [out]) w4 = (w5, Inr outs0)" and
    f: "add_fees W L lbtc (DeriveChangeAddresses W FeeAccount 1) msats ex (map (coin_input L) coins) outs0 w5
          = (w6, Inr (ins, outs, fees))" and
    u: "utxos = coins @ fees"
    unfolding swap_transaction_def Let_def by (auto simp: cbind_eq cret_eq)
  have o: "output_total b outs0 = (if b = sr_AssetP r then received_amount r feesToAdd else 0)
      + (if b = sr_AssetR r then change else 0)" for b
  proof (cases "change > 0")
    case True
    with c obtain addr2 w7 w8 chg where "address_output L addr2 (sr_AssetR r) change w7 = (w8 :: 'a, Inr chg)"
      "outs0 = [out, chg]"
      by (auto simp: cbind_eq cret_eq)
    with address_output_eq [of L addr2 "sr_AssetR r" change w7 w8 chg] address_output_eq [OF a] show ?thesis
      by auto
  next
    case False
    with c address_output_eq [OF a] show ?thesis
      by (auto simp: cret_eq word_gt_0)
  qed
  show ?thesis
    using add_fees_total [OF assms(1) f] selects_exactly_total [OF assms(1) s] o u
    by (intro exI [of _ coins] exI [of _ fees]) (auto simp: algebra_simps)
qed



text \<open>
  C27. Completing a swap moves exactly the amounts agreed: when \<open>CompleteSwap\<close> succeeds, the inputs it
  added to the proposer's transaction spend the coins it returns, and for every asset those coins
  plus what the market receives are the outputs it added plus what the market pays; the fee
  is paid by coins of the fee account (modulo the width of the amounts).
\<close>

theorem CompleteSwap_balanced:
  assumes "selects_exactly W"
    and "CompleteSwap W L lbtc account r msats feesToAdd w = (w', Inr (signedPset, utxos, unlock))"
  shows "\<exists>ins outs coins fees w1 w2 pset. UpdatePset W (sr_Transaction r) ins outs w1 = (w2, Inr pset)
    \<and> utxos = coins @ fees \<and> ins = map (coin_input L) coins @ map (fee_input L) fees
    \<and> (\<forall>a. utxo_total a utxos + (if a = sr_AssetP r then received_amount r feesToAdd else 0)
         = output_total a outs + (if a = sr_AssetR r then paid_amount r feesToAdd else 0))"
proof -
  from assms(2) obtain ins outs w1 w2 pset where
    t: "swap_transaction W L lbtc account r msats feesToAdd w = (w1, Inr (ins, outs, utxos, unlock))" and
    p: "UpdatePset W (sr_Transaction r) ins outs w1 = (w2, Inr pset)"
    by (auto simp: CompleteSwap_def call_simps)
  from swap_transaction_balanced [OF assms(1) t] p show ?thesis
    by blast
qed


section \<open>Examples\<close>

definition ex_coin :: "string \<Rightarrow> u64 \<Rightarrow> WalletUtxo" where
  "ex_coin asset v = \<lparr>wu_Txid = ''t'', wu_Index = 0, wu_Asset = asset, wu_Value = v, wu_Script = '''',
     wu_AssetBlinder = '''', wu_ValueBlinder = '''', wu_ConfirmedStatus = None, wu_SpentStatus = None,
     wu_RedeemScript = ''''\<rparr>"

text \<open>A wallet whose coins always exceed the amount by 5.\<close>

definition ex_wallet :: "unit WalletService" where
  "ex_wallet = \<lparr>Auth = (\<lambda>p. cret (p = ''password'')), WalletAccounts = cret [],
     CreateAccount = (\<lambda>name _. cret \<lparr>wa_Namespace = ''ns'', wa_Label = name, wa_DerivationPath = '''', wa_Xpubs = [],
       wa_MasterBlindingKey = ''00''\<rparr>), DeriveAddresses = (\<lambda>_ n. cret (replicate (nat n) ''addr'')),
     DeriveChangeAddresses = (\<lambda>_ n. cret (replicate (nat n) ''change'')), ListAddresses = (\<lambda>_. cret []),
     GetBalance = (\<lambda>_. cret []), ListUtxos = (\<lambda>_. cret ([], [])), DeleteAccount = (\<lambda>_. cret ()),
     GetTransaction = (\<lambda>_. cret ''''),
     EstimateFees = (\<lambda>ins outs _. cret (of_nat (length ins + length outs))),
     SelectUtxos = (\<lambda>_ asset amount. cret ([ex_coin asset (amount + 5)], 5, 1000)),
     CreatePset = (\<lambda>_ _. cret ''pset''), UpdatePset = (\<lambda>_ _ _. cret ''pset''), BlindPset = (\<lambda>_ _. cret ''blinded''),
     SignPset = (\<lambda>_ _. cret ''signed''), Transfer = (\<lambda>_ _ _. cret ''txhex''), BroadcastTransaction = (\<lambda>_. cret ''txid'')\<rparr>"

definition ex_elements :: elements where
  "ex_elements = \<lparr>TxIDToBytes = (\<lambda>_. [1]), TxIDFromBytes = (\<lambda>_. ''t''), ReverseBytes = rev,
     FromConfidential = (\<lambda>_. Some \<lparr>ai_Script = [0], ai_BlindingKey = [2]\<rparr>),
     NewPsetFromBase64 = (\<lambda>_. Some \<lparr>ps_Inputs = [\<lparr>pi_PreviousTxid = [7], pi_PreviousTxIndex = 0, pi_RedeemScript = [],
       pi_WitnessScript = [1], pi_UtxoScript = Some [3]\<rparr>], ps_Outputs = []\<rparr>), NewTxFromHex = (\<lambda>_. None), TxHash = (\<lambda>_. ''hash''),
     ToOutputScript = (\<lambda>_. [0]), ValueFromBytes = (\<lambda>_. 0), SLIP77DeriveKey = (\<lambda>k _. Some k),
     UnblindOutputWithKey = (\<lambda>_ _. None)\<rparr>"

lemma ex_wallet_exact: "selects_exactly ex_wallet"
  by (simp add: selects_exactly_def ex_wallet_def call_simps ex_coin_def)

definition ex_outs :: "TxOutput list" where
  "ex_outs = [\<lparr>to_Asset = ''a'', to_Amount = 10, to_Script = ''s'', to_BlindingKey = ''k''\<rparr>,
     \<lparr>to_Asset = ''b'', to_Amount = 20, to_Script = ''s'', to_BlindingKey = ''k''\<rparr>]"


definition ex_swap :: SwapRequest where
  "ex_swap = \<lparr>sr_Id = ''i'', sr_AssetP = ''p'', sr_AssetR = ''r'', sr_AmountP = 70, sr_AmountR = 30,
     sr_Transaction = ''tx'', sr_FeeAsset = ''p'', sr_FeeAmount = 3, sr_UnblindedInputs = []\<rparr>"

theorem CompleteSwap_balanced_witness:
  "CompleteSwap ex_wallet ex_elements ''l'' ''acc'' ex_swap 100 True ()
     = ((), Inr (''signed'', [ex_coin ''r'' 35, ex_coin ''l'' 159], 1000)) \<and>
   (\<exists>ins outs coins fees w1 w2 pset. UpdatePset ex_wallet (sr_Transaction ex_swap) ins outs w1 = (w2, Inr pset)
    \<and> [ex_coin ''r'' 35, ex_coin ''l'' 159] = coins @ fees
    \<and> ins = map (coin_input ex_elements) coins @ map (fee_input ex_elements) fees
    \<and> (\<forall>a. utxo_total a [ex_coin ''r'' 35, ex_coin ''l'' 159] + (if a = sr_AssetP ex_swap then received_amount ex_swap True else 0)
         = output_total a outs + (if a = sr_AssetR ex_swap then paid_amount ex_swap True else 0)))"
proof -
  have run: "CompleteSwap ex_wallet ex_elements ''l'' ''acc'' ex_swap 100 True ()
     = ((), Inr (''signed'', [ex_coin ''r'' 35, ex_coin ''l'' 159], 1000))"
    by code_simp
  from CompleteSwap_balanced [OF ex_wallet_exact run] run show ?thesis
    by (rule conjI [rotated])
qed

end
