(* ===== verification/Notifications.thy ===== *)
theory Notifications
  imports Wallet
begin

text \<open>
  The notification queues of \<open>internal/core/application/wallet\<close> (\<open>types.go\<close>, \<open>service.go\<close>): handlers
  wait in a queue, each notification is given to every handler that was in the queue when it
  arrived, and those that do not report to be done are put back. A handler is a value \<open>h\<close> with a
  behaviour \<open>run h notification\<close> on the state of the application. First one listener by itself, as
  functions; then the listener interleaved with registrations of other goroutines, as a step
  relation.
\<close>

section \<open>Definitions\<close>

definition queue_len :: "'h list \<Rightarrow> nat" where
  "queue_len q = length q"

definition pushBack :: "'h \<Rightarrow> 'h list \<Rightarrow> 'h list" where
  "pushBack h q = q @ [h]"

definition pop :: "'h list \<Rightarrow> 'h option \<times> 'h list" where
  "pop q = (if length q \<le> 0 then (None, q) else (Some (q ! 0), drop 1 q))"

definition RegisterHandlerForTxEvent :: "'h \<Rightarrow> 'h list \<Rightarrow> 'h list" where
  "RegisterHandlerForTxEvent h q = pushBack h q"

definition RegisterHandlerForUtxoEvent :: "'h \<Rightarrow> 'h list \<Rightarrow> 'h list" where
  "RegisterHandlerForUtxoEvent h q = pushBack h q"

text \<open>The inner loop: as many turns as there were handlers; calling a nil handler panics.\<close>

fun handle_loop :: "('h \<Rightarrow> 'n \<Rightarrow> 's \<Rightarrow> 's \<times> bool) \<Rightarrow> 'n \<Rightarrow> nat \<Rightarrow> 'h list \<Rightarrow> 'h list \<Rightarrow> 's
    \<Rightarrow> ('h list \<times> 'h list \<times> 's) res" where
  "handle_loop run n 0 q toRepeat s = Inr (q, toRepeat, s)"
| "handle_loop run n (Suc k) q toRepeat s = (case pop q of
     (None, q) \<Rightarrow> Inl nil_deref
   | (Some handler, q) \<Rightarrow>
       (let (s, isDone) = run handler n s
        in handle_loop run n k q (if \<not> isDone then toRepeat @ [handler] else toRepeat) s))"

definition handle_notification :: "('h \<Rightarrow> 'n \<Rightarrow> 's \<Rightarrow> 's \<times> bool) \<Rightarrow> 'n \<Rightarrow> 'h list \<Rightarrow> 's \<Rightarrow> ('h list \<times> 's) res" where
  "handle_notification run n q s =
     (let numHandlers = queue_len q
      in rbind (handle_loop run n numHandlers q [] s) (\<lambda>(q, toRepeat, s). Inr (fold pushBack toRepeat q, s)))"

text \<open>The loops over the channels, for the notifications received so far.\<close>

fun listenToTxNotifications :: "('h \<Rightarrow> WalletTxNotification \<Rightarrow> 's \<Rightarrow> 's \<times> bool) \<Rightarrow> WalletTxNotification list
    \<Rightarrow> 'h list \<Rightarrow> 's \<Rightarrow> ('h list \<times> 's) res" where
  "listenToTxNotifications run [] q s = Inr (q, s)"
| "listenToTxNotifications run (n # ns) q s =
     rbind (handle_notification run n q s) (\<lambda>(q, s). listenToTxNotifications run ns q s)"

fun listenToUtxoNotifications :: "('h \<Rightarrow> WalletUtxoNotification \<Rightarrow> 's \<Rightarrow> 's \<times> bool) \<Rightarrow> WalletUtxoNotification list
    \<Rightarrow> 'h list \<Rightarrow> 's \<Rightarrow> ('h list \<times> 's) res" where
  "listenToUtxoNotifications run [] q s = Inr (q, s)"
| "listenToUtxoNotifications run (n # ns) q s =
     rbind (handle_notification run n q s) (\<lambda>(q, s). listenToUtxoNotifications run ns q s)"

section \<open>The queue as a contract\<close>

text \<open>What the listener relies on of its queue: first in, first out.\<close>

locale fifo =
  fixes push :: "'h \<Rightarrow> 'q \<Rightarrow> 'q" and popq :: "'q \<Rightarrow> 'h option \<times> 'q" and contents :: "'q \<Rightarrow> 'h list"
  assumes contents_push: "contents (push h q) = contents q @ [h]"
    and popq_empty: "contents q = [] \<Longrightarrow> popq q = (None, q)"
    and popq_head: "contents q = h # hs \<Longrightarrow> \<exists>q'. popq q = (Some h, q') \<and> contents q' = hs"
begin

lemma contents_push_all: "contents (fold push hs q) = contents q @ hs"
  by (induction hs arbitrary: q) (simp_all add: contents_push)

lemma popq_None_iff: "fst (popq q) = None \<longleftrightarrow> contents q = []"
proof (cases "contents q")
  case (Cons h hs)
  with popq_head [OF Cons] show ?thesis by auto
qed (simp add: popq_empty)

end

interpretation handlers: fifo pushBack pop "\<lambda>q. q"
  by unfold_locales (auto simp: pushBack_def pop_def)

lemma pop_Cons [simp]: "pop (h # q) = (Some h, q)"
  by (simp add: pop_def)

section \<open>One listener\<close>

text \<open>What a notification does: every handler sees it, in order; those not done stay.\<close>

fun deliver :: "('h \<Rightarrow> 'n \<Rightarrow> 's \<Rightarrow> 's \<times> bool) \<Rightarrow> 'n \<Rightarrow> 'h list \<Rightarrow> 's \<Rightarrow> 'h list \<times> 's" where
  "deliver run n [] s = ([], s)"
| "deliver run n (h # hs) s = (case run h n s of (s, isDone) \<Rightarrow>
     case deliver run n hs s of (rest, s) \<Rightarrow> (if isDone then rest else h # rest, s))"

lemma handle_loop_deliver:
  "handle_loop run n (length hs) (hs @ q) rep s =
     Inr (q, rep @ fst (deliver run n hs s), snd (deliver run n hs s))"
  by (induction hs arbitrary: rep s) (auto split: prod.splits)

lemma handle_notification_deliver: "handle_notification run n q s = Inr (deliver run n q s)"
  using handle_loop_deliver [of run n q "[]" "[]" s]
  by (simp add: handle_notification_def queue_len_def handlers.contents_push_all)

text \<open>
  C28. Notifications are delivered completely: the listener never calls a missing handler, and after
  any sequence of notifications the queue and the state are those of giving every notification,
  in order, to every waiting handler in order, each handler until it reports to be done.
\<close>

theorem listenToUtxoNotifications_delivers:
  "listenToUtxoNotifications run ns q s = Inr (fold (\<lambda>n (q, s). deliver run n q s) ns (q, s))"
  by (induction ns arbitrary: q s) (auto simp: handle_notification_deliver split: prod.splits)

lemma listenToTxNotifications_delivers:
  "listenToTxNotifications run ns q s = Inr (fold (\<lambda>n (q, s). deliver run n q s) ns (q, s))"
  by (induction ns arbitrary: q s) (auto simp: handle_notification_deliver split: prod.splits)

section \<open>The listener among other goroutines\<close>

text \<open>
  The listener waits, runs handlers (so many are left, these are to be repeated) or puts handlers
  back. \<open>lis_registered\<close> and \<open>lis_done\<close> record what was registered and what was done.
\<close>

datatype ('h, 'n) phase = Waiting | Running 'n nat "'h list" | Requeuing "'h list"

record ('h, 'n, 's) listener =
  lis_queue :: "'h list"
  lis_phase :: "('h, 'n) phase"
  lis_state :: 's
  lis_registered :: "'h list"
  lis_done :: "'h list"

inductive lis_step :: "('h \<Rightarrow> 'n \<Rightarrow> 's \<Rightarrow> 's \<times> bool) \<Rightarrow> ('h, 'n, 's) listener \<Rightarrow> ('h, 'n, 's) listener \<Rightarrow> bool"
  for run where
  register: "lis_step run l (l\<lparr>lis_queue := pushBack h (lis_queue l), lis_registered := lis_registered l @ [h]\<rparr>)"
| receive: "lis_phase l = Waiting \<Longrightarrow> lis_step run l (l\<lparr>lis_phase := Running n (queue_len (lis_queue l)) []\<rparr>)"
| handle: "lis_phase l = Running n (Suc k) rep \<Longrightarrow> pop (lis_queue l) = (Some h, q) \<Longrightarrow> run h n (lis_state l) = (s, isDone) \<Longrightarrow>
    lis_step run l (l\<lparr>lis_queue := q, lis_phase := Running n k (if isDone then rep else rep @ [h]), lis_state := s,
      lis_done := (if isDone then lis_done l @ [h] else lis_done l)\<rparr>)"
| requeue: "lis_phase l = Running n 0 rep \<Longrightarrow> lis_step run l (l\<lparr>lis_phase := Requeuing rep\<rparr>)"
| put_back: "lis_phase l = Requeuing (h # hs) \<Longrightarrow>
    lis_step run l (l\<lparr>lis_queue := pushBack h (lis_queue l), lis_phase := Requeuing hs\<rparr>)"
| wait: "lis_phase l = Requeuing [] \<Longrightarrow> lis_step run l (l\<lparr>lis_phase := Waiting\<rparr>)"

inductive lis_reachable :: "('h \<Rightarrow> 'n \<Rightarrow> 's \<Rightarrow> 's \<times> bool) \<Rightarrow> ('h, 'n, 's) listener \<Rightarrow> bool" for run where
  init: "lis_reachable run \<lparr>lis_queue = [], lis_phase = Waiting, lis_state = s, lis_registered = [], lis_done = []\<rparr>"
| step: "lis_reachable run l \<Longrightarrow> lis_step run l l' \<Longrightarrow> lis_reachable run l'"

fun held :: "('h, 'n) phase \<Rightarrow> 'h list" where
  "held Waiting = []"
| "held (Running n k rep) = rep"
| "held (Requeuing rep) = rep"

fun enough :: "('h, 'n) phase \<Rightarrow> 'h list \<Rightarrow> bool" where
  "enough (Running n k rep) q \<longleftrightarrow> k \<le> length q"
| "enough _ q \<longleftrightarrow> True"

lemma lis_step_inv:
  assumes "lis_step run l l'"
    "mset (lis_registered l) = mset (lis_queue l) + mset (held (lis_phase l)) + mset (lis_done l)"
    "enough (lis_phase l) (lis_queue l)"
  shows "mset (lis_registered l') = mset (lis_queue l') + mset (held (lis_phase l')) + mset (lis_done l')
    \<and> enough (lis_phase l') (lis_queue l')"
  using assms
proof (cases rule: lis_step.cases)
  case (register h)
  then show ?thesis using assms(2,3) by (cases "lis_phase l") (auto simp: pushBack_def)
next
  case (handle n k rep h q s isDone)
  then have "lis_queue l = h # q" by (cases "lis_queue l") (auto simp: pop_def)
  with handle assms(2,3) show ?thesis by auto
qed (use assms(2,3) in \<open>auto simp: pushBack_def queue_len_def\<close>)

lemma lis_reachable_inv:
  "lis_reachable run l \<Longrightarrow> mset (lis_registered l) = mset (lis_queue l) + mset (held (lis_phase l)) + mset (lis_done l)
    \<and> enough (lis_phase l) (lis_queue l)"
proof (induction rule: lis_reachable.induct)
  case (step l l')
  then show ?case using lis_step_inv [OF step(2)] by blast
qed simp


text \<open>The steps left to the listener before it waits again; a registration adds none.\<close>

definition turns_left :: "('h, 'n, 's) listener \<Rightarrow> nat" where
  "turns_left l = (case lis_phase l of Waiting \<Rightarrow> 0 | Running n k rep \<Rightarrow> 2 * k + length rep + 2 | Requeuing rep \<Rightarrow> length rep + 1)"

text \<open>
  A notification is dealt with in bounded time: until the listener waits again, each of its own
  steps brings it closer (by \<open>turns_left\<close>), registrations do not delay it, and it always has a step
  to take.
\<close>

lemma listener_round_terminates:
  assumes "lis_reachable run l"
  shows "(lis_phase l \<noteq> Waiting \<longrightarrow> (\<exists>l'. lis_step run l l' \<and> turns_left l' < turns_left l \<and> lis_registered l' = lis_registered l))
    \<and> (\<forall>l'. lis_step run l l' \<longrightarrow> lis_phase l \<noteq> Waiting \<longrightarrow>
         turns_left l' < turns_left l \<or> turns_left l' = turns_left l \<and> length (lis_registered l') = Suc (length (lis_registered l)))"
proof (intro conjI impI allI)
  assume "lis_phase l \<noteq> Waiting"
  then show "\<exists>l'. lis_step run l l' \<and> turns_left l' < turns_left l \<and> lis_registered l' = lis_registered l"
  proof (cases "lis_phase l")
    case (Running n k rep)
    show ?thesis
    proof (cases k)
      case 0
      with Running lis_step.requeue [of l n rep run] show ?thesis
        by (intro exI [of _ "l\<lparr>lis_phase := Requeuing rep\<rparr>"]) (auto simp: turns_left_def)
    next
      case (Suc j)
      then obtain h q where p: "pop (lis_queue l) = (Some h, q)"
        using lis_reachable_inv [OF assms] Running by (cases "lis_queue l") auto
      obtain s d where r: "run h n (lis_state l) = (s, d)" by (cases "run h n (lis_state l)")
      let ?l = "l\<lparr>lis_queue := q, lis_phase := Running n j (if d then rep else rep @ [h]), lis_state := s,
        lis_done := (if d then lis_done l @ [h] else lis_done l)\<rparr>"
      have "lis_step run l ?l"
        by (rule lis_step.handle) (use Running Suc p r in simp_all)
      with Running Suc show ?thesis
        by (intro exI [of _ ?l]) (auto simp: turns_left_def)
    qed
  next
    case (Requeuing rep)
    with lis_step.put_back [of l _ _ run] lis_step.wait [of l run] show ?thesis
      by (cases rep) (fastforce simp: turns_left_def)+
  qed simp
next
  fix l'
  assume "lis_step run l l'" "lis_phase l \<noteq> Waiting"
  then show "turns_left l' < turns_left l \<or> turns_left l' = turns_left l \<and> length (lis_registered l') = Suc (length (lis_registered l))"
    by (cases rule: lis_step.cases) (auto simp: turns_left_def)
qed


section \<open>Examples\<close>

text \<open>A handler \<open>h\<close> waits for the notification \<open>h\<close>. Two are registered, the second while the first notification is handled.\<close>

definition ex_handler :: "nat \<Rightarrow> nat \<Rightarrow> nat \<Rightarrow> nat \<times> bool" where
  "ex_handler h n s = (s + 1, h = n)"

definition ex_listener :: "(nat, nat, nat) listener" where
  "ex_listener = \<lparr>lis_queue = [3, 4], lis_phase = Running 7 1 [], lis_state = 0, lis_registered = [3, 4], lis_done = []\<rparr>"

lemma ex_listener_reachable: "lis_reachable ex_handler ex_listener"
proof -
  let ?l0 = "\<lparr>lis_queue = [], lis_phase = Waiting, lis_state = 0, lis_registered = [], lis_done = []\<rparr> :: (nat, nat, nat) listener"
  have "lis_reachable ex_handler (?l0\<lparr>lis_queue := [3], lis_registered := [3]\<rparr>)"
    using lis_reachable.step [OF lis_reachable.init lis_step.register, of ex_handler 0 3] by (simp add: pushBack_def)
  from lis_reachable.step [OF this lis_step.receive, of 7]
  have "lis_reachable ex_handler (?l0\<lparr>lis_queue := [3], lis_registered := [3], lis_phase := Running 7 1 []\<rparr>)"
    by (simp add: queue_len_def)
  from lis_reachable.step [OF this lis_step.register, of 4] show ?thesis
    by (simp add: ex_listener_def pushBack_def)
qed


lemma listener_round_terminates_example:
  "lis_reachable ex_handler ex_listener \<and> (\<exists>l'. lis_step ex_handler ex_listener l' \<and> turns_left l' < 4)"
proof -
  have "lis_phase ex_listener \<noteq> Waiting" "turns_left ex_listener = 4"
    by (simp_all add: ex_listener_def turns_left_def)
  with listener_round_terminates [OF ex_listener_reachable] ex_listener_reachable show ?thesis
    by auto
qed

end
