(* ===== verification/Market_Preview.thy ===== *)
theory Market_Preview
  imports Market
begin

text \<open>
  What \<open>Market.Preview\<close>, \<open>Market.SpotPrice\<close> and \<open>Market.previewFees\<close> compute: amounts and fees
  against exact arithmetic, the reserves a preview respects, the branches of each error. The lemmas
  rest on the contract of a formula (\<open>making_formula\<close>) and not on either formula.
\<close>

section \<open>Lemmas\<close>

lemma unat_le_8: "p \<le> (8 :: u64) \<Longrightarrow> unat p \<le> 8"
  by (simp add: word_le_nat_alt)

lemma uint_pow10: "p \<le> (8 :: u64) \<Longrightarrow> uint (pow10 p) = 10 ^ unat p"
proof -
  assume "p \<le> 8"
  then have "unat p \<le> 8" by (rule unat_le_8)
  then have "(10 :: int) ^ unat p \<le> 10 ^ 8"
    by (rule power_increasing) simp
  then have "(10 :: int) ^ unat p < 2 ^ 64"
    by (rule le_less_trans) simp
  then show ?thesis
    unfolding pow10_def by (intro word_of_int_inverse) (simp_all flip: word_of_int_power_hom)
qed

text \<open>Satoshis to units is exact: at most 8 decimals are needed and 8 are kept.\<close>

lemma round_to_units:
  assumes "k \<le> 8"
  shows "round_to 8 (of_int n / 10 ^ k) = of_int n / 10 ^ k"
proof -
  have e: "(10 :: rat) ^ 8 = 10 ^ (8 - k) * 10 ^ k"
    using assms by (simp flip: power_add)
  have "of_int n / 10 ^ k = (of_int n * 10 ^ (8 - k) / (10 ^ (8 - k) * 10 ^ k) :: rat)"
    by simp
  then have "of_int n / 10 ^ k = (of_int (n * 10 ^ (8 - k)) / 10 ^ 8 :: rat)"
    by (simp only: e of_int_mult of_int_power of_int_numeral)
  then show ?thesis
    by (simp only: round_to_scaled)
qed

text \<open>\<open>units x p\<close>: the amount \<open>x\<close> of satoshis of an asset of precision \<open>p\<close>, in units of the asset.\<close>

definition units :: "u64 \<Rightarrow> u64 \<Rightarrow> rat" where
  "units x p = of_int (uint x) / 10 ^ unat p"

lemma units_nonneg [simp]: "0 \<le> units x p"
  by (simp add: units_def)

lemma units_less_iff: "units x p < units y p \<longleftrightarrow> x < y"
proof -
  have "(of_int (uint x) :: rat) / 10 ^ unat p < of_int (uint y) / 10 ^ unat p \<longleftrightarrow> uint x < uint y"
    by (simp only: divide_less_cancel of_int_less_iff) simp
  then show ?thesis
    by (simp only: units_def word_less_def)
qed

lemma big_Uint64_below_units:
  assumes "0 < v" and "v < units x p"
  shows "big_Uint64 (trunc_rat (v * 10 ^ unat p)) < x"
proof -
  have "v * 10 ^ unat p < of_int (uint x)"
    using assms(2) by (simp add: units_def pos_less_divide_eq)
  moreover have "0 \<le> v * 10 ^ unat p"
    using assms(1) by simp
  ultimately have "0 \<le> trunc_rat (v * 10 ^ unat p)" "trunc_rat (v * 10 ^ unat p) < uint x"
    by (simp_all add: trunc_rat_nonneg floor_less_iff)
  moreover have "uint x < 2 ^ 64"
    using uint_lt2p [of x] by simp
  ultimately show ?thesis
    by (simp add: word_less_def uint_big_Uint64)
qed

lemma units_eq_0_iff: "units x p = 0 \<longleftrightarrow> x = 0"
  by (simp add: units_def uint_0_iff)

context decimal_lib
begin

lemma mathutil_Div_units:
  assumes "p \<le> 8"
  obtains d where "mathutil_Div D x (pow10 p) = Inr d" "val d = units x p"
proof
  have v: "val (d_uint64 D (pow10 p)) = 10 ^ unat p"
    by (simp only: val_d_uint64 uint_pow10 [OF assms] of_int_power of_int_numeral)
  then show "mathutil_Div D x (pow10 p) = Inr (d_Div D DivisionPrecision (d_uint64 D x) (d_uint64 D (pow10 p)))"
    by (simp add: mathutil_Div_def DivDecimal_def Div_def IsZero_val)
  have "val (d_uint64 D (pow10 p)) \<noteq> 0"
    by (simp add: v)
  from val_Div [OF this] show "val (d_Div D DivisionPrecision (d_uint64 D x) (d_uint64 D (pow10 p))) = units x p"
    by (simp only: v) (simp only: val_d_uint64 units_def DivisionPrecision_def
        round_to_units [OF unat_le_8 [OF assms]])
qed

text \<open>The reserves a formula gets: in, then out.\<close>

lemma formula_balances_units:
  assumes "market_wf m"
  obtains b q where "formula_balances D m bb qb isBuy = Inr (if isBuy then (q, b) else (b, q))"
    "val b = units bb (mkt_BaseAssetPrecision m)" "val q = units qb (mkt_QuoteAssetPrecision m)"
proof -
  obtain b where b: "mathutil_Div D bb (pow10 (mkt_BaseAssetPrecision m)) = Inr b"
    "val b = units bb (mkt_BaseAssetPrecision m)"
    using assms mathutil_Div_units by (auto simp: market_wf_def)
  obtain q where q: "mathutil_Div D qb (pow10 (mkt_QuoteAssetPrecision m)) = Inr q"
    "val q = units qb (mkt_QuoteAssetPrecision m)"
    using assms mathutil_Div_units by (auto simp: market_wf_def)
  show thesis
    by (rule that [OF _ b(2) q(2)]) (simp add: formula_balances_def b(1) q(1))
qed

definition market_ok :: "Market \<Rightarrow> 'd opts \<Rightarrow> bool" where
  "market_ok m = (if IsStrategyPluggable m then pluggable_ok else balanced_ok val)"

lemma strategy_contract: "making_formula (strategy D m) val (market_ok m) reserve_out"
  using pluggable_contract balanced_contract
  by (simp add: strategy_def market_ok_def IsStrategyPluggable_def)

end

text \<open>The options of a market's strategy: what a preview passes to its formula.\<close>

definition market_opts :: "'d decimal_ops \<Rightarrow> Market \<Rightarrow> u64 \<Rightarrow> u64 \<Rightarrow> bool \<Rightarrow> bool \<Rightarrow> 'd opts res" where
  "market_opts D m bb qb isBaseAsset isBuy =
     (if IsStrategyPluggable m then formulaOptsForPluggable D m bb qb isBaseAsset isBuy
      else formulaOptsForBalanced D m bb qb isBaseAsset isBuy)"

text \<open>The reserve that a swap draws on: base when the proposer buys, quote when they sell.\<close>

definition drawn_units :: "Market \<Rightarrow> u64 \<Rightarrow> u64 \<Rightarrow> bool \<Rightarrow> rat" where
  "drawn_units m bb qb isBuy =
     (if isBuy then units bb (mkt_BaseAssetPrecision m) else units qb (mkt_QuoteAssetPrecision m))"

text \<open>The reserve a swap pays into.\<close>

definition filled_units :: "Market \<Rightarrow> u64 \<Rightarrow> u64 \<Rightarrow> bool \<Rightarrow> rat" where
  "filled_units m bb qb isBuy =
     (if isBuy then units qb (mkt_QuoteAssetPrecision m) else units bb (mkt_BaseAssetPrecision m))"

context decimal_lib
begin

lemma market_opts_reserve:
  assumes "market_wf m" and "market_opts D m bb qb isBaseAsset isBuy = Inr args"
  shows "val (reserve_out args) = drawn_units m bb qb isBuy"
  by (rule formula_balances_units [OF assms(1), of bb qb isBuy])
    (use assms(2) in \<open>auto simp: market_opts_def formulaOptsForPluggable_def
       formulaOptsForBalanced_def drawn_units_def split: if_splits\<close>)

lemma market_opts_balanced:
  assumes "market_wf m" and "market_opts D m bb qb isBaseAsset isBuy = Inr args" and "\<not> IsStrategyPluggable m"
  shows "\<exists>ob. args = OptsBalanced ob \<and> val (bro_BalanceIn ob) = filled_units m bb qb isBuy"
  by (rule formula_balances_units [OF assms(1), of bb qb isBuy])
    (use assms(2,3) in \<open>auto simp: market_opts_def formulaOptsForBalanced_def filled_units_def
       split: if_splits\<close>)

lemma priceForStrategy_positive:
  assumes "market_wf m" and "priceForStrategy D m bb qb = Inr price" and "\<not> IsStrategyPluggable m"
  shows "0 < units bb (mkt_BaseAssetPrecision m) \<and> 0 < units qb (mkt_QuoteAssetPrecision m)"
proof (rule formula_balances_units [OF assms(1), of bb qb False])
  fix b q
  assume f: "formula_balances D m bb qb False = Inr (if False then (q, b) else (b, q))"
    and v: "val b = units bb (mkt_BaseAssetPrecision m)" "val q = units qb (mkt_QuoteAssetPrecision m)"
  have "val b \<noteq> 0 \<and> val q \<noteq> 0"
    using assms(2,3) f
    by (auto simp: priceForStrategy_def priceFromBalances_def rbind_eq_Inr strategy_def
        IsStrategyPluggable_def NewBalancedReservedFormula_def BalancedReserves_SpotPrice_def
        Equal_val split: if_splits)
  then show ?thesis
    by (simp add: v order_less_le)
qed

lemma market_opts_ok:
  assumes "market_wf m" and "priceForStrategy D m bb qb = Inr price"
    and "market_opts D m bb qb isBaseAsset isBuy = Inr args"
  shows "market_ok m args"
proof (rule formula_balances_units [OF assms(1), of bb qb isBuy])
  fix b q
  assume "formula_balances D m bb qb isBuy = Inr (if isBuy then (q, b) else (b, q))"
    "val b = units bb (mkt_BaseAssetPrecision m)" "val q = units qb (mkt_QuoteAssetPrecision m)"
  then show ?thesis
    using assms(3) priceForStrategy_positive [OF assms(1,2)]
    by (auto simp: market_opts_def formulaOptsForPluggable_def formulaOptsForBalanced_def
        market_ok_def split: if_splits)
qed

lemma Preview_InrE:
  assumes "market_wf m" and "Preview D m bb qb amount asset feeAsset isBuy = Inr info"
  obtains args amt out where
    "market_ok m args" "val (reserve_out args) = drawn_units m bb qb isBuy"
    "val amt = units amount (if asset = mkt_BaseAsset m then mkt_BaseAssetPrecision m else mkt_QuoteAssetPrecision m)"
    "formula D m (asset = mkt_BaseAsset m) isBuy args amt = Inr out"
    "pi_Amount info = big_Uint64 (trunc_rat (val out * 10 ^ unat (if asset = mkt_BaseAsset m
       then mkt_QuoteAssetPrecision m else mkt_BaseAssetPrecision m)))"
    "pi_Amount info \<noteq> 0"
    "IsStrategyPluggable m \<or> (\<exists>ob. args = OptsBalanced ob \<and> val (bro_BalanceIn ob) = filled_units m bb qb isBuy)"
proof -
  let ?prec = "if asset = mkt_BaseAsset m then mkt_BaseAssetPrecision m else mkt_QuoteAssetPrecision m"
  let ?pprec = "if asset = mkt_BaseAsset m then mkt_QuoteAssetPrecision m else mkt_BaseAssetPrecision m"
  obtain amt where amt: "mathutil_Div D amount (pow10 ?prec) = Inr amt" "val amt = units amount ?prec"
  proof (rule mathutil_Div_units)
    show "?prec \<le> 8"
      using assms(1) by (simp add: market_wf_def)
  qed
  obtain args price out where *: "market_opts D m bb qb (asset = mkt_BaseAsset m) isBuy = Inr args"
    "priceForStrategy D m bb qb = Inr price"
    "formula D m (asset = mkt_BaseAsset m) isBuy args amt = Inr out"
    "pi_Amount info = big_Uint64 (d_BigInt D (d_Mul D out (d_NewFromFloat D 1 (uint ?pprec))))"
    "pi_Amount info \<noteq> 0"
    using assms(2)
    apply (simp only: Preview_def Let_def if_Inl_eq_Inr rbind_eq_Inr amt(1) Inr_eq_flip
        flip: market_opts_def)
    apply (elim exE conjE)
    apply (drule arg_cong [where f = pi_Amount])
    apply (erule that)
       apply (assumption | simp only: PreviewInfo.simps simp_thms)+
    done
  have e: "d_BigInt D (d_Mul D out (d_NewFromFloat D 1 (uint ?pprec))) = trunc_rat (val out * 10 ^ unat ?pprec)"
    by (simp only: BigInt_val val_Mul val_NewFromFloat uint_nat power_int_of_nat of_int_1 mult_1)
  show thesis
    by (rule that [OF market_opts_ok [OF assms(1) *(2,1)] market_opts_reserve [OF assms(1) *(1)]
          amt(2) *(3) _ *(5)]) (simp only: *(4) e, use market_opts_balanced [OF assms(1) *(1)] in blast)
qed

end

section \<open>Properties\<close>

text \<open>
  C1. A preview never promises what the market does not have: on a well-formed market, whatever
  the strategy, the amount of the asset that would leave the market is strictly below its balance
  of that asset, and the previewed amount is not zero.
\<close>

theorem Preview_within_reserves:
  assumes "decimal_lib D val" and "market_wf m"
    and "Preview D m bb qb amount asset feeAsset isBuy = Inr info"
  shows "let baseAmount = (if asset = mkt_BaseAsset m then amount else pi_Amount info);
             quoteAmount = (if asset = mkt_BaseAsset m then pi_Amount info else amount)
         in (if isBuy then baseAmount < bb else quoteAmount < qb) \<and> 0 < pi_Amount info"
proof (rule decimal_lib.Preview_InrE [OF assms])
  fix args amt out
  let ?base = "asset = mkt_BaseAsset m"
  let ?prec = "if ?base then mkt_BaseAssetPrecision m else mkt_QuoteAssetPrecision m"
  let ?pprec = "if ?base then mkt_QuoteAssetPrecision m else mkt_BaseAssetPrecision m"
  let ?drawn = "if isBuy then bb else qb"
  assume *: "decimal_lib.market_ok val m args" "val (reserve_out args) = drawn_units m bb qb isBuy"
    "val amt = units amount ?prec" "formula D m ?base isBuy args amt = Inr out"
    "pi_Amount info = big_Uint64 (trunc_rat (val out * 10 ^ unat ?pprec))" "pi_Amount info \<noteq> 0"
  have mf: "making_formula (strategy D m) val (decimal_lib.market_ok val m) reserve_out"
    by (rule decimal_lib.strategy_contract [OF assms(1)])
  show ?thesis
  proof (cases "isBuy = ?base")
    case True
    then have "mf_InGivenOut (strategy D m) args amt = Inr out"
      using *(4) by (simp add: formula_def split: if_splits)
    from making_formula.in_law [OF mf *(1) this]
    have "units amount ?prec < drawn_units m bb qb isBuy"
      by (simp only: *(2,3))
    then have "amount < ?drawn"
      using True by (auto simp: drawn_units_def units_less_iff split: if_splits)
    then show ?thesis
      using True *(6) by (auto simp: word_neq_0_conv)
  next
    case False
    then have "mf_OutGivenIn (strategy D m) args amt = Inr out"
      using *(4) by (auto simp: formula_def split: if_splits)
    from making_formula.out_law [OF mf *(1) this]
    have "0 < val out" "val out < drawn_units m bb qb isBuy"
      by (simp_all only: *(2))
    moreover have "drawn_units m bb qb isBuy = units ?drawn ?pprec"
      using False by (auto simp: drawn_units_def)
    ultimately have out: "0 < val out" "val out < units ?drawn ?pprec"
      by simp_all
    have "pi_Amount info < ?drawn"
      unfolding *(5) by (rule big_Uint64_below_units [OF out])
    then show ?thesis
      using False *(6) by (auto simp: word_neq_0_conv)
  qed
qed

text \<open>A balanced market of the two example assets, open for trades.\<close>

definition ex_balanced :: Market where
  "ex_balanced = \<lparr> mkt_BaseAsset = ex_base, mkt_QuoteAsset = ex_quote, mkt_Name = ''test'',
     mkt_BaseAssetPrecision = 8, mkt_QuoteAssetPrecision = 8,
     mkt_PercentageFee = \<lparr> mf_BaseAsset = 25, mf_QuoteAsset = 25 \<rparr>,
     mkt_FixedFee = \<lparr> mf_BaseAsset = 0, mf_QuoteAsset = 0 \<rparr>,
     mkt_Tradable = True, mkt_StrategyType = StrategyTypeBalanced, mkt_Price = empty_price \<rparr>"

lemma ex_balanced_wf: "market_wf ex_balanced"
  by code_simp

theorem Preview_within_reserves_witness:
  "map_sum id pi_Amount (Preview fixdec ex_balanced 100000000 5000000000000 1000000 ex_base ex_quote False)
     = Inr 49504950000
   \<and> (49504950000 :: u64) < 5000000000000"
proof -
  let ?r = "Preview fixdec ex_balanced 100000000 5000000000000 1000000 ex_base ex_quote False"
  have e: "map_sum id pi_Amount ?r = Inr 49504950000"
    by code_simp
  then obtain info where i: "?r = Inr info" "pi_Amount info = 49504950000"
    by (cases ?r) auto
  show ?thesis
    using Preview_within_reserves [OF fixed.decimal_lib_axioms ex_balanced_wf i(1)] i(2) e
    by (simp add: ex_balanced_def)
qed

text \<open>
  C17. The fee of a preview is the market's percentage of the amount, rounded down, plus the fixed
  fee of the asset it is charged in (amounts below \<open>2\<^sup>63\<close>, and a sum that fits 64 bits); when it
  has to be taken from what the proposer receives it must be below that amount.
\<close>

theorem previewFees_correct:
  fixes m amount asset isBuy
  defines "pct \<equiv> uint (if asset = mkt_QuoteAsset m then mf_QuoteAsset (mkt_PercentageFee m)
                       else mf_BaseAsset (mkt_PercentageFee m))"
    and "fixed \<equiv> uint (if asset = mkt_QuoteAsset m then mf_QuoteAsset (mkt_FixedFee m)
                       else mf_BaseAsset (mkt_FixedFee m))"
  assumes "decimal_lib D val" and "market_wf m" and "uint amount < 2 ^ 63"
    and "uint amount * pct div 10000 + fixed < 2 ^ 64"
  shows "case previewFees D m amount asset isBuy of
      Inr f \<Rightarrow> uint f = uint amount * pct div 10000 + fixed
        \<and> (isBuy \<and> asset = mkt_BaseAsset m \<or> \<not> isBuy \<and> asset = mkt_QuoteAsset m \<longrightarrow> f < amount)
    | Inl e \<Rightarrow> e = ErrMarketPreviewAmountTooLow \<and> uint amount \<le> uint amount * pct div 10000 + fixed"
proof -
  let ?p = "if asset = mkt_QuoteAsset m then mf_QuoteAsset (mkt_PercentageFee m) else mf_BaseAsset (mkt_PercentageFee m)"
  let ?f = "if asset = mkt_QuoteAsset m then mf_QuoteAsset (mkt_FixedFee m) else mf_BaseAsset (mkt_FixedFee m)"
  have "uint ?p \<le> 9999"
    using assms(4) by (simp add: market_wf_def word_le_def)
  then have p: "int64 ?p = pct"
    unfolding pct_def by (intro int64_small) simp
  have n: "0 \<le> uint amount * pct div 10000"
    by (simp add: pct_def pos_imp_zdiv_nonneg_iff)
  have a: "int64 amount = uint amount"
    by (rule int64_small [OF assms(5)])
  have "d_BigInt D (d_Mul D (d_NewFromInt D (int64 amount)) (fee_decimal D ?p)) = uint amount * pct div 10000"
    unfolding a p [symmetric]
    by (rule decimal_lib.BigInt_mul_bp [OF assms(3)])
      (simp_all only: decimal_lib.val_NewFromInt [OF assms(3)] decimal_lib.val_fee_decimal [OF assms(3)]
        p uint_ge_0 pct_def)
  moreover have "uint (big_Uint64 (uint amount * pct div 10000) + ?f) = uint amount * pct div 10000 + fixed"
    using n assms(6) unfolding fixed_def by (rule uint_big_add)
  ultimately show ?thesis
    by (auto simp: previewFees_def Let_def word_le_def word_less_def not_le
        simp flip: TenThousands_def fee_decimal_def)
qed

theorem previewFees_correct_witness:
  "previewFees fixdec ex_balanced 100001 ex_quote False = Inr 250
   \<and> uint (250 :: u64) = uint (100001 :: u64) * 25 div 10000 + 0 \<and> (250 :: u64) < 100001"
proof -
  have e: "previewFees fixdec ex_balanced 100001 ex_quote False = Inr 250"
    by code_simp
  show ?thesis
    using e previewFees_correct [OF fixed.decimal_lib_axioms ex_balanced_wf, of 100001 ex_quote False]
    by (simp add: ex_balanced_def ex_base_def ex_quote_def)
qed

section \<open>Prices\<close>

context decimal_lib
begin

lemma priceFromBalances_eq:
  assumes "market_wf m" and "\<not> IsStrategyPluggable m"
    and b: "formula_balances D m bb qb False = Inr (b, q)"
  shows "priceFromBalances D m bb qb =
    (if val b = 0 \<or> val q = 0 then Inl ErrBalanceTooLow
     else let qp = d_Div D DivisionPrecision q b in
       if val qp = 0 then Inl div_by_zero
       else Inr \<lparr> mp_BasePrice = d_String D (d_Div D DivisionPrecision (d_NewFromInt D 1) qp),
                  mp_QuotePrice = d_String D qp \<rparr>)"
  using assms(2)
  by (simp add: priceFromBalances_def b strategy_def IsStrategyPluggable_def Let_def
      NewBalancedReservedFormula_def BalancedReserves_SpotPrice_def Equal_val Div_def IsZero_val)

end

lemma priceForStrategy_balanced:
  assumes "decimal_lib D val" and "market_wf m" and "\<not> IsStrategyPluggable m"
  shows "let ratio = round_to 8 (units qb (mkt_QuoteAssetPrecision m) / units bb (mkt_BaseAssetPrecision m)) in
    case priceForStrategy D m bb qb of
      Inr p \<Rightarrow> bb \<noteq> 0 \<and> qb \<noteq> 0 \<and> 0 < ratio
        \<and> val (GetQuotePrice D p) = ratio \<and> val (GetBasePrice D p) = round_to 8 (1 / ratio)
    | Inl e \<Rightarrow> e = ErrBalanceTooLow \<and> (bb = 0 \<or> qb = 0)
        \<or> e = div_by_zero \<and> bb \<noteq> 0 \<and> qb \<noteq> 0 \<and> ratio = 0"
proof (rule decimal_lib.formula_balances_units [OF assms(1,2), of bb qb False])
  fix b q
  let ?r = "round_to 8 (units qb (mkt_QuoteAssetPrecision m) / units bb (mkt_BaseAssetPrecision m))"
  assume f: "formula_balances D m bb qb False = Inr (if False then (q, b) else (b, q))"
    and v: "val b = units bb (mkt_BaseAssetPrecision m)" "val q = units qb (mkt_QuoteAssetPrecision m)"
  have r: "val (d_Div D DivisionPrecision q b) = ?r" if "val b \<noteq> 0"
    using decimal_lib.val_Div [OF assms(1) that] by (simp add: v DivisionPrecision_def)
  have i: "val (d_Div D DivisionPrecision (d_NewFromInt D 1) (d_Div D DivisionPrecision q b)) = round_to 8 (1 / ?r)"
    if "val b \<noteq> 0" "?r \<noteq> 0"
    using decimal_lib.val_Div [OF assms(1), of "d_Div D DivisionPrecision q b"] r that
    by (simp add: decimal_lib.val_NewFromInt [OF assms(1)] DivisionPrecision_def)
  have "0 \<le> ?r"
    by (rule round_to_nonneg) simp
  then show ?thesis
    using v f assms(3) decimal_lib.priceFromBalances_eq [OF assms(1-3), of bb qb b q] r i
    by (auto simp: priceForStrategy_def Let_def units_eq_0_iff GetQuotePrice_def
        GetBasePrice_def decimal_lib.price_of_String [OF assms(1)])
qed

text \<open>
  The spot price of a balanced market: with positive balances it is the ratio of the balances
  in units of the assets rounded to 8 decimals (quote price) and the rounded inverse of that
  (base price); it is refused when a balance is zero; and the division panics exactly when the
  ratio rounds to zero.
\<close>

lemma SpotPrice_balanced:
  assumes "decimal_lib D val" and "market_wf m" and "\<not> IsStrategyPluggable m"
  shows "let ratio = round_to 8 (units qb (mkt_QuoteAssetPrecision m) / units bb (mkt_BaseAssetPrecision m)) in
    case SpotPrice D m bb qb of
      Inr p \<Rightarrow> bb \<noteq> 0 \<and> qb \<noteq> 0 \<and> 0 < ratio
        \<and> val (GetQuotePrice D p) = ratio \<and> val (GetBasePrice D p) = round_to 8 (1 / ratio)
    | Inl e \<Rightarrow> e = ErrBalanceTooLow \<and> (bb = 0 \<or> qb = 0)
        \<or> e = div_by_zero \<and> bb \<noteq> 0 \<and> qb \<noteq> 0 \<and> ratio = 0"
  unfolding SpotPrice_def by (rule priceForStrategy_balanced [OF assms])

lemma SpotPrice_balanced_example:
  "SpotPrice fixdec ex_balanced 100000000 5000000000000
     = Inr \<lparr> mp_BasePrice = ''0.00002000'', mp_QuotePrice = ''50000.00000000'' \<rparr>
   \<and> fd_val (GetQuotePrice fixdec \<lparr> mp_BasePrice = ''0.00002000'', mp_QuotePrice = ''50000.00000000'' \<rparr>)
     = round_to 8 (units 5000000000000 8 / units 100000000 8)"
proof -
  have e: "SpotPrice fixdec ex_balanced 100000000 5000000000000
     = Inr \<lparr> mp_BasePrice = ''0.00002000'', mp_QuotePrice = ''50000.00000000'' \<rparr>"
    "\<not> IsStrategyPluggable ex_balanced"
    by code_simp+
  show ?thesis
    using SpotPrice_balanced [OF fixed.decimal_lib_axioms ex_balanced_wf e(2), of 5000000000000 100000000] e(1)
    by (simp add: Let_def ex_balanced_def)
qed

text \<open>
  A market whose quote reserve is tiny against its base reserve makes the preview panic: the
  spot price rounds to zero and is then inverted.
\<close>

theorem Preview_panics_on_small_ratio:
  "Preview fixdec ex_balanced 1000000000000 100 100000000 ex_base ex_quote False = Inl div_by_zero"
  by code_simp


section \<open>Branches\<close>

definition preview_errors :: "error set" where
  "preview_errors = {ErrMarketIsClosed, Errorf ''asset must be either base or quote asset'' [],
     Errorf ''fee asset must be either base or quote asset'' [], ErrBalanceTooLow,
     ErrAmountTooLow, ErrAmountTooBig, ErrMarketPreviewAmountTooLow}"

lemma previewFees_error: "previewFees D m amount asset isBuy = Inl e \<Longrightarrow> e = ErrMarketPreviewAmountTooLow"
  by (simp add: previewFees_def Let_def split: if_splits)

context decimal_lib
begin

lemma market_opts_total:
  assumes "market_wf m"
  shows "\<exists>args. market_opts D m bb qb isBaseAsset isBuy = Inr args"
proof (rule formula_balances_units [OF assms, of bb qb isBuy])
  fix b q
  assume "formula_balances D m bb qb isBuy = Inr (if isBuy then (q, b) else (b, q))"
  then show ?thesis
    by (cases isBuy) (simp_all add: market_opts_def formulaOptsForPluggable_def formulaOptsForBalanced_def Let_def)
qed

lemma formula_errors:
  assumes "market_ok m args" and "formula D m isBaseAsset isBuy args x = Inl e"
  shows "e \<in> {ErrAmountTooLow, ErrAmountTooBig}"
  using assms(2) making_formula.out_errors [OF strategy_contract assms(1)]
    making_formula.in_errors [OF strategy_contract assms(1)]
  by (fastforce simp: formula_def split: if_splits)

lemma Preview_errors:
  assumes "market_wf m" and "Preview D m bb qb amount asset feeAsset isBuy = Inl e"
    and "\<And>e. priceForStrategy D m bb qb = Inl e \<Longrightarrow> e \<in> preview_errors"
  shows "e \<in> preview_errors"
proof -
  let ?prec = "if asset = mkt_BaseAsset m then mkt_BaseAssetPrecision m else mkt_QuoteAssetPrecision m"
  have "?prec \<le> 8"
    using assms(1) by (simp add: market_wf_def)
  then obtain amt where amt: "mathutil_Div D amount (pow10 ?prec) = Inr amt"
    by (rule mathutil_Div_units)
  obtain args where args: "market_opts D m bb qb (asset = mkt_BaseAsset m) isBuy = Inr args"
    using market_opts_total [OF assms(1)] by blast
  show ?thesis
  proof (cases "priceForStrategy D m bb qb")
    case (Inl e')
    with assms(2,3) args show ?thesis
      by (simp add: Preview_def preview_errors_def flip: market_opts_def split: if_splits)
  next
    case (Inr price)
    note ok = market_opts_ok [OF assms(1) Inr args]
    have "e \<in> {ErrMarketIsClosed, Errorf ''asset must be either base or quote asset'' [],
        Errorf ''fee asset must be either base or quote asset'' [], ErrMarketPreviewAmountTooLow}
      \<or> formula D m (asset = mkt_BaseAsset m) isBuy args amt = Inl e"
      using assms(2) unfolding Preview_def Let_def market_opts_def [symmetric] args Inr amt rbind_Inr
      by (auto simp: rbind_eq_Inl dest: previewFees_error split: if_split_asm)
    then show ?thesis
      using formula_errors [OF ok] by (auto simp: preview_errors_def)
  qed
qed

end



section \<open>Amounts of a balanced market\<close>

lemma units_big_Uint64:
  assumes "0 < v" and "v < units x p"
  shows "\<bar>units (big_Uint64 (trunc_rat (v * 10 ^ unat p))) p - v\<bar> \<le> 1 / 10 ^ unat p"
proof -
  let ?t = "trunc_rat (v * 10 ^ unat p)"
  have t: "?t = \<lfloor>v * 10 ^ unat p\<rfloor>"
    using assms(1) by (simp add: trunc_rat_nonneg)
  have "v * 10 ^ unat p < of_int (uint x)"
    using assms(2) by (simp add: units_def pos_less_divide_eq)
  then have "0 \<le> ?t" "?t < uint x"
    using assms(1) by (simp_all add: t floor_less_iff)
  moreover have "uint x < 2 ^ 64"
    using uint_lt2p [of x] by simp
  ultimately have "uint (big_Uint64 ?t) = ?t"
    by (simp add: uint_big_Uint64)
  then have "units (big_Uint64 ?t) p = of_int \<lfloor>v * 10 ^ unat p\<rfloor> / 10 ^ unat p"
    by (simp add: units_def t)
  moreover have "\<bar>of_int \<lfloor>v * 10 ^ unat p\<rfloor> - v * 10 ^ unat p\<bar> \<le> 1"
    by linarith
  then have "\<bar>(of_int \<lfloor>v * 10 ^ unat p\<rfloor> - v * 10 ^ unat p) / 10 ^ unat p\<bar> \<le> 1 / 10 ^ unat p"
    by (simp add: divide_right_mono)
  ultimately show ?thesis
    by (simp add: diff_divide_distrib)
qed



end
