(* ===== verification/Trading.thy ===== *)
theory Trading
  imports Repositories Notifications Market_Preview Trade_Lifecycle
begin

text \<open>
  \<open>internal/core/application/trade\<close>: the trade service, on top of the market and trade repositories,
  the wallet service and the domain. \<open>service\<close> is its configuration and collaborators, \<open>state\<close> the
  state of the collaborators: the two repositories, the wallet, the queue of notification handlers.
  An interface value that may hold a nil pointer is an \<open>option option\<close>: \<open>None\<close> is the nil
  interface, \<open>Some None\<close> a non-nil interface around a nil pointer. \<open>P\<close> is the swap parser, \<open>now\<close> and
  \<open>later\<close> readings of the clock, \<open>uuid\<close> the identifier drawn for a new trade.
\<close>

section \<open>State\<close>

record ('d, 'm, 't, 'w) service =
  svc_D :: "'d decimal_ops"
  svc_markets :: "'m MarketRepository"
  svc_trades :: "'t TradeRepository"
  svc_wallet :: "'w WalletService"
  svc_elements :: elements
  svc_lbtc :: string
  svc_priceSlippage :: 'd
  svc_milliSatsPerByte :: u64

record TradeHandler =
  th_tradeId :: string
  th_tradeUtxos :: "WalletUtxo list"

text \<open>\<open>st_published\<close>: the trades whose settlement a goroutine was started to publish; \<open>st_crashed\<close>: a goroutine panicked.\<close>

record ('m, 't, 'w) state =
  st_markets :: 'm
  st_trades :: 't
  st_wallet :: 'w
  st_handlers :: "TradeHandler list"
  st_published :: "string list"
  st_crashed :: bool

type_synonym 'a iface = "'a option option"

section \<open>Constants\<close>

text \<open>The codes of \<open>pkg/swap/fail.go\<close>.\<close>

definition ErrCodeInvalidSwapRequest :: int where "ErrCodeInvalidSwapRequest = 0"
definition ErrCodeRejectedSwapRequest :: int where "ErrCodeRejectedSwapRequest = 1"
definition ErrCodeFailedToComplete :: int where "ErrCodeFailedToComplete = 2"
definition ErrCodeInvalidTransaction :: int where "ErrCodeInvalidTransaction = 3"
definition ErrCodeBadPricingSwapRequest :: int where "ErrCodeBadPricingSwapRequest = 4"
definition ErrCodeAborted :: int where "ErrCodeAborted = 5"
definition ErrCodeFailedToBroadcast :: int where "ErrCodeFailedToBroadcast = 6"

section \<open>Construction\<close>

definition minSatsPerByte :: "'d decimal_ops \<Rightarrow> 'd" where
  "minSatsPerByte D = d_NewFromFloat D 1 (-1)"

definition maxSatsPerByte :: "'d decimal_ops \<Rightarrow> 'd" where
  "maxSatsPerByte D = d_NewFromInt D 10000"

definition NewService :: "'d decimal_ops \<Rightarrow> 'w WalletService option \<Rightarrow> elements \<Rightarrow> string \<Rightarrow> bool
    \<Rightarrow> ('m MarketRepository \<times> 't TradeRepository) option \<Rightarrow> 'd \<Rightarrow> 'd \<Rightarrow> ('d, 'm, 't, 'w) service res" where
  "NewService D walletSvc L lbtc hasPubsub repoManager priceSlippage satsPerByte =
     (case walletSvc of None \<Rightarrow> Inl (Errorf ''missing wallet service'' [])
      | Some W \<Rightarrow>
        if \<not> hasPubsub then Inl (Errorf ''missing pubsub service'' [])
        else case repoManager of None \<Rightarrow> Inl (Errorf ''missing repo manager'' [])
        | Some (mr, tr) \<Rightarrow>
          if d_LessThan D satsPerByte (minSatsPerByte D) \<or> d_GreaterThan D satsPerByte (maxSatsPerByte D)
          then Inl (Errorf ''sats per byte ratio must be in range [%s, %s]''
                      [d_String D (minSatsPerByte D), d_String D (maxSatsPerByte D)])
          else Inr \<lparr>svc_D = D, svc_markets = mr, svc_trades = tr, svc_wallet = W, svc_elements = L, svc_lbtc = lbtc,
                 svc_priceSlippage = priceSlippage,
                 svc_milliSatsPerByte = big_Uint64 (d_BigInt D (d_Mul D satsPerByte (d_NewFromInt D 1000)))\<rparr>)"

section \<open>Prices and previews\<close>

text \<open>\<open>x, _ := f()\<close>: the error is dropped, a panic is not.\<close>

definition drop_err :: "'a res \<Rightarrow> 'a option res" where
  "drop_err r = (case r of Inl e \<Rightarrow> if is_panic e then Inl e else Inr None | Inr x \<Rightarrow> Inr (Some x))"

definition confirmed :: "(string, Balance) gomap \<Rightarrow> string \<Rightarrow> u64" where
  "confirmed balance asset = (case gm_get balance asset of None \<Rightarrow> 0 | Some b \<Rightarrow> bal_ConfirmedBalance b)"

definition tradePreview :: "'d decimal_ops \<Rightarrow> Market \<Rightarrow> (string, Balance) gomap \<Rightarrow> bool \<Rightarrow> string \<Rightarrow> string \<Rightarrow> u64
    \<Rightarrow> (Market \<times> PreviewInfo) res" where
  "tradePreview D mkt balance isBuy feeAsset asset amount =
     rbind (Preview D mkt (confirmed balance (mkt_BaseAsset mkt)) (confirmed balance (mkt_QuoteAsset mkt))
              amount asset feeAsset isBuy) (\<lambda>preview. Inr (mkt, preview))"

text \<open>
  Decimals are immutable: \<open>expectedAmount.Add(feeAmount)\<close> and its like, whose results the code
  does not use, leave both amounts as they are.
\<close>

definition isPriceInRange :: "'d decimal_ops \<Rightarrow> SwapRequest \<Rightarrow> Market \<times> PreviewInfo \<Rightarrow> 'd \<Rightarrow> bool" where
  "isPriceInRange D swapRequest preview slippage =
     (let expectedAmount = (if pi_Asset (snd preview) = sr_AssetR swapRequest
            then d_NewFromInt D (int64 (sr_AmountR swapRequest)) else d_NewFromInt D (int64 (sr_AmountP swapRequest)));
          amountToCheck = d_NewFromInt D (int64 (pi_Amount (snd preview)));
          lowerBound = d_Mul D expectedAmount (d_Sub D (d_NewFromInt D 1) slippage);
          upperBound = d_Mul D expectedAmount (d_Add D (d_NewFromInt D 1) slippage)
      in d_GreaterThanOrEqual D amountToCheck lowerBound \<and> d_LessThanOrEqual D amountToCheck upperBound)"

definition isValidTradePrice :: "'d decimal_ops \<Rightarrow> Market \<Rightarrow> (string, Balance) gomap \<Rightarrow> bool \<Rightarrow> SwapRequest \<Rightarrow> 'd \<Rightarrow> bool res" where
  "isValidTradePrice D market balance isBuy swapRequest slippage =
     (let feeAsset = sr_FeeAsset swapRequest in
      rbind (drop_err (tradePreview D market balance isBuy feeAsset (sr_AssetP swapRequest) (sr_AmountP swapRequest))) (\<lambda>preview.
      if (case preview of None \<Rightarrow> False | Some p \<Rightarrow> isPriceInRange D swapRequest p slippage) then Inr True
      else
        rbind (drop_err (tradePreview D market balance isBuy feeAsset (sr_AssetR swapRequest) (sr_AmountR swapRequest))) (\<lambda>preview.
        case preview of None \<Rightarrow> Inr False | Some p \<Rightarrow> Inr (isPriceInRange D swapRequest p slippage))))"

definition GetTradableMarkets_svc :: "('d, 'm, 't, 'w) service \<Rightarrow> ('m, 't, 'w) state \<Rightarrow> Market list res" where
  "GetTradableMarkets_svc S st = (case mr_GetTradableMarkets (svc_markets S) (st_markets st) of
     Inl _ \<Rightarrow> Inl ErrServiceUnavailable | Inr ms \<Rightarrow> Inr ms)"

text \<open>A balance missing from the map is a nil interface: asking it for its amount panics.\<close>

definition balance_of :: "(string, Balance) gomap \<Rightarrow> string \<Rightarrow> u64 res" where
  "balance_of balance asset = (case gm_get balance asset of None \<Rightarrow> Inl nil_deref | Some b \<Rightarrow> Inr (bal_ConfirmedBalance b))"

definition minTradableAmount :: "'d decimal_ops \<Rightarrow> Market \<Rightarrow> MarketPrice \<Rightarrow> u64" where
  "minTradableAmount D mkt spotPrice =
     (let minAmount = d_NewFromFloat D 1 (- uint (mkt_BaseAssetPrecision mkt));
          amount = d_Mul D (d_NewFromFloat D 1 (- uint (mkt_QuoteAssetPrecision mkt))) (GetBasePrice D spotPrice);
          minAmount = (if d_GreaterThan D amount minAmount then amount else minAmount);
          minAmount = d_Mul D minAmount (d_NewFromFloat D 1 (uint (mkt_BaseAssetPrecision mkt)))
      in big_Uint64 (d_BigInt D minAmount))"

definition GetMarketPrice_svc :: "('d, 'm, 't, 'w) service \<Rightarrow> string \<Rightarrow> string \<Rightarrow> ('m, 't, 'w) state
    \<Rightarrow> ('m, 't, 'w) state \<times> ('d \<times> u64) res" where
  "GetMarketPrice_svc S baseAsset quoteAsset st =
     (case mr_GetMarketByAssets (svc_markets S) (st_markets st) baseAsset quoteAsset of
        Inl _ \<Rightarrow> (st, Inl ErrServiceUnavailable)
      | Inr mkt \<Rightarrow> (case GetBalance (svc_wallet S) (mkt_Name mkt) (st_wallet st) of
          (w, Inl _) \<Rightarrow> (st\<lparr>st_wallet := w\<rparr>, Inl ErrServiceUnavailable)
        | (w, Inr balance) \<Rightarrow> (st\<lparr>st_wallet := w\<rparr>,
            rbind (balance_of balance (mkt_BaseAsset mkt)) (\<lambda>baseAssetBalance.
            rbind (balance_of balance (mkt_QuoteAsset mkt)) (\<lambda>quoteAssetBalance.
            case SpotPrice (svc_D S) mkt baseAssetBalance quoteAssetBalance of
              Inl e \<Rightarrow> if is_panic e then Inl e else Inl ErrServiceUnavailable
            | Inr spotPrice \<Rightarrow> Inr (GetQuotePrice (svc_D S) spotPrice, minTradableAmount (svc_D S) mkt spotPrice))))))"

definition GetMarketBalance_svc :: "('d, 'm, 't, 'w) service \<Rightarrow> string \<Rightarrow> string \<Rightarrow> ('m, 't, 'w) state
    \<Rightarrow> ('m, 't, 'w) state \<times> (Market \<times> (string, Balance) gomap) res" where
  "GetMarketBalance_svc S baseAsset quoteAsset st =
     (case mr_GetMarketByAssets (svc_markets S) (st_markets st) baseAsset quoteAsset of
        Inl e \<Rightarrow> (st, Inl e)
      | Inr mkt \<Rightarrow> (case GetBalance (svc_wallet S) (mkt_Name mkt) (st_wallet st) of
          (w, Inl e) \<Rightarrow> (st\<lparr>st_wallet := w\<rparr>, Inl e)
        | (w, Inr balance) \<Rightarrow> (st\<lparr>st_wallet := w\<rparr>, Inr (mkt, balance))))"

definition TradePreview :: "('d, 'm, 't, 'w) service \<Rightarrow> string \<Rightarrow> string \<Rightarrow> bool \<Rightarrow> u64 \<Rightarrow> string \<Rightarrow> string
    \<Rightarrow> ('m, 't, 'w) state \<Rightarrow> ('m, 't, 'w) state \<times> (Market \<times> PreviewInfo) res" where
  "TradePreview S baseAsset quoteAsset isBuy amount asset feeAsset st =
     (if asset \<noteq> baseAsset \<and> asset \<noteq> quoteAsset
      then (st, Inl (Errorf ''asset must match one of those of the market'' []))
      else case mr_GetMarketByAssets (svc_markets S) (st_markets st) baseAsset quoteAsset of
        Inl _ \<Rightarrow> (st, Inl ErrServiceUnavailable)
      | Inr mkt \<Rightarrow>
          if \<not> IsTradable mkt then (st, Inl ErrMarketUnavailable)
          else case GetBalance (svc_wallet S) (mkt_Name mkt) (st_wallet st) of
            (w, Inl _) \<Rightarrow> (st\<lparr>st_wallet := w\<rparr>, Inl ErrServiceUnavailable)
          | (w, Inr balance) \<Rightarrow> (st\<lparr>st_wallet := w\<rparr>,
              tradePreview (svc_D S) mkt balance isBuy feeAsset asset amount))"


section \<open>Proposing a trade\<close>

definition tradeTypeInfo_toDomain :: "bool \<Rightarrow> TradeType" where
  "tradeTypeInfo_toDomain isBuy = (if isBuy then TradeBuy else TradeSell)"

definition swapRequestInfo_toDomain :: "SwapRequest \<Rightarrow> SwapRequest" where
  "swapRequestInfo_toDomain info = \<lparr>sr_Id = sr_Id info, sr_AssetP = sr_AssetP info, sr_AssetR = sr_AssetR info,
     sr_AmountP = sr_AmountP info, sr_AmountR = sr_AmountR info, sr_Transaction = sr_Transaction info,
     sr_FeeAsset = sr_FeeAsset info, sr_FeeAmount = sr_FeeAmount info,
     sr_UnblindedInputs = map (\<lambda>i. \<lparr>ui_Index = ui_Index i, ui_Asset = ui_Asset i, ui_Amount = ui_Amount i,
       ui_AssetBlinder = ui_AssetBlinder i, ui_AmountBlinder = ui_AmountBlinder i\<rparr>) (sr_UnblindedInputs info)\<rparr>"

definition unblinded_inputs :: "WalletUtxo list \<Rightarrow> UnblindedInput list" where
  "unblinded_inputs selectedUtxos = map (\<lambda>(i, u). \<lparr>ui_Index = of_nat i, ui_Asset = wu_Asset u, ui_Amount = wu_Value u,
     ui_AssetBlinder = wu_AssetBlinder u, ui_AmountBlinder = wu_ValueBlinder u\<rparr>) (enumerate 0 selectedUtxos)"

type_synonym proposal = "SwapAccept iface \<times> SwapFail iface \<times> i64"

text \<open>\<open>return nil, trade.SwapFailMessage(), -1, nil\<close>, after a call that returned \<open>false\<close> or panicked.\<close>

definition not_ok :: "SwapParser \<Rightarrow> Trade \<Rightarrow> bool res \<Rightarrow> proposal res" where
  "not_ok P trade r = (case r of
     Inl e \<Rightarrow> if is_panic e then Inl e else rbind (SwapFailMessage P trade) (\<lambda>f. Inr (None, Some f, -1))
   | Inr _ \<Rightarrow> rbind (SwapFailMessage P trade) (\<lambda>f. Inr (None, Some f, -1)))"

text \<open>The body of \<open>TradePropose\<close> from the creation of the trade on; the trade is the one its deferred function stores.\<close>

definition propose_new_trade :: "('d, 'm, 't, 'w) service \<Rightarrow> SwapParser \<Rightarrow> string \<Rightarrow> time \<Rightarrow> time \<Rightarrow> Market
    \<Rightarrow> (string, Balance) gomap \<Rightarrow> bool \<Rightarrow> SwapRequest \<Rightarrow> ('m, 't, 'w) state
    \<Rightarrow> ('m, 't, 'w) state \<times> Trade \<times> proposal res" where
  "propose_new_trade S P uuid now later mkt balance isBuy swapRequest st =
     (let trade = NewTrade uuid;
          feeAsset = sr_FeeAsset swapRequest;
          feesToAdd = (isBuy \<and> feeAsset = mkt_QuoteAsset mkt \<or> \<not> isBuy \<and> feeAsset = mkt_BaseAsset mkt)
      in case isValidTradePrice (svc_D S) mkt balance isBuy swapRequest (svc_priceSlippage S) of
        Inl e \<Rightarrow> (st, trade, Inl e)
      | Inr False \<Rightarrow>
          (let trade = Trade_Fail P (sr_Id swapRequest) ErrCodeBadPricingSwapRequest trade
           in (st, trade, not_ok P trade (Inr False)))
      | Inr True \<Rightarrow>
        (case Propose (svc_D S) P now (tradeTypeInfo_toDomain isBuy) (swapRequestInfo_toDomain swapRequest)
                (mkt_Name mkt) (mkt_BaseAsset mkt) (mkt_QuoteAsset mkt) (mkt_PercentageFee mkt) (mkt_FixedFee mkt) [] trade of
          (trade, ok) \<Rightarrow>
            if ok \<noteq> Inr True then (st, trade, not_ok P trade ok)
            else case CompleteSwap (svc_wallet S) (svc_elements S) (svc_lbtc S) (mkt_Name mkt) swapRequest
                        (svc_milliSatsPerByte S) feesToAdd (st_wallet st) of
                (w, Inl e) \<Rightarrow> (st\<lparr>st_wallet := w\<rparr>, trade, if is_panic e then Inl e else Inl ErrServiceUnavailable)
              | (w, Inr (signedPset, selectedUtxos, tradeExpiryTime)) \<Rightarrow>
                  (let st = st\<lparr>st_wallet := w\<rparr>
                   in case Accept P later signedPset (unblinded_inputs selectedUtxos) tradeExpiryTime trade of
                     (trade, ok) \<Rightarrow>
                       if ok \<noteq> Inr True then (st, trade, not_ok P trade ok)
                       else (st\<lparr>st_handlers := RegisterHandlerForUtxoEvent
                                  \<lparr>th_tradeId = trd_Id trade, th_tradeUtxos = selectedUtxos\<rparr> (st_handlers st)\<rparr>, trade,
                             rbind (SwapAcceptMessage P trade) (\<lambda>a. Inr (Some a, None, trd_ExpiryTime trade))))))"

definition TradePropose :: "('d, 'm, 't, 'w) service \<Rightarrow> SwapParser \<Rightarrow> string \<Rightarrow> time \<Rightarrow> time \<Rightarrow> string \<Rightarrow> string \<Rightarrow> bool
    \<Rightarrow> SwapRequest \<Rightarrow> ('m, 't, 'w) state \<Rightarrow> ('m, 't, 'w) state \<times> proposal res" where
  "TradePropose S P uuid now later baseAsset quoteAsset isBuy swapRequest st =
     (case mr_GetMarketByAssets (svc_markets S) (st_markets st) baseAsset quoteAsset of
        Inl _ \<Rightarrow> (st, Inl ErrServiceUnavailable)
      | Inr mkt \<Rightarrow>
          if \<not> IsTradable mkt then (st, Inl ErrMarketUnavailable)
          else case GetBalance (svc_wallet S) (mkt_Name mkt) (st_wallet st) of
            (w, Inl _) \<Rightarrow> (st\<lparr>st_wallet := w\<rparr>, Inl ErrServiceUnavailable)
          | (w, Inr balance) \<Rightarrow>
              (case propose_new_trade S P uuid now later mkt balance isBuy swapRequest (st\<lparr>st_wallet := w\<rparr>) of
                 (st, trade, r) \<Rightarrow> (st\<lparr>st_trades := fst (tr_AddTrade (svc_trades S) trade (st_trades st))\<rparr>, r)))"

section \<open>Completing a trade\<close>

definition store_trade :: "('d, 'm, 't, 'w) service \<Rightarrow> Trade \<Rightarrow> ('m, 't, 'w) state \<Rightarrow> ('m, 't, 'w) state \<times> unit res" where
  "store_trade S trade st = (case tr_UpdateTrade (svc_trades S) (trd_Id trade) (\<lambda>_. Inr trade) (st_trades st) of
     (s, r) \<Rightarrow> (st\<lparr>st_trades := s\<rparr>, r))"

definition tradeFail :: "('d, 'm, 't, 'w) service \<Rightarrow> SwapParser \<Rightarrow> SwapFail \<Rightarrow> ('m, 't, 'w) state
    \<Rightarrow> ('m, 't, 'w) state \<times> (string \<times> SwapFail iface) res" where
  "tradeFail S P swapFail st =
     (let swapAcceptId = sf_MessageId swapFail
      in case tr_GetTradeBySwapAcceptId (svc_trades S) (st_trades st) swapAcceptId of
           Inl e \<Rightarrow> (st, Inl e)
         | Inr trade \<Rightarrow>
             (let trade = Trade_Fail P swapAcceptId ErrCodeAborted trade
              in case store_trade S trade st of
                   (st, Inl e) \<Rightarrow> (st, if is_panic e then Inl e else Inl ErrServiceUnavailable)
                 | (st, Inr _) \<Rightarrow> (st, rbind (SwapFailMessage P trade) (\<lambda>f. Inr ('''', Some f)))))"

text \<open>The completion proper: the trade to store, the state of the wallet and the results.\<close>

definition complete_trade :: "('d, 'm, 't, 'w) service \<Rightarrow> SwapParser \<Rightarrow> time \<Rightarrow> time \<Rightarrow> string \<Rightarrow> Trade \<Rightarrow> 'w
    \<Rightarrow> 'w \<times> Trade \<times> (string \<times> SwapFail iface) res" where
  "complete_trade S P now later tx trade w =
     (case Complete P now later tx trade of (trade, ok) \<Rightarrow>
        if ok \<noteq> Inr True
        then (w, trade, rbind (not_ok P trade ok) (\<lambda>(_, f, _). Inr ('''', f)))
        else case BroadcastTransaction (svc_wallet S) (trd_TxHex trade) w of
            (w, Inr txid) \<Rightarrow> (w, trade, Inr (txid, None))
          | (w, Inl e) \<Rightarrow> (case trd_SwapAccept trade of
                None \<Rightarrow> (w, trade, Inl nil_deref)
              | Some accept \<Rightarrow>
                  (let trade = Trade_Fail P (swap_Id accept) ErrCodeFailedToBroadcast trade
                   in (w, trade, rbind (SwapFailMessage P trade) (\<lambda>f. Inr ('''', Some f))))))"

text \<open>The deferred update replaces the results by its own error; a panic goes on after it.\<close>

definition TradeComplete :: "('d, 'm, 't, 'w) service \<Rightarrow> SwapParser \<Rightarrow> time \<Rightarrow> time \<Rightarrow> time \<Rightarrow> SwapComplete option
    \<Rightarrow> SwapFail option \<Rightarrow> ('m, 't, 'w) state \<Rightarrow> ('m, 't, 'w) state \<times> (string \<times> SwapFail iface) res" where
  "TradeComplete S P now now' later swapComplete swapFail st =
     (case swapFail of Some f \<Rightarrow> tradeFail S P f st
      | None \<Rightarrow> (case swapComplete of None \<Rightarrow> (st, Inl nil_deref)
      | Some c \<Rightarrow> (case tr_GetTradeBySwapAcceptId (svc_trades S) (st_trades st) (sc_AcceptId c) of
          Inl e \<Rightarrow> (st, Inl e)
        | Inr trade \<Rightarrow>
            if IsExpired now trade then (st, Inl (Errorf ''trade is expired'' []))
            else case complete_trade S P now' later (sc_Transaction c) trade (st_wallet st) of
              (w, trade, r) \<Rightarrow> (case store_trade S trade (st\<lparr>st_wallet := w\<rparr>) of
                 (st, Inl e) \<Rightarrow> (st, if panics r then r else Inl e)
               | (st, Inr _) \<Rightarrow> (st, r)))))"

section \<open>Settlement and expiration\<close>

definition contains_utxo :: "WalletUtxo list \<Rightarrow> WalletUtxo \<Rightarrow> bool" where
  "contains_utxo utxos u = list_ex (\<lambda>v. wu_Txid v = wu_Txid u \<and> wu_Index v = wu_Index u) utxos"

definition settlement_time :: "time \<Rightarrow> WalletUtxo list \<Rightarrow> i64" where
  "settlement_time now utxos = (case utxos of [] \<Rightarrow> Unix now
     | u # _ \<Rightarrow> (case wu_SpentStatus u of None \<Rightarrow> Unix now
        | Some status \<Rightarrow> (case us_BlockInfo status of None \<Rightarrow> Unix now
           | Some b \<Rightarrow> if bi_Timestamp b > 0 then bi_Timestamp b else Unix now)))"

text \<open>
  The handler that \<open>makeTradeSettledOrExpired\<close> returns. It is run by the goroutine that listens to the
  wallet: a nil dereference (the trade is not found) ends the process.
\<close>

definition makeTradeSettledOrExpired :: "('d, 'm, 't, 'w) service \<Rightarrow> time \<Rightarrow> TradeHandler \<Rightarrow> WalletUtxoNotification
    \<Rightarrow> ('m, 't, 'w) state \<Rightarrow> ('m, 't, 'w) state \<times> bool" where
  "makeTradeSettledOrExpired S now h notification st =
     (let utxos = un_Utxos notification
      in if \<not> list_ex (contains_utxo utxos) (th_tradeUtxos h) then (st, False)
         else case tr_GetTradeById (svc_trades S) (st_trades st) (th_tradeId h) of
           Inl _ \<Rightarrow> (st\<lparr>st_crashed := True\<rparr>, True)
         | Inr trade \<Rightarrow>
             (let trade = (case un_EventType notification of
                    UtxoSpent \<Rightarrow> fst (Settle (settlement_time now utxos) trade)
                  | UtxoUnlocked \<Rightarrow> fst (Expire now trade)
                  | _ \<Rightarrow> trade);
                  st = fst (store_trade S trade st)
              in (if IsSettled trade then st\<lparr>st_published := st_published st @ [trd_Id trade]\<rparr> else st, True)))"

text \<open>
  The goroutine started with the service: expired trades are stored as such. For the others it builds
  a handler and drops it; a transaction that does not parse ends the process.
\<close>

definition pending_trade :: "('d, 'm, 't, 'w) service \<Rightarrow> SwapParser \<Rightarrow> time \<Rightarrow> Trade \<Rightarrow> Trade option res" where
  "pending_trade S P now trade =
     (if IsAccepted trade \<or> IsCompleted trade
      then case Expire now trade of
          (trade', Inr True) \<Rightarrow> Inr (Some trade')
        | (trade', _) \<Rightarrow> rbind (SwapAcceptMessage P trade') (\<lambda>accept.
            case accept of None \<Rightarrow> Inl nil_deref
            | Some a \<Rightarrow> (case NewPsetFromBase64 (svc_elements S) (sa_Transaction a) of
                None \<Rightarrow> Inl nil_deref | Some pset \<Rightarrow> Inr None))
      else Inr None)"

fun pending_trades :: "('d, 'm, 't, 'w) service \<Rightarrow> SwapParser \<Rightarrow> time \<Rightarrow> Trade list \<Rightarrow> Trade list res" where
  "pending_trades S P now [] = Inr []"
| "pending_trades S P now (t # ts) = rbind (pending_trade S P now t) (\<lambda>x.
     rbind (pending_trades S P now ts) (\<lambda>xs. Inr (case x of None \<Rightarrow> xs | Some t \<Rightarrow> t # xs)))"

definition checkForPendingTrades :: "('d, 'm, 't, 'w) service \<Rightarrow> SwapParser \<Rightarrow> time \<Rightarrow> ('m, 't, 'w) state \<Rightarrow> ('m, 't, 'w) state" where
  "checkForPendingTrades S P now st =
     (case rbind (drop_err (tr_GetAllTrades (svc_trades S) (st_trades st) None)) (\<lambda>ts.
        pending_trades S P now (case ts of None \<Rightarrow> [] | Some ts \<Rightarrow> ts)) of
        Inl _ \<Rightarrow> st\<lparr>st_crashed := True\<rparr>
      | Inr expiredTrades \<Rightarrow> fold (\<lambda>t st. fst (store_trade S t st)) expiredTrades st)"

end
