(* ===== verification/Deposit_Repo.thy ===== *)
theory Deposit_Repo
  imports Trade_Repo
begin

text \<open>
  \<open>internal/core/domain/deposit.go\<close>, \<open>withdrawal.go\<close> and their in-memory repositories. Both
  repositories are logs: the first entry with a key is kept. \<open>hash160\<close> is \<open>btcutil.Hash160\<close>;
  \<open>ord\<close> is the order in which a \<open>range\<close> visits a map.
\<close>

section \<open>Data\<close>

record Deposit =
  dep_AccountName :: string
  dep_TxID :: string
  dep_TotAmountPerAsset :: "(string, u64) gomap"
  dep_Timestamp :: i64

record Withdrawal =
  wd_AccountName :: string
  wd_TxID :: string
  wd_TotAmountPerAsset :: "(string, u64) gomap"
  wd_Timestamp :: i64

definition string_bytes :: "string \<Rightarrow> bytes" where
  "string_bytes s = map (\<lambda>c. of_nat (of_char c)) s"

definition Deposit_Key :: "(bytes \<Rightarrow> bytes) \<Rightarrow> Deposit \<Rightarrow> string" where
  "Deposit_Key hash160 d =
     (let buf = string_bytes (dep_AccountName d @ '':'' @ dep_TxID d) in hex_EncodeToString (hash160 buf))"

section \<open>Deposits\<close>

type_synonym depositInMemoryStore = "(string, Deposit) gomap"

definition NewDepositRepositoryImpl :: depositInMemoryStore where
  "NewDepositRepositoryImpl = []"

text \<open>One turn of the loop, on the store and the counter.\<close>

definition add_deposit :: "(bytes \<Rightarrow> bytes) \<Rightarrow> Deposit \<Rightarrow> depositInMemoryStore \<times> int \<Rightarrow> depositInMemoryStore \<times> int" where
  "add_deposit hash160 deposit = (\<lambda>(s, count). case gm_get s (Deposit_Key hash160 deposit) of
     None \<Rightarrow> (gm_put (Deposit_Key hash160 deposit) deposit s, count + 1)
   | Some _ \<Rightarrow> (s, count))"

definition AddDeposits :: "(bytes \<Rightarrow> bytes) \<Rightarrow> Deposit list \<Rightarrow> depositInMemoryStore \<Rightarrow> depositInMemoryStore \<times> int" where
  "AddDeposits hash160 deposits s = fold (add_deposit hash160) deposits (s, 0)"

definition GetAllDeposits ::
    "((string \<times> Deposit) list \<Rightarrow> (string \<times> Deposit) list) \<Rightarrow> page option \<Rightarrow> depositInMemoryStore \<Rightarrow> Deposit list res" where
  "GetAllDeposits ord p s =
     (let deposits = sort_newest dep_Timestamp (map snd (ord s))
      in rbind (make_page p) (\<lambda>_. Inr (paginate p deposits)))"

definition GetDepositsForAccount :: "((string \<times> Deposit) list \<Rightarrow> (string \<times> Deposit) list) \<Rightarrow> string
    \<Rightarrow> page option \<Rightarrow> depositInMemoryStore \<Rightarrow> Deposit list res" where
  "GetDepositsForAccount ord accountName p s =
     (let deposits = sort_newest dep_Timestamp
            (filter (\<lambda>d. dep_AccountName d = accountName) (map snd (ord s)))
      in rbind (make_page p) (\<lambda>_. Inr (paginate p deposits)))"

section \<open>Withdrawals\<close>

type_synonym withdrawalInmemoryStore = "(string, Withdrawal) gomap"

definition NewWithdrawalRepositoryImpl :: withdrawalInmemoryStore where
  "NewWithdrawalRepositoryImpl = []"

definition add_withdrawal :: "Withdrawal \<Rightarrow> withdrawalInmemoryStore \<times> int \<Rightarrow> withdrawalInmemoryStore \<times> int" where
  "add_withdrawal withdrawal = (\<lambda>(s, count). case gm_get s (wd_TxID withdrawal) of
     None \<Rightarrow> (gm_put (wd_TxID withdrawal) withdrawal s, count + 1)
   | Some _ \<Rightarrow> (s, count))"

definition AddWithdrawals :: "Withdrawal list \<Rightarrow> withdrawalInmemoryStore \<Rightarrow> withdrawalInmemoryStore \<times> int" where
  "AddWithdrawals withdrawals s = fold add_withdrawal withdrawals (s, 0)"

definition GetAllWithdrawals :: "((string \<times> Withdrawal) list \<Rightarrow> (string \<times> Withdrawal) list) \<Rightarrow> page option
    \<Rightarrow> withdrawalInmemoryStore \<Rightarrow> Withdrawal list res" where
  "GetAllWithdrawals ord p s =
     (let withdrawals = sort_newest wd_Timestamp (map snd (ord s))
      in rbind (make_page p) (\<lambda>_. Inr (paginate p withdrawals)))"

definition GetWithdrawalsForAccount :: "((string \<times> Withdrawal) list \<Rightarrow> (string \<times> Withdrawal) list) \<Rightarrow> string
    \<Rightarrow> page option \<Rightarrow> withdrawalInmemoryStore \<Rightarrow> Withdrawal list res" where
  "GetWithdrawalsForAccount ord accountName p s =
     (let withdrawals = sort_newest wd_Timestamp
            (filter (\<lambda>w. wd_AccountName w = accountName) (map snd (ord s)))
      in rbind (make_page p) (\<lambda>_. Inr (paginate p withdrawals)))"

section \<open>The contract of a log\<close>

text \<open>
  A log of entries under keys. The provider promises that storing under a new key is found there
  and nowhere else, and that adding a list stores its entries in order, skips those whose key is
  taken, and counts the others.
\<close>

locale keyed_log =
  fixes key :: "'e \<Rightarrow> string" and lookup :: "'s \<Rightarrow> string \<Rightarrow> 'e option"
    and store :: "string \<Rightarrow> 'e \<Rightarrow> 's \<Rightarrow> 's" and add :: "'e list \<Rightarrow> 's \<Rightarrow> 's \<times> int"
  assumes lookup_store: "lookup (store k e s) k' = (if k' = k then Some e else lookup s k')"
    and add_fold: "add es s = fold (\<lambda>e (s, n). case lookup s (key e) of
      None \<Rightarrow> (store (key e) e s, n + 1) | Some _ \<Rightarrow> (s, n)) es (s, 0)"
begin

abbreviation add_turn :: "'e \<Rightarrow> 's \<times> int \<Rightarrow> 's \<times> int" where
  "add_turn \<equiv> \<lambda>e (s, n). case lookup s (key e) of None \<Rightarrow> (store (key e) e s, n + 1) | Some _ \<Rightarrow> (s, n)"

lemma fold_counter: "fold add_turn es (s, n) = (fst (add es s), n + snd (add es s))"
proof (induction es arbitrary: s n)
  case (Cons e es)
  show ?case
    unfolding add_fold [of "e # es"]
    by (simp add: Cons [of s] Cons [of "store (key e) e s"] split: option.split)
qed (simp add: add_fold)

lemma add_Nil: "add [] s = (s, 0)"
  by (simp add: add_fold)

lemma add_Cons:
  "add (e # es) s = (if lookup s (key e) = None
     then (fst (add es (store (key e) e s)), 1 + snd (add es (store (key e) e s))) else add es s)"
  unfolding add_fold [of "e # es"] by (simp add: fold_counter split: option.split)

lemma lookup_add:
  "lookup (fst (add es s)) k = (case lookup s k of Some e \<Rightarrow> Some e | None \<Rightarrow> find (\<lambda>e. key e = k) es)"
  by (induction es arbitrary: s) (auto simp: add_Nil add_Cons lookup_store split: option.splits)

lemma count_add: "snd (add es s) = int (card {k \<in> key ` set es. lookup s k = None})"
proof (induction es arbitrary: s)
  case Nil
  then show ?case by (simp add: add_Nil)
next
  case (Cons e es)
  show ?case
  proof (cases "lookup s (key e) = None")
    case True
    let ?s = "store (key e) e s"
    have "{k \<in> key ` set (e # es). lookup s k = None} = insert (key e) {k \<in> key ` set es. lookup ?s k = None}"
      using True by (auto simp: lookup_store)
    moreover have "key e \<notin> {k \<in> key ` set es. lookup ?s k = None}"
      by (simp add: lookup_store)
    ultimately show ?thesis
      using True by (simp add: add_Cons Cons)
  next
    case False
    then have "{k \<in> key ` set (e # es). lookup s k = None} = {k \<in> key ` set es. lookup s k = None}"
      by auto
    with False show ?thesis
      by (simp only: add_Cons Cons if_False)
  qed
qed

lemma added: "e \<in> set es \<Longrightarrow> lookup (fst (add es s)) (key e) \<noteq> None"
  by (cases "find (\<lambda>e'. key e' = key e) es")
    (auto simp: lookup_add find_None_iff split: option.split)

lemma add_again: "add es (fst (add es s)) = (fst (add es s), 0)"
proof -
  have skip: "add xs s' = (s', 0)" if "\<And>e. e \<in> set xs \<Longrightarrow> lookup s' (key e) \<noteq> None" for xs s'
    using that by (induction xs) (force simp: add_Nil add_Cons)+
  show ?thesis
    by (rule skip) (rule added)
qed

end

interpretation deposits: keyed_log "Deposit_Key hash160" gm_get gm_put "AddDeposits hash160" for hash160
  by unfold_locales (simp_all add: AddDeposits_def add_deposit_def [abs_def])

interpretation withdrawals: keyed_log wd_TxID gm_get gm_put AddWithdrawals
  by unfold_locales (simp_all add: AddWithdrawals_def add_withdrawal_def [abs_def])

section \<open>Properties\<close>

text \<open>
  Depositing is idempotent and never overwrites: \<open>AddDeposits\<close> counts the keys that were not
  stored, keeps every stored deposit, stores the first of the given deposits for each new key,
  and adding the same deposits again changes nothing and counts zero.
\<close>

lemma AddDeposits_correct:
  "(\<forall>k. gm_get (fst (AddDeposits hash160 ds s)) k =
      (case gm_get s k of Some d \<Rightarrow> Some d | None \<Rightarrow> find (\<lambda>d. Deposit_Key hash160 d = k) ds))
   \<and> snd (AddDeposits hash160 ds s) = int (card {k \<in> Deposit_Key hash160 ` set ds. gm_get s k = None})
   \<and> AddDeposits hash160 ds (fst (AddDeposits hash160 ds s)) = (fst (AddDeposits hash160 ds s), 0)"
  by (intro conjI allI deposits.lookup_add deposits.count_add deposits.add_again)

lemma visits_all_listing:
  assumes "visits_all ord"
  shows "mset (sort_newest ts (filter P (map snd (ord s)))) = filter_mset P (mset (map snd s))"
proof -
  have "mset (map snd (ord s)) = mset (map snd s)"
    using assms by (simp add: visits_all_def)
  then show ?thesis
    by (simp add: mset_filter)
qed

text \<open>
  Listing the deposits of an account: without a page the call returns each stored deposit of
  the account once and no other, newest first; with a page of non-negative size it returns a part
  of that list.
\<close>

lemma GetDepositsForAccount_correct:
  assumes "visits_all ord"
  shows "\<exists>ds. GetDepositsForAccount ord account None s = Inr ds
    \<and> mset ds = filter_mset (\<lambda>d. dep_AccountName d = account) (mset (map snd s))
    \<and> sorted_wrt (\<lambda>a b. dep_Timestamp a \<ge> dep_Timestamp b) ds
    \<and> (0 \<le> page_size p \<longrightarrow> (\<exists>ps. GetDepositsForAccount ord account (Some p) s = Inr ps \<and> set ps \<subseteq> set ds))"
proof -
  let ?ds = "sort_newest dep_Timestamp (filter (\<lambda>d. dep_AccountName d = account) (map snd (ord s)))"
  show ?thesis
  proof (intro exI [of _ ?ds] conjI)
    show "GetDepositsForAccount ord account None s = Inr ?ds"
      by (simp add: GetDepositsForAccount_def make_page_def paginate_def)
    show "mset ?ds = filter_mset (\<lambda>d. dep_AccountName d = account) (mset (map snd s))"
      by (rule visits_all_listing [OF assms])
    show "sorted_wrt (\<lambda>a b. dep_Timestamp a \<ge> dep_Timestamp b) ?ds"
      by (rule sorted_sort_newest)
    have "GetDepositsForAccount ord account (Some p) s = Inr (paginate (Some p) ?ds)" if "0 \<le> page_size p"
      using that by (simp add: GetDepositsForAccount_def make_page_def rbind_reject)
    then show "0 \<le> page_size p \<longrightarrow>
        (\<exists>ps. GetDepositsForAccount ord account (Some p) s = Inr ps \<and> set ps \<subseteq> set ?ds)"
      using paginate_set [of "Some p" ?ds] by (intro impI exI [of _ "paginate (Some p) ?ds"] conjI)
  qed
qed

definition ex_deposit :: "string \<Rightarrow> i64 \<Rightarrow> Deposit" where
  "ex_deposit a t = \<lparr> dep_AccountName = a, dep_TxID = ''tx'', dep_TotAmountPerAsset = [], dep_Timestamp = t \<rparr>"

lemma GetDepositsForAccount_correct_example:
  "\<exists>ds. GetDepositsForAccount rev ''a'' None [(''1'', ex_deposit ''a'' 5), (''2'', ex_deposit ''b'' 6)] = Inr ds
     \<and> mset ds = {# ex_deposit ''a'' 5 #}"
proof -
  let ?s = "[(''1'', ex_deposit ''a'' 5), (''2'', ex_deposit ''b'' 6)]"
  have "filter_mset (\<lambda>d. dep_AccountName d = ''a'') (mset (map snd ?s)) = {# ex_deposit ''a'' 5 #}"
    by (simp add: ex_deposit_def)
  with GetDepositsForAccount_correct [OF visits_all_rev, of "''a''" ?s undefined] show ?thesis
    by metis
qed

text \<open>
  Withdrawals are kept by transaction only: of two withdrawals that one transaction makes from two
  accounts the second is dropped.
\<close>

lemma withdrawal_of_second_account_dropped:
  "snd (AddWithdrawals [\<lparr> wd_AccountName = ''a'', wd_TxID = ''tx'', wd_TotAmountPerAsset = [], wd_Timestamp = 1 \<rparr>,
      \<lparr> wd_AccountName = ''b'', wd_TxID = ''tx'', wd_TotAmountPerAsset = [], wd_Timestamp = 1 \<rparr>] []) = 1"
  by code_simp

end
