(* ===== verification/Badgerhold.thy ===== *)
theory Badgerhold
  imports Repositories Deposit_Repo
begin

text \<open>
  The embedded database (\<open>badgerhold\<close>), a third-party package: the operations the repositories call,
  as a record over a state \<open>'s\<close>, and what the package documents of them. \<open>view\<close> is the stored
  map. No caller in the repository puts a transaction in the context, so the operations are those
  without one; an update may meet a concurrent transaction and report a conflict, \<open>pending\<close>
  bounds how many times that can still happen.
\<close>

datatype bh_error = ErrKeyExists | ErrNotFound | ErrConflict | BadgerError string

record 'v bh_query =
  q_where :: "'v \<Rightarrow> bool"
  q_page :: "(i64 \<times> i64) option"
  q_newest :: "('v \<Rightarrow> i64) option"

record ('s, 'v) badgerhold =
  bh_Insert :: "string \<Rightarrow> 'v \<Rightarrow> 's \<Rightarrow> 's \<times> (bh_error + unit)"
  bh_Get :: "string \<Rightarrow> 's \<Rightarrow> bh_error + 'v"
  bh_Find :: "'v bh_query \<Rightarrow> 's \<Rightarrow> bh_error + 'v list"
  bh_Update :: "string \<Rightarrow> 'v \<Rightarrow> 's \<Rightarrow> 's \<times> (bh_error + unit)"
  bh_Upsert :: "string \<Rightarrow> 'v \<Rightarrow> 's \<Rightarrow> 's \<times> (bh_error + unit)"
  bh_Delete :: "string \<Rightarrow> 's \<Rightarrow> 's \<times> (bh_error + unit)"

fun bh_message :: "bh_error \<Rightarrow> string" where
  "bh_message ErrKeyExists = ''This Key already exists in badgerhold for this type''"
| "bh_message ErrNotFound = ''No data found for this key''"
| "bh_message ErrConflict = ''Transaction Conflict. Please retry''"
| "bh_message (BadgerError m) = m"

definition bh_err :: "bh_error \<Rightarrow> error" where
  "bh_err e = External (bh_message e)"

lemma bh_err_no_panic [simp]: "\<not> is_panic (bh_err e)"
  by (simp add: bh_err_def)

text \<open>The values that satisfy a predicate, each once, in some order of their keys.\<close>

definition selects :: "('k \<Rightarrow> 'v option) \<Rightarrow> ('v \<Rightarrow> bool) \<Rightarrow> 'v list \<Rightarrow> bool" where
  "selects m Q vs \<longleftrightarrow> finite {k. \<exists>v. m k = Some v \<and> Q v}
     \<and> mset vs = image_mset (\<lambda>k. the (m k)) (mset_set {k. \<exists>v. m k = Some v \<and> Q v})"

lemma selects_set:
  assumes "selects m Q vs"
  shows "set vs = {v. Q v \<and> (\<exists>k. m k = Some v)}"
proof -
  let ?K = "{k. \<exists>v. m k = Some v \<and> Q v}"
  have "finite ?K" "mset vs = image_mset (\<lambda>k. the (m k)) (mset_set ?K)"
    using assms unfolding selects_def by blast+
  from arg_cong [OF this(2), of set_mset] this(1) have vs: "set vs = (\<lambda>k. the (m k)) ` ?K"
    by simp
  show ?thesis
  proof (intro set_eqI iffI)
    fix v assume "v \<in> set vs"
    then obtain k w where "m k = Some w" "Q w" "v = the (m k)" unfolding vs by blast
    then show "v \<in> {v. Q v \<and> (\<exists>k. m k = Some v)}" by auto
  next
    fix v assume "v \<in> {v. Q v \<and> (\<exists>k. m k = Some v)}"
    then obtain k where k: "m k = Some v" "Q v" by blast
    then have "k \<in> ?K" by blast
    then have "the (m k) \<in> set vs" unfolding vs by (rule imageI)
    with k show "v \<in> set vs" by simp
  qed
qed

lemma selects_unique:
  assumes "selects m Q vs" "m k = Some v" "Q v" "\<And>k' v'. m k' = Some v' \<Longrightarrow> Q v' \<Longrightarrow> k' = k"
  shows "vs = [v]"
proof -
  have K: "{k. \<exists>v. m k = Some v \<and> Q v} = {k}"
  proof (intro set_eqI iffI)
    fix x assume "x \<in> {k. \<exists>v. m k = Some v \<and> Q v}"
    then obtain w where "m x = Some w" "Q w" by blast
    from assms(4) [OF this] show "x \<in> {k}" by simp
  qed (use assms(2,3) in blast)
  have "mset vs = {#v#}"
    using assms(1) unfolding selects_def K by (simp add: assms(2))
  then show ?thesis by simp
qed

lemma selects_perm: "selects m Q vs \<Longrightarrow> mset ws = mset vs \<Longrightarrow> selects m Q ws"
  by (simp add: selects_def)

definition query_page :: "(i64 \<times> i64) option \<Rightarrow> 'v list \<Rightarrow> 'v list" where
  "query_page p vs = (case p of None \<Rightarrow> vs | Some (skip, limit) \<Rightarrow> take (nat limit) (drop (nat skip) vs))"

definition valid_page :: "(i64 \<times> i64) option \<Rightarrow> bool" where
  "valid_page p = (case p of None \<Rightarrow> True | Some (skip, limit) \<Rightarrow> 0 \<le> skip \<and> 0 < limit)"

locale badgerhold_store =
  fixes B :: "('s, 'v) badgerhold"
    and view :: "'s \<Rightarrow> string \<Rightarrow> 'v option"
    and pending :: "'s \<Rightarrow> nat"
  assumes insert_new: "view s k = None \<Longrightarrow>
      \<exists>s'. bh_Insert B k v s = (s', Inr ()) \<and> view s' = (view s)(k \<mapsto> v) \<and> pending s' \<le> pending s"
    and insert_old: "view s k \<noteq> None \<Longrightarrow> bh_Insert B k v s = (s, Inl ErrKeyExists)"
    and get_view: "bh_Get B k s = (case view s k of None \<Rightarrow> Inl ErrNotFound | Some v \<Rightarrow> Inr v)"
    and find_view: "valid_page p \<Longrightarrow> \<exists>vs. selects (view s) Q vs \<and>
      bh_Find B \<lparr>q_where = Q, q_page = p, q_newest = None\<rparr> s = Inr (query_page p vs)"
    and find_newest: "valid_page p \<Longrightarrow> \<exists>vs. selects (view s) Q vs \<and> sorted_wrt (\<lambda>x y. ts x \<ge> ts y) vs \<and>
      bh_Find B \<lparr>q_where = Q, q_page = p, q_newest = Some ts\<rparr> s = Inr (query_page p vs)"
    and update_found: "view s k \<noteq> None \<Longrightarrow>
      (\<exists>s'. bh_Update B k v s = (s', Inr ()) \<and> view s' = (view s)(k \<mapsto> v) \<and> pending s' \<le> pending s)
      \<or> (\<exists>s'. bh_Update B k v s = (s', Inl ErrConflict) \<and> view s' = view s \<and> pending s' < pending s)"
    and update_missing: "view s k = None \<Longrightarrow> bh_Update B k v s = (s, Inl ErrNotFound)"
    and upsert_view: "\<exists>s'. bh_Upsert B k v s = (s', Inr ()) \<and> view s' = (view s)(k \<mapsto> v) \<and> pending s' \<le> pending s"
    and delete_found: "view s k \<noteq> None \<Longrightarrow>
      \<exists>s'. bh_Delete B k s = (s', Inr ()) \<and> view s' = (view s)(k := None) \<and> pending s' \<le> pending s"
    and delete_missing: "view s k = None \<Longrightarrow> bh_Delete B k s = (s, Inl ErrNotFound)"
begin

lemma update_quiet:
  assumes "view s k \<noteq> None" "pending s = 0"
  shows "\<exists>s'. bh_Update B k v s = (s', Inr ()) \<and> view s' = (view s)(k \<mapsto> v) \<and> pending s' = 0"
  using update_found [OF assms(1), of v] assms(2) by auto

end

section \<open>A store in memory\<close>

type_synonym 'v mem_store = "(string, 'v) gomap \<times> nat"

definition mem_find :: "'v bh_query \<Rightarrow> 'v mem_store \<Rightarrow> bh_error + 'v list" where
  "mem_find q s = (let vs = filter (q_where q) (map (\<lambda>k. the (gm_get (fst s) k)) (remdups (gm_keys (fst s))));
     vs = (case q_newest q of None \<Rightarrow> vs | Some ts \<Rightarrow> sort_newest ts vs)
     in Inr (query_page (q_page q) vs))"

definition mem_badgerhold :: "('v mem_store, 'v) badgerhold" where
  "mem_badgerhold = \<lparr>
     bh_Insert = (\<lambda>k v s. case gm_get (fst s) k of None \<Rightarrow> ((gm_put k v (fst s), snd s), Inr ()) | Some _ \<Rightarrow> (s, Inl ErrKeyExists)),
     bh_Get = (\<lambda>k s. case gm_get (fst s) k of None \<Rightarrow> Inl ErrNotFound | Some v \<Rightarrow> Inr v),
     bh_Find = mem_find,
     bh_Update = (\<lambda>k v s. case gm_get (fst s) k of None \<Rightarrow> (s, Inl ErrNotFound)
       | Some _ \<Rightarrow> if snd s > 0 then ((fst s, snd s - 1), Inl ErrConflict) else ((gm_put k v (fst s), 0), Inr ())),
     bh_Upsert = (\<lambda>k v s. ((gm_put k v (fst s), snd s), Inr ())),
     bh_Delete = (\<lambda>k s. case gm_get (fst s) k of None \<Rightarrow> (s, Inl ErrNotFound) | Some _ \<Rightarrow> ((gm_del k (fst s), snd s), Inr ()))\<rparr>"

lemma gm_get_None_keys: "gm_get m k = None \<longleftrightarrow> k \<notin> set (gm_keys m)"
  by (simp add: gm_get_def gm_keys_def map_of_eq_None_iff)

lemma mem_selects:
  "selects (gm_get m) Q (filter Q (map (\<lambda>k. the (gm_get m k)) (remdups (gm_keys m))))"
proof -
  let ?ks = "filter (\<lambda>k. Q (the (gm_get m k))) (remdups (gm_keys m))"
  have "k \<in> set ?ks \<longleftrightarrow> (\<exists>v. gm_get m k = Some v \<and> Q v)" for k
    using gm_get_None_keys [of m k] by (cases "gm_get m k") auto
  then have ks: "{k. \<exists>v. gm_get m k = Some v \<and> Q v} = set ?ks" by blast
  have "mset_set (set ?ks) = mset ?ks"
    by (rule mset_set_set) simp
  then show ?thesis
    unfolding selects_def ks by (simp add: filter_map o_def)
qed

interpretation mem: badgerhold_store mem_badgerhold "\<lambda>s. gm_get (fst s)" snd
proof
  fix s :: "'v mem_store" and k v and p and Q :: "'v \<Rightarrow> bool" and ts :: "'v \<Rightarrow> i64"
  show "\<exists>vs. selects (gm_get (fst s)) Q vs \<and>
      bh_Find mem_badgerhold \<lparr>q_where = Q, q_page = p, q_newest = None\<rparr> s = Inr (query_page p vs)"
    using mem_selects [of "fst s" Q] by (auto simp: mem_badgerhold_def mem_find_def)
  show "\<exists>vs. selects (gm_get (fst s)) Q vs \<and> sorted_wrt (\<lambda>x y. ts x \<ge> ts y) vs \<and>
      bh_Find mem_badgerhold \<lparr>q_where = Q, q_page = p, q_newest = Some ts\<rparr> s = Inr (query_page p vs)"
    by (rule exI [of _ "sort_newest ts (filter Q (map (\<lambda>k. the (gm_get (fst s) k)) (remdups (gm_keys (fst s)))))"])
      (simp add: mem_badgerhold_def mem_find_def sorted_sort_newest selects_perm [OF mem_selects])
qed (auto simp: mem_badgerhold_def fun_eq_iff split: option.splits)

end
