(* ===== verification/Badger_Trades.thy ===== *)
theory Badger_Trades
  imports Badgerhold
begin

text \<open>
  \<open>internal/infrastructure/storage/db/badger/trade_repository_impl.go\<close>, the trade repository of the
  running daemon, over a \<open>badgerhold\<close> store \<open>B\<close>. \<open>sortStable\<close> is what \<open>sort.SliceStable\<close> does with a
  comparison. An update is retried as long as it conflicts; \<open>None\<close> is a loop that never ends.
\<close>

section \<open>Definitions\<close>

definition isTransactionConflict :: "bh_error \<Rightarrow> bool" where
  "isTransactionConflict e \<longleftrightarrow> e = ErrConflict"

definition page_query :: "page option \<Rightarrow> (i64 \<times> i64) option" where
  "page_query p = map_option (\<lambda>p. (wrap64 (page_number p * page_size p - page_size p), page_size p)) p"

definition newer_request :: "Trade \<Rightarrow> Trade \<Rightarrow> bool" where
  "newer_request a b = (case (trd_SwapRequest a, trd_SwapRequest b) of
     (Some x, Some y) \<Rightarrow> swap_Timestamp x > swap_Timestamp y | _ \<Rightarrow> False)"

definition findTrades :: "((Trade \<Rightarrow> Trade \<Rightarrow> bool) \<Rightarrow> Trade list \<Rightarrow> Trade list) \<Rightarrow> ('s, Trade) badgerhold
    \<Rightarrow> Trade bh_query \<Rightarrow> 's \<Rightarrow> Trade list res" where
  "findTrades sortStable B query s = (case bh_Find B query s of
     Inl e \<Rightarrow> Inl (bh_err e) | Inr ts \<Rightarrow> Inr (sortStable newer_request ts))"

definition badger_getTrade :: "('s, Trade) badgerhold \<Rightarrow> string \<Rightarrow> 's \<Rightarrow> Trade res" where
  "badger_getTrade B tid s = (case bh_Get B tid s of
     Inl e \<Rightarrow> if e = ErrNotFound then Inl (Errorf ''trade with id %s not found'' [tid]) else Inl (bh_err e)
   | Inr trade \<Rightarrow> Inr trade)"

definition updateTrade :: "('s, Trade) badgerhold \<Rightarrow> string \<Rightarrow> Trade \<Rightarrow> 's \<Rightarrow> 's \<times> (bh_error + unit)" where
  "updateTrade B tid trade s = bh_Update B tid trade s"

definition insertTrade :: "('s, Trade) badgerhold \<Rightarrow> Trade \<Rightarrow> 's \<Rightarrow> 's \<times> unit res" where
  "insertTrade B trade s = (case bh_Insert B (trd_Id trade) trade s of
     (s, Inl e) \<Rightarrow> (s, if e = ErrKeyExists then Inl (Errorf ''trade with id %s already exists'' [trd_Id trade]) else Inl (bh_err e))
   | (s, Inr _) \<Rightarrow> (s, Inr ()))"

definition badger_AddTrade :: "('s, Trade) badgerhold \<Rightarrow> Trade \<Rightarrow> 's \<Rightarrow> 's \<times> unit res" where
  "badger_AddTrade B trade s = insertTrade B trade s"

definition badger_GetTradeById :: "('s, Trade) badgerhold \<Rightarrow> 's \<Rightarrow> string \<Rightarrow> Trade res" where
  "badger_GetTradeById B s tradeId = badger_getTrade B tradeId s"

definition badger_GetAllTrades :: "((Trade \<Rightarrow> Trade \<Rightarrow> bool) \<Rightarrow> Trade list \<Rightarrow> Trade list) \<Rightarrow> ('s, Trade) badgerhold
    \<Rightarrow> 's \<Rightarrow> page option \<Rightarrow> Trade list res" where
  "badger_GetAllTrades sortStable B s p =
     findTrades sortStable B \<lparr>q_where = (\<lambda>_. True), q_page = page_query p, q_newest = None\<rparr> s"

definition badger_GetAllTradesByMarket :: "((Trade \<Rightarrow> Trade \<Rightarrow> bool) \<Rightarrow> Trade list \<Rightarrow> Trade list) \<Rightarrow> ('s, Trade) badgerhold
    \<Rightarrow> 's \<Rightarrow> string \<Rightarrow> page option \<Rightarrow> Trade list res" where
  "badger_GetAllTradesByMarket sortStable B s marketName p =
     findTrades sortStable B \<lparr>q_where = (\<lambda>t. trd_MarketName t = marketName), q_page = page_query p, q_newest = None\<rparr> s"

definition badger_GetCompletedTradesByMarket :: "((Trade \<Rightarrow> Trade \<Rightarrow> bool) \<Rightarrow> Trade list \<Rightarrow> Trade list)
    \<Rightarrow> ('s, Trade) badgerhold \<Rightarrow> 's \<Rightarrow> string \<Rightarrow> page option \<Rightarrow> Trade list res" where
  "badger_GetCompletedTradesByMarket sortStable B s marketName p =
     findTrades sortStable B \<lparr>q_where = (\<lambda>t. trd_MarketName t = marketName \<and> trd_Code t \<ge> TradeStatusCodeCompleted
       \<and> trd_Failed t = False), q_page = page_query p, q_newest = None\<rparr> s"

definition badger_GetTradeBySwapAcceptId :: "((Trade \<Rightarrow> Trade \<Rightarrow> bool) \<Rightarrow> Trade list \<Rightarrow> Trade list)
    \<Rightarrow> ('s, Trade) badgerhold \<Rightarrow> 's \<Rightarrow> string \<Rightarrow> Trade res" where
  "badger_GetTradeBySwapAcceptId sortStable B s swapAcceptId =
     rbind (findTrades sortStable B \<lparr>q_where = (\<lambda>t. case trd_SwapAccept t of None \<Rightarrow> False | Some a \<Rightarrow> swap_Id a = swapAcceptId),
              q_page = None, q_newest = None\<rparr> s) (\<lambda>ts.
     case ts of [] \<Rightarrow> Inl (Errorf ''trade with swap accept id %s not found'' [swapAcceptId]) | t # _ \<Rightarrow> Inr t)"

definition badger_GetTradeByTxId :: "((Trade \<Rightarrow> Trade \<Rightarrow> bool) \<Rightarrow> Trade list \<Rightarrow> Trade list)
    \<Rightarrow> ('s, Trade) badgerhold \<Rightarrow> 's \<Rightarrow> string \<Rightarrow> Trade option res" where
  "badger_GetTradeByTxId sortStable B s txId =
     rbind (findTrades sortStable B \<lparr>q_where = (\<lambda>t. trd_TxId t = txId), q_page = None, q_newest = None\<rparr> s) (\<lambda>ts.
     case ts of [] \<Rightarrow> Inr None | t # _ \<Rightarrow> Inr (Some t))"

partial_function (option) update_loop :: "('s, Trade) badgerhold \<Rightarrow> Trade \<Rightarrow> 's \<Rightarrow> ('s \<times> unit res) option" where
  [code]: "update_loop B updatedTrade s = (case updateTrade B (trd_Id updatedTrade) updatedTrade s of
     (s, Inr _) \<Rightarrow> Some (s, Inr ())
   | (s, Inl e) \<Rightarrow> if isTransactionConflict e then update_loop B updatedTrade s else Some (s, Inl (bh_err e)))"

definition badger_UpdateTrade :: "('s, Trade) badgerhold \<Rightarrow> string \<Rightarrow> (Trade \<Rightarrow> Trade res) \<Rightarrow> 's
    \<Rightarrow> ('s \<times> unit res) option" where
  "badger_UpdateTrade B tid updateFn s =
     (case rbind (badger_getTrade B tid s) updateFn of
        Inl e \<Rightarrow> Some (s, Inl e)
      | Inr updatedTrade \<Rightarrow> update_loop B updatedTrade s)"

text \<open>The repository as the services see it; one that never returned is an error nobody gets to see.\<close>

definition badger_trade_repo :: "((Trade \<Rightarrow> Trade \<Rightarrow> bool) \<Rightarrow> Trade list \<Rightarrow> Trade list) \<Rightarrow> ('s, Trade) badgerhold
    \<Rightarrow> 's TradeRepository" where
  "badger_trade_repo sortStable B = \<lparr>tr_AddTrade = badger_AddTrade B, tr_GetTradeById = badger_GetTradeById B,
     tr_GetAllTrades = badger_GetAllTrades sortStable B, tr_GetAllTradesByMarket = badger_GetAllTradesByMarket sortStable B,
     tr_GetCompletedTradesByMarket = badger_GetCompletedTradesByMarket sortStable B,
     tr_GetTradeBySwapAcceptId = badger_GetTradeBySwapAcceptId sortStable B,
     tr_GetTradeByTxId = badger_GetTradeByTxId sortStable B,
     tr_UpdateTrade = (\<lambda>k f s. case badger_UpdateTrade B k f s of Some r \<Rightarrow> r | None \<Rightarrow> (s, Inl (Panic ''does not return'')))\<rparr>"

section \<open>Lemmas\<close>

text \<open>What \<open>sort.SliceStable\<close> documents: a permutation, and the stable sort where the comparison orders by a key.\<close>

definition slice_stable :: "(('a \<Rightarrow> 'a \<Rightarrow> bool) \<Rightarrow> 'a list \<Rightarrow> 'a list) \<Rightarrow> bool" where
  "slice_stable sortStable \<longleftrightarrow> (\<forall>less xs. mset (sortStable less xs) = mset xs
     \<and> (\<forall>key. (\<forall>x\<in>set xs. \<forall>y\<in>set xs. less x y \<longleftrightarrow> key x > key y) \<longrightarrow> sortStable less xs = sort_newest key xs))"

lemma slice_stable_mset: "slice_stable sortStable \<Longrightarrow> mset (sortStable lt xs) = mset xs"
  by (simp add: slice_stable_def)

definition trades_ok :: "('s \<Rightarrow> string \<Rightarrow> Trade option) \<Rightarrow> 's \<Rightarrow> bool" where
  "trades_ok view s \<longleftrightarrow> (\<forall>k t. view s k = Some t \<longrightarrow> trd_Id t = k)"

lemma update_loop_returns:
  assumes "badgerhold_store B view pending" "view s (trd_Id t) \<noteq> None"
  shows "\<exists>s'. update_loop B t s = Some (s', Inr ()) \<and> view s' = (view s)(trd_Id t \<mapsto> t) \<and> pending s' \<le> pending s"
  using assms(2)
proof (induction "pending s" arbitrary: s rule: less_induct)
  case less
  from badgerhold_store.update_found [OF assms(1) less.prems, of t] show ?case
  proof
    assume "\<exists>s'. bh_Update B (trd_Id t) t s = (s', Inr ()) \<and> view s' = (view s)(trd_Id t \<mapsto> t) \<and> pending s' \<le> pending s"
    then show ?thesis
      by (subst update_loop.simps) (auto simp: updateTrade_def)
  next
    assume "\<exists>s'. bh_Update B (trd_Id t) t s = (s', Inl ErrConflict) \<and> view s' = view s \<and> pending s' < pending s"
    then obtain s1 where s1: "bh_Update B (trd_Id t) t s = (s1, Inl ErrConflict)" "view s1 = view s" "pending s1 < pending s"
      by blast
    moreover have "view s1 (trd_Id t) \<noteq> None"
      using s1(2) less.prems by simp
    ultimately obtain s2 where "update_loop B t s1 = Some (s2, Inr ())" "view s2 = (view s)(trd_Id t \<mapsto> t)" "pending s2 \<le> pending s1"
      using less.hyps [of s1] by auto
    with s1 show ?thesis
      by (subst update_loop.simps) (auto simp: updateTrade_def isTransactionConflict_def)
  qed
qed

lemma find_trades:
  assumes "badgerhold_store B view pending" "slice_stable sortStable"
  obtains ts where "findTrades sortStable B \<lparr>q_where = Q, q_page = None, q_newest = None\<rparr> s = Inr ts" "selects (view s) Q ts"
proof -
  have "valid_page None" by (simp add: valid_page_def)
  from badgerhold_store.find_view [OF assms(1) this, of s Q] obtain vs where vs: "selects (view s) Q vs"
    "bh_Find B \<lparr>q_where = Q, q_page = None, q_newest = None\<rparr> s = Inr (query_page None vs)"
    by blast
  then have "findTrades sortStable B \<lparr>q_where = Q, q_page = None, q_newest = None\<rparr> s = Inr (sortStable newer_request vs)"
    by (simp add: findTrades_def query_page_def)
  with that selects_perm [OF vs(1) slice_stable_mset [OF assms(2)]] show thesis by blast
qed

lemma badger_trades_repository:
  assumes B: "badgerhold_store B view pending" and sortStable: "slice_stable sortStable"
  shows "complete_trade_repository (badger_trade_repo sortStable B) view (trades_ok view)"
proof
  fix s k t
  assume s: "trades_ok view s"
  show "view s k = Some t \<Longrightarrow> trd_Id t = k"
    using s by (simp add: trades_ok_def)
  show "view s k = Some t \<Longrightarrow> tr_GetTradeById (badger_trade_repo sortStable B) s k = Inr t"
    by (simp add: badger_trade_repo_def badger_GetTradeById_def badger_getTrade_def badgerhold_store.get_view [OF B])
  show "view s k = None \<Longrightarrow> \<exists>e. tr_GetTradeById (badger_trade_repo sortStable B) s k = Inl e \<and> \<not> is_panic e"
    by (simp add: badger_trade_repo_def badger_GetTradeById_def badger_getTrade_def badgerhold_store.get_view [OF B])
  show "view s (trd_Id t) = None \<Longrightarrow> \<exists>s'. tr_AddTrade (badger_trade_repo sortStable B) t s = (s', Inr ()) \<and>
      trades_ok view s' \<and> view s' = (view s)(trd_Id t \<mapsto> t)"
    using badgerhold_store.insert_new [OF B, of s "trd_Id t" t] s
    by (auto simp: badger_trade_repo_def badger_AddTrade_def insertTrade_def trades_ok_def)
  show "view s (trd_Id t) \<noteq> None \<Longrightarrow> \<exists>e. tr_AddTrade (badger_trade_repo sortStable B) t s = (s, Inl e) \<and> \<not> is_panic e"
    using badgerhold_store.insert_old [OF B, of s "trd_Id t" t]
    by (simp add: badger_trade_repo_def badger_AddTrade_def insertTrade_def)
next
  fix s a t
  assume s: "trades_ok view s"
  let ?Q = "\<lambda>t. case trd_SwapAccept t of None \<Rightarrow> False | Some x \<Rightarrow> swap_Id x = a"
  have Q: "?Q t \<longleftrightarrow> map_option swap_Id (trd_SwapAccept t) = Some a" for t
    by (auto split: option.splits)
  obtain ts where ts: "findTrades sortStable B \<lparr>q_where = ?Q, q_page = None, q_newest = None\<rparr> s = Inr ts" "selects (view s) ?Q ts"
    by (rule find_trades [OF B sortStable])
  have acc: "tr_GetTradeBySwapAcceptId (badger_trade_repo sortStable B) s a =
      (case ts of [] \<Rightarrow> Inl (Errorf ''trade with swap accept id %s not found'' [a]) | t # _ \<Rightarrow> Inr t)"
    by (simp add: badger_trade_repo_def badger_GetTradeBySwapAcceptId_def ts(1))
  show "\<not> panics (tr_GetTradeBySwapAcceptId (badger_trade_repo sortStable B) s a)"
    unfolding acc by (simp split: list.splits)
  show "tr_GetTradeBySwapAcceptId (badger_trade_repo sortStable B) s a = Inr t \<Longrightarrow>
      view s (trd_Id t) = Some t \<and> map_option swap_Id (trd_SwapAccept t) = Some a"
  proof -
    assume "tr_GetTradeBySwapAcceptId (badger_trade_repo sortStable B) s a = Inr t"
    then have "t \<in> set ts" unfolding acc by (auto split: list.splits)
    then obtain k where "?Q t" "view s k = Some t" unfolding selects_set [OF ts(2)] by blast
    with s Q show ?thesis by (auto simp: trades_ok_def)
  qed
  fix k
  assume k: "view s k = Some t" "map_option swap_Id (trd_SwapAccept t) = Some a"
    "\<And>k' t'. view s k' = Some t' \<Longrightarrow> map_option swap_Id (trd_SwapAccept t') = Some a \<Longrightarrow> k' = k"
  have "ts = [t]"
    by (rule selects_unique [OF ts(2) k(1)]) (use k(2,3) Q in blast)+
  then show "tr_GetTradeBySwapAcceptId (badger_trade_repo sortStable B) s a = Inr t"
    unfolding acc by simp
next
  fix s k t t'
  assume s: "trades_ok view s" and k: "view s k = Some t" "keeps_keys t t'"
  have id: "trd_Id t' = k" using s k by (simp add: trades_ok_def keeps_keys_def)
  with k have "view s (trd_Id t') \<noteq> None" by simp
  from update_loop_returns [OF B this] id obtain s' where
    "update_loop B t' s = Some (s', Inr ())" "view s' = (view s)(k \<mapsto> t')" by auto
  with s k id show "\<exists>s'. tr_UpdateTrade (badger_trade_repo sortStable B) k (\<lambda>_. Inr t') s = (s', Inr ()) \<and>
      trades_ok view s' \<and> view s' = (view s)(k \<mapsto> t')"
    by (simp add: badger_trade_repo_def badger_UpdateTrade_def badger_getTrade_def badgerhold_store.get_view [OF B] trades_ok_def)
qed


text \<open>
  C29. An update of a stored trade ends and takes effect: however often the database reports a conflict
  with a concurrent transaction (\<open>pending\<close> bounds how often it can), \<open>UpdateTrade\<close> retries until
  the trade is replaced by what the update function returns, and changes nothing else.
\<close>

theorem badger_UpdateTrade_returns:
  assumes "badgerhold_store B view pending" "view s k = Some t" "f t = Inr t'" "trd_Id t' = k"
  shows "\<exists>s'. badger_UpdateTrade B k f s = Some (s', Inr ()) \<and> view s' = (view s)(k \<mapsto> t')"
proof -
  have "view s (trd_Id t') \<noteq> None" using assms(2,4) by simp
  from update_loop_returns [OF assms(1) this] obtain s' where
    "update_loop B t' s = Some (s', Inr ())" "view s' = (view s)(k \<mapsto> t')"
    using assms(4) by auto
  with assms(2,3) show ?thesis
    by (simp add: badger_UpdateTrade_def badger_getTrade_def badgerhold_store.get_view [OF assms(1)])
qed

section \<open>Examples\<close>

fun stable_insert :: "('a \<Rightarrow> 'a \<Rightarrow> bool) \<Rightarrow> 'a \<Rightarrow> 'a list \<Rightarrow> 'a list" where
  "stable_insert lt x [] = [x]"
| "stable_insert lt x (y # ys) = (if lt y x then y # stable_insert lt x ys else x # y # ys)"

definition stable_sort :: "('a \<Rightarrow> 'a \<Rightarrow> bool) \<Rightarrow> 'a list \<Rightarrow> 'a list" where
  "stable_sort lt xs = foldr (stable_insert lt) xs []"

lemma mset_stable_insert [simp]: "mset (stable_insert lt x ys) = add_mset x (mset ys)"
  by (induction ys) auto

lemma stable_insert_insort:
  fixes key :: "'a \<Rightarrow> i64"
  shows "\<forall>y\<in>set ys. lt y x \<longleftrightarrow> key y > key x \<Longrightarrow> stable_insert lt x ys = insort_key (\<lambda>x. - key x) x ys"
  by (induction ys) (auto simp: not_less)

lemma slice_stable_sort: "slice_stable stable_sort"
proof -
  have m: "mset (stable_sort lt xs) = mset xs" for lt and xs :: "'a list"
    by (induction xs) (simp_all add: stable_sort_def)
  have "stable_sort lt xs = sort_newest key xs" if "\<forall>x\<in>set xs. \<forall>y\<in>set xs. lt x y \<longleftrightarrow> key x > key y" for lt key and xs :: "'a list"
    using that
  proof (induction xs)
    case (Cons x xs)
    then have "stable_sort lt xs = sort_newest key xs" by simp
    moreover have "\<forall>y\<in>set (sort_newest key xs). lt y x \<longleftrightarrow> key y > key x"
      using Cons.prems by simp
    ultimately show ?case
      by (simp add: stable_sort_def sort_newest_def sort_key_def stable_insert_insort)
  qed (simp add: stable_sort_def sort_newest_def)
  with m show ?thesis by (simp add: slice_stable_def)
qed

interpretation badger_trades: complete_trade_repository
  "badger_trade_repo stable_sort mem_badgerhold" "\<lambda>s. gm_get (fst s)" "trades_ok (\<lambda>s. gm_get (fst s))"
  by (rule badger_trades_repository [OF mem.badgerhold_store_axioms slice_stable_sort])

definition ex_badger :: "Trade mem_store" where
  "ex_badger = ([(''t1'', NewTrade ''t1''), (''t2'', NewTrade ''t2'')], 3)"

theorem badger_UpdateTrade_returns_witness:
  "gm_get (fst ex_badger) ''t2'' = Some (NewTrade ''t2'')
   \<and> (\<exists>s'. badger_UpdateTrade mem_badgerhold ''t2'' (\<lambda>t. Inr (t\<lparr>trd_TxId := ''x''\<rparr>)) ex_badger = Some (s', Inr ())
        \<and> gm_get (fst s') = (gm_get (fst ex_badger))(''t2'' \<mapsto> (NewTrade ''t2'')\<lparr>trd_TxId := ''x''\<rparr>))"
proof -
  have "gm_get (fst ex_badger) ''t2'' = Some (NewTrade ''t2'')" by (simp add: ex_badger_def)
  with badger_UpdateTrade_returns [OF mem.badgerhold_store_axioms this, of "\<lambda>t. Inr (t\<lparr>trd_TxId := ''x''\<rparr>)"
      "(NewTrade ''t2'')\<lparr>trd_TxId := ''x''\<rparr>"]
  show ?thesis by (simp add: NewTrade_def)
qed

end
