(* ===== verification/Trading_Props.thy ===== *)
theory Trading_Props
  imports Trading Badger_Trades
begin

text \<open>
  Properties of the trade service: what an accepted proposal and a completion leave behind, the price
  check in exact arithmetic, and the service as a transition system in which trades only move
  forward.
\<close>

section \<open>What operations do to the stored trades\<close>

lemma trade_steps_trans: "trade_steps D a b \<Longrightarrow> trade_steps D b c \<Longrightarrow> trade_steps D a c"
  by (rotate_tac, induction rule: trade_steps.induct) (auto intro: trade_steps.intros)

lemma trade_step_one: "trade_step D t t' \<Longrightarrow> trade_steps D t t'"
  by (rule trade_steps.step [OF trade_steps.refl])

lemma keeps_keys_refl [simp]: "keeps_keys t t"
  by (simp add: keeps_keys_def)

lemma keeps_keys_trans: "keeps_keys a b \<Longrightarrow> keeps_keys b c \<Longrightarrow> keeps_keys a c"
  by (auto simp: keeps_keys_def)

lemma Trade_Fail_Id [simp]: "trd_Id (Trade_Fail P i c t) = trd_Id t"
  by (simp add: Trade_Fail_def split: prod.splits)

lemma Propose_Id [simp]: "trd_Id (fst (Propose D P now ty r n b q pf ff pk t)) = trd_Id t"
  by (simp add: Propose_def Let_def split: prod.splits sum.splits)

lemma Accept_Id [simp]: "trd_Id (fst (Accept P now pset ins expiry t)) = trd_Id t"
  by (simp add: Accept_def split: prod.splits option.splits)

text \<open>
  The stored trades of \<open>s'\<close> come from those of \<open>s\<close>: each stored trade went through steps of its life
  cycle and kept its keys, and each new one went through its life cycle from the start.
\<close>

definition evolves :: "'d decimal_ops \<Rightarrow> ('t \<Rightarrow> string \<Rightarrow> Trade option) \<Rightarrow> 't \<Rightarrow> 't \<Rightarrow> bool" where
  "evolves D view s s' \<longleftrightarrow>
     (\<forall>k t. view s k = Some t \<longrightarrow> (\<exists>t'. view s' k = Some t' \<and> trade_steps D t t' \<and> keeps_keys t t'))
   \<and> (\<forall>k t'. view s' k = Some t' \<longrightarrow> view s k = None \<longrightarrow> trade_steps D (NewTrade k) t')"

lemma evolves_refl [simp]: "evolves D view s s"
  by (auto simp: evolves_def intro: trade_steps.refl)

lemma evolves_trans:
  assumes "evolves D view a b" "evolves D view b c"
  shows "evolves D view a c"
  unfolding evolves_def
proof (intro conjI allI impI)
  fix k t
  assume "view a k = Some t"
  with assms(1) obtain t1 where "view b k = Some t1" "trade_steps D t t1" "keeps_keys t t1"
    unfolding evolves_def by blast
  moreover from this(1) assms(2) obtain t2 where "view c k = Some t2" "trade_steps D t1 t2" "keeps_keys t1 t2"
    unfolding evolves_def by blast
  ultimately show "\<exists>t'. view c k = Some t' \<and> trade_steps D t t' \<and> keeps_keys t t'"
    by (blast intro: trade_steps_trans keeps_keys_trans)
next
  fix k t'
  assume c: "view c k = Some t'" and a: "view a k = None"
  show "trade_steps D (NewTrade k) t'"
  proof (cases "view b k")
    case None
    with c assms(2) show ?thesis unfolding evolves_def by blast
  next
    case (Some t1)
    with a assms(1) have "trade_steps D (NewTrade k) t1" unfolding evolves_def by blast
    moreover from Some assms(2) c have "trade_steps D t1 t'"
      unfolding evolves_def by (metis option.inject)
    ultimately show ?thesis by (rule trade_steps_trans)
  qed
qed

lemma evolves_keeps: "evolves D view s s' \<Longrightarrow> view s k \<noteq> None \<Longrightarrow> view s' k \<noteq> None"
  unfolding evolves_def by blast

context trade_repository
begin

lemma evolves_update:
  assumes "repo_ok s" "view s k = Some t" "trade_steps D t t'" "keeps_keys t t'"
  shows "evolves D view s (fst (tr_UpdateTrade R k (\<lambda>_. Inr t') s)) \<and> repo_ok (fst (tr_UpdateTrade R k (\<lambda>_. Inr t') s))"
  using update_view [OF assms(1,2,4)] assms(2-) by (auto simp: evolves_def intro: trade_steps.refl)

lemma evolves_add:
  assumes "repo_ok s" "trade_steps D (NewTrade (trd_Id t)) t"
  shows "evolves D view s (fst (tr_AddTrade R t s)) \<and> repo_ok (fst (tr_AddTrade R t s))"
proof (cases "view s (trd_Id t)")
  case None
  with add_view [OF assms(1) None] assms(2) show ?thesis
    by (auto simp: evolves_def intro: trade_steps.refl)
next
  case (Some x)
  with add_old [OF assms(1), of t] assms(1) show ?thesis by auto
qed

end

lemma evolves_store:
  assumes "trade_repository (svc_trades S) view repo_ok" "repo_ok (st_trades st)"
    and "view (st_trades st) (trd_Id t) = Some t" "trade_steps D t t'" "keeps_keys t t'"
  shows "evolves D view (st_trades st) (st_trades (fst (store_trade S t' st)))
    \<and> repo_ok (st_trades (fst (store_trade S t' st))) \<and> st_handlers (fst (store_trade S t' st)) = st_handlers st
    \<and> st_crashed (fst (store_trade S t' st)) = st_crashed st \<and> snd (store_trade S t' st) = Inr ()"
proof -
  have id: "trd_Id t' = trd_Id t" using assms(5) by (simp add: keeps_keys_def)
  show ?thesis
    using trade_repository.evolves_update [OF assms(1-5)] trade_repository.update_view [OF assms(1-3,5)]
    by (simp add: store_trade_def id case_prod_beta)
qed


section \<open>The operations of the service\<close>

text \<open>The trade a proposal stores, whatever its outcome, and what else the proposal changes.\<close>

lemma propose_new_trade_steps:
  assumes "0 \<le> now" "propose_new_trade S P uuid now later mkt balance isBuy r st = (st', t, res)"
  shows "trade_steps (svc_D S) (NewTrade uuid) t" "trd_Id t = uuid" "st_trades st' = st_trades st"
    "st_crashed st' = st_crashed st"
    "st_handlers st' = st_handlers st \<or> (\<exists>us. st_handlers st' = st_handlers st @ [\<lparr>th_tradeId = uuid, th_tradeUtxos = us\<rparr>])"
proof -
  let ?p = "fst (Propose (svc_D S) P now (tradeTypeInfo_toDomain isBuy) (swapRequestInfo_toDomain r)
    (mkt_Name mkt) (mkt_BaseAsset mkt) (mkt_QuoteAsset mkt) (mkt_PercentageFee mkt) (mkt_FixedFee mkt) [] (NewTrade uuid))"
  let ?a = "\<lambda>pset us e. fst (Accept P later pset us e ?p)"
  have cases: "t \<in> {NewTrade uuid, Trade_Fail P (sr_Id r) ErrCodeBadPricingSwapRequest (NewTrade uuid), ?p}
      \<and> st_handlers st' = st_handlers st
    \<or> (\<exists>pset us e. t = ?a pset us e \<and> st_handlers st' = st_handlers st)
    \<or> (\<exists>pset us e vs. t = ?a pset us e \<and> st_handlers st' = st_handlers st @ [\<lparr>th_tradeId = trd_Id t, th_tradeUtxos = vs\<rparr>])"
    and rest: "st_trades st' = st_trades st" "st_crashed st' = st_crashed st"
    using assms(2)
    by (auto simp: propose_new_trade_def Let_def RegisterHandlerForUtxoEvent_def pushBack_def case_prod_beta
        split: sum.splits bool.splits if_splits)
  have p: "trade_steps (svc_D S) (NewTrade uuid) ?p"
    by (rule trade_step_one [OF trade_step.propose_step [OF assms(1)]])
  then have a: "trade_steps (svc_D S) (NewTrade uuid) (?a pset us e)" for pset us e
    by (rule trade_steps.step [OF _ trade_step.accept_step])
  have f: "trade_steps (svc_D S) (NewTrade uuid) (Trade_Fail P (sr_Id r) ErrCodeBadPricingSwapRequest (NewTrade uuid))"
    by (rule trade_step_one [OF trade_step.fail_step])
  have n: "trd_Id (NewTrade uuid) = uuid" by (simp add: NewTrade_def)
  show "trade_steps (svc_D S) (NewTrade uuid) t"
    using cases p a f trade_steps.refl [of "svc_D S" "NewTrade uuid"] by blast
  show id: "trd_Id t = uuid"
    using cases n by auto
  show "st_handlers st' = st_handlers st \<or> (\<exists>us. st_handlers st' = st_handlers st @ [\<lparr>th_tradeId = uuid, th_tradeUtxos = us\<rparr>])"
    using cases unfolding id by blast
  show "st_trades st' = st_trades st" "st_crashed st' = st_crashed st"
    by (rule rest)+
qed

lemma complete_trade_steps:
  assumes "complete_trade S P now later tx t w = (w', t', r)"
  shows "trade_steps D t t' \<and> keeps_keys t t'"
proof -
  let ?c = "fst (Complete P now later tx t)"
  have "t' = ?c \<or> (\<exists>i. t' = Trade_Fail P i ErrCodeFailedToBroadcast ?c)"
    using assms by (auto simp: complete_trade_def Let_def split: prod.splits if_splits sum.splits option.splits)
  moreover have c: "trade_steps D t ?c" "keeps_keys t ?c"
    by (rule trade_step_one [OF trade_step.complete_step], rule steps_keep_keys)
  moreover have "trade_steps D t (Trade_Fail P i ErrCodeFailedToBroadcast ?c)" for i
    by (rule trade_steps.step [OF c(1) trade_step.fail_step])
  moreover have "keeps_keys t (Trade_Fail P i ErrCodeFailedToBroadcast ?c)" for i
    by (rule keeps_keys_trans [OF c(2) steps_keep_keys(4)])
  ultimately show ?thesis by auto
qed

text \<open>The state of the service, as far as the operations must keep it.\<close>

definition svc_inv :: "('t \<Rightarrow> string \<Rightarrow> Trade option) \<Rightarrow> ('t \<Rightarrow> bool) \<Rightarrow> ('m, 't, 'w) state \<Rightarrow> bool" where
  "svc_inv view repo_ok st \<longleftrightarrow> repo_ok (st_trades st)
     \<and> (\<forall>h\<in>set (st_handlers st). view (st_trades st) (th_tradeId h) \<noteq> None) \<and> \<not> st_crashed st"

text \<open>A good change of state: the invariant is kept and the stored trades evolve.\<close>

definition good_change :: "'d decimal_ops \<Rightarrow> ('t \<Rightarrow> string \<Rightarrow> Trade option) \<Rightarrow> ('t \<Rightarrow> bool)
    \<Rightarrow> ('m, 't, 'w) state \<Rightarrow> ('m, 't, 'w) state \<Rightarrow> bool" where
  "good_change D view repo_ok st st' \<longleftrightarrow>
     svc_inv view repo_ok st' \<and> evolves D view (st_trades st) (st_trades st')"

lemma good_change_refl: "svc_inv view repo_ok st \<Longrightarrow> good_change D view repo_ok st st"
  by (simp add: good_change_def)

lemma good_change_trans:
  "good_change D view repo_ok a b \<Longrightarrow> good_change D view repo_ok b c \<Longrightarrow> good_change D view repo_ok a c"
  unfolding good_change_def by (blast intro: evolves_trans)

lemma good_changeI:
  assumes "svc_inv view repo_ok st" "repo_ok (st_trades st')" "evolves D view (st_trades st) (st_trades st')"
    "st_crashed st' = st_crashed st" "st_handlers st' = st_handlers st"
  shows "good_change D view repo_ok st st'"
  using assms evolves_keeps [OF assms(3)] by (auto simp: good_change_def svc_inv_def)

lemma good_change_wallet:
  "svc_inv view repo_ok st \<Longrightarrow> good_change D view repo_ok st (st\<lparr>st_wallet := w\<rparr>)"
  by (rule good_changeI) (auto simp: svc_inv_def)

lemma good_change_store:
  assumes R: "trade_repository (svc_trades S) view repo_ok" and "svc_inv view repo_ok st"
    and "view (st_trades st) (trd_Id t) = Some t" "trade_steps D t t'" "keeps_keys t t'"
  shows "good_change D view repo_ok st (fst (store_trade S t' st))" "snd (store_trade S t' st) = Inr ()"
proof -
  have "repo_ok (st_trades st)" using assms(2) by (simp add: svc_inv_def)
  note e = evolves_store [OF R this assms(3-5)]
  show "good_change D view repo_ok st (fst (store_trade S t' st))"
    by (rule good_changeI [OF assms(2)]) (use e in auto)
  show "snd (store_trade S t' st) = Inr ()" using e by blast
qed

lemma TradePropose_good:
  assumes R: "trade_repository (svc_trades S) view repo_ok" and inv: "svc_inv view repo_ok st" and now: "0 \<le> now"
  shows "good_change (svc_D S) view repo_ok st (fst (TradePropose S P uuid now later b q isBuy r st))"
proof -
  have same: "good_change (svc_D S) view repo_ok st st" by (rule good_change_refl [OF inv])
  have main: "good_change (svc_D S) view repo_ok st (st1\<lparr>st_trades := fst (tr_AddTrade (svc_trades S) t (st_trades st1))\<rparr>)"
    if "propose_new_trade S P uuid now later mkt balance isBuy r (st\<lparr>st_wallet := w\<rparr>) = (st1, t, res)" for mkt balance w st1 t res
  proof -
    note p = propose_new_trade_steps [OF now that]
    have ok: "repo_ok (st_trades st1)" using inv p(3) by (simp add: svc_inv_def)
    let ?s = "fst (tr_AddTrade (svc_trades S) t (st_trades st1))"
    have e: "evolves (svc_D S) view (st_trades st) ?s" "repo_ok ?s"
      using trade_repository.evolves_add [OF R ok, of "svc_D S" t] p(1,2,3) by auto
    have new: "view ?s uuid \<noteq> None"
      using trade_repository.add_view [OF R ok, of t] trade_repository.add_old [OF R ok, of t] p(2)
      by (cases "view (st_trades st1) uuid") auto
    have "view ?s (th_tradeId h) \<noteq> None" if "h \<in> set (st_handlers st1)" for h
      using that p(5) new evolves_keeps [OF e(1), of "th_tradeId h"] inv by (auto simp: svc_inv_def)
    with e inv p(4) show ?thesis by (auto simp: good_change_def svc_inv_def)
  qed
  show ?thesis
  proof (cases "mr_GetMarketByAssets (svc_markets S) (st_markets st) b q")
    case (Inl e)
    then have "fst (TradePropose S P uuid now later b q isBuy r st) = st" by (simp add: TradePropose_def)
    with same show ?thesis by (simp only:)
  next
    case (Inr mkt)
    show ?thesis
    proof (cases "IsTradable mkt")
      case False
      with Inr same show ?thesis by (simp add: TradePropose_def)
    next
      case True
      with Inr main good_change_wallet [OF inv, of "svc_D S"] show ?thesis
        by (auto simp: TradePropose_def split: sum.splits prod.splits)
    qed
  qed
qed

lemma accepted_trade:
  assumes "trade_repository (svc_trades S) view repo_ok" "svc_inv view repo_ok st"
    and "tr_GetTradeBySwapAcceptId (svc_trades S) (st_trades st) a = Inr t"
  shows "view (st_trades st) (trd_Id t) = Some t" "map_option swap_Id (trd_SwapAccept t) = Some a"
  using trade_repository.accept_sound [OF assms(1) _ assms(3)] assms(2) by (auto simp: svc_inv_def)

lemma tradeFail_good:
  assumes R: "trade_repository (svc_trades S) view repo_ok" and inv: "svc_inv view repo_ok st"
  shows "good_change D view repo_ok st (fst (tradeFail S P f st))"
proof (cases "tr_GetTradeBySwapAcceptId (svc_trades S) (st_trades st) (sf_MessageId f)")
  case (Inl e)
  with inv show ?thesis by (simp add: tradeFail_def good_change_refl)
next
  case (Inr t)
  let ?t = "Trade_Fail P (sf_MessageId f) ErrCodeAborted t"
  have "trade_steps D t ?t" by (rule trade_step_one [OF trade_step.fail_step])
  from good_change_store [OF R inv accepted_trade(1) [OF R inv Inr] this steps_keep_keys(4)] Inr show ?thesis
    by (cases "store_trade S ?t st") (auto simp: tradeFail_def Let_def)
qed

lemma TradeComplete_good:
  assumes R: "trade_repository (svc_trades S) view repo_ok" and inv: "svc_inv view repo_ok st"
  shows "good_change D view repo_ok st (fst (TradeComplete S P now now' later c f st))"
proof -
  have main: "good_change D view repo_ok st (fst (store_trade S t' (st\<lparr>st_wallet := w\<rparr>)))"
    if "tr_GetTradeBySwapAcceptId (svc_trades S) (st_trades st) a = Inr t"
      "complete_trade S P now' later tx t (st_wallet st) = (w, t', r)" for a t tx w t' r
  proof -
    have w: "svc_inv view repo_ok (st\<lparr>st_wallet := w\<rparr>)" using inv by (simp add: svc_inv_def)
    have v: "view (st_trades (st\<lparr>st_wallet := w\<rparr>)) (trd_Id t) = Some t"
      using accepted_trade(1) [OF R inv that(1)] by simp
    from good_change_store(1) [OF R w v, of D t'] complete_trade_steps [OF that(2), of D] show ?thesis
      using good_change_trans [OF good_change_wallet [OF inv]] by blast
  qed
  show ?thesis
    using main [of _ _ _ _ _ _] good_change_refl [OF inv, of D] tradeFail_good [OF R inv, of D P]
    by (auto simp: TradeComplete_def split: option.splits sum.splits prod.splits) (metis fst_conv)+
qed


lemma handler_good:
  assumes R: "trade_repository (svc_trades S) view repo_ok" and inv: "svc_inv view repo_ok st"
    and h: "view (st_trades st) (th_tradeId h) \<noteq> None"
  shows "good_change D view repo_ok st (fst (makeTradeSettledOrExpired S now h n st))
    \<and> st_handlers (fst (makeTradeSettledOrExpired S now h n st)) = st_handlers st"
proof (cases "list_ex (contains_utxo (un_Utxos n)) (th_tradeUtxos h)")
  case False
  with inv show ?thesis by (simp add: makeTradeSettledOrExpired_def good_change_refl)
next
  case True
  from h obtain t where v: "view (st_trades st) (th_tradeId h) = Some t" by blast
  have ok: "repo_ok (st_trades st)" using inv by (simp add: svc_inv_def)
  have t: "view (st_trades st) (trd_Id t) = Some t" "tr_GetTradeById (svc_trades S) (st_trades st) (th_tradeId h) = Inr t"
    using trade_repository.view_id [OF R ok v] trade_repository.get_found [OF R ok v] v by auto
  define t' where "t' = (case un_EventType n of UtxoSpent \<Rightarrow> fst (Settle (settlement_time now (un_Utxos n)) t)
    | UtxoUnlocked \<Rightarrow> fst (Expire now t) | _ \<Rightarrow> t)"
  have "trade_steps D t t' \<and> keeps_keys t t'"
    using trade_step_one [OF trade_step.settle_step] trade_step_one [OF trade_step.expire_step] trade_steps.refl steps_keep_keys
    by (auto simp: t'_def split: WalletUtxoEventType.splits)
  then have g: "good_change D view repo_ok st (fst (store_trade S t' st))"
    using good_change_store(1) [OF R inv t(1)] by blast
  have "fst (makeTradeSettledOrExpired S now h n st) = (if IsSettled t'
      then (fst (store_trade S t' st))\<lparr>st_published := st_published (fst (store_trade S t' st)) @ [trd_Id t']\<rparr>
      else fst (store_trade S t' st))"
    using True t(2) by (simp add: makeTradeSettledOrExpired_def t'_def Let_def)
  moreover have "st_handlers (fst (store_trade S t' st)) = st_handlers st"
    by (simp add: store_trade_def split: prod.splits)
  ultimately show ?thesis
    using g by (simp add: good_change_def svc_inv_def)
qed

lemma deliver_good:
  assumes R: "trade_repository (svc_trades S) view repo_ok"
  shows "svc_inv view repo_ok st \<Longrightarrow> \<forall>h\<in>set hs. view (st_trades st) (th_tradeId h) \<noteq> None \<Longrightarrow>
    deliver (\<lambda>h. makeTradeSettledOrExpired S (clock h) h) n hs st = (q, st') \<Longrightarrow>
    good_change D view repo_ok st st' \<and> st_handlers st' = st_handlers st \<and> set q \<subseteq> set hs"
proof (induction hs arbitrary: st q st')
  case Nil
  then show ?case by (auto simp: good_change_refl)
next
  case (Cons h hs)
  let ?m = "makeTradeSettledOrExpired S (clock h) h n st"
  obtain q1 where d: "deliver (\<lambda>h. makeTradeSettledOrExpired S (clock h) h) n hs (fst ?m) = (q1, st')" "set q \<subseteq> insert h (set q1)"
    using Cons.prems(3) by (auto split: prod.splits if_splits)
  have g: "good_change D view repo_ok st (fst ?m)" "st_handlers (fst ?m) = st_handlers st"
    using handler_good [OF R Cons.prems(1), of h D "clock h" n] Cons.prems(2) by auto
  have "svc_inv view repo_ok (fst ?m)" "\<forall>h\<in>set hs. view (st_trades (fst ?m)) (th_tradeId h) \<noteq> None"
    using g(1) Cons.prems(2) evolves_keeps [of D view "st_trades st"] by (auto simp: good_change_def)
  from Cons.IH [OF this d(1)] g d(2) show ?case
    by (auto intro: good_change_trans)
qed

section \<open>The service as a transition system\<close>

inductive svc_step :: "('d, 'm, 't, 'w) service \<Rightarrow> ('m, 't, 'w) state \<Rightarrow> ('m, 't, 'w) state \<Rightarrow> bool" for S where
  propose: "0 \<le> now \<Longrightarrow> svc_step S st (fst (TradePropose S P uuid now later b q isBuy r st))"
| complete: "svc_step S st (fst (TradeComplete S P now now' later c f st))"
| notify: "handle_notification (\<lambda>h. makeTradeSettledOrExpired S (clock h) h) n (st_handlers st) st = Inr (q, st') \<Longrightarrow>
    svc_step S st (st'\<lparr>st_handlers := q\<rparr>)"

lemma svc_step_good:
  assumes "svc_step S st st'" and R: "trade_repository (svc_trades S) view repo_ok" and inv: "svc_inv view repo_ok st"
  shows "good_change (svc_D S) view repo_ok st st'"
  using assms(1)
proof cases
  case (propose now P uuid later b q isBuy r)
  then show ?thesis using TradePropose_good [OF R inv] by simp
next
  case (complete P now now' later c f)
  then show ?thesis using TradeComplete_good [OF R inv] by simp
next
  case (notify clock n q st1)
  then have "deliver (\<lambda>h. makeTradeSettledOrExpired S (clock h) h) n (st_handlers st) st = (q, st1)"
    by (simp add: handle_notification_deliver)
  from deliver_good [OF R inv _ this, of "svc_D S"] inv
  have "good_change (svc_D S) view repo_ok st st1" "set q \<subseteq> set (st_handlers st)" "st_handlers st1 = st_handlers st"
    by (auto simp: svc_inv_def)
  then show ?thesis
    using notify(1) by (auto simp: good_change_def svc_inv_def)
qed

lemma svc_steps_good:
  assumes "(svc_step S)\<^sup>*\<^sup>* st st'" "trade_repository (svc_trades S) view repo_ok" "svc_inv view repo_ok st"
  shows "good_change (svc_D S) view repo_ok st st'"
  using assms(1)
proof (induction rule: rtranclp_induct)
  case base
  show ?case by (rule good_change_refl [OF assms(3)])
next
  case (step a b)
  then have "svc_inv view repo_ok a" by (simp add: good_change_def)
  from good_change_trans [OF step.IH svc_step_good [OF step.hyps(2) assms(2) this]] show ?case .
qed



section \<open>An accepted proposal\<close>

lemma Accept_True:
  assumes "Accept P now pset ins expiry t = (t', Inr True)" "IsProposal t" "\<not> trd_Failed t"
  shows "IsAccepted t' \<and> \<not> trd_Failed t' \<and> trd_ExpiryTime t' = expiry \<and> trd_PsetBase64 t' = pset
    \<and> trd_MarketName t' = trd_MarketName t \<and> trd_Id t' = trd_Id t"
  using assms by (auto simp: Accept_def status_preds status_ord split: option.splits prod.splits if_splits)

lemma Propose_True:
  assumes "Propose D P now ty r n b q pf ff pk (NewTrade uuid) = (t, Inr True)"
  shows "IsProposal t \<and> \<not> trd_Failed t \<and> trd_MarketName t = n \<and> trd_Id t = uuid"
  using assms
  by (auto simp: Propose_def NewTrade_def status_preds status_ord Let_def split: option.splits prod.splits sum.splits if_splits)

lemma not_ok_no_accept: "not_ok P t r \<noteq> Inr (Some a, f, e)"
  by (auto simp: not_ok_def rbind_eq_Inr split: sum.splits)

lemma propose_new_trade_accepted:
  assumes "propose_new_trade S P uuid now later mkt balance isBuy r st = (st', t, Inr (Some a, f, expiry))"
  shows "isValidTradePrice (svc_D S) mkt balance isBuy r (svc_priceSlippage S) = Inr True
    \<and> (\<exists>w pset utxos. CompleteSwap (svc_wallet S) (svc_elements S) (svc_lbtc S) (mkt_Name mkt) r (svc_milliSatsPerByte S)
        (isBuy \<and> sr_FeeAsset r = mkt_QuoteAsset mkt \<or> \<not> isBuy \<and> sr_FeeAsset r = mkt_BaseAsset mkt) (st_wallet st)
          = (w, Inr (pset, utxos, expiry))
      \<and> IsAccepted t \<and> \<not> trd_Failed t \<and> trd_ExpiryTime t = expiry \<and> trd_PsetBase64 t = pset
      \<and> trd_MarketName t = mkt_Name mkt \<and> trd_Id t = uuid
      \<and> st_handlers st' = st_handlers st @ [\<lparr>th_tradeId = uuid, th_tradeUtxos = utxos\<rparr>] \<and> f = None)"
proof -
  obtain t1 w pset utxos e where
    v: "isValidTradePrice (svc_D S) mkt balance isBuy r (svc_priceSlippage S) = Inr True" and
    p: "Propose (svc_D S) P now (tradeTypeInfo_toDomain isBuy) (swapRequestInfo_toDomain r) (mkt_Name mkt) (mkt_BaseAsset mkt)
      (mkt_QuoteAsset mkt) (mkt_PercentageFee mkt) (mkt_FixedFee mkt) [] (NewTrade uuid) = (t1, Inr True)" and
    c: "CompleteSwap (svc_wallet S) (svc_elements S) (svc_lbtc S) (mkt_Name mkt) r (svc_milliSatsPerByte S)
        (isBuy \<and> sr_FeeAsset r = mkt_QuoteAsset mkt \<or> \<not> isBuy \<and> sr_FeeAsset r = mkt_BaseAsset mkt) (st_wallet st)
          = (w, Inr (pset, utxos, e))" and
    acc: "Accept P later pset (unblinded_inputs utxos) e t1 = (t, Inr True)" and
    res: "st' = st\<lparr>st_wallet := w, st_handlers := st_handlers st @ [\<lparr>th_tradeId = trd_Id t, th_tradeUtxos = utxos\<rparr>]\<rparr>"
      "f = None" "expiry = trd_ExpiryTime t"
    using assms
    by (auto simp: propose_new_trade_def Let_def not_ok_no_accept rbind_eq_Inr RegisterHandlerForUtxoEvent_def pushBack_def
        split: sum.splits bool.splits prod.splits if_splits)
  note P = Propose_True [OF p]
  then have A: "IsAccepted t \<and> \<not> trd_Failed t \<and> trd_ExpiryTime t = e \<and> trd_PsetBase64 t = pset
    \<and> trd_MarketName t = trd_MarketName t1 \<and> trd_Id t = trd_Id t1"
    using Accept_True [OF acc] by blast
  with P v c res show ?thesis
    by (intro conjI exI [of _ w] exI [of _ pset] exI [of _ utxos]) auto
qed

text \<open>
  C24. An accepted proposal. When \<open>TradePropose\<close> returns an accept message, the market was open, the
  price passed the check against the current balances, the wallet completed the swap, and the trade
  is stored under its identifier: accepted, not failed, with the wallet's transaction and the
  expiration returned to the trader; a handler waits for the coins the wallet selected; and no
  other trade changed.
\<close>

theorem TradePropose_accepted:
  assumes R: "trade_repository (svc_trades S) view repo_ok" and ok: "repo_ok (st_trades st)"
    and fresh: "view (st_trades st) uuid = None" and now: "0 \<le> now"
    and run: "TradePropose S P uuid now later b q isBuy r st = (st', Inr (Some a, f, expiry))"
  shows "\<exists>mkt w balance w' pset utxos t. mr_GetMarketByAssets (svc_markets S) (st_markets st) b q = Inr mkt \<and> IsTradable mkt
    \<and> GetBalance (svc_wallet S) (mkt_Name mkt) (st_wallet st) = (w, Inr balance)
    \<and> isValidTradePrice (svc_D S) mkt balance isBuy r (svc_priceSlippage S) = Inr True
    \<and> CompleteSwap (svc_wallet S) (svc_elements S) (svc_lbtc S) (mkt_Name mkt) r (svc_milliSatsPerByte S)
        (isBuy \<and> sr_FeeAsset r = mkt_QuoteAsset mkt \<or> \<not> isBuy \<and> sr_FeeAsset r = mkt_BaseAsset mkt) w = (w', Inr (pset, utxos, expiry))
    \<and> view (st_trades st') = (view (st_trades st))(uuid \<mapsto> t)
    \<and> IsAccepted t \<and> \<not> trd_Failed t \<and> trd_ExpiryTime t = expiry \<and> trd_PsetBase64 t = pset \<and> trd_MarketName t = mkt_Name mkt
    \<and> st_handlers st' = st_handlers st @ [\<lparr>th_tradeId = uuid, th_tradeUtxos = utxos\<rparr>] \<and> f = None"
proof -
  from run obtain mkt w balance st1 t where
    m: "mr_GetMarketByAssets (svc_markets S) (st_markets st) b q = Inr mkt" "IsTradable mkt"
      "GetBalance (svc_wallet S) (mkt_Name mkt) (st_wallet st) = (w, Inr balance)" and
    p: "propose_new_trade S P uuid now later mkt balance isBuy r (st\<lparr>st_wallet := w\<rparr>) = (st1, t, Inr (Some a, f, expiry))" and
    st': "st' = st1\<lparr>st_trades := fst (tr_AddTrade (svc_trades S) t (st_trades st1))\<rparr>"
    by (auto simp: TradePropose_def split: sum.splits prod.splits if_splits)
  note pn = propose_new_trade_accepted [OF p] and steps = propose_new_trade_steps [OF now p]
  have "view (st_trades st') = (view (st_trades st))(uuid \<mapsto> t)"
    using trade_repository.add_view [OF R, of "st_trades st1" t] ok fresh steps(2,3) by (simp add: st')
  with m pn st' show ?thesis
    by (auto 0 4 intro!: exI [of _ mkt])
qed


section \<open>A completed trade\<close>

lemma complete_trade_done:
  assumes "complete_trade S P now later tx t w = (w', t', Inr (txid, None))"
  shows "Complete P now later tx t = (t', Inr True) \<and> BroadcastTransaction (svc_wallet S) (trd_TxHex t') w = (w', Inr txid)"
proof -
  have "rbind (not_ok P x ok) (\<lambda>(_, f, _). Inr ('''', f)) \<noteq> Inr (txid, None)" for x ok
    by (auto simp: not_ok_def rbind_eq_Inr split: sum.splits)
  with assms show ?thesis
    by (auto simp: complete_trade_def Let_def rbind_eq_Inr split: prod.splits if_splits sum.splits option.splits)
qed

text \<open>
  C6. A completion. When \<open>TradeComplete\<close> returns a transaction identifier and no failure, the trade was
  stored with the accept message the trader named, had not expired, and its completion succeeded;
  the transaction broadcast is the one the completed trade stores; that trade replaces the old one
  and no other trade changed.
\<close>

theorem TradeComplete_done:
  assumes R: "trade_repository (svc_trades S) view repo_ok" and ok: "repo_ok (st_trades st)"
    and run: "TradeComplete S P now now' later (Some c) None st = (st', Inr (txid, None))"
  shows "\<exists>t t' w'. view (st_trades st) (trd_Id t) = Some t \<and> map_option swap_Id (trd_SwapAccept t) = Some (sc_AcceptId c)
    \<and> \<not> IsExpired now t \<and> Complete P now' later (sc_Transaction c) t = (t', Inr True)
    \<and> BroadcastTransaction (svc_wallet S) (trd_TxHex t') (st_wallet st) = (w', Inr txid)
    \<and> view (st_trades st') = (view (st_trades st))(trd_Id t \<mapsto> t') \<and> st_handlers st' = st_handlers st"
proof -
  from run obtain t w t' r where
    t: "tr_GetTradeBySwapAcceptId (svc_trades S) (st_trades st) (sc_AcceptId c) = Inr t" "\<not> IsExpired now t" and
    c: "complete_trade S P now' later (sc_Transaction c) t (st_wallet st) = (w, t', r)" and
    s: "(case store_trade S t' (st\<lparr>st_wallet := w\<rparr>) of (st, Inl e) \<Rightarrow> (st, if panics r then r else Inl e) | (st, Inr _) \<Rightarrow> (st, r))
          = (st', Inr (txid, None))"
    by (auto simp: TradeComplete_def split: sum.splits if_splits prod.splits)
  have v: "view (st_trades st) (trd_Id t) = Some t" "map_option swap_Id (trd_SwapAccept t) = Some (sc_AcceptId c)"
    using trade_repository.accept_sound [OF R ok t(1)] by auto
  have k: "keeps_keys t t'" "trd_Id t' = trd_Id t"
    using complete_trade_steps [OF c] by (auto simp: keeps_keys_def)
  from trade_repository.update_view [OF R ok v(1) k(1)] k(2) s
  have st': "view (st_trades st') = (view (st_trades st))(trd_Id t \<mapsto> t')" "st_handlers st' = st_handlers st" "r = Inr (txid, None)"
    by (auto simp: store_trade_def split: prod.splits sum.splits)
  from complete_trade_done [OF c [unfolded st'(3)]] v t(2) st' show ?thesis by blast
qed

section \<open>The price check\<close>

text \<open>\<open>in_range e a s\<close>: the amount \<open>a\<close> differs from \<open>e\<close> by at most the fraction \<open>s\<close> of it.\<close>

definition in_range :: "rat \<Rightarrow> rat \<Rightarrow> rat \<Rightarrow> bool" where
  "in_range e a s \<longleftrightarrow> e * (1 - s) \<le> a \<and> a \<le> e * (1 + s)"

lemma isPriceInRange_iff:
  assumes "decimal_lib D val"
  shows "isPriceInRange D r p s \<longleftrightarrow>
    in_range (of_int (int64 (if pi_Asset (snd p) = sr_AssetR r then sr_AmountR r else sr_AmountP r)))
      (of_int (int64 (pi_Amount (snd p)))) (val s)"
  using assms by (simp add: isPriceInRange_def in_range_def Let_def decimal_lib.dec_val)


section \<open>Start-up\<close>

definition due :: "time \<Rightarrow> Trade \<Rightarrow> bool" where
  "due now t \<longleftrightarrow> (IsAccepted t \<or> IsCompleted t) \<and> snd (Expire now t) = Inr True"

lemma pending_trades_due:
  "pending_trades S P now ts = Inr xs \<Longrightarrow> xs = map (\<lambda>t. fst (Expire now t)) (filter (due now) ts)"
proof (induction ts arbitrary: xs)
  case (Cons t ts)
  then show ?case
    by (auto simp: pending_trade_def due_def rbind_eq_Inr split: if_splits prod.splits sum.splits bool.splits option.splits)
qed simp

lemma fold_store_view:
  assumes R: "trade_repository (svc_trades S) view repo_ok"
  shows "repo_ok (st_trades st) \<Longrightarrow> distinct (map trd_Id ts) \<Longrightarrow> \<forall>t\<in>set ts. view (st_trades st) (trd_Id t) = Some t \<Longrightarrow>
    (\<And>t. t \<in> set ts \<Longrightarrow> keeps_keys t (g t)) \<Longrightarrow>
    repo_ok (st_trades (fold (\<lambda>t st. fst (store_trade S t st)) (map g ts) st)) \<and>
    view (st_trades (fold (\<lambda>t st. fst (store_trade S t st)) (map g ts) st)) =
      (\<lambda>k. case find (\<lambda>t. trd_Id t = k) ts of None \<Rightarrow> view (st_trades st) k | Some t \<Rightarrow> Some (g t))"
proof (induction ts arbitrary: st)
  case (Cons t ts)
  have k: "keeps_keys t (g t)" and v: "view (st_trades st) (trd_Id t) = Some t" and id: "trd_Id (g t) = trd_Id t"
    using Cons.prems(3,4) by (auto simp: keeps_keys_def)
  let ?st = "fst (store_trade S (g t) st)"
  have u: "repo_ok (st_trades ?st)" "view (st_trades ?st) = (view (st_trades st))(trd_Id t \<mapsto> g t)"
    using trade_repository.update_view [OF R Cons.prems(1) v k] by (simp_all add: store_trade_def id case_prod_beta)
  have "\<forall>x\<in>set ts. view (st_trades ?st) (trd_Id x) = Some x"
    using Cons.prems(2,3) by (auto simp: u(2) image_iff)
  from Cons.IH [OF u(1) _ this] Cons.prems(2,4)
  have IH: "repo_ok (st_trades (fold (\<lambda>t st. fst (store_trade S t st)) (map g ts) ?st))"
    "view (st_trades (fold (\<lambda>t st. fst (store_trade S t st)) (map g ts) ?st)) =
      (\<lambda>k. case find (\<lambda>t. trd_Id t = k) ts of None \<Rightarrow> view (st_trades ?st) k | Some t \<Rightarrow> Some (g t))"
    by auto
  have "find (\<lambda>x. trd_Id x = trd_Id t) ts = None"
    using Cons.prems(2) by (auto simp: find_None_iff image_iff)
  then show ?case
    using IH by (auto simp: u(2) fun_eq_iff split: option.splits)
qed simp



section \<open>Examples\<close>

definition ex_balance :: "u64 \<Rightarrow> Balance" where
  "ex_balance x = \<lparr>bal_ConfirmedBalance = x, bal_UnconfirmedBalance = 0, bal_LockedBalance = 0, bal_TotalBalance = x\<rparr>"


definition ex_service :: "(fdec, marketInmemoryStore, Trade mem_store, unit) service" where
  "ex_service = \<lparr>svc_D = fixdec, svc_markets = inmemory_market_repo fixdec (\<lambda>s. [1]) (\<lambda>m. m),
     svc_trades = badger_trade_repo stable_sort mem_badgerhold,
     svc_wallet = ex_wallet\<lparr>GetBalance := (\<lambda>_. cret [(ex_base, ex_balance 100000000), (ex_quote, ex_balance 1000000000000)])\<rparr>,
     svc_elements = ex_elements, svc_lbtc = ''l'', svc_priceSlippage = (5, 2), svc_milliSatsPerByte = 100\<rparr>"

abbreviation ex_view :: "Trade mem_store \<Rightarrow> string \<Rightarrow> Trade option" where
  "ex_view \<equiv> \<lambda>s. gm_get (fst s)"

lemma ex_service_repository: "trade_repository (svc_trades ex_service) ex_view (trades_ok ex_view)"
  unfolding ex_service_def by (simp add: badger_trades.trade_repository_axioms)

definition ex_state :: "(marketInmemoryStore, Trade mem_store, unit) state" where
  "ex_state = \<lparr>st_markets = ex_store, st_trades = ([], 0), st_wallet = (), st_handlers = [],
     st_published = [], st_crashed = False\<rparr>"

lemma ex_state_inv: "svc_inv ex_view (trades_ok ex_view) ex_state" "trades_ok ex_view (st_trades ex_state)"
  by (simp_all add: svc_inv_def ex_state_def trades_ok_def)

text \<open>A trade proposed at 900, accepted until 1000, completed at 950.\<close>

definition ex_proposal :: "(marketInmemoryStore, Trade mem_store, unit) state \<times> proposal res" where
  "ex_proposal = TradePropose ex_service ex_parser ''id'' (time_Unix 900) (time_Unix 901) ex_base ex_quote False ex_request ex_state"

lemma ex_proposal_run: "snd ex_proposal = Inr (Some None, None, 1000)"
  by code_simp

definition ex_complete :: "(marketInmemoryStore, Trade mem_store, unit) state \<times> (string \<times> SwapFail iface) res" where
  "ex_complete = TradeComplete ex_service ex_parser (time_Unix 950) (time_Unix 950) (time_Unix 950)
     (Some \<lparr>sc_Id = '''', sc_AcceptId = ''accept'', sc_Transaction = ''signed''\<rparr>) None (fst ex_proposal)"

lemma ex_complete_run: "snd ex_complete = Inr (''txid'', None)"
  by code_simp

theorem TradePropose_accepted_witness:
  "\<exists>t. ex_view (st_trades (fst ex_proposal)) ''id'' = Some t \<and> IsAccepted t \<and> trd_ExpiryTime t = 1000"
proof -
  have "TradePropose ex_service ex_parser ''id'' (time_Unix 900) (time_Unix 901) ex_base ex_quote False ex_request ex_state
      = (fst ex_proposal, Inr (Some None, None, 1000))"
    using ex_proposal_run unfolding ex_proposal_def by (metis prod.collapse)
  from TradePropose_accepted [OF ex_service_repository ex_state_inv(2) _ _ this]
  show ?thesis by (auto simp: ex_state_def time_Unix_def)
qed

lemma ex_proposal_step: "svc_step ex_service ex_state (fst ex_proposal)"
  unfolding ex_proposal_def by (rule svc_step.propose) (simp add: time_Unix_def)

lemma ex_proposal_stored:
  "map fst (fst (st_trades (fst ex_proposal))) = [''id'']
    \<and> list_all (due (time_Unix 1001)) (map snd (fst (st_trades (fst ex_proposal))))
    \<and> \<not> st_crashed (fst ex_proposal)
    \<and> \<not> st_crashed (checkForPendingTrades ex_service ex_parser (time_Unix 1001) (fst ex_proposal))"
  by code_simp


lemma ex_proposal_ok: "trades_ok ex_view (st_trades (fst ex_proposal))"
  using svc_step_good [OF ex_proposal_step ex_service_repository ex_state_inv(1)]
  by (simp add: good_change_def svc_inv_def)

theorem TradeComplete_done_witness:
  "\<exists>t t'. ex_view (st_trades (fst ex_proposal)) (trd_Id t) = Some t \<and> \<not> IsExpired (time_Unix 950) t
    \<and> Complete ex_parser (time_Unix 950) (time_Unix 950) ''signed'' t = (t', Inr True)
    \<and> ex_view (st_trades (fst ex_complete)) = (ex_view (st_trades (fst ex_proposal)))(trd_Id t \<mapsto> t')"
proof -
  have "TradeComplete ex_service ex_parser (time_Unix 950) (time_Unix 950) (time_Unix 950)
     (Some \<lparr>sc_Id = '''', sc_AcceptId = ''accept'', sc_Transaction = ''signed''\<rparr>) None (fst ex_proposal)
      = (fst ex_complete, Inr (''txid'', None))"
    using ex_complete_run unfolding ex_complete_def by (metis prod.collapse)
  from TradeComplete_done [OF ex_service_repository ex_proposal_ok this] show ?thesis by auto
qed



text \<open>
  A notification of any kind about the coins of a trade uses up its handler: one that they were
  locked leaves the trade accepted with nobody waiting for its settlement.
\<close>

lemma any_event_drops_handler:
  "list_ex (contains_utxo us) (th_tradeUtxos h) \<Longrightarrow>
   snd (makeTradeSettledOrExpired S now h \<lparr>un_EventType = UtxoLocked, un_Utxos = us\<rparr> st)"
  by (simp add: makeTradeSettledOrExpired_def Let_def split: sum.splits)

text \<open>The price of a market without funds: asking a missing balance for its amount panics.\<close>

lemma price_without_balance_panics:
  "snd (GetMarketPrice_svc (ex_service\<lparr>svc_wallet := ex_wallet\<rparr>) ex_base ex_quote ex_state) = Inl nil_deref"
  by code_simp

end
