(* ===== verification/Coin_Selection.thy ===== *)
theory Coin_Selection
  imports Prelude "HOL-Library.Sublist"
begin

text \<open>
  \<open>pkg/explorer/coinselection.go\<close>: choosing unspent outputs that cover an amount. Amounts are
  64-bit words and their sums wrap as in Go. \<open>srt\<close> is what \<open>sort.Slice\<close> does with the descending
  comparison: some permutation in descending order of value, not necessarily the stable one.
\<close>

section \<open>Definitions\<close>

record Utxo =
  ux_Hash :: string
  ux_Index :: u32
  ux_Value :: u64
  ux_Asset :: string
  ux_IsConfidential :: bool
  ux_IsRevealed :: bool

definition coins_sum :: "u64 list \<Rightarrow> u64" where
  "coins_sum items = fold (\<lambda>v total. total + v) items 0"

text \<open>
  \<open>comb\<close> is the package variable \<open>combination\<close>: a call appends to it before each recursive call
  and takes the element off afterwards, so a call finds and leaves it as its caller set it.
\<close>

fun getCombination :: "u64 list \<Rightarrow> u64 list \<Rightarrow> nat \<Rightarrow> nat \<Rightarrow> u64 list list" where
  "getCombination comb src 0 offset = [comb]"
| "getCombination comb src (Suc n) offset =
     concat (map (\<lambda>i. getCombination (comb @ [src ! i]) src n (Suc i)) [offset..<Suc (length src) - Suc n])"

text \<open>The inner loop of \<open>getBestCombination\<close>: the first combination that meets the requirements.\<close>

definition good_total :: "u64 \<Rightarrow> u64 list \<Rightarrow> bool" where
  "good_total target c = (let total = coins_sum c in
     if total < target then False else if total = target then True else total \<le> target * 10)"

fun best_loop :: "u64 list \<Rightarrow> u64 \<Rightarrow> u64 list list \<Rightarrow> nat list \<Rightarrow> u64 list option" where
  "best_loop items target result [] = None"
| "best_loop items target result (i # is) =
     (let result = result @ getCombination [] items i 0
      in case find (good_total target) result of
           Some c \<Rightarrow> Some c
         | None \<Rightarrow> best_loop items target result is)"

definition getBestCombination :: "u64 list \<Rightarrow> u64 \<Rightarrow> u64 list" where
  "getBestCombination items target = (case best_loop items target [] [1..<length items + 1] of
     Some c \<Rightarrow> c
   | None \<Rightarrow> (case find (\<lambda>v. v > target) items of Some v \<Rightarrow> [v] | None \<Rightarrow> []))"

fun isIndexOccupied :: "nat \<Rightarrow> nat list \<Rightarrow> bool" where
  "isIndexOccupied i [] = False"
| "isIndexOccupied i (v # vs) = (if v = i then True else isIndexOccupied i vs)"

text \<open>The inner loop of \<open>findIndexes\<close>: the first free index that holds the value, if any.\<close>

fun find_free :: "u64 \<Rightarrow> nat list \<Rightarrow> (nat \<times> u64) list \<Rightarrow> nat option" where
  "find_free v indexes [] = None"
| "find_free v indexes ((i, v1) # rest) =
     (if v = v1 then if isIndexOccupied i indexes then find_free v indexes rest else Some i
      else find_free v indexes rest)"

fun findIndexes_loop :: "u64 list \<Rightarrow> u64 list \<Rightarrow> nat list \<Rightarrow> nat list" where
  "findIndexes_loop [] values indexes = indexes"
| "findIndexes_loop (v # vs) values indexes =
     (case find_free v indexes (enumerate 0 values) of
        Some i \<Rightarrow> findIndexes_loop vs values (indexes @ [i])
      | None \<Rightarrow> findIndexes_loop vs values indexes)"

definition findIndexes :: "u64 list \<Rightarrow> u64 list \<Rightarrow> nat list" where
  "findIndexes lst values = findIndexes_loop lst values []"

text \<open>\<open>getCoinsIndexes\<close> sorts its argument in place: the indexes are those of the sorted slice.\<close>

definition getCoinsIndexes :: "(Utxo list \<Rightarrow> Utxo list) \<Rightarrow> u64 \<Rightarrow> Utxo list \<Rightarrow> Utxo list \<times> nat list" where
  "getCoinsIndexes srt targetAmount unblindedUtxos =
     (let unblindedUtxos = srt unblindedUtxos;
          values = map ux_Value unblindedUtxos;
          lst = getBestCombination values targetAmount
      in (unblindedUtxos, findIndexes lst values))"

definition SelectUnspents :: "(Utxo list \<Rightarrow> Utxo list) \<Rightarrow> Utxo list \<Rightarrow> u64 \<Rightarrow> string \<Rightarrow> (Utxo list \<times> u64) res" where
  "SelectUnspents srt utxos targetAmount targetAsset =
     (if list_ex (\<lambda>u. ux_IsConfidential u \<and> \<not> ux_IsRevealed u) utxos
      then Inl (Errorf ''error on utxos: all confidential utxos must be already unblinded'' [])
      else
        let unblindedUtxos = filter (\<lambda>u. ux_Asset u = targetAsset) utxos;
            (unblindedUtxos, indexes) = getCoinsIndexes srt targetAmount unblindedUtxos
        in if length indexes \<le> 0
           then Inl (Errorf ''error on target amount: total utxo amount does not cover target amount'' [])
           else
             let coins = map (\<lambda>v. unblindedUtxos ! v) indexes;
                 totalAmount = coins_sum (map ux_Value coins)
             in Inr (coins, totalAmount - targetAmount))"

definition sorts_desc :: "(Utxo list \<Rightarrow> Utxo list) \<Rightarrow> bool" where
  "sorts_desc srt \<longleftrightarrow> (\<forall>us. mset (srt us) = mset us \<and> sorted_wrt (\<lambda>a b. ux_Value a \<ge> ux_Value b) (srt us))"

section \<open>Combinations\<close>

text \<open>The combinations of a given size, by recursion on the list.\<close>

fun combs :: "'a list \<Rightarrow> nat \<Rightarrow> 'a list list" where
  "combs xs 0 = [[]]"
| "combs [] (Suc k) = []"
| "combs (x # xs) (Suc k) = map ((#) x) (combs xs k) @ combs xs (Suc k)"

lemma combs_short: "length xs < k \<Longrightarrow> combs xs k = []"
  by (induction xs k rule: combs.induct) auto

lemma combs_drop:
  assumes "k \<le> length src"
  shows "concat (map (\<lambda>i. map ((#) (src ! i)) (combs (drop (Suc i) src) n)) [k..<length src - n]) = combs (drop k src) (Suc n)"
  using assms
proof (induction "length src - k" arbitrary: k)
  case 0
  then have "k = length src" by simp
  then show ?case by simp
next
  case (Suc d)
  then have k: "k < length src" by simp
  then have d: "drop k src = src ! k # drop (Suc k) src"
    by (rule Cons_nth_drop_Suc [symmetric])
  show ?case
  proof (cases "k < length src - n")
    case True
    with Suc k show ?thesis
      by (simp add: upt_conv_Cons d)
  next
    case False
    then have "combs (drop (Suc k) src) n = [] \<and> combs (drop (Suc k) src) (Suc n) = []"
      using k by (auto intro!: combs_short)
    with False show ?thesis
      by (simp add: d)
  qed
qed

lemma getCombination_combs:
  "offset \<le> length src \<Longrightarrow> getCombination comb src k offset = map ((@) comb) (combs (drop offset src) k)"
proof (induction k arbitrary: comb offset)
  case (Suc n)
  have "getCombination comb src (Suc n) offset
    = concat (map (\<lambda>i. map (\<lambda>c. comb @ src ! i # c) (combs (drop (Suc i) src) n)) [offset..<length src - n])"
    using Suc.IH by (auto intro!: arg_cong [where f = concat] map_cong)
  also have "\<dots> = map ((@) comb) (concat (map (\<lambda>i. map ((#) (src ! i)) (combs (drop (Suc i) src) n)) [offset..<length src - n]))"
    by (simp add: map_concat o_def)
  finally show ?case
    using combs_drop [OF Suc.prems] by simp
qed simp

lemma getCombination_top: "getCombination [] src k 0 = combs src k"
proof -
  have "(@) [] = (\<lambda>c :: u64 list. c)" by (rule ext) simp
  then show ?thesis by (simp add: getCombination_combs)
qed

lemma set_combs: "set (combs xs k) = {ys. subseq ys xs \<and> length ys = k}"
proof (induction xs k rule: combs.induct)
  case (3 x xs k)
  show ?case
  proof (intro set_eqI iffI)
    fix ys
    assume "ys \<in> set (combs (x # xs) (Suc k))"
    with 3 show "ys \<in> {ys. subseq ys (x # xs) \<and> length ys = Suc k}"
      by auto
  next
    fix ys
    assume "ys \<in> {ys. subseq ys (x # xs) \<and> length ys = Suc k}"
    then show "ys \<in> set (combs (x # xs) (Suc k))"
      using 3 by (cases ys) (auto elim!: list_emb.cases split: if_splits)
  qed
qed auto

lemma length_combs: "length (combs xs k) = length xs choose k"
  by (induction xs k rule: combs.induct) simp_all


section \<open>Sums without wrap-around\<close>

definition usum :: "u64 list \<Rightarrow> int" where
  "usum vs = sum_list (map uint vs)"

lemma usum_simps [simp]: "usum [] = 0" "usum (v # vs) = uint v + usum vs" "usum (vs @ ws) = usum vs + usum ws"
  by (simp_all add: usum_def)

lemma usum_nonneg [simp]: "0 \<le> usum vs"
  by (induction vs) simp_all

lemma coins_sum_eq: "coins_sum vs = sum_list vs"
proof -
  have "fold (\<lambda>v total. total + v) vs t = t + sum_list vs" for t :: u64
    by (induction vs arbitrary: t) (simp_all add: add.assoc)
  then show ?thesis by (simp add: coins_sum_def)
qed

lemma uint_coins_sum: "uint (coins_sum vs) = usum vs mod 2 ^ 64"
  unfolding coins_sum_eq by (induction vs) (simp_all add: uint_word_ariths mod_add_right_eq)

lemma usum_mset: "mset vs = mset ws \<Longrightarrow> usum vs = usum ws"
  unfolding usum_def by (metis mset_map sum_mset_sum_list)

lemma usum_subset: "mset vs \<subseteq># mset ws \<Longrightarrow> usum vs \<le> usum ws"
proof -
  assume "mset vs \<subseteq># mset ws"
  then obtain R where "mset ws = mset vs + R" by (auto simp: subset_mset.le_iff_add)
  moreover obtain rs where "R = mset rs" by (metis ex_mset)
  ultimately have "usum ws = usum (vs @ rs)" by (intro usum_mset) simp
  then show ?thesis by simp
qed

lemma subseq_mset: "subseq ys xs \<Longrightarrow> mset ys \<subseteq># mset xs"
  by (induction rule: list_emb.induct) (auto intro: subset_mset.order_trans)

lemma uint_coins_sum_small: "usum vs < 2 ^ 64 \<Longrightarrow> uint (coins_sum vs) = usum vs"
  by (simp add: uint_coins_sum)

section \<open>The best combination\<close>

lemma find_append_Some: "find P xs = Some c \<Longrightarrow> find P (xs @ ys) = Some c"
  by (induction xs) (auto split: if_splits)

lemma best_loop_eq:
  "find (good_total target) result = None \<Longrightarrow>
   best_loop items target result js = find (good_total target) (result @ concat (map (combs items) js))"
proof (induction js arbitrary: result)
  case (Cons j js)
  show ?case
  proof (cases "find (good_total target) (result @ combs items j)")
    case None
    with Cons.IH [of "result @ combs items j"] show ?thesis
      by (simp add: getCombination_top)
  next
    case (Some c)
    from find_append_Some [OF this, of "concat (map (combs items) js)"] Some show ?thesis
      by (simp add: getCombination_top)
  qed
qed simp

text \<open>
  Every subset of the coins, smaller ones first, is tried against the requirements; only then is a
  single coin above the target taken.
\<close>

lemma getBestCombination_eq:
  "getBestCombination items target =
     (case find (good_total target) (concat (map (combs items) [1..<length items + 1])) of
        Some c \<Rightarrow> c
      | None \<Rightarrow> (case find (\<lambda>v. v > target) items of Some v \<Rightarrow> [v] | None \<Rightarrow> []))"
  by (simp add: getBestCombination_def best_loop_eq)

lemma good_total_covers: "good_total target c \<Longrightarrow> target \<le> coins_sum c"
  by (auto simp: good_total_def Let_def split: if_splits)

lemma getBestCombination_sound:
  assumes "getBestCombination items target = c" "c \<noteq> []"
  shows "subseq c items \<and> target \<le> coins_sum c"
proof (cases "find (good_total target) (concat (map (combs items) [1..<length items + 1]))")
  case (Some d)
  with assms have "d = c" by (simp add: getBestCombination_eq)
  with find_Some_mem [OF Some] show ?thesis
    by (auto simp: set_combs good_total_covers)
next
  case None
  with assms obtain v where "find (\<lambda>v. v > target) items = Some v" "c = [v]"
    by (auto simp: getBestCombination_eq split: option.splits)
  with find_Some_mem [of "\<lambda>v. v > target" items v] show ?thesis
    by (auto simp: subseq_singleton_left coins_sum_eq)
qed

text \<open>
  Completeness. Where no single coin exceeds the target, adding coins one at a time crosses it
  in steps no larger than the target, so some prefix lands between the target and twice the target.
\<close>

lemma prefix_crosses:
  assumes "0 < t" "t \<le> usum vs" "\<forall>v\<in>set vs. uint v \<le> t"
  shows "\<exists>ws. prefix ws vs \<and> ws \<noteq> [] \<and> t \<le> usum ws \<and> usum ws < 2 * t"
  using assms
proof (induction vs rule: rev_induct)
  case (snoc v vs)
  show ?case
  proof (cases "t \<le> usum vs")
    case True
    then show ?thesis
      using snoc by (auto intro: prefix_prefix)
  next
    case False
    then show ?thesis
      using snoc.prems by (intro exI [of _ "vs @ [v]"]) auto
  qed
qed simp

lemma getBestCombination_complete:
  assumes "0 < target" "uint target * 10 < 2 ^ 64" "usum items < 2 ^ 64" "uint target \<le> usum items"
  shows "getBestCombination items target \<noteq> []"
proof
  assume emp: "getBestCombination items target = []"
  have None: "find (good_total target) (concat (map (combs items) [1..<length items + 1])) = None"
  proof (rule ccontr)
    assume "find (good_total target) (concat (map (combs items) [1..<length items + 1])) \<noteq> None"
    then obtain d where "find (good_total target) (concat (map (combs items) [1..<length items + 1])) = Some d"
      by blast
    with find_Some_mem [OF this] emp show False
      by (auto simp: getBestCombination_eq set_combs)
  qed
  with emp have "find (\<lambda>v. v > target) items = None"
    by (auto simp: getBestCombination_eq split: option.splits)
  then have small: "\<forall>v\<in>set items. uint v \<le> uint target"
    by (auto simp: find_None_iff word_less_def word_le_def not_less)
  obtain ws where ws: "prefix ws items" "ws \<noteq> []" "uint target \<le> usum ws" "usum ws < 2 * uint target"
    using prefix_crosses [OF _ assms(4) small] assms(1) by (auto simp: word_less_def)
  have "uint (target * 10) = uint target * 10"
    using assms(2) by (simp add: uint_word_ariths)
  moreover have "uint (coins_sum ws) = usum ws"
    using ws(4) assms(2) by (intro uint_coins_sum_small) simp
  ultimately have "good_total target ws"
    using ws(3,4) by (auto simp: good_total_def Let_def word_less_def word_le_def)
  moreover have "ws \<in> set (concat (map (combs items) [1..<length items + 1]))"
    using ws(1,2) prefix_length_le [OF ws(1)]
    by (auto simp: set_combs prefix_imp_subseq Suc_le_eq less_Suc_eq_le)
  ultimately show False
    using None unfolding find_None_iff by blast
qed


section \<open>From values back to coins\<close>

lemma isIndexOccupied_iff [simp]: "isIndexOccupied i vs \<longleftrightarrow> i \<in> set vs"
  by (induction vs) auto

lemma find_free_Some: "find_free v indexes ps = Some i \<Longrightarrow> (i, v) \<in> set ps \<and> i \<notin> set indexes"
  by (induction v indexes ps rule: find_free.induct) (auto split: if_splits)

lemma find_free_None: "find_free v indexes ps = None \<Longrightarrow> (i, v) \<in> set ps \<Longrightarrow> i \<in> set indexes"
  by (induction v indexes ps rule: find_free.induct) (auto split: if_splits)

lemma in_enumerate0: "(i, v) \<in> set (enumerate 0 vals) \<longleftrightarrow> i < length vals \<and> vals ! i = v"
  by (auto simp: in_set_enumerate_eq)

lemma count_filter: "count (mset xs) v = length (filter (\<lambda>x. x = v) xs)"
  by (induction xs) auto

lemma find_free_exists:
  assumes "distinct indexes" "mset (v # map ((!) vals) indexes) \<subseteq># mset vals"
  shows "find_free v indexes (enumerate 0 vals) \<noteq> None"
proof
  assume "find_free v indexes (enumerate 0 vals) = None"
  then have occ: "{i. i < length vals \<and> vals ! i = v} \<subseteq> {i \<in> set indexes. vals ! i = v}"
    by (auto simp: in_enumerate0 dest: find_free_None)
  have "count (mset vals) v = card {i. i < length vals \<and> vals ! i = v}"
    by (simp only: count_filter length_filter_conv_card)
  also have "\<dots> \<le> card {i \<in> set indexes. vals ! i = v}"
    using occ by (intro card_mono) auto
  also have "\<dots> = length (filter (\<lambda>i. vals ! i = v) indexes)"
    by (simp only: set_filter [symmetric] distinct_card [OF distinct_filter [OF assms(1)]])
  also have "\<dots> = count (mset (map ((!) vals) indexes)) v"
    by (simp only: count_filter filter_map length_map o_def)
  also have "\<dots> < count (mset (v # map ((!) vals) indexes)) v"
    by simp
  finally show False
    using mset_subset_eq_count [OF assms(2), of v] by linarith
qed

lemma findIndexes_loop_correct:
  assumes "distinct indexes" "\<forall>i\<in>set indexes. i < length vals"
    "mset lst + mset (map ((!) vals) indexes) \<subseteq># mset vals"
  shows "\<exists>js. findIndexes_loop lst vals indexes = indexes @ js \<and> map ((!) vals) js = lst
    \<and> distinct (indexes @ js) \<and> (\<forall>j\<in>set js. j < length vals)"
  using assms
proof (induction lst arbitrary: indexes)
  case (Cons v vs)
  have "mset (v # map ((!) vals) indexes) \<subseteq># mset vals"
  proof (rule subset_mset.order_trans [OF _ Cons.prems(3)])
    show "mset (v # map ((!) vals) indexes) \<subseteq># mset (v # vs) + mset (map ((!) vals) indexes)"
      by simp
  qed
  from find_free_exists [OF Cons.prems(1) this]
  obtain i where i: "find_free v indexes (enumerate 0 vals) = Some i" by blast
  then have iv: "i < length vals" "vals ! i = v" "i \<notin> set indexes"
    using find_free_Some [OF i] by (auto simp: in_enumerate0)
  then have "\<exists>js. findIndexes_loop vs vals (indexes @ [i]) = (indexes @ [i]) @ js \<and> map ((!) vals) js = vs
    \<and> distinct ((indexes @ [i]) @ js) \<and> (\<forall>j\<in>set js. j < length vals)"
    using Cons.prems by (intro Cons.IH) simp_all
  then obtain js where "findIndexes_loop vs vals (indexes @ [i]) = (indexes @ [i]) @ js" "map ((!) vals) js = vs"
    "distinct ((indexes @ [i]) @ js)" "\<forall>j\<in>set js. j < length vals"
    by blast
  with i iv show ?case
    by (intro exI [of _ "i # js"]) auto
qed simp

lemma findIndexes_correct:
  assumes "mset lst \<subseteq># mset vals"
  shows "map ((!) vals) (findIndexes lst vals) = lst" "distinct (findIndexes lst vals)"
    "\<forall>j\<in>set (findIndexes lst vals). j < length vals"
  using findIndexes_loop_correct [of "[]" vals lst] assms by (auto simp: findIndexes_def)

lemma map_nth_distinct_subset:
  assumes "distinct js" "\<forall>j\<in>set js. j < length xs"
  shows "mset (map ((!) xs) js) \<subseteq># mset xs"
proof -
  have "mset_set (set js) \<subseteq># mset_set (set [0..<length xs])"
    using assms(2) by (intro subset_imp_msubset_mset_set) auto
  then have "mset js \<subseteq># mset [0..<length xs]"
    using assms(1) by (simp only: mset_set_set distinct_upt)
  then have "image_mset ((!) xs) (mset js) \<subseteq># image_mset ((!) xs) (mset [0..<length xs])"
    by (rule image_mset_subseteq_mono)
  then show ?thesis
    by (metis map_nth mset_map)
qed


section \<open>Selecting coins\<close>

lemma sorts_desc_mset: "sorts_desc srt \<Longrightarrow> mset (srt us) = mset us"
  by (simp add: sorts_desc_def)

lemma getCoinsIndexes_correct:
  assumes "getCoinsIndexes srt t us = (vs, js)"
  shows "vs = srt us" "map (\<lambda>j. ux_Value (vs ! j)) js = getBestCombination (map ux_Value (srt us)) t"
    "mset (map ((!) vs) js) \<subseteq># mset (srt us)"
proof -
  let ?vals = "map ux_Value (srt us)"
  let ?c = "getBestCombination ?vals t"
  have vs: "vs = srt us" and js: "js = findIndexes ?c ?vals"
    using assms by (auto simp: getCoinsIndexes_def Let_def)
  show "vs = srt us" by (rule vs)
  have "mset ?c \<subseteq># mset ?vals"
  proof (cases "?c = []")
    case False
    with getBestCombination_sound [of ?vals t ?c] show ?thesis by (intro subseq_mset) simp
  qed simp
  note fi = findIndexes_correct [OF this]
  show "map (\<lambda>j. ux_Value (vs ! j)) js = ?c"
  proof -
    have "map (\<lambda>j. ux_Value (srt us ! j)) js = map ((!) ?vals) js"
      using fi(3) unfolding js by (intro map_cong) simp_all
    with fi(1) show ?thesis unfolding js vs by simp
  qed
  show "mset (map ((!) vs) js) \<subseteq># mset (srt us)"
    using fi(2,3) unfolding js vs by (intro map_nth_distinct_subset) auto
qed

lemma SelectUnspents_Inr:
  assumes "SelectUnspents srt utxos t a = Inr (coins, change)"
  defines "us \<equiv> srt (filter (\<lambda>u. ux_Asset u = a) utxos)"
  shows "map ux_Value coins = getBestCombination (map ux_Value us) t" "coins \<noteq> []"
    "mset coins \<subseteq># mset us" "change = coins_sum (map ux_Value coins) - t"
proof -
  obtain vs js where g: "getCoinsIndexes srt t (filter (\<lambda>u. ux_Asset u = a) utxos) = (vs, js)"
    by (cases "getCoinsIndexes srt t (filter (\<lambda>u. ux_Asset u = a) utxos)") blast
  note gc = getCoinsIndexes_correct [OF g]
  have c: "js \<noteq> []" "coins = map ((!) vs) js" "change = coins_sum (map ux_Value coins) - t"
    using assms(1) by (auto simp: SelectUnspents_def g Let_def split: if_splits)
  show "map ux_Value coins = getBestCombination (map ux_Value us) t"
    using gc(2) by (simp add: c(2) us_def o_def)
  show "coins \<noteq> []" "change = coins_sum (map ux_Value coins) - t"
    using c by simp_all
  show "mset coins \<subseteq># mset us"
    using gc(3) by (simp only: c(2) us_def)
qed

lemma SelectUnspents_Inl:
  assumes "\<forall>u\<in>set utxos. ux_IsConfidential u \<longrightarrow> ux_IsRevealed u"
  shows "isl (SelectUnspents srt utxos t a)
    \<longleftrightarrow> getBestCombination (map ux_Value (srt (filter (\<lambda>u. ux_Asset u = a) utxos))) t = []"
proof -
  obtain vs js where g: "getCoinsIndexes srt t (filter (\<lambda>u. ux_Asset u = a) utxos) = (vs, js)"
    by (cases "getCoinsIndexes srt t (filter (\<lambda>u. ux_Asset u = a) utxos)") blast
  have "\<not> list_ex (\<lambda>u. ux_IsConfidential u \<and> \<not> ux_IsRevealed u) utxos"
    using assms by (auto simp: list_ex_iff)
  moreover have "js = [] \<longleftrightarrow> getBestCombination (map ux_Value (srt (filter (\<lambda>u. ux_Asset u = a) utxos))) t = []"
    unfolding getCoinsIndexes_correct(2) [OF g, symmetric] by simp
  ultimately show ?thesis
    by (simp add: SelectUnspents_def g Let_def)
qed

text \<open>
  C22. The combinations of a size that the coin selection tries are exactly the sub-lists of that
  size: each one is listed, nothing else is, and there are binomially many.
\<close>

theorem getCombination_all_sublists:
  "getCombination [] src k 0 = combs src k
   \<and> set (getCombination [] src k 0) = {ys. subseq ys src \<and> length ys = k}
   \<and> length (getCombination [] src k 0) = length src choose k"
  by (simp add: getCombination_top set_combs length_combs)

text \<open>
  C21. A selection is sound: the chosen coins are distinct coins of the wanted asset among those
  offered, at least one of them, and target plus change is their total (modulo the width of
  the amounts, and exactly where the coins of the asset sum to less than \<open>2 ^ 64\<close>).
\<close>

theorem SelectUnspents_sound:
  assumes "sorts_desc srt" "SelectUnspents srt utxos t a = Inr (coins, change)"
  shows "mset coins \<subseteq># mset (filter (\<lambda>u. ux_Asset u = a) utxos) \<and> coins \<noteq> []
    \<and> uint t + uint change = usum (map ux_Value coins) mod 2 ^ 64
    \<and> (usum (map ux_Value (filter (\<lambda>u. ux_Asset u = a) utxos)) < 2 ^ 64
       \<longrightarrow> uint t + uint change = usum (map ux_Value coins))"
proof (intro conjI impI)
  let ?us = "filter (\<lambda>u. ux_Asset u = a) utxos"
  note s = SelectUnspents_Inr [OF assms(2)]
  show sub: "mset coins \<subseteq># mset ?us" "coins \<noteq> []"
    using s(2,3) by (simp_all add: sorts_desc_mset [OF assms(1)])
  have "t \<le> coins_sum (map ux_Value coins)"
    using getBestCombination_sound [OF s(1) [symmetric]] s(2) by simp
  then show total: "uint t + uint change = usum (map ux_Value coins) mod 2 ^ 64"
    unfolding uint_coins_sum [symmetric] s(4) by (simp add: uint_sub_if' word_le_def)
  assume "usum (map ux_Value ?us) < 2 ^ 64"
  moreover have "usum (map ux_Value coins) \<le> usum (map ux_Value ?us)"
    using image_mset_subseteq_mono [OF sub(1), of ux_Value] by (intro usum_subset) simp
  ultimately show "uint t + uint change = usum (map ux_Value coins)"
    using total by simp
qed

text \<open>
  A selection is complete: with every confidential coin unblinded, a positive target whose
  tenfold fits 64 bits and coins whose total does, the selection fails exactly when the coins of the
  asset do not cover the target.
\<close>

lemma SelectUnspents_complete:
  assumes "sorts_desc srt" "\<forall>u\<in>set utxos. ux_IsConfidential u \<longrightarrow> ux_IsRevealed u"
    and "0 < t" "uint t * 10 < 2 ^ 64"
    and "usum (map ux_Value (filter (\<lambda>u. ux_Asset u = a) utxos)) < 2 ^ 64"
  shows "isl (SelectUnspents srt utxos t a)
    \<longleftrightarrow> usum (map ux_Value (filter (\<lambda>u. ux_Asset u = a) utxos)) < uint t"
proof -
  let ?us = "filter (\<lambda>u. ux_Asset u = a) utxos"
  let ?c = "getBestCombination (map ux_Value (srt ?us)) t"
  have u: "usum (map ux_Value (srt ?us)) = usum (map ux_Value ?us)"
    using sorts_desc_mset [OF assms(1), of ?us] by (intro usum_mset) simp
  show ?thesis unfolding SelectUnspents_Inl [OF assms(2)]
  proof
    assume "?c = []"
    then show "usum (map ux_Value ?us) < uint t"
      using getBestCombination_complete [OF assms(3,4), of "map ux_Value (srt ?us)"] assms(5)
      unfolding u by linarith
  next
    assume less: "usum (map ux_Value ?us) < uint t"
    show "?c = []"
    proof (rule ccontr)
      assume "?c \<noteq> []"
      from getBestCombination_sound [OF refl this]
      have s: "subseq ?c (map ux_Value (srt ?us))" "t \<le> coins_sum ?c" by simp_all
      have "usum ?c \<le> usum (map ux_Value ?us)"
        using usum_subset [OF subseq_mset [OF s(1)]] unfolding u .
      with s(2) less assms(5) show False
        by (simp add: word_le_def uint_coins_sum)
    qed
  qed
qed

section \<open>Examples\<close>

definition sort_desc :: "Utxo list \<Rightarrow> Utxo list" where
  "sort_desc us = rev (sort_key ux_Value us)"

lemma sort_desc_ok: "sorts_desc sort_desc"
proof -
  have "sorted_wrt (\<lambda>a b. ux_Value a \<ge> ux_Value b) (rev (sort_key ux_Value us))" for us :: "Utxo list"
    using sorted_sort_key [of ux_Value us] by (simp add: sorted_wrt_rev sorted_wrt_map)
  then show ?thesis by (simp add: sorts_desc_def sort_desc_def)
qed

definition ex_utxo :: "u32 \<Rightarrow> u64 \<Rightarrow> string \<Rightarrow> Utxo" where
  "ex_utxo i v a = \<lparr>ux_Hash = ''h'', ux_Index = i, ux_Value = v, ux_Asset = a, ux_IsConfidential = True, ux_IsRevealed = True\<rparr>"

definition ex_utxos :: "Utxo list" where
  "ex_utxos = [ex_utxo 0 61 ''a'', ex_utxo 1 61 ''a'', ex_utxo 2 500 ''b'', ex_utxo 3 38 ''a'']"

theorem SelectUnspents_sound_witness:
  "sorts_desc sort_desc
   \<and> SelectUnspents sort_desc ex_utxos 100 ''a'' = Inr ([ex_utxo 1 61 ''a'', ex_utxo 0 61 ''a''], 22)
   \<and> mset [ex_utxo 1 61 ''a'', ex_utxo 0 61 ''a''] \<subseteq># mset (filter (\<lambda>u. ux_Asset u = ''a'') ex_utxos)"
proof -
  have run: "SelectUnspents sort_desc ex_utxos 100 ''a'' = Inr ([ex_utxo 1 61 ''a'', ex_utxo 0 61 ''a''], 22)"
    by code_simp
  show ?thesis
    using SelectUnspents_sound [OF sort_desc_ok run] run sort_desc_ok by simp
qed

lemma SelectUnspents_complete_example:
  "sorts_desc sort_desc \<and> isl (SelectUnspents sort_desc ex_utxos 161 ''a'')
   \<and> \<not> isl (SelectUnspents sort_desc ex_utxos 160 ''a'')"
proof -
  have r: "\<forall>u\<in>set ex_utxos. ux_IsConfidential u \<longrightarrow> ux_IsRevealed u"
    by (simp add: ex_utxos_def ex_utxo_def)
  have u: "usum (map ux_Value (filter (\<lambda>u. ux_Asset u = ''a'') ex_utxos)) = 160"
    by (simp add: ex_utxos_def ex_utxo_def)
  show ?thesis
    using SelectUnspents_complete [OF sort_desc_ok r, of 161 "''a''"]
      SelectUnspents_complete [OF sort_desc_ok r, of 160 "''a''"] sort_desc_ok
    by (simp add: u)
qed

end
