(* ===== verification/Errors.thy ===== *)
theory Errors
  imports Prelude
begin

text \<open>
  The texts of the errors (\<open>internal/core/domain/errors.go\<close>, \<open>pkg/marketmaking/formula\<close> and
  \<open>internal/core/application/trade/service.go\<close>), and the formatting of numbers and messages, for the
  places where the daemon wraps one error into another.
\<close>

text \<open>Decimal notation: \<open>%d\<close>.\<close>

fun digits_of :: "nat \<Rightarrow> string" where
  "digits_of n = (if n < 10 then [char_of (n + 48)] else digits_of (n div 10) @ [char_of (n mod 10 + 48)])"

declare digits_of.simps [simp del]

definition itoa :: "int \<Rightarrow> string" where
  "itoa i = (if i < 0 then CHR ''-'' # digits_of (nat (- i)) else digits_of (nat i))"

text \<open>Replacing each verb by the next argument.\<close>

fun sprintf :: "string \<Rightarrow> string list \<Rightarrow> string" where
  "sprintf [] args = []"
| "sprintf [c] args = [c]"
| "sprintf (c # d # s) args =
     (if c = CHR ''%'' then (case args of a # as \<Rightarrow> a @ sprintf s as | [] \<Rightarrow> c # d # sprintf s [])
      else c # sprintf (d # s) args)"

fun error_text :: "error \<Rightarrow> string" where
  "error_text ErrMarketInvalidPercentageFee = ''invalid market percentage fee, must be in range [0, 9999]''"
| "error_text ErrMarketIsClosed = ''the market is paused, please open it first''"
| "error_text ErrMarketIsOpen = ''the market is active, please pause it first''"
| "error_text ErrMarketNotPriced = ''the selected strategy mandates price to be updated manually''"
| "error_text ErrMarketInvalidBasePrice = ''invalid base price amount, must be > 0''"
| "error_text ErrMarketInvalidQuotePrice = ''invalid quote price amount, must be > 0''"
| "error_text ErrMarketInvalidBaseAsset = ''invalid base asset''"
| "error_text ErrMarketInvalidQuoteAsset = ''invalid quote asset''"
| "error_text ErrMarketInvalidBaseAssetPrecision = ''base asset precision must be in range [0, 8]''"
| "error_text ErrMarketInvalidQuoteAssetPrecision = ''quote asset precision must be in range [0, 8]''"
| "error_text ErrMarketInvalidFixedFee = ''invalid fixed fee amount''"
| "error_text ErrMarketPreviewAmountTooLow = ''provided amount is too low''"
| "error_text ErrMarketPreviewAmountTooBig = ''provided amount is too big''"
| "error_text ErrMarketUnknownStrategy = ''unknown market strategy''"
| "error_text ErrTradeUnknownType = ''unknown trade type''"
| "error_text ErrTradeMustBeProposal = ''trade must be in proposal state for being accepted''"
| "error_text ErrTradeMustBeAccepted = ''trade must be in accepted state for being completed''"
| "error_text ErrTradeMustBeCompletedOrAccepted = ''trade must be in completed or accepted to be settled''"
| "error_text ErrTradeInvalidExpiryTime = ''trade expiration date must be after proposal one''"
| "error_text ErrTradeExpiryTimeNotReached = ''trade must have reached the expiration date to be set expired''"
| "error_text ErrTradeExpired = ''trade has expired''"
| "error_text ErrTradeNullExpiryTime = ''trade must have an expiration date set to be set expired''"
| "error_text ErrInvalidPluggableOptsType = ''opts must be of type PluggableOpts''"
| "error_text ErrInvalidBalancedReservesOptsType = ''opts must be of type BalancedReservesOpts''"
| "error_text ErrAmountTooLow = ''provided amount is too low''"
| "error_text ErrAmountTooBig = ''provided amount is too big''"
| "error_text ErrBalanceTooLow = ''reserve balance amount is too low''"
| "error_text ErrServiceUnavailable = ''service is unavailable, retry later''"
| "error_text ErrMarketUnavailable = ''market is closed, retry later''"
| "error_text (Errorf s args) = sprintf s args"
| "error_text (External s) = s"
| "error_text (Panic s) = s"

text \<open>\<open>fmt.Errorf("...: %s", err)\<close>; a panic is not an error to wrap.\<close>

definition wrap_err :: "string \<Rightarrow> string list \<Rightarrow> error \<Rightarrow> error" where
  "wrap_err s args e = (if is_panic e then e else Errorf s (args @ [error_text e]))"

lemma is_panic_wrap_err [simp]: "is_panic (wrap_err s args e) = is_panic e"
  by (simp add: wrap_err_def)

lemma itoa_example: "sprintf ''(base %d, quote %d)'' [itoa 120, itoa (- 7)] = ''(base 120, quote -7)''"
  by code_simp

end
