(* ===== verification/Operator.thy ===== *)
theory Operator
  imports Repositories Deposit_Repo Notifications Wallet Errors
begin

text \<open>
  \<open>internal/core/application/operator\<close>: the operator service, \<open>service.go\<close>, \<open>market_account.go\<close> and
  \<open>fee_account.go\<close>. Its state is that of its collaborators and the labels of the accounts; every
  method is a call on that state (\<open>Ports\<close>). The goroutine that removes an account after a failed
  creation is run to its end at once. \<open>ord1\<close> and \<open>ord2\<close> are the visiting orders of \<open>SendToMany\<close>.
\<close>

section \<open>State\<close>

definition FeeFragmenterAccount :: string where
  "FeeFragmenterAccount = ''fee_fragmenter_account''"

definition MarketFragmenterAccount :: string where
  "MarketFragmenterAccount = ''market_fragmenter_account''"

record 's DepositRepository =
  dr_AddDeposits :: "Deposit list \<Rightarrow> 's \<Rightarrow> 's \<times> int res"
  dr_GetDepositsForAccount :: "string \<Rightarrow> page option \<Rightarrow> 's \<Rightarrow> Deposit list res"
  dr_GetAllDeposits :: "page option \<Rightarrow> 's \<Rightarrow> Deposit list res"

record 's WithdrawalRepository =
  wr_AddWithdrawals :: "Withdrawal list \<Rightarrow> 's \<Rightarrow> 's \<times> int res"
  wr_GetWithdrawalsForAccount :: "string \<Rightarrow> page option \<Rightarrow> 's \<Rightarrow> Withdrawal list res"
  wr_GetAllWithdrawals :: "page option \<Rightarrow> 's \<Rightarrow> Withdrawal list res"

text \<open>The events the service publishes: a low balance, a deposit, a withdrawal, with the balance at that time.\<close>

datatype op_event =
    LowBalanceEvent string "(string, Balance option) gomap" "Market option"
  | DepositEvent string "(string, Balance) gomap" Deposit "Market option"
  | WithdrawEvent string "(string, Balance) gomap" Withdrawal "Market option"

record ('d, 'm, 't, 'x, 'y, 'w) operator =
  os_D :: "'d decimal_ops"
  os_hash160 :: "bytes \<Rightarrow> bytes"
  os_markets :: "'m MarketRepository"
  os_trades :: "'t TradeRepository"
  os_deposits :: "'x DepositRepository"
  os_withdrawals :: "'y WithdrawalRepository"
  os_wallet :: "'w WalletService"
  os_elements :: elements
  os_lbtc :: string
  os_feeAccountBalanceThreshold :: u64
  os_milliSatsPerByte :: u64

record ('m, 't, 'x, 'y, 'w) op_state =
  ost_markets :: 'm
  ost_trades :: 't
  ost_deposits :: 'x
  ost_withdrawals :: 'y
  ost_wallet :: 'w
  ost_accounts :: "(string, string) gomap"
  ost_published :: "op_event list"
  ost_crashed :: bool

section \<open>Calls of the collaborators\<close>

definition on_wallet :: "('w, 'a) call \<Rightarrow> (('m, 't, 'x, 'y, 'w) op_state, 'a) call" where
  "on_wallet c = (\<lambda>st. case c (ost_wallet st) of (w, r) \<Rightarrow> (st\<lparr>ost_wallet := w\<rparr>, r))"

definition on_markets :: "('m \<Rightarrow> 'm \<times> 'a res) \<Rightarrow> (('m, 't, 'x, 'y, 'w) op_state, 'a) call" where
  "on_markets c = (\<lambda>st. case c (ost_markets st) of (s, r) \<Rightarrow> (st\<lparr>ost_markets := s\<rparr>, r))"

definition find_market :: "('d, 'm, 't, 'x, 'y, 'w) operator \<Rightarrow> string \<Rightarrow> string
    \<Rightarrow> (('m, 't, 'x, 'y, 'w) op_state, Market) call" where
  "find_market S baseAsset quoteAsset = (\<lambda>st. (st, mr_GetMarketByAssets (os_markets S) (ost_markets st) baseAsset quoteAsset))"

text \<open>A result that does not depend on the state.\<close>

definition clift :: "'a res \<Rightarrow> ('w, 'a) call" where
  "clift r = (\<lambda>w. (w, r))"

text \<open>\<open>x, err := c()\<close> where an error is only logged.\<close>

definition cignore :: "'a \<Rightarrow> ('w, 'a) call \<Rightarrow> ('w, 'a) call" where
  "cignore z c = (\<lambda>w. case c w of (w, Inl e) \<Rightarrow> (w, if is_panic e then Inl e else Inr z) | (w, Inr x) \<Rightarrow> (w, Inr x))"

definition accountMap_add :: "string \<Rightarrow> string \<Rightarrow> (string, string) gomap \<Rightarrow> (string, string) gomap" where
  "accountMap_add namespace label m = (case gm_get m namespace of Some _ \<Rightarrow> m | None \<Rightarrow> gm_put namespace label m)"

definition accountMap_getLabel :: "string \<Rightarrow> (string, string) gomap \<Rightarrow> string" where
  "accountMap_getLabel namespace m = (case gm_get m namespace of Some l \<Rightarrow> l | None \<Rightarrow> '''')"

definition add_account :: "WalletAccount \<Rightarrow> (('m, 't, 'x, 'y, 'w) op_state, unit) call" where
  "add_account info = (\<lambda>st. (st\<lparr>ost_accounts := accountMap_add (wa_Namespace info) (wa_Label info) (ost_accounts st)\<rparr>, Inr ()))"

section \<open>The service\<close>

definition op_minSatsPerByte :: "'d decimal_ops \<Rightarrow> 'd" where
  "op_minSatsPerByte D = d_NewFromFloat D 1 (- 1)"

definition op_maxSatsPerByte :: "'d decimal_ops \<Rightarrow> 'd" where
  "op_maxSatsPerByte D = d_NewFromInt D 10000"

text \<open>The fee rate in thousandths of a satoshi, and the labels of the wallet's accounts.\<close>

definition op_feeRate :: "'d decimal_ops \<Rightarrow> 'd \<Rightarrow> u64 res" where
  "op_feeRate D satsPerByte =
     (if d_LessThan D satsPerByte (op_minSatsPerByte D) \<or> d_GreaterThan D satsPerByte (op_maxSatsPerByte D)
      then Inl (Errorf ''sats per byte ratio must be in range [%s, %s]''
                  [d_String D (op_minSatsPerByte D), d_String D (op_maxSatsPerByte D)])
      else Inr (big_Uint64 (d_BigInt D (d_Mul D satsPerByte (d_NewFromInt D 1000)))))"

definition op_NewService :: "('d, 'm, 't, 'x, 'y, 'w) operator \<Rightarrow> bool \<Rightarrow> bool \<Rightarrow> bool \<Rightarrow> 'd
    \<Rightarrow> (('m, 't, 'x, 'y, 'w) op_state, ('d, 'm, 't, 'x, 'y, 'w) operator) call" where
  "op_NewService S hasWallet hasPubsub hasRepoManager satsPerByte =
     (if \<not> hasWallet then cfail (Errorf ''missing wallet service'' [])
      else if \<not> hasPubsub then cfail (Errorf ''missing pubsub service'' [])
      else if \<not> hasRepoManager then cfail (Errorf ''missing repo manager'' [])
      else cbind (clift (op_feeRate (os_D S) satsPerByte)) (\<lambda>msatsPerByte st.
        case on_wallet (WalletAccounts (os_wallet S)) st of
          (st, Inl e) \<Rightarrow> (st, Inl (wrap_err ''failed to connect to wallet: %s'' [] e))
        | (st, Inr accounts) \<Rightarrow>
            (st\<lparr>ost_accounts := fold (\<lambda>a m. gm_put (wa_Namespace a) (wa_Label a) m) accounts []\<rparr>,
             Inr (S\<lparr>os_milliSatsPerByte := msatsPerByte\<rparr>))))"

text \<open>The balances of the markets, one after the other; a failure leaves the balance out.\<close>

fun with_balances :: "'w WalletService \<Rightarrow> Market list \<Rightarrow> ('w, (Market \<times> (string, Balance) gomap) list) call" where
  "with_balances W [] = cret []"
| "with_balances W (m # ms) = cbind (cignore [] (GetBalance W (mkt_Name m))) (\<lambda>balance.
     cbind (with_balances W ms) (\<lambda>xs. cret ((m, balance) # xs)))"

definition op_ListMarkets :: "('d, 'm, 't, 'x, 'y, 'w) operator
    \<Rightarrow> (('m, 't, 'x, 'y, 'w) op_state, (Market \<times> (string, Balance) gomap) list) call" where
  "op_ListMarkets S = (\<lambda>st. case mr_GetAllMarkets (os_markets S) (ost_markets st) of
     Inl e \<Rightarrow> (st, Inl e) | Inr ms \<Rightarrow> on_wallet (with_balances (os_wallet S) ms) st)"

definition op_ListTradesForMarket :: "('d, 'm, 't, 'x, 'y, 'w) operator \<Rightarrow> (string \<times> string) option \<Rightarrow> page option
    \<Rightarrow> (('m, 't, 'x, 'y, 'w) op_state, Trade list) call" where
  "op_ListTradesForMarket S market p = (case market of
     None \<Rightarrow> cfail (Errorf ''missing market'' [])
   | Some (baseAsset, quoteAsset) \<Rightarrow> cbind (find_market S baseAsset quoteAsset) (\<lambda>mkt st.
       (st, tr_GetAllTradesByMarket (os_trades S) (ost_trades st) (mkt_Name mkt) p)))"

definition op_ListUtxos :: "('d, 'm, 't, 'x, 'y, 'w) operator \<Rightarrow> string
    \<Rightarrow> (('m, 't, 'x, 'y, 'w) op_state, WalletUtxo list \<times> WalletUtxo list) call" where
  "op_ListUtxos S accountName = on_wallet (ListUtxos (os_wallet S) accountName)"

definition op_ListDeposits :: "('d, 'm, 't, 'x, 'y, 'w) operator \<Rightarrow> string \<Rightarrow> page option
    \<Rightarrow> (('m, 't, 'x, 'y, 'w) op_state, Deposit list) call" where
  "op_ListDeposits S accountName p = (\<lambda>st. (st, dr_GetDepositsForAccount (os_deposits S) accountName p (ost_deposits st)))"

definition op_ListWithdrawals :: "('d, 'm, 't, 'x, 'y, 'w) operator \<Rightarrow> string \<Rightarrow> page option
    \<Rightarrow> (('m, 't, 'x, 'y, 'w) op_state, Withdrawal list) call" where
  "op_ListWithdrawals S accountName p = (\<lambda>st. (st, wr_GetWithdrawalsForAccount (os_withdrawals S) accountName p (ost_withdrawals st)))"

section \<open>The fee account\<close>

definition accountExists :: "('d, 'm, 't, 'x, 'y, 'w) operator \<Rightarrow> string \<Rightarrow> (('m, 't, 'x, 'y, 'w) op_state, bool) call" where
  "accountExists S account = cbind (cignore [] (on_wallet (WalletAccounts (os_wallet S)))) (\<lambda>accounts.
     cret (list_ex (\<lambda>i. wa_Label i = account) accounts))"

text \<open>The addresses of an account of the daemon, which is created the first time.\<close>

definition derive_addresses :: "('d, 'm, 't, 'x, 'y, 'w) operator \<Rightarrow> string \<Rightarrow> int
    \<Rightarrow> (('m, 't, 'x, 'y, 'w) op_state, string list) call" where
  "derive_addresses S account num = cbind (accountExists S account) (\<lambda>exists.
     cbind (if exists then cret ()
            else cbind (on_wallet (CreateAccount (os_wallet S) account False)) add_account) (\<lambda>_.
     on_wallet (DeriveAddresses (os_wallet S) account num)))"

definition op_DeriveFeeAddresses :: "('d, 'm, 't, 'x, 'y, 'w) operator \<Rightarrow> int
    \<Rightarrow> (('m, 't, 'x, 'y, 'w) op_state, string list) call" where
  "op_DeriveFeeAddresses S num = derive_addresses S FeeAccount num"

definition op_ListFeeExternalAddresses :: "('d, 'm, 't, 'x, 'y, 'w) operator
    \<Rightarrow> (('m, 't, 'x, 'y, 'w) op_state, string list) call" where
  "op_ListFeeExternalAddresses S = on_wallet (ListAddresses (os_wallet S) FeeAccount)"

definition op_GetFeeBalance :: "('d, 'm, 't, 'x, 'y, 'w) operator
    \<Rightarrow> (('m, 't, 'x, 'y, 'w) op_state, Balance option) call" where
  "op_GetFeeBalance S = cbind (on_wallet (GetBalance (os_wallet S) FeeAccount)) (\<lambda>balance.
     if length balance \<le> 0 then cret None else cret (gm_get balance (os_lbtc S)))"

text \<open>\<open>ok, err := Auth(password)\<close>, and the error when it is not \<open>ok\<close>.\<close>

definition authenticate :: "('d, 'm, 't, 'x, 'y, 'w) operator \<Rightarrow> string \<Rightarrow> (('m, 't, 'x, 'y, 'w) op_state, unit) call" where
  "authenticate S password = cbind (on_wallet (Auth (os_wallet S) password)) (\<lambda>ok.
     if ok then cret () else cfail (Errorf ''invalid password'' []))"

text \<open>A transfer that the wallet crafts, and its broadcast.\<close>

definition transfer :: "'w WalletService \<Rightarrow> string \<Rightarrow> TxOutput list \<Rightarrow> u64 \<Rightarrow> ('w, string) call" where
  "transfer W account outs millisatsPerByte = cbind (Transfer W account outs millisatsPerByte) (BroadcastTransaction W)"

definition op_WithdrawFeeFunds :: "('d, 'm, 't, 'x, 'y, 'w) operator \<Rightarrow> string \<Rightarrow> TxOutput list \<Rightarrow> u64
    \<Rightarrow> (('m, 't, 'x, 'y, 'w) op_state, string) call" where
  "op_WithdrawFeeFunds S password outs millisatsPerByte =
     cbind (authenticate S password) (\<lambda>_. on_wallet (transfer (os_wallet S) FeeAccount outs millisatsPerByte))"

section \<open>Market accounts\<close>

definition op_NewMarket :: "('d, 'm, 't, 'x, 'y, 'w) operator \<Rightarrow> string \<Rightarrow> string \<Rightarrow> string \<Rightarrow> u64 \<Rightarrow> u64 \<Rightarrow> u64 \<Rightarrow> u64
    \<Rightarrow> u64 \<Rightarrow> u64 \<Rightarrow> u64 \<Rightarrow> (('m, 't, 'x, 'y, 'w) op_state, Market \<times> (string, Balance) gomap) call" where
  "op_NewMarket S baseAsset quoteAsset marketName basePercentageFee quotePercentageFee baseFixedFee quoteFixedFee
     baseAssetPrecision quoteAssetPrecision strategyType = (\<lambda>st.
     case mr_GetMarketByAssets (os_markets S) (ost_markets st) baseAsset quoteAsset of
       Inr _ \<Rightarrow> (st, Inl (Errorf ''market already exists'' []))
     | Inl _ \<Rightarrow>
        cbind (clift (NewMarket (os_hash160 S) baseAsset quoteAsset marketName basePercentageFee quotePercentageFee
                 baseFixedFee quoteFixedFee baseAssetPrecision quoteAssetPrecision strategyType)) (\<lambda>newMarket.
        cbind (on_wallet (CreateAccount (os_wallet S) (mkt_Name newMarket) True)) (\<lambda>accountInfo st.
          case on_markets (mr_AddMarket (os_markets S) newMarket) st of
            (st, Inl e) \<Rightarrow> (fst (on_wallet (DeleteAccount (os_wallet S) (mkt_Name newMarket)) st), Inl e)
          | (st, Inr _) \<Rightarrow> cbind (add_account accountInfo) (\<lambda>_. cret (newMarket, [])) st)) st)"

definition op_GetMarketInfo :: "('d, 'm, 't, 'x, 'y, 'w) operator \<Rightarrow> string \<Rightarrow> string
    \<Rightarrow> (('m, 't, 'x, 'y, 'w) op_state, Market \<times> (string, Balance) gomap) call" where
  "op_GetMarketInfo S baseAsset quoteAsset = cbind (find_market S baseAsset quoteAsset) (\<lambda>mkt.
     cbind (cignore [] (on_wallet (GetBalance (os_wallet S) (mkt_Name mkt)))) (\<lambda>balance. cret (mkt, balance)))"

definition op_DeriveMarketAddresses :: "('d, 'm, 't, 'x, 'y, 'w) operator \<Rightarrow> string \<Rightarrow> string \<Rightarrow> int
    \<Rightarrow> (('m, 't, 'x, 'y, 'w) op_state, string list) call" where
  "op_DeriveMarketAddresses S baseAsset quoteAsset num = cbind (find_market S baseAsset quoteAsset) (\<lambda>mkt.
     on_wallet (DeriveAddresses (os_wallet S) (mkt_Name mkt) num))"

definition op_ListMarketExternalAddresses :: "('d, 'm, 't, 'x, 'y, 'w) operator \<Rightarrow> string \<Rightarrow> string
    \<Rightarrow> (('m, 't, 'x, 'y, 'w) op_state, string list) call" where
  "op_ListMarketExternalAddresses S baseAsset quoteAsset = cbind (find_market S baseAsset quoteAsset) (\<lambda>mkt.
     on_wallet (ListAddresses (os_wallet S) (mkt_Name mkt)))"

definition op_OpenMarket :: "('d, 'm, 't, 'x, 'y, 'w) operator \<Rightarrow> string \<Rightarrow> string
    \<Rightarrow> (('m, 't, 'x, 'y, 'w) op_state, unit) call" where
  "op_OpenMarket S baseAsset quoteAsset = cbind (find_market S baseAsset quoteAsset) (\<lambda>mkt.
     on_markets (mr_OpenMarket (os_markets S) (mkt_Name mkt)))"

definition op_CloseMarket :: "('d, 'm, 't, 'x, 'y, 'w) operator \<Rightarrow> string \<Rightarrow> string
    \<Rightarrow> (('m, 't, 'x, 'y, 'w) op_state, unit) call" where
  "op_CloseMarket S baseAsset quoteAsset = cbind (find_market S baseAsset quoteAsset) (\<lambda>mkt.
     on_markets (mr_CloseMarket (os_markets S) (mkt_Name mkt)))"

definition op_DropMarket :: "('d, 'm, 't, 'x, 'y, 'w) operator \<Rightarrow> string \<Rightarrow> string
    \<Rightarrow> (('m, 't, 'x, 'y, 'w) op_state, unit) call" where
  "op_DropMarket S baseAsset quoteAsset = cbind (find_market S baseAsset quoteAsset) (\<lambda>mkt.
     cbind (on_wallet (DeleteAccount (os_wallet S) (mkt_Name mkt))) (\<lambda>_.
     on_markets (mr_DeleteMarket (os_markets S) (mkt_Name mkt))))"

definition op_WithdrawMarketFunds :: "('d, 'm, 't, 'x, 'y, 'w) operator
    \<Rightarrow> ((string \<times> u64) list \<Rightarrow> (string \<times> u64) list) \<Rightarrow> ((string \<times> u64) list \<Rightarrow> (string \<times> u64) list)
    \<Rightarrow> string \<Rightarrow> string \<Rightarrow> string \<Rightarrow> TxOutput list \<Rightarrow> u64 \<Rightarrow> (('m, 't, 'x, 'y, 'w) op_state, string) call" where
  "op_WithdrawMarketFunds S ord1 ord2 password baseAsset quoteAsset outputs millisatsPerByte =
     cbind (authenticate S password) (\<lambda>_.
     cbind (find_market S baseAsset quoteAsset) (\<lambda>mkt.
     on_wallet (SendToMany (os_wallet S) (os_elements S) (os_lbtc S) ord1 ord2 (mkt_Name mkt) outputs millisatsPerByte)))"

text \<open>The update of a market with the copy that was changed.\<close>

definition store_market :: "('d, 'm, 't, 'x, 'y, 'w) operator \<Rightarrow> Market \<Rightarrow> (('m, 't, 'x, 'y, 'w) op_state, unit) call" where
  "store_market S mkt = on_markets (mr_UpdateMarket (os_markets S) (mkt_Name mkt) (\<lambda>_. Inr mkt))"

definition op_UpdateMarketPercentageFee :: "('d, 'm, 't, 'x, 'y, 'w) operator \<Rightarrow> string \<Rightarrow> string \<Rightarrow> i64 \<Rightarrow> i64
    \<Rightarrow> (('m, 't, 'x, 'y, 'w) op_state, Market) call" where
  "op_UpdateMarketPercentageFee S baseAsset quoteAsset basePercentageFee quotePercentageFee =
     cbind (find_market S baseAsset quoteAsset) (\<lambda>mkt.
     cbind (clift (ChangePercentageFee basePercentageFee quotePercentageFee mkt)) (\<lambda>mkt.
     cbind (store_market S mkt) (\<lambda>_. cret mkt)))"

definition op_UpdateMarketFixedFee :: "('d, 'm, 't, 'x, 'y, 'w) operator \<Rightarrow> string \<Rightarrow> string \<Rightarrow> i64 \<Rightarrow> i64
    \<Rightarrow> (('m, 't, 'x, 'y, 'w) op_state, Market) call" where
  "op_UpdateMarketFixedFee S baseAsset quoteAsset baseFixedFee quoteFixedFee =
     cbind (find_market S baseAsset quoteAsset) (\<lambda>mkt.
     cbind (clift (ChangeFixedFee baseFixedFee quoteFixedFee mkt)) (\<lambda>mkt.
     cbind (store_market S mkt) (\<lambda>_. cret mkt)))"

definition op_UpdateMarketPrice :: "('d, 'm, 't, 'x, 'y, 'w) operator \<Rightarrow> string \<Rightarrow> string \<Rightarrow> 'd \<Rightarrow> 'd
    \<Rightarrow> (('m, 't, 'x, 'y, 'w) op_state, unit) call" where
  "op_UpdateMarketPrice S baseAsset quoteAsset basePrice quotePrice =
     cbind (find_market S baseAsset quoteAsset) (\<lambda>mkt.
     on_markets (mr_UpdateMarketPrice (os_markets S) (mkt_Name mkt)
       \<lparr>mp_BasePrice = d_String (os_D S) basePrice, mp_QuotePrice = d_String (os_D S) quotePrice\<rparr>))"

definition op_UpdateMarketAssetsPrecision :: "('d, 'm, 't, 'x, 'y, 'w) operator \<Rightarrow> string \<Rightarrow> string \<Rightarrow> int \<Rightarrow> int
    \<Rightarrow> (('m, 't, 'x, 'y, 'w) op_state, unit) call" where
  "op_UpdateMarketAssetsPrecision S baseAsset quoteAsset basePrecision quotePrecision =
     cbind (find_market S baseAsset quoteAsset) (\<lambda>mkt.
     cbind (clift (ChangeAssetPrecision basePrecision quotePrecision mkt)) (store_market S))"

definition op_UpdateMarketStrategy :: "('d, 'm, 't, 'x, 'y, 'w) operator \<Rightarrow> string \<Rightarrow> string \<Rightarrow> int
    \<Rightarrow> (('m, 't, 'x, 'y, 'w) op_state, unit) call" where
  "op_UpdateMarketStrategy S baseAsset quoteAsset strategyType =
     cbind (find_market S baseAsset quoteAsset) (\<lambda>mkt.
     cbind (clift (if strategyType = StrategyTypeBalanced then MakeStrategyBalanced mkt
                   else if strategyType = StrategyTypePluggable then MakeStrategyPluggable mkt
                   else Inl (Errorf ''unknown strategy type'' []))) (store_market S))"

end
