(* ===== verification/Tx_Classifier.thy ===== *)
theory Tx_Classifier
  imports Operator
begin

text \<open>
  The handlers of wallet transactions of \<open>internal/core/application/operator/service.go\<close>: what a
  transaction moves for an account (\<open>txInfo\<close> of \<open>types.go\<close>), the deposits and withdrawals that are
  stored and published, and the warnings about low balances. A goroutine that publishes is run to
  its end at once; when it panics the daemon is down, which is the flag \<open>ost_crashed\<close>. \<open>clock n\<close> is the
  time read for the \<open>n\<close>-th account.
\<close>

section \<open>What a transaction moves for an account\<close>

record txOutputInfo =
  toi_asset :: string
  toi_amount :: u64

definition zero_toi :: txOutputInfo where
  "zero_toi = \<lparr>toi_asset = '''', toi_amount = 0\<rparr>"

record txInfo =
  txi_account :: string
  txi_Transaction :: ChainTransaction
  txi_ownedInputs :: "txOutputInfo list"
  txi_notOwnedInputs :: "txOutputInfo list"
  txi_ownedOutputs :: "txOutputInfo list"
  txi_notOwnedOutputs :: "txOutputInfo list"
  txi_fee :: u64

definition isDeposit :: "txInfo \<Rightarrow> bool" where
  "isDeposit i \<longleftrightarrow> length (txi_ownedInputs i) = 0 \<and> length (txi_ownedOutputs i) > 0"

definition isWithdrawal :: "txInfo \<Rightarrow> bool" where
  "isWithdrawal i \<longleftrightarrow>
     (if txi_account i = FeeAccount
      then length (txi_ownedInputs i) > 0 \<and> length (txi_notOwnedInputs i) \<le> 0 \<and> length (txi_notOwnedOutputs i) > 0
      else let inAssets = map toi_asset (txi_ownedInputs i)
           in list_all (\<lambda>out. toi_asset out \<in> set inAssets) (txi_ownedOutputs i))"

definition tot_per_asset :: "txOutputInfo list \<Rightarrow> (string, u64) gomap" where
  "tot_per_asset outs = fold (\<lambda>out tot. gm_put (toi_asset out) (gm_amount tot (toi_asset out) + toi_amount out) tot) outs []"

definition depositAmountPerAsset :: "txInfo \<Rightarrow> (string, u64) gomap" where
  "depositAmountPerAsset i = tot_per_asset (txi_ownedOutputs i)"

text \<open>The range over the map of inputs visits every asset once, in an order that cannot be told from the result.\<close>

definition withdrawalAmountPerAsset :: "txInfo \<Rightarrow> (string, u64) gomap" where
  "withdrawalAmountPerAsset i =
     (let inTotAmountPerAsset = tot_per_asset (txi_ownedInputs i);
          outTotAmountPerAsset = tot_per_asset (txi_ownedOutputs i)
      in map (\<lambda>(asset, amount). (asset, amount - gm_amount outTotAmountPerAsset asset)) inTotAmountPerAsset)"

section \<open>Reading a transaction\<close>

text \<open>
  The coin behind an output with the script of one of the addresses; a key that cannot be derived is
  a nil pointer, an output that the key does not unblind is not found.
\<close>

fun findOwnedUtxo :: "elements \<Rightarrow> bytes \<Rightarrow> ChainOutput \<Rightarrow> string list \<Rightarrow> txOutputInfo option res" where
  "findOwnedUtxo E masterKey out [] = Inr None"
| "findOwnedUtxo E masterKey out (addr # addresses) =
     (if ToOutputScript E addr = out_Script out
      then case SLIP77DeriveKey E masterKey (out_Script out) of
          None \<Rightarrow> Inl nil_deref
        | Some key \<Rightarrow> (case UnblindOutputWithKey E out key of
            Some (asset, v) \<Rightarrow> Inr (Some \<lparr>toi_asset = hex_EncodeToString (ReverseBytes E asset), toi_amount = v\<rparr>)
          | None \<Rightarrow> findOwnedUtxo E masterKey out addresses)
      else findOwnedUtxo E masterKey out addresses)"

fun split_inputs :: "'w WalletService \<Rightarrow> elements \<Rightarrow> bytes \<Rightarrow> string list \<Rightarrow> (bytes \<times> u32) list
    \<Rightarrow> ('w, txOutputInfo list \<times> txOutputInfo list) call" where
  "split_inputs W E masterKey addresses [] = cret ([], [])"
| "split_inputs W E masterKey addresses (i # ins) =
     cbind (cignore '''' (GetTransaction W (TxIDFromBytes E (fst i)))) (\<lambda>txHex.
       if txHex = '''' then split_inputs W E masterKey addresses ins
       else cbind (cderef (NewTxFromHex E txHex)) (\<lambda>prevoutTx.
         cbind (cindex (tx_Outputs prevoutTx) (unat (snd i))) (\<lambda>prevout.
         cbind (clift (findOwnedUtxo E masterKey prevout addresses)) (\<lambda>found.
         cbind (split_inputs W E masterKey addresses ins) (\<lambda>(owned, notOwned).
           cret (case found of Some o' \<Rightarrow> (o' # owned, notOwned) | None \<Rightarrow> (owned, zero_toi # notOwned)))))))"

text \<open>The last output without a script gives the fee.\<close>

fun split_outputs :: "elements \<Rightarrow> bytes \<Rightarrow> string list \<Rightarrow> ChainOutput list \<Rightarrow> u64
    \<Rightarrow> (txOutputInfo list \<times> txOutputInfo list \<times> u64) res" where
  "split_outputs E masterKey addresses [] fee = Inr ([], [], fee)"
| "split_outputs E masterKey addresses (out # outs) fee =
     (if length (out_Script out) \<le> 0 then split_outputs E masterKey addresses outs (ValueFromBytes E (out_Value out))
      else rbind (findOwnedUtxo E masterKey out addresses) (\<lambda>found.
        rbind (split_outputs E masterKey addresses outs fee) (\<lambda>(owned, notOwned, fee).
          Inr (case found of Some o' \<Rightarrow> (o' # owned, notOwned, fee) | None \<Rightarrow> (owned, zero_toi # notOwned, fee)))))"

definition getTxInfo :: "'w WalletService \<Rightarrow> elements \<Rightarrow> ChainTransaction \<Rightarrow> string \<Rightarrow> string \<Rightarrow> ('w, txInfo) call" where
  "getTxInfo W E tx account masterBlindingKey = cbind (cignore [] (ListAddresses W account)) (\<lambda>addresses.
     let masterKey = fst (hex_DecodeString masterBlindingKey)
     in cbind (split_inputs W E masterKey addresses (tx_Inputs tx)) (\<lambda>(ownedInputs, notOwnedInputs).
        cbind (clift (split_outputs E masterKey addresses (tx_Outputs tx) 0)) (\<lambda>(ownedOutputs, notOwnedOutputs, fee).
        cret \<lparr>txi_account = account, txi_Transaction = tx, txi_ownedInputs = ownedInputs, txi_notOwnedInputs = notOwnedInputs,
           txi_ownedOutputs = ownedOutputs, txi_notOwnedOutputs = notOwnedOutputs, txi_fee = fee\<rparr>)))"

section \<open>Deposits and withdrawals\<close>

text \<open>What is recorded for an account.\<close>

definition deposit_of :: "string \<Rightarrow> i64 \<Rightarrow> txInfo \<Rightarrow> Deposit list" where
  "deposit_of txid now i = (if isDeposit i
     then [\<lparr>dep_AccountName = txi_account i, dep_TxID = txid, dep_TotAmountPerAsset = depositAmountPerAsset i, dep_Timestamp = now\<rparr>]
     else [])"

definition withdrawal_of :: "string \<Rightarrow> string \<Rightarrow> i64 \<Rightarrow> txInfo \<Rightarrow> Withdrawal list" where
  "withdrawal_of lbtc txid now i = (if isWithdrawal i
     then let tot = withdrawalAmountPerAsset i;
              tot = (if txi_account i = FeeAccount then gm_put lbtc (gm_amount tot lbtc - txi_fee i) tot else tot)
          in [\<lparr>wd_AccountName = txi_account i, wd_TxID = txid, wd_TotAmountPerAsset = tot, wd_Timestamp = now\<rparr>]
     else [])"

definition blinding_key_of :: "string \<Rightarrow> WalletAccount list \<Rightarrow> string" where
  "blinding_key_of account infos = (case find (\<lambda>info. wa_Label info = account) infos of
     Some info \<Rightarrow> wa_MasterBlindingKey info | None \<Rightarrow> '''')"

fun classify :: "'w WalletService \<Rightarrow> elements \<Rightarrow> string \<Rightarrow> ChainTransaction \<Rightarrow> WalletAccount list \<Rightarrow> (nat \<Rightarrow> i64)
    \<Rightarrow> string list \<Rightarrow> ('w, Deposit list \<times> Withdrawal list) call" where
  "classify W E lbtc tx infos clock [] = cret ([], [])"
| "classify W E lbtc tx infos clock (account # accounts) =
     cbind (getTxInfo W E tx account (blinding_key_of account infos)) (\<lambda>i.
     cbind (classify W E lbtc tx infos (\<lambda>n. clock (Suc n)) accounts) (\<lambda>(deposits, withdrawals).
       cret (deposit_of (TxHash E tx) (clock 0) i @ deposits, withdrawal_of lbtc (TxHash E tx) (clock 0) i @ withdrawals)))"

section \<open>Publishing\<close>

definition is_fragmenter :: "string \<Rightarrow> bool" where
  "is_fragmenter account \<longleftrightarrow> account = FeeFragmenterAccount \<or> account = MarketFragmenterAccount"

text \<open>
  The goroutine that publishes an event for every entry: the accounts of the fragmenters are left
  out, and a market that is not found is a nil pointer.
\<close>

fun publish_entries :: "('d, 'm, 't, 'x, 'y, 'w) operator \<Rightarrow> ('e \<Rightarrow> string)
    \<Rightarrow> (string \<Rightarrow> (string, Balance) gomap \<Rightarrow> 'e \<Rightarrow> Market option \<Rightarrow> op_event) \<Rightarrow> 'e list
    \<Rightarrow> ('m, 't, 'x, 'y, 'w) op_state \<Rightarrow> ('m, 't, 'x, 'y, 'w) op_state" where
  "publish_entries S nm ev [] st = st"
| "publish_entries S nm ev (e # es) st =
     (if is_fragmenter (nm e) then publish_entries S nm ev es st
      else case cignore [] (on_wallet (GetBalance (os_wallet S) (nm e))) st of
        (st, Inl _) \<Rightarrow> st\<lparr>ost_crashed := True\<rparr>
      | (st, Inr balance) \<Rightarrow>
          (if nm e = FeeAccount
           then publish_entries S nm ev es (st\<lparr>ost_published := ost_published st @ [ev (nm e) balance e None]\<rparr>)
           else case mr_GetMarketByName (os_markets S) (ost_markets st) (nm e) of
             Inl _ \<Rightarrow> st\<lparr>ost_crashed := True\<rparr>
           | Inr mkt \<Rightarrow> publish_entries S nm ev es (st\<lparr>ost_published := ost_published st @ [ev (nm e) balance e (Some mkt)]\<rparr>)))"

definition store_deposits :: "('d, 'm, 't, 'x, 'y, 'w) operator \<Rightarrow> Deposit list
    \<Rightarrow> ('m, 't, 'x, 'y, 'w) op_state \<Rightarrow> ('m, 't, 'x, 'y, 'w) op_state" where
  "store_deposits S deposits st =
     (if length deposits > 0
      then case dr_AddDeposits (os_deposits S) deposits (ost_deposits st) of
          (s, Inl _) \<Rightarrow> st\<lparr>ost_deposits := s\<rparr>
        | (s, Inr n) \<Rightarrow>
            (if n > 0 then publish_entries S dep_AccountName DepositEvent deposits (st\<lparr>ost_deposits := s\<rparr>)
             else st\<lparr>ost_deposits := s\<rparr>)
      else st)"

definition store_withdrawals :: "('d, 'm, 't, 'x, 'y, 'w) operator \<Rightarrow> Withdrawal list
    \<Rightarrow> ('m, 't, 'x, 'y, 'w) op_state \<Rightarrow> ('m, 't, 'x, 'y, 'w) op_state" where
  "store_withdrawals S withdrawals st =
     (if length withdrawals > 0
      then case wr_AddWithdrawals (os_withdrawals S) withdrawals (ost_withdrawals st) of
          (s, Inl _) \<Rightarrow> st\<lparr>ost_withdrawals := s\<rparr>
        | (s, Inr n) \<Rightarrow>
            (if n > 0 then publish_entries S wd_AccountName WithdrawEvent withdrawals (st\<lparr>ost_withdrawals := s\<rparr>)
             else st\<lparr>ost_withdrawals := s\<rparr>)
      else st)"

definition classifyAndStoreTx :: "('d, 'm, 't, 'x, 'y, 'w) operator \<Rightarrow> (nat \<Rightarrow> i64) \<Rightarrow> WalletTxNotification
    \<Rightarrow> (('m, 't, 'x, 'y, 'w) op_state, bool) call" where
  "classifyAndStoreTx S clock notification =
     cbind (cderef (NewTxFromHex (os_elements S) (tn_TxHex notification))) (\<lambda>tx.
       if tn_EventType notification = TxBroadcasted \<or> tn_EventType notification = TxUnconfirmed
       then (\<lambda>st. case on_wallet (WalletAccounts (os_wallet S)) st of
           (st, Inl _) \<Rightarrow> (st, Inl nil_deref)
         | (st, Inr infos) \<Rightarrow>
             cbind (on_wallet (classify (os_wallet S) (os_elements S) (os_lbtc S) tx infos clock
                      (map (\<lambda>ns. accountMap_getLabel ns (ost_accounts st)) (tn_AccountNames notification)))) (\<lambda>(deposits, withdrawals) st.
               (store_withdrawals S withdrawals (store_deposits S deposits st), Inr False)) st)
       else cret False)"

section \<open>Low balances\<close>

text \<open>A balance too low to pay the fixed fee of the market.\<close>

definition isLowBalance :: "Market \<Rightarrow> (string, Balance) gomap \<Rightarrow> bool" where
  "isLowBalance market balance \<longleftrightarrow> length balance \<le> 0
     \<or> (case gm_get balance (mkt_BaseAsset market) of None \<Rightarrow> True | Some b \<Rightarrow>
        (case gm_get balance (mkt_QuoteAsset market) of None \<Rightarrow> True | Some q \<Rightarrow>
           bal_TotalBalance b \<le> mf_BaseAsset (mkt_FixedFee market) \<or> bal_TotalBalance q \<le> mf_QuoteAsset (mkt_FixedFee market)))"

definition op_publish :: "op_event \<Rightarrow> (('m, 't, 'x, 'y, 'w) op_state, unit) call" where
  "op_publish ev = (\<lambda>st. (st\<lparr>ost_published := ost_published st @ [ev]\<rparr>, Inr ()))"

definition check_market :: "('d, 'm, 't, 'x, 'y, 'w) operator \<Rightarrow> string \<Rightarrow> (('m, 't, 'x, 'y, 'w) op_state, unit) call" where
  "check_market S account = (\<lambda>st. case mr_GetMarketByName (os_markets S) (ost_markets st) account of
     Inl _ \<Rightarrow> (st, Inr ())
   | Inr market \<Rightarrow> cbind (cignore [] (on_wallet (GetBalance (os_wallet S) account))) (\<lambda>balance.
       if isLowBalance market balance
       then op_publish (LowBalanceEvent (mkt_Name market) (map (\<lambda>(a, b). (a, Some b)) balance) (Some market)) else cret ()) st)"

definition check_fee :: "('d, 'm, 't, 'x, 'y, 'w) operator \<Rightarrow> (('m, 't, 'x, 'y, 'w) op_state, unit) call" where
  "check_fee S = cbind (cignore None (op_GetFeeBalance S)) (\<lambda>bal.
     if (case bal of None \<Rightarrow> True | Some b \<Rightarrow> bal_TotalBalance b < os_feeAccountBalanceThreshold S)
     then op_publish (LowBalanceEvent FeeAccount [(os_lbtc S, bal)] None) else cret ())"

fun check_accounts :: "('d, 'm, 't, 'x, 'y, 'w) operator \<Rightarrow> string list \<Rightarrow> (('m, 't, 'x, 'y, 'w) op_state, unit) call" where
  "check_accounts S [] = cret ()"
| "check_accounts S (accountNamespace # accountNamespaces) = (\<lambda>st.
     let account = accountMap_getLabel accountNamespace (ost_accounts st)
     in if is_fragmenter account then check_accounts S accountNamespaces st
        else cbind (if account \<noteq> FeeAccount then check_market S account else cret ()) (\<lambda>_.
             cbind (check_fee S) (\<lambda>_. check_accounts S accountNamespaces)) st)"

definition checkAccountsLowBalance :: "('d, 'm, 't, 'x, 'y, 'w) operator \<Rightarrow> WalletTxNotification
    \<Rightarrow> (('m, 't, 'x, 'y, 'w) op_state, bool) call" where
  "checkAccountsLowBalance S notification = cbind
     (if tn_EventType notification = TxUnconfirmed \<or> tn_EventType notification = TxBroadcasted
      then check_accounts S (tn_AccountNames notification) else cret ()) (\<lambda>_. cret False)"

end
