(* ===== verification/Badger_Markets.thy ===== *)
theory Badger_Markets
  imports Badgerhold
begin

text \<open>
  \<open>internal/infrastructure/storage/db/badger/market_repository_impl.go\<close>, the market repository of the
  running daemon: markets in one store, \<open>B\<close>, their prices in another, \<open>BP\<close>. The lemmas compare it
  with the in-memory repository: what it shows of its two stores (\<open>bview\<close>) evolves as the in-memory
  map does, except where the findings say otherwise.
\<close>

section \<open>Definitions\<close>

record ('s, 'p) badgerMarkets =
  bm_store :: 's
  bm_priceStore :: 'p

definition getMarketPrice :: "('p, MarketPrice) badgerhold \<Rightarrow> string \<Rightarrow> ('s, 'p) badgerMarkets \<Rightarrow> MarketPrice res" where
  "getMarketPrice BP marketName st = (case bh_Get BP marketName (bm_priceStore st) of
     Inl e \<Rightarrow> Inl (Errorf ''failed to get price for market %s: %s'' [marketName, bh_message e])
   | Inr price \<Rightarrow> Inr price)"

definition badger_updateMarketPrice :: "('p, MarketPrice) badgerhold \<Rightarrow> string \<Rightarrow> MarketPrice
    \<Rightarrow> ('s, 'p) badgerMarkets \<Rightarrow> ('s, 'p) badgerMarkets \<times> unit res" where
  "badger_updateMarketPrice BP marketName price st = (case bh_Upsert BP marketName price (bm_priceStore st) of
     (p, Inl e) \<Rightarrow> (st\<lparr>bm_priceStore := p\<rparr>, Inl (Errorf ''failed to update price for market %s: %s'' [marketName, bh_message e]))
   | (p, Inr _) \<Rightarrow> (st\<lparr>bm_priceStore := p\<rparr>, Inr ()))"

definition getMarket :: "('s, Market) badgerhold \<Rightarrow> ('p, MarketPrice) badgerhold \<Rightarrow> string
    \<Rightarrow> ('s, 'p) badgerMarkets \<Rightarrow> Market res" where
  "getMarket B BP marketName st = (case bh_Get B marketName (bm_store st) of
     Inl e \<Rightarrow> if e = ErrNotFound then Inl (Errorf ''market with name %s not found'' [marketName]) else Inl (bh_err e)
   | Inr market \<Rightarrow> rbind (getMarketPrice BP (mkt_Name market) st) (\<lambda>price. Inr (market\<lparr>mkt_Price := price\<rparr>)))"

definition updateMarket :: "('s, Market) badgerhold \<Rightarrow> Market \<Rightarrow> ('s, 'p) badgerMarkets \<Rightarrow> ('s, 'p) badgerMarkets \<times> unit res" where
  "updateMarket B market st = (
     let market = market\<lparr>mkt_Price := empty_price\<rparr>
     in case bh_Update B (mkt_Name market) market (bm_store st) of
          (s, Inl e) \<Rightarrow> (st\<lparr>bm_store := s\<rparr>, Inl (Errorf ''failed to update market %s: %s'' [mkt_Name market, bh_message e]))
        | (s, Inr _) \<Rightarrow> (st\<lparr>bm_store := s\<rparr>, Inr ()))"

text \<open>The prices of the markets found, one lookup each; the first that fails ends the loop.\<close>

fun with_prices :: "('p, MarketPrice) badgerhold \<Rightarrow> ('s, 'p) badgerMarkets \<Rightarrow> Market list \<Rightarrow> Market list res" where
  "with_prices BP st [] = Inr []"
| "with_prices BP st (m # ms) = rbind (getMarketPrice BP (mkt_Name m) st) (\<lambda>price.
     rbind (with_prices BP st ms) (\<lambda>ms. Inr (m\<lparr>mkt_Price := price\<rparr> # ms)))"

definition findMarkets :: "('s, Market) badgerhold \<Rightarrow> ('p, MarketPrice) badgerhold \<Rightarrow> Market bh_query
    \<Rightarrow> ('s, 'p) badgerMarkets \<Rightarrow> Market list res" where
  "findMarkets B BP query st = (case bh_Find B query (bm_store st) of
     Inl e \<Rightarrow> Inl (bh_err e)
   | Inr ms \<Rightarrow> with_prices BP st ms)"

text \<open>An error other than an existing key is ignored: the price is stored all the same.\<close>

definition insertMarket :: "('s, Market) badgerhold \<Rightarrow> ('p, MarketPrice) badgerhold \<Rightarrow> Market
    \<Rightarrow> ('s, 'p) badgerMarkets \<Rightarrow> ('s, 'p) badgerMarkets \<times> unit res" where
  "insertMarket B BP market st = (case bh_Insert B (mkt_Name market) market (bm_store st) of
     (s, r) \<Rightarrow>
       if r = Inl ErrKeyExists
       then (st\<lparr>bm_store := s\<rparr>, Inl (Errorf ''market with assets %s %s already exists'' [mkt_BaseAsset market, mkt_QuoteAsset market]))
       else badger_updateMarketPrice BP (mkt_Name market) (mkt_Price market) (st\<lparr>bm_store := s\<rparr>))"

definition badger_AddMarket :: "('s, Market) badgerhold \<Rightarrow> ('p, MarketPrice) badgerhold \<Rightarrow> Market
    \<Rightarrow> ('s, 'p) badgerMarkets \<Rightarrow> ('s, 'p) badgerMarkets \<times> unit res" where
  "badger_AddMarket B BP market st = insertMarket B BP market st"

definition badger_GetMarketByName :: "('s, Market) badgerhold \<Rightarrow> ('p, MarketPrice) badgerhold
    \<Rightarrow> ('s, 'p) badgerMarkets \<Rightarrow> string \<Rightarrow> Market res" where
  "badger_GetMarketByName B BP st marketName = getMarket B BP marketName st"

definition badger_GetMarketByAssets :: "('s, Market) badgerhold \<Rightarrow> ('p, MarketPrice) badgerhold
    \<Rightarrow> ('s, 'p) badgerMarkets \<Rightarrow> string \<Rightarrow> string \<Rightarrow> Market res" where
  "badger_GetMarketByAssets B BP st baseAsset quoteAsset =
     rbind (findMarkets B BP \<lparr>q_where = (\<lambda>m. mkt_BaseAsset m = baseAsset \<and> mkt_QuoteAsset m = quoteAsset),
              q_page = None, q_newest = None\<rparr> st) (\<lambda>ms.
     case ms of [] \<Rightarrow> Inl (Errorf ''market with assets %s %s not found'' [baseAsset, quoteAsset]) | m # _ \<Rightarrow> Inr m)"

definition badger_GetTradableMarkets :: "('s, Market) badgerhold \<Rightarrow> ('p, MarketPrice) badgerhold
    \<Rightarrow> ('s, 'p) badgerMarkets \<Rightarrow> Market list res" where
  "badger_GetTradableMarkets B BP st =
     findMarkets B BP \<lparr>q_where = (\<lambda>m. mkt_Tradable m = True), q_page = None, q_newest = None\<rparr> st"

definition badger_GetAllMarkets :: "('s, Market) badgerhold \<Rightarrow> ('p, MarketPrice) badgerhold
    \<Rightarrow> ('s, 'p) badgerMarkets \<Rightarrow> Market list res" where
  "badger_GetAllMarkets B BP st = findMarkets B BP \<lparr>q_where = (\<lambda>_. True), q_page = None, q_newest = None\<rparr> st"

definition badger_UpdateMarket :: "('s, Market) badgerhold \<Rightarrow> ('p, MarketPrice) badgerhold \<Rightarrow> string
    \<Rightarrow> (Market \<Rightarrow> Market res) \<Rightarrow> ('s, 'p) badgerMarkets \<Rightarrow> ('s, 'p) badgerMarkets \<times> unit res" where
  "badger_UpdateMarket B BP marketName updateFn st =
     (case rbind (getMarket B BP marketName st) updateFn of
        Inl e \<Rightarrow> (st, Inl e)
      | Inr updatedMarket \<Rightarrow> updateMarket B updatedMarket st)"

definition badger_OpenMarket :: "'d decimal_ops \<Rightarrow> ('s, Market) badgerhold \<Rightarrow> ('p, MarketPrice) badgerhold \<Rightarrow> string
    \<Rightarrow> ('s, 'p) badgerMarkets \<Rightarrow> ('s, 'p) badgerMarkets \<times> unit res" where
  "badger_OpenMarket D B BP marketName st = (case getMarket B BP marketName st of
     Inl e \<Rightarrow> (st, Inl e)
   | Inr market \<Rightarrow>
       if IsTradable market then (st, Inr ())
       else case MakeTradable D market of Inl e \<Rightarrow> (st, Inl e) | Inr market \<Rightarrow> updateMarket B market st)"

definition badger_CloseMarket :: "('s, Market) badgerhold \<Rightarrow> ('p, MarketPrice) badgerhold \<Rightarrow> string
    \<Rightarrow> ('s, 'p) badgerMarkets \<Rightarrow> ('s, 'p) badgerMarkets \<times> unit res" where
  "badger_CloseMarket B BP marketName st = (case getMarket B BP marketName st of
     Inl e \<Rightarrow> (st, Inl e)
   | Inr market \<Rightarrow> if \<not> IsTradable market then (st, Inr ()) else updateMarket B (MakeNotTradable market) st)"

definition badger_DeleteMarket :: "('s, Market) badgerhold \<Rightarrow> string
    \<Rightarrow> ('s, 'p) badgerMarkets \<Rightarrow> ('s, 'p) badgerMarkets \<times> unit res" where
  "badger_DeleteMarket B marketName st = (case bh_Delete B marketName (bm_store st) of
     (s, Inl e) \<Rightarrow> (st\<lparr>bm_store := s\<rparr>,
        if e \<noteq> ErrNotFound then Inl (Errorf ''market with name %s not found'' [marketName]) else Inl (bh_err e))
   | (s, Inr _) \<Rightarrow> (st\<lparr>bm_store := s\<rparr>, Inr ()))"

definition badger_UpdateMarketPrice :: "('p, MarketPrice) badgerhold \<Rightarrow> string \<Rightarrow> MarketPrice
    \<Rightarrow> ('s, 'p) badgerMarkets \<Rightarrow> ('s, 'p) badgerMarkets \<times> unit res" where
  "badger_UpdateMarketPrice BP marketName price st = badger_updateMarketPrice BP marketName price st"

definition badger_market_repo :: "'d decimal_ops \<Rightarrow> ('s, Market) badgerhold \<Rightarrow> ('p, MarketPrice) badgerhold
    \<Rightarrow> ('s, 'p) badgerMarkets MarketRepository" where
  "badger_market_repo D B BP = \<lparr>mr_AddMarket = badger_AddMarket B BP, mr_GetMarketByName = badger_GetMarketByName B BP,
     mr_GetMarketByAssets = badger_GetMarketByAssets B BP, mr_GetTradableMarkets = badger_GetTradableMarkets B BP,
     mr_GetAllMarkets = badger_GetAllMarkets B BP, mr_UpdateMarket = badger_UpdateMarket B BP,
     mr_OpenMarket = badger_OpenMarket D B BP, mr_CloseMarket = badger_CloseMarket B BP,
     mr_DeleteMarket = badger_DeleteMarket B, mr_UpdateMarketPrice = badger_UpdateMarketPrice BP\<rparr>"


section \<open>What the two stores show\<close>

definition bview :: "('s \<Rightarrow> string \<Rightarrow> Market option) \<Rightarrow> ('p \<Rightarrow> string \<Rightarrow> MarketPrice option)
    \<Rightarrow> ('s, 'p) badgerMarkets \<Rightarrow> string \<Rightarrow> Market option" where
  "bview view pview st n = (case (view (bm_store st) n, pview (bm_priceStore st) n) of
     (Some m, Some p) \<Rightarrow> Some (m\<lparr>mkt_Price := p\<rparr>) | _ \<Rightarrow> None)"

text \<open>Markets are filed under their names and have a price; no transaction is in conflict.\<close>

definition bm_ok :: "('s \<Rightarrow> string \<Rightarrow> Market option) \<Rightarrow> ('p \<Rightarrow> string \<Rightarrow> MarketPrice option) \<Rightarrow> ('s \<Rightarrow> nat)
    \<Rightarrow> ('s, 'p) badgerMarkets \<Rightarrow> bool" where
  "bm_ok view pview pending st \<longleftrightarrow> pending (bm_store st) = 0 \<and>
     (\<forall>n m. view (bm_store st) n = Some m \<longrightarrow> mkt_Name m = n \<and> pview (bm_priceStore st) n \<noteq> None)"

lemma bm_okE:
  assumes "bm_ok view pview pending st"
  obtains "view (bm_store st) n = None" "bview view pview st n = None"
  | m p where "view (bm_store st) n = Some m" "pview (bm_priceStore st) n = Some p" "mkt_Name m = n"
      "bview view pview st n = Some (m\<lparr>mkt_Price := p\<rparr>)"
  using assms by (cases "view (bm_store st) n"; cases "pview (bm_priceStore st) n") (fastforce simp: bm_ok_def bview_def)+

locale market_stores = B: badgerhold_store B view pending + BP: badgerhold_store BP pview ppending
  for B :: "('s, Market) badgerhold" and view pending
    and BP :: "('p, MarketPrice) badgerhold" and pview ppending
begin

abbreviation "bv \<equiv> bview view pview"
abbreviation "ok \<equiv> bm_ok view pview pending"

lemma getMarket_view:
  assumes "ok st"
  shows "getMarket B BP n st = (case bv st n of
    None \<Rightarrow> Inl (Errorf ''market with name %s not found'' [n]) | Some m \<Rightarrow> Inr m)"
  using assms
  by (cases n rule: bm_okE [OF assms]) (simp_all add: getMarket_def getMarketPrice_def B.get_view BP.get_view)

lemma add_view_new:
  assumes "ok st" "bv st (mkt_Name m) = None"
  shows "\<exists>st'. badger_AddMarket B BP m st = (st', Inr ()) \<and> ok st' \<and> bv st' = (bv st)(mkt_Name m \<mapsto> m)"
proof -
  have none: "view (bm_store st) (mkt_Name m) = None"
    using assms(2) by (cases "mkt_Name m" rule: bm_okE [OF assms(1)]) auto
  obtain s where s: "bh_Insert B (mkt_Name m) m (bm_store st) = (s, Inr ())"
    "view s = (view (bm_store st))(mkt_Name m \<mapsto> m)" "pending s \<le> pending (bm_store st)"
    using B.insert_new [OF none, of m] by blast
  obtain p where p: "bh_Upsert BP (mkt_Name m) (mkt_Price m) (bm_priceStore st) = (p, Inr ())"
    "pview p = (pview (bm_priceStore st))(mkt_Name m \<mapsto> mkt_Price m)"
    using BP.upsert_view by blast
  have "badger_AddMarket B BP m st = (st\<lparr>bm_store := s, bm_priceStore := p\<rparr>, Inr ())"
    by (simp add: badger_AddMarket_def insertMarket_def badger_updateMarketPrice_def s(1) p(1))
  moreover have "bv (st\<lparr>bm_store := s, bm_priceStore := p\<rparr>) = (bv st)(mkt_Name m \<mapsto> m)"
    by (auto simp: bview_def s(2) p(2) fun_eq_iff)
  moreover have "ok (st\<lparr>bm_store := s, bm_priceStore := p\<rparr>)"
    using assms(1) s(3) by (auto simp: bm_ok_def s(2) p(2))
  ultimately show ?thesis by blast
qed

lemma add_view_old:
  assumes "ok st" "bv st (mkt_Name m) \<noteq> None"
  shows "\<exists>e. badger_AddMarket B BP m st = (st, Inl e)"
proof -
  have "view (bm_store st) (mkt_Name m) \<noteq> None"
    using assms(2) by (cases "mkt_Name m" rule: bm_okE [OF assms(1)]) auto
  from B.insert_old [OF this, of m] show ?thesis
    by (simp add: badger_AddMarket_def insertMarket_def)
qed

lemma updateMarket_view:
  assumes "ok st" "bv st n = Some m" "mkt_Name m' = n" "mkt_Price m' = mkt_Price m"
  shows "\<exists>st'. updateMarket B m' st = (st', Inr ()) \<and> ok st' \<and> bv st' = (bv st)(n \<mapsto> m')"
proof -
  obtain m0 p where m0: "view (bm_store st) n = Some m0" "pview (bm_priceStore st) n = Some p" "mkt_Price m = p"
    using assms(2) by (cases n rule: bm_okE [OF assms(1)]) auto
  let ?m = "m'\<lparr>mkt_Price := empty_price\<rparr>"
  obtain s where s: "bh_Update B n ?m (bm_store st) = (s, Inr ())" "view s = (view (bm_store st))(n \<mapsto> ?m)" "pending s = 0"
    using B.update_quiet [of "bm_store st" n ?m] m0(1) assms(1) by (auto simp: bm_ok_def)
  have "updateMarket B m' st = (st\<lparr>bm_store := s\<rparr>, Inr ())"
    by (simp add: updateMarket_def assms(3) s(1))
  moreover have "bv (st\<lparr>bm_store := s\<rparr>) = (bv st)(n \<mapsto> m')"
    using m0(2,3) assms(4) by (auto simp: bview_def s(2) fun_eq_iff)
  moreover have "ok (st\<lparr>bm_store := s\<rparr>)"
    using assms(1,3) m0(2) s(3) by (auto simp: bm_ok_def s(2))
  ultimately show ?thesis by blast
qed

lemma delete_view:
  assumes "ok st"
  shows "(bv st n = None \<longrightarrow> (\<exists>e. badger_DeleteMarket B n st = (st, Inl e)))
    \<and> (bv st n \<noteq> None \<longrightarrow> (\<exists>st'. badger_DeleteMarket B n st = (st', Inr ()) \<and> ok st' \<and> bv st' = (bv st)(n := None)))"
proof (cases n rule: bm_okE [OF assms])
  case 1
  then show ?thesis using B.delete_missing [OF 1(1)] by (simp add: badger_DeleteMarket_def)
next
  case (2 m p)
  then obtain s where s: "bh_Delete B n (bm_store st) = (s, Inr ())" "view s = (view (bm_store st))(n := None)"
    "pending s \<le> pending (bm_store st)"
    using B.delete_found [of "bm_store st" n] by auto
  have "bv (st\<lparr>bm_store := s\<rparr>) = (bv st)(n := None)" "ok (st\<lparr>bm_store := s\<rparr>)"
    using assms s(3) by (auto simp: bview_def bm_ok_def s(2) fun_eq_iff)
  with 2 s(1) show ?thesis by (simp add: badger_DeleteMarket_def)
qed

end


interpretation mem_markets: market_stores mem_badgerhold "\<lambda>s. gm_get (fst s)" snd mem_badgerhold "\<lambda>s. gm_get (fst s)" snd
  by (rule market_stores.intro) (rule mem.badgerhold_store_axioms)+

section \<open>Agreement with the in-memory repository\<close>

definition market_sim :: "('s \<Rightarrow> string \<Rightarrow> Market option) \<Rightarrow> ('p \<Rightarrow> string \<Rightarrow> MarketPrice option) \<Rightarrow> ('s \<Rightarrow> nat)
    \<Rightarrow> ('s, 'p) badgerMarkets \<Rightarrow> marketInmemoryStore \<Rightarrow> bool" where
  "market_sim view pview pending st ms \<longleftrightarrow> bm_ok view pview pending st \<and> market_store_ok ms
     \<and> (\<forall>n. bview view pview st n = gm_get (markets ms) n)"

definition same_effect :: "('s \<Rightarrow> string \<Rightarrow> Market option) \<Rightarrow> ('p \<Rightarrow> string \<Rightarrow> MarketPrice option) \<Rightarrow> ('s \<Rightarrow> nat)
    \<Rightarrow> ('s, 'p) badgerMarkets \<times> unit res \<Rightarrow> marketInmemoryStore \<times> unit res \<Rightarrow> bool" where
  "same_effect view pview pending b m \<longleftrightarrow>
     market_sim view pview pending (fst b) (fst m) \<and> (isl (snd b) \<longleftrightarrow> isl (snd m))"

context market_stores
begin

abbreviation "sim \<equiv> market_sim view pview pending"
abbreviation "agree \<equiv> same_effect view pview pending"

lemma sim_ok: "sim st ms \<Longrightarrow> ok st" "sim st ms \<Longrightarrow> market_store_ok ms" "sim st ms \<Longrightarrow> bv st = gm_get (markets ms)"
  by (auto simp: market_sim_def fun_eq_iff)

lemma agreeI:
  assumes "b = (st, r)" "m = (ms, r')" "ok st" "market_store_ok ms" "bv st = gm_get (markets ms)" "isl r \<longleftrightarrow> isl r'"
  shows "agree b m"
  using assms by (simp add: same_effect_def market_sim_def)

lemma agree_refl: "sim st ms \<Longrightarrow> isl r \<longleftrightarrow> isl r' \<Longrightarrow> agree (st, r) (ms, r')"
  by (simp add: same_effect_def)

lemma sim_get: "sim st ms \<Longrightarrow> getMarket B BP n st = getMarketByName ms n"
  by (simp add: getMarket_view [OF sim_ok(1)] sim_ok(3) getMarketByName_def)

lemma sim_update:
  assumes "sim st ms" "getMarketByName ms n = Inr m" "mkt_Name m' = mkt_Name m" "mkt_Price m' = mkt_Price m"
    and "ms' = ms\<lparr>markets := gm_put n m' (markets ms), nameByAssetsKey := k\<rparr>" "gm_ok k"
  shows "agree (updateMarket B m' st) (ms', Inr ())"
proof -
  have v: "bv st n = Some m"
    using assms(1,2) by (simp add: sim_ok(3) getMarketByName_def split: option.splits)
  then have "mkt_Name m = n"
    by (cases n rule: bm_okE [OF sim_ok(1) [OF assms(1)]]) auto
  with updateMarket_view [OF sim_ok(1) [OF assms(1)] v, of m'] assms(3,4) obtain st' where
    u: "updateMarket B m' st = (st', Inr ())" "ok st'" "bv st' = (bv st)(n \<mapsto> m')"
    by auto
  show ?thesis
    by (rule agreeI [OF u(1) HOL.refl u(2)])
      (use assms(1,5,6) in \<open>auto simp: sim_ok(2,3) u(3) fun_eq_iff market_store_ok_def dest: sim_ok(2)\<close>)
qed

lemma sim_add: "sim st ms \<Longrightarrow> agree (badger_AddMarket B BP m st) (AddMarket sha256 m ms)"
proof -
  assume sim: "sim st ms"
  note s = sim_ok [OF sim]
  show ?thesis
  proof (cases "gm_get (markets ms) (mkt_Name m)")
    case None
    then have "bv st (mkt_Name m) = None" by (simp add: s(3))
    from add_view_new [OF s(1) this] obtain st' where
      a: "badger_AddMarket B BP m st = (st', Inr ())" "ok st'" "bv st' = (bv st)(mkt_Name m \<mapsto> m)" by blast
    have "AddMarket sha256 m ms = (fst (AddMarket sha256 m ms), Inr ())"
      by (simp add: AddMarket_def createMarket_def getMarketByName_def None)
    from a(1) this a(2) show ?thesis
      by (rule agreeI) (use s(2) None in \<open>auto simp: AddMarket_def createMarket_def getMarketByName_def market_store_ok_def a(3) s(3) fun_eq_iff\<close>)
  next
    case (Some x)
    then have "bv st (mkt_Name m) \<noteq> None" by (simp add: s(3))
    from add_view_old [OF s(1) this] obtain e where "badger_AddMarket B BP m st = (st, Inl e)" by blast
    with Some sim show ?thesis
      by (simp add: AddMarket_def createMarket_def getMarketByName_def agree_refl)
  qed
qed

lemma sim_delete: "sim st ms \<Longrightarrow> agree (badger_DeleteMarket B n st) (DeleteMarket n ms)"
proof -
  assume sim: "sim st ms"
  note s = sim_ok [OF sim] and d = delete_view [OF sim_ok(1) [OF sim], of n]
  show ?thesis
  proof (cases "gm_get (markets ms) n")
    case None
    with d s(3) obtain e where "badger_DeleteMarket B n st = (st, Inl e)" by auto
    with None sim show ?thesis by (simp add: DeleteMarket_def agree_refl)
  next
    case (Some x)
    with d s(3) obtain st' where st': "badger_DeleteMarket B n st = (st', Inr ())" "ok st'" "bv st' = (bv st)(n := None)" by auto
    have "DeleteMarket n ms = (ms\<lparr>markets := gm_del n (markets ms)\<rparr>, Inr ())"
      by (simp add: DeleteMarket_def Some)
    from st'(1) this st'(2) show ?thesis
      by (rule agreeI) (use s(2) in \<open>auto simp: market_store_ok_def st'(3) s(3) fun_eq_iff\<close>)
  qed
qed

lemma sim_UpdateMarket:
  assumes "sim st ms" "\<And>m m'. f m = Inr m' \<Longrightarrow> mkt_Name m' = mkt_Name m \<and> mkt_Price m' = mkt_Price m"
  shows "agree (badger_UpdateMarket B BP n f st) (UpdateMarket sha256 n f ms)"
proof (cases "rbind (getMarketByName ms n) f")
  case (Inl e)
  with assms(1) show ?thesis
    by (simp add: badger_UpdateMarket_def UpdateMarket_def sim_get agree_refl)
next
  case (Inr m')
  then obtain m where m: "getMarketByName ms n = Inr m" "f m = Inr m'" by (auto simp: rbind_eq_Inr)
  have k: "gm_ok (gm_put (keyFromAssets sha256 (mkt_BaseAsset m') (mkt_QuoteAsset m')) n (nameByAssetsKey ms))"
    using sim_ok(2) [OF assms(1)] by (simp add: market_store_ok_def)
  have "agree (updateMarket B m' st) (ms\<lparr>markets := gm_put n m' (markets ms), nameByAssetsKey :=
      gm_put (keyFromAssets sha256 (mkt_BaseAsset m') (mkt_QuoteAsset m')) n (nameByAssetsKey ms)\<rparr>, Inr ())"
    by (rule sim_update [OF assms(1) m(1) _ _ HOL.refl k]) (use assms(2) [OF m(2)] in simp_all)
  with m assms(1) show ?thesis
    by (simp add: badger_UpdateMarket_def UpdateMarket_def sim_get)
qed

lemma sim_set_tradable:
  assumes "sim st ms" "getMarketByName ms n = Inr m"
  shows "agree (updateMarket B (m\<lparr>mkt_Tradable := b\<rparr>) st) (ms\<lparr>markets := gm_put n (m\<lparr>mkt_Tradable := b\<rparr>) (markets ms)\<rparr>, Inr ())"
proof -
  have "gm_ok (nameByAssetsKey ms)" using sim_ok(2) [OF assms(1)] by (simp add: market_store_ok_def)
  from sim_update [OF assms, of "m\<lparr>mkt_Tradable := b\<rparr>", OF _ _ HOL.refl this] show ?thesis by simp
qed

lemma sim_open: "sim st ms \<Longrightarrow> agree (badger_OpenMarket D B BP n st) (OpenMarket D n ms)"
  by (cases "getMarketByName ms n")
    (auto simp: badger_OpenMarket_def OpenMarket_def sim_get agree_refl MakeTradable_def intro!: sim_set_tradable)

lemma sim_close: "sim st ms \<Longrightarrow> agree (badger_CloseMarket B BP n st) (CloseMarket n ms)"
  by (cases "getMarketByName ms n")
    (auto simp: badger_CloseMarket_def CloseMarket_def sim_get agree_refl MakeNotTradable_def intro!: sim_set_tradable)

end



section \<open>Examples\<close>

definition ex_badger_market :: Market where
  "ex_badger_market = zero_market\<lparr>mkt_Name := ''m1'', mkt_StrategyType := StrategyTypeBalanced,
     mkt_Price := \<lparr>mp_BasePrice = ''2'', mp_QuotePrice = ''0.5''\<rparr>\<rparr>"

definition ex_badger_markets :: "(Market mem_store, MarketPrice mem_store) badgerMarkets" where
  "ex_badger_markets = \<lparr>bm_store = ([(''m1'', ex_badger_market)], 0), bm_priceStore = ([(''m1'', mkt_Price ex_badger_market)], 0)\<rparr>"

definition ex_inmemory_markets :: marketInmemoryStore where
  "ex_inmemory_markets = \<lparr>markets = [(''m1'', ex_badger_market)], nameByAssetsKey = []\<rparr>"

lemma ex_markets_sim:
  "market_sim (\<lambda>s. gm_get (fst s)) (\<lambda>s. gm_get (fst s)) snd ex_badger_markets ex_inmemory_markets"
  by (auto simp: market_sim_def bm_ok_def bview_def market_store_ok_def gm_ok_def ex_badger_markets_def
      ex_inmemory_markets_def ex_badger_market_def)


text \<open>
  Where the two differ. Making a market pluggable clears its price; the database keeps the old one,
  so that the market can be opened without a price having been set.
\<close>

lemma badger_keeps_price_of_pluggable:
  "let st = fst (badger_UpdateMarket mem_badgerhold mem_badgerhold ''m1'' MakeStrategyPluggable ex_badger_markets);
       ms = fst (UpdateMarket (\<lambda>_. []) ''m1'' MakeStrategyPluggable ex_inmemory_markets)
   in snd (badger_OpenMarket fixdec mem_badgerhold mem_badgerhold ''m1'' st) = Inr ()
      \<and> snd (OpenMarket fixdec ''m1'' ms) = Inl ErrMarketNotPriced"
  by code_simp

text \<open>The database takes any price for any name; the in-memory repository refuses a negative one and an unknown market.\<close>

lemma badger_price_unchecked:
  "snd (badger_UpdateMarketPrice mem_badgerhold ''m1'' \<lparr>mp_BasePrice = ''-1'', mp_QuotePrice = ''-1''\<rparr> ex_badger_markets) = Inr ()
   \<and> snd (UpdateMarketPrice fixdec ''m1'' \<lparr>mp_BasePrice = ''-1'', mp_QuotePrice = ''-1''\<rparr> ex_inmemory_markets)
       = Inl ErrMarketInvalidBasePrice"
  by code_simp

section \<open>The contract of the operator\<close>

context market_stores
begin

lemma findMarkets_view:
  assumes "ok st"
  shows "\<exists>ms. findMarkets B BP \<lparr>q_where = Q, q_page = None, q_newest = None\<rparr> st = Inr ms
    \<and> set ms = {m. \<exists>n m0. view (bm_store st) n = Some m0 \<and> Q m0 \<and> bv st n = Some m}"
proof -
  obtain vs where vs: "selects (view (bm_store st)) Q vs"
    "bh_Find B \<lparr>q_where = Q, q_page = None, q_newest = None\<rparr> (bm_store st) = Inr vs"
    using B.find_view [of None "bm_store st" Q] by (auto simp: valid_page_def query_page_def)
  have el: "\<exists>p. pview (bm_priceStore st) (mkt_Name m) = Some p \<and> bv st (mkt_Name m) = Some (m\<lparr>mkt_Price := p\<rparr>)
      \<and> view (bm_store st) (mkt_Name m) = Some m \<and> Q m" if mem: "m \<in> set vs" for m
  proof -
    obtain n where n: "view (bm_store st) n = Some m" "Q m"
      using mem unfolding selects_set [OF vs(1)] by blast
    then show ?thesis by (cases n rule: bm_okE [OF assms]) auto
  qed
  have "\<exists>ws. with_prices BP st ms = Inr ws \<and> set ws = {w. \<exists>m\<in>set ms. bv st (mkt_Name m) = Some w}" if "set ms \<subseteq> set vs" for ms
    using that
  proof (induction ms)
    case (Cons m ms)
    then obtain ws where ws: "with_prices BP st ms = Inr ws" "set ws = {w. \<exists>m\<in>set ms. bv st (mkt_Name m) = Some w}" by auto
    from el [of m] Cons.prems obtain p where "pview (bm_priceStore st) (mkt_Name m) = Some p"
      "bv st (mkt_Name m) = Some (m\<lparr>mkt_Price := p\<rparr>)" by auto
    with ws show ?case by (auto simp: getMarketPrice_def BP.get_view)
  qed simp
  then obtain ws where ws: "with_prices BP st vs = Inr ws" "set ws = {w. \<exists>m\<in>set vs. bv st (mkt_Name m) = Some w}" by blast
  have "set ws = {m. \<exists>n m0. view (bm_store st) n = Some m0 \<and> Q m0 \<and> bv st n = Some m}"
  proof (intro set_eqI iffI)
    fix w assume "w \<in> set ws"
    with ws(2) el show "w \<in> {m. \<exists>n m0. view (bm_store st) n = Some m0 \<and> Q m0 \<and> bv st n = Some m}" by blast
  next
    fix w assume "w \<in> {m. \<exists>n m0. view (bm_store st) n = Some m0 \<and> Q m0 \<and> bv st n = Some m}"
    then obtain n m0 where n: "view (bm_store st) n = Some m0" "Q m0" "bv st n = Some w" by blast
    then have "m0 \<in> set vs" using selects_set [OF vs(1)] by auto
    moreover have "mkt_Name m0 = n" using assms n(1) by (simp add: bm_ok_def)
    ultimately show "w \<in> set ws" using ws(2) n(3) by auto
  qed
  with ws(1) vs(2) show ?thesis by (simp add: findMarkets_def)
qed

lemma by_assets_view:
  assumes "ok st"
  shows "badger_GetMarketByAssets B BP st b q = Inr m \<Longrightarrow> bv st (mkt_Name m) = Some m \<and> mkt_BaseAsset m = b \<and> mkt_QuoteAsset m = q"
    and "bv st n = Some m \<Longrightarrow> \<exists>m'. badger_GetMarketByAssets B BP st (mkt_BaseAsset m) (mkt_QuoteAsset m) = Inr m'"
proof -
  have q: "\<exists>ms. findMarkets B BP \<lparr>q_where = (\<lambda>m. mkt_BaseAsset m = b \<and> mkt_QuoteAsset m = q), q_page = None, q_newest = None\<rparr> st = Inr ms
      \<and> set ms = {m. \<exists>n. bv st n = Some m \<and> mkt_Name m = n \<and> mkt_BaseAsset m = b \<and> mkt_QuoteAsset m = q}" for b q
  proof -
    have "(\<exists>m0. view (bm_store st) n = Some m0 \<and> (mkt_BaseAsset m0 = b \<and> mkt_QuoteAsset m0 = q) \<and> bv st n = Some m)
        \<longleftrightarrow> bv st n = Some m \<and> mkt_Name m = n \<and> mkt_BaseAsset m = b \<and> mkt_QuoteAsset m = q" for n m
      by (cases n rule: bm_okE [OF assms]) auto
    with findMarkets_view [OF assms, of "\<lambda>m. mkt_BaseAsset m = b \<and> mkt_QuoteAsset m = q"] show ?thesis by simp
  qed
  show "badger_GetMarketByAssets B BP st b q = Inr m \<Longrightarrow> bv st (mkt_Name m) = Some m \<and> mkt_BaseAsset m = b \<and> mkt_QuoteAsset m = q"
  proof -
    assume a: "badger_GetMarketByAssets B BP st b q = Inr m"
    from q [of b q] obtain ms where ms: "findMarkets B BP \<lparr>q_where = (\<lambda>m. mkt_BaseAsset m = b \<and> mkt_QuoteAsset m = q),
        q_page = None, q_newest = None\<rparr> st = Inr ms"
      "set ms = {m. \<exists>n. bv st n = Some m \<and> mkt_Name m = n \<and> mkt_BaseAsset m = b \<and> mkt_QuoteAsset m = q}" by blast
    have "m \<in> set ms"
      using a ms(1) by (cases ms) (simp_all add: badger_GetMarketByAssets_def)
    then show ?thesis unfolding ms(2) by blast
  qed
  assume m: "bv st n = Some m"
  then have "mkt_Name m = n" by (cases n rule: bm_okE [OF assms]) auto
  with m q [of "mkt_BaseAsset m" "mkt_QuoteAsset m"]
  show "\<exists>m'. badger_GetMarketByAssets B BP st (mkt_BaseAsset m) (mkt_QuoteAsset m) = Inr m'"
    by (fastforce simp: badger_GetMarketByAssets_def split: list.splits)
qed

lemma update_any_price:
  assumes "ok st" "bv st n = Some m" "mkt_Name m' = n"
  shows "\<exists>st'. updateMarket B m' st = (st', Inr ()) \<and> ok st' \<and> bv st' = (bv st)(n \<mapsto> m'\<lparr>mkt_Price := mkt_Price m\<rparr>)"
proof -
  have "updateMarket B m' st = updateMarket B (m'\<lparr>mkt_Price := mkt_Price m\<rparr>) st"
    by (simp add: updateMarket_def)
  with updateMarket_view [OF assms(1,2), of "m'\<lparr>mkt_Price := mkt_Price m\<rparr>"] assms(3) show ?thesis by simp
qed

lemma price_view:
  assumes "ok st" "bv st n = Some m"
  shows "\<exists>st'. badger_UpdateMarketPrice BP n p st = (st', Inr ()) \<and> ok st' \<and> bv st' = (bv st)(n \<mapsto> m\<lparr>mkt_Price := p\<rparr>)"
proof -
  obtain s where s: "bh_Upsert BP n p (bm_priceStore st) = (s, Inr ())" "pview s = (pview (bm_priceStore st))(n \<mapsto> p)"
    using BP.upsert_view by blast
  have "bv (st\<lparr>bm_priceStore := s\<rparr>) = (bv st)(n \<mapsto> m\<lparr>mkt_Price := p\<rparr>)"
    using assms by (cases n rule: bm_okE [OF assms(1)]) (auto simp: bview_def s(2) fun_eq_iff)
  moreover have "ok (st\<lparr>bm_priceStore := s\<rparr>)"
    using assms(1) by (auto simp: bm_ok_def s(2))
  ultimately show ?thesis using s(1) by (simp add: badger_UpdateMarketPrice_def badger_updateMarketPrice_def)
qed

lemma open_close_view:
  assumes "ok st" "bv st n = Some m"
  shows "MakeTradable D m = Inr m' \<Longrightarrow> \<not> IsTradable m \<Longrightarrow>
      \<exists>st'. badger_OpenMarket D B BP n st = (st', Inr ()) \<and> ok st' \<and> bv st' = (bv st)(n \<mapsto> m')"
    and "\<exists>st'. badger_CloseMarket B BP n st = (st', Inr ()) \<and> ok st' \<and> bv st' = (bv st)(n \<mapsto> MakeNotTradable m)"
proof -
  have g: "getMarket B BP n st = Inr m" by (simp add: getMarket_view [OF assms(1)] assms(2))
  have nm: "mkt_Name m = n" using assms(2) by (cases n rule: bm_okE [OF assms(1)]) auto
  show "MakeTradable D m = Inr m' \<Longrightarrow> \<not> IsTradable m \<Longrightarrow>
      \<exists>st'. badger_OpenMarket D B BP n st = (st', Inr ()) \<and> ok st' \<and> bv st' = (bv st)(n \<mapsto> m')"
    using updateMarket_view [OF assms, of m'] g nm
    by (auto simp: badger_OpenMarket_def MakeTradable_def split: if_splits)
  show "\<exists>st'. badger_CloseMarket B BP n st = (st', Inr ()) \<and> ok st' \<and> bv st' = (bv st)(n \<mapsto> MakeNotTradable m)"
  proof (cases "IsTradable m")
    case True
    with updateMarket_view [OF assms, of "MakeNotTradable m"] g nm show ?thesis
      by (simp add: badger_CloseMarket_def MakeNotTradable_def)
  next
    case False
    then have "MakeNotTradable m = m" by (simp add: MakeNotTradable_def IsTradable_def)
    with False g assms show ?thesis by (auto simp: badger_CloseMarket_def fun_upd_idem)
  qed
qed

lemma registry: "market_registry D (badger_market_repo D B BP) bv ok"
proof
  fix st n m p and b q :: string
  assume ok: "ok st"
  note [simp] = badger_market_repo_def
  show "mr_GetMarketByAssets (badger_market_repo D B BP) st b q = Inr m \<Longrightarrow>
      bv st (mkt_Name m) = Some m \<and> mkt_BaseAsset m = b \<and> mkt_QuoteAsset m = q"
    using by_assets_view(1) [OF ok] by simp
  show "bv st (mkt_Name m) = None \<Longrightarrow> \<exists>s'. mr_AddMarket (badger_market_repo D B BP) m st = (s', Inr ()) \<and> ok s'
      \<and> bv s' = (bv st)(mkt_Name m \<mapsto> m)"
    using add_view_new [OF ok] by simp
  show "bv st (mkt_Name m) \<noteq> None \<Longrightarrow> \<exists>e. mr_AddMarket (badger_market_repo D B BP) m st = (st, Inl e)"
    using add_view_old [OF ok] by simp
  assume m: "bv st n = Some m"
  have g: "getMarket B BP n st = Inr m" by (simp add: getMarket_view [OF ok] m)
  show "\<exists>m'. mr_GetMarketByAssets (badger_market_repo D B BP) st (mkt_BaseAsset m) (mkt_QuoteAsset m) = Inr m'"
    using by_assets_view(2) [OF ok m] by simp
  show "\<exists>s'. mr_UpdateMarketPrice (badger_market_repo D B BP) n p st = (s', Inr ()) \<and> ok s'
      \<and> bv s' = (bv st)(n \<mapsto> m\<lparr>mkt_Price := p\<rparr>)"
    using price_view [OF ok m] by simp
  show "\<exists>s'. mr_CloseMarket (badger_market_repo D B BP) n st = (s', Inr ()) \<and> ok s' \<and> bv s' = (bv st)(n \<mapsto> MakeNotTradable m)"
    using open_close_view(2) [OF ok m] by simp
  show "\<exists>s'. mr_DeleteMarket (badger_market_repo D B BP) n st = (s', Inr ()) \<and> ok s' \<and> bv s' = (bv st)(n := None)"
    using delete_view [OF ok, of n] m by auto
  show "IsTradable m \<Longrightarrow> mr_OpenMarket (badger_market_repo D B BP) n st = (st, Inr ())"
    by (simp add: badger_OpenMarket_def g)
  assume c: "\<not> IsTradable m"
  show "MakeTradable D m = Inl e \<Longrightarrow> mr_OpenMarket (badger_market_repo D B BP) n st = (st, Inl e)" for e
    using c by (simp add: badger_OpenMarket_def g)
  show "MakeTradable D m = Inr m' \<Longrightarrow> \<exists>s'. mr_OpenMarket (badger_market_repo D B BP) n st = (s', Inr ()) \<and> ok s'
      \<and> bv s' = (bv st)(n \<mapsto> m')" for m'
    using open_close_view(1) [OF ok m _ c] by simp
next
  fix st n and m m' :: Market
  assume "ok st" "bv st n = Some m" "mkt_Name m' = n"
  with update_any_price [OF this] show "\<exists>s' m''. mr_UpdateMarket (badger_market_repo D B BP) n (\<lambda>_. Inr m') st = (s', Inr ())
      \<and> ok s' \<and> bv s' = (bv st)(n \<mapsto> m'') \<and> m'' \<in> {m', m'\<lparr>mkt_Price := mkt_Price m\<rparr>}"
    by (auto simp: badger_market_repo_def badger_UpdateMarket_def getMarket_view)
qed

end

lemma badger_market_registry:
  "badgerhold_store B view pending \<Longrightarrow> badgerhold_store BP pview ppending \<Longrightarrow>
   market_registry D (badger_market_repo D B BP) (bview view pview) (bm_ok view pview pending)"
  by (rule market_stores.registry) (rule market_stores.intro)

interpretation badger_registry: market_registry D "badger_market_repo D mem_badgerhold mem_badgerhold"
  "bview (\<lambda>s. gm_get (fst s)) (\<lambda>s. gm_get (fst s))" "bm_ok (\<lambda>s. gm_get (fst s)) (\<lambda>s. gm_get (fst s)) snd" for D
  by (rule mem_markets.registry)

end
