(* ===== verification/Badger_Logs.thy ===== *)
theory Badger_Logs
  imports Badger_Trades
begin

text \<open>
  \<open>deposit_repository_impl.go\<close> and \<open>withdrawal_repository_impl.go\<close> of
  \<open>internal/infrastructure/storage/db/badger\<close>, over a \<open>badgerhold\<close> store: an entry whose key
  exists is skipped, listings are newest first.
\<close>

section \<open>Deposits\<close>

definition insertDeposit :: "(bytes \<Rightarrow> bytes) \<Rightarrow> ('s, Deposit) badgerhold \<Rightarrow> Deposit \<Rightarrow> 's \<Rightarrow> 's \<times> bool res" where
  "insertDeposit hash160 B deposit s = (case bh_Insert B (Deposit_Key hash160 deposit) deposit s of
     (s, Inl e) \<Rightarrow> (s, if e = ErrKeyExists then Inr False else Inl (bh_err e))
   | (s, Inr _) \<Rightarrow> (s, Inr True))"

fun insertDeposits_loop :: "(bytes \<Rightarrow> bytes) \<Rightarrow> ('s, Deposit) badgerhold \<Rightarrow> Deposit list \<Rightarrow> int \<Rightarrow> 's \<Rightarrow> 's \<times> int res" where
  "insertDeposits_loop hash160 B [] cnt s = (s, Inr cnt)"
| "insertDeposits_loop hash160 B (dd # rest) cnt s = (case insertDeposit hash160 B dd s of
     (s, Inl e) \<Rightarrow> (s, Inl e)
   | (s, Inr isDone) \<Rightarrow> insertDeposits_loop hash160 B rest (if isDone then cnt + 1 else cnt) s)"

definition insertDeposits :: "(bytes \<Rightarrow> bytes) \<Rightarrow> ('s, Deposit) badgerhold \<Rightarrow> Deposit list \<Rightarrow> 's \<Rightarrow> 's \<times> int res" where
  "insertDeposits hash160 B deposits s = insertDeposits_loop hash160 B deposits 0 s"

definition badger_AddDeposits :: "(bytes \<Rightarrow> bytes) \<Rightarrow> ('s, Deposit) badgerhold \<Rightarrow> Deposit list \<Rightarrow> 's \<Rightarrow> 's \<times> int res" where
  "badger_AddDeposits hash160 B deposits s = insertDeposits hash160 B deposits s"

definition findDeposits :: "('s, Deposit) badgerhold \<Rightarrow> Deposit bh_query \<Rightarrow> 's \<Rightarrow> Deposit list res" where
  "findDeposits B query s = (case bh_Find B (query\<lparr>q_newest := Some dep_Timestamp\<rparr>) s of
     Inl e \<Rightarrow> Inl (bh_err e) | Inr ds \<Rightarrow> Inr ds)"

definition badger_GetDepositsForAccount :: "('s, Deposit) badgerhold \<Rightarrow> string \<Rightarrow> page option \<Rightarrow> 's \<Rightarrow> Deposit list res" where
  "badger_GetDepositsForAccount B accountName p s =
     findDeposits B \<lparr>q_where = (\<lambda>d. dep_AccountName d = accountName), q_page = page_query p, q_newest = None\<rparr> s"

definition badger_GetAllDeposits :: "('s, Deposit) badgerhold \<Rightarrow> page option \<Rightarrow> 's \<Rightarrow> Deposit list res" where
  "badger_GetAllDeposits B p s =
     findDeposits B \<lparr>q_where = (\<lambda>_. True), q_page = page_query p, q_newest = None\<rparr> s"

section \<open>Withdrawals\<close>

definition insertWithdrawal :: "('s, Withdrawal) badgerhold \<Rightarrow> Withdrawal \<Rightarrow> 's \<Rightarrow> 's \<times> bool res" where
  "insertWithdrawal B withdrawal s = (case bh_Insert B (wd_TxID withdrawal) withdrawal s of
     (s, Inl e) \<Rightarrow> (s, if e = ErrKeyExists then Inr False else Inl (bh_err e))
   | (s, Inr _) \<Rightarrow> (s, Inr True))"

fun insertWithdrawals_loop :: "('s, Withdrawal) badgerhold \<Rightarrow> Withdrawal list \<Rightarrow> int \<Rightarrow> 's \<Rightarrow> 's \<times> int res" where
  "insertWithdrawals_loop B [] cnt s = (s, Inr cnt)"
| "insertWithdrawals_loop B (ww # rest) cnt s = (case insertWithdrawal B ww s of
     (s, Inl e) \<Rightarrow> (s, Inl e)
   | (s, Inr isDone) \<Rightarrow> insertWithdrawals_loop B rest (if isDone then cnt + 1 else cnt) s)"

definition insertWithdrawals :: "('s, Withdrawal) badgerhold \<Rightarrow> Withdrawal list \<Rightarrow> 's \<Rightarrow> 's \<times> int res" where
  "insertWithdrawals B withdrawals s = insertWithdrawals_loop B withdrawals 0 s"

definition badger_AddWithdrawals :: "('s, Withdrawal) badgerhold \<Rightarrow> Withdrawal list \<Rightarrow> 's \<Rightarrow> 's \<times> int res" where
  "badger_AddWithdrawals B withdrawals s = insertWithdrawals B withdrawals s"

definition findWithdrawals :: "('s, Withdrawal) badgerhold \<Rightarrow> Withdrawal bh_query \<Rightarrow> 's \<Rightarrow> Withdrawal list res" where
  "findWithdrawals B query s = (case bh_Find B (query\<lparr>q_newest := Some wd_Timestamp\<rparr>) s of
     Inl e \<Rightarrow> Inl (bh_err e) | Inr ws \<Rightarrow> Inr ws)"

definition badger_GetWithdrawalsForAccount :: "('s, Withdrawal) badgerhold \<Rightarrow> string \<Rightarrow> page option \<Rightarrow> 's \<Rightarrow> Withdrawal list res" where
  "badger_GetWithdrawalsForAccount B accountName p s =
     findWithdrawals B \<lparr>q_where = (\<lambda>w. wd_AccountName w = accountName), q_page = page_query p, q_newest = None\<rparr> s"

definition badger_GetAllWithdrawals :: "('s, Withdrawal) badgerhold \<Rightarrow> page option \<Rightarrow> 's \<Rightarrow> Withdrawal list res" where
  "badger_GetAllWithdrawals B p s =
     findWithdrawals B \<lparr>q_where = (\<lambda>_. True), q_page = page_query p, q_newest = None\<rparr> s"

section \<open>Agreement with the in-memory logs\<close>

lemma insertDeposit_view:
  assumes "badgerhold_store B view pending"
  shows "\<exists>s'. insertDeposit hash160 B d s = (s', Inr (view s (Deposit_Key hash160 d) = None))
    \<and> view s' = (if view s (Deposit_Key hash160 d) = None then (view s)(Deposit_Key hash160 d \<mapsto> d) else view s)"
proof (cases "view s (Deposit_Key hash160 d) = None")
  case True
  with badgerhold_store.insert_new [OF assms True, of d] show ?thesis by (auto simp: insertDeposit_def)
next
  case False
  with badgerhold_store.insert_old [OF assms False, of d] show ?thesis by (auto simp: insertDeposit_def)
qed

lemma insertDeposits_loop_sim:
  assumes "badgerhold_store B view pending" "view s = gm_get m"
  shows "\<exists>s'. insertDeposits_loop hash160 B ds c s = (s', Inr (snd (fold (add_deposit hash160) ds (m, c))))
    \<and> view s' = gm_get (fst (fold (add_deposit hash160) ds (m, c)))"
  using assms(2)
proof (induction ds arbitrary: m c s)
  case (Cons d ds)
  from insertDeposit_view [OF assms(1), of hash160 d s] obtain s1 where
    s1: "insertDeposit hash160 B d s = (s1, Inr (view s (Deposit_Key hash160 d) = None))"
    "view s1 = (if view s (Deposit_Key hash160 d) = None then (view s)(Deposit_Key hash160 d \<mapsto> d) else view s)"
    by blast
  show ?case
  proof (cases "gm_get m (Deposit_Key hash160 d)")
    case None
    with s1 Cons.prems have "view s1 = gm_get (gm_put (Deposit_Key hash160 d) d m)" by (simp add: fun_eq_iff)
    from Cons.IH [OF this, of "c + 1"] None s1 Cons.prems show ?thesis by (simp add: add_deposit_def)
  next
    case (Some x)
    with s1 Cons.prems have "view s1 = gm_get m" by simp
    from Cons.IH [OF this, of c] Some s1 Cons.prems show ?thesis by (simp add: add_deposit_def)
  qed
qed simp

text \<open>
  The database-backed log of deposits agrees with the in-memory one: from the same entries, adding
  deposits counts the same and leads to the same entries.
\<close>

lemma badger_deposits_refine_inmemory:
  assumes "badgerhold_store B view pending" "view s = gm_get m"
  shows "\<exists>s'. badger_AddDeposits hash160 B ds s = (s', Inr (snd (AddDeposits hash160 ds m)))
    \<and> view s' = gm_get (fst (AddDeposits hash160 ds m))"
  using insertDeposits_loop_sim [OF assms, of hash160 ds 0]
  by (simp add: badger_AddDeposits_def insertDeposits_def AddDeposits_def)

lemma badger_deposits_refine_inmemory_example:
  "\<exists>s'. badger_AddDeposits (\<lambda>b. b) mem_badgerhold [ex_deposit ''t'' 1, ex_deposit ''u'' 2] ([], 0)
        = (s', Inr (snd (AddDeposits (\<lambda>b. b) [ex_deposit ''t'' 1, ex_deposit ''u'' 2] [])))
      \<and> gm_get (fst s') = gm_get (fst (AddDeposits (\<lambda>b. b) [ex_deposit ''t'' 1, ex_deposit ''u'' 2] []))"
  by (rule badger_deposits_refine_inmemory [OF mem.badgerhold_store_axioms]) simp

text \<open>A listing of the database, without a page: the entries of the account, newest first.\<close>

lemma badger_GetDepositsForAccount_all:
  assumes "badgerhold_store B view pending"
  shows "\<exists>ds. badger_GetDepositsForAccount B account None s = Inr ds \<and> selects (view s) (\<lambda>d. dep_AccountName d = account) ds
    \<and> sorted_wrt (\<lambda>x y. dep_Timestamp x \<ge> dep_Timestamp y) ds"
proof -
  have "valid_page None" by (simp add: valid_page_def)
  from badgerhold_store.find_newest [OF assms this, of s "\<lambda>d. dep_AccountName d = account" dep_Timestamp] show ?thesis
    by (auto simp: badger_GetDepositsForAccount_def findDeposits_def page_query_def query_page_def)
qed

end
