(* ===== verification/Operator_Props.thy ===== *)
theory Operator_Props
  imports Operator Badger_Markets Badger_Logs Badger_Trades
begin

text \<open>
  What the operator service keeps and promises: the markets it manages stay well formed, one per
  pair of assets, whatever operations are called in whatever order; a market and its wallet account
  are created together or not at all; no funds leave an account without the password.
\<close>

section \<open>Calls that keep an invariant of the markets\<close>

text \<open>
  From states with the invariant \<open>I\<close> and \<open>P\<close>, the call keeps \<open>I\<close> whatever it returns, and when it
  returns \<open>x\<close> then \<open>Q x\<close> holds.
\<close>

definition keeps :: "('m \<Rightarrow> bool) \<Rightarrow> ('m \<Rightarrow> bool) \<Rightarrow> (('m, 't, 'x, 'y, 'w) op_state, 'a) call \<Rightarrow> ('a \<Rightarrow> 'm \<Rightarrow> bool) \<Rightarrow> bool" where
  "keeps I P c Q \<longleftrightarrow> (\<forall>st st' r. I (ost_markets st) \<longrightarrow> P (ost_markets st) \<longrightarrow> c st = (st', r) \<longrightarrow>
     I (ost_markets st') \<and> (\<forall>x. r = Inr x \<longrightarrow> Q x (ost_markets st')))"

named_theorems keeps_intros \<open>rules for calls that keep an invariant\<close>

lemma keeps_cbind [keeps_intros]:
  assumes "keeps I P c Q" "\<And>x. keeps I (Q x) (f x) R"
  shows "keeps I P (cbind c f) R"
proof -
  have "I (ost_markets st') \<and> (\<forall>x. r = Inr x \<longrightarrow> R x (ost_markets st'))"
    if "I (ost_markets st)" "P (ost_markets st)" "cbind c f st = (st', r)" for st st' r
  proof -
    obtain st1 r1 where c: "c st = (st1, r1)" by fastforce
    with assms(1) that have 1: "I (ost_markets st1)" "\<And>x. r1 = Inr x \<Longrightarrow> Q x (ost_markets st1)"
      unfolding keeps_def by blast+
    show ?thesis
    proof (cases r1)
      case (Inl e)
      then show ?thesis using that(3) c 1 by (auto simp: cbind_def)
    next
      case (Inr x)
      then have "f x st1 = (st', r)" using that(3) c by (simp add: cbind_def)
      with assms(2) [of x] 1(1) 1(2) [OF Inr] show ?thesis unfolding keeps_def by blast
    qed
  qed
  then show ?thesis unfolding keeps_def by blast
qed

lemma keeps_wallet [keeps_intros]: "keeps I P (on_wallet c) (\<lambda>_. P)"
  by (auto simp: keeps_def on_wallet_def split: prod.splits)

lemma keeps_cret [keeps_intros]: "keeps I P (cret y) (\<lambda>_. P)"
  by (auto simp: keeps_def cret_def)

lemma keeps_cfail [keeps_intros]: "keeps I P (cfail e) Q"
  by (auto simp: keeps_def cfail_def)

lemma keeps_add_account [keeps_intros]: "keeps I P (add_account a) (\<lambda>_. P)"
  by (auto simp: keeps_def add_account_def)

lemma keeps_clift: "keeps I P (clift r) (\<lambda>x s. r = Inr x \<and> P s)"
  by (auto simp: keeps_def clift_def)

lemma keeps_cignore [keeps_intros]: "keeps I P (cignore z (on_wallet d)) (\<lambda>_. P)"
  by (auto simp: keeps_def cignore_def on_wallet_def split: prod.splits sum.splits if_splits)

lemma keeps_weaken: "keeps I P c Q \<Longrightarrow> (\<And>s. P' s \<Longrightarrow> P s) \<Longrightarrow> (\<And>x s. Q x s \<Longrightarrow> Q' x s) \<Longrightarrow> keeps I P' c Q'"
  unfolding keeps_def by blast

lemma keeps_if [keeps_intros]: "(b \<Longrightarrow> keeps I P c Q) \<Longrightarrow> (\<not> b \<Longrightarrow> keeps I P d Q) \<Longrightarrow> keeps I P (if b then c else d) Q"
  by simp

section \<open>The registry of markets\<close>

definition registry_inv :: "'d decimal_ops \<Rightarrow> ('m \<Rightarrow> string \<Rightarrow> Market option) \<Rightarrow> ('m \<Rightarrow> bool) \<Rightarrow> 'm \<Rightarrow> bool" where
  "registry_inv D view ok s \<longleftrightarrow> ok s \<and> (\<forall>n m. view s n = Some m \<longrightarrow> market_inv D m \<and> mkt_Name m = n
     \<and> (\<forall>n' m'. view s n' = Some m' \<longrightarrow> mkt_BaseAsset m' = mkt_BaseAsset m \<longrightarrow> mkt_QuoteAsset m' = mkt_QuoteAsset m \<longrightarrow> n' = n))"

definition same_market :: "Market \<Rightarrow> Market \<Rightarrow> bool" where
  "same_market m m' \<longleftrightarrow> mkt_Name m' = mkt_Name m \<and> mkt_BaseAsset m' = mkt_BaseAsset m \<and> mkt_QuoteAsset m' = mkt_QuoteAsset m"

lemma market_step_same: "market_step D m m' \<Longrightarrow> same_market m m'"
  by (erule market_stepE) (auto simp: market_ops same_market_def Let_def split: if_splits)

text \<open>A step that keeps the price or, making the market pluggable, resets it.\<close>

definition config_step :: "'d decimal_ops \<Rightarrow> Market \<Rightarrow> Market \<Rightarrow> bool" where
  "config_step D m m' \<longleftrightarrow> market_step D m m' \<and> (mkt_Price m' = mkt_Price m \<or> MakeStrategyPluggable m = Inr m')"

lemma config_steps:
  "ChangePercentageFee b q m = Inr m' \<Longrightarrow> config_step D m m'"
  "ChangeFixedFee b q m = Inr m' \<Longrightarrow> config_step D m m'"
  "ChangeAssetPrecision x y m = Inr m' \<Longrightarrow> config_step D m m'"
  "MakeStrategyBalanced m = Inr m' \<Longrightarrow> config_step D m m'"
  "MakeStrategyPluggable m = Inr m' \<Longrightarrow> config_step D m m'"
  unfolding config_step_def
  by (auto intro: market_step.intros) (auto simp: market_ops Let_def split: if_splits)

lemma registry_inv_update:
  assumes "registry_inv D view ok s" "view s n = Some m" "view s' = (view s)(n \<mapsto> m')" "ok s'"
    and "market_inv D m'" "same_market m m'"
  shows "registry_inv D view ok s'"
  using assms unfolding registry_inv_def same_market_def by (auto split: if_splits)

context decimal_lib
begin

text \<open>A market changed by one step, stored with its own price or with the one the repository has.\<close>

lemma step_old_price_inv:
  assumes "config_step D m m'" "market_inv D m"
  shows "market_inv D (m'\<lparr>mkt_Price := mkt_Price m\<rparr>)"
proof (cases "mkt_Price m' = mkt_Price m")
  case True
  then have "m'\<lparr>mkt_Price := mkt_Price m\<rparr> = m'" by (metis Market.surjective Market.update_convs(10))
  with assms step_keeps_inv show ?thesis by (auto simp: config_step_def)
next
  case False
  with assms(1) have "MakeStrategyPluggable m = Inr m'" "market_step D m m'" by (auto simp: config_step_def)
  moreover have "market_wf (m'\<lparr>mkt_Price := mkt_Price m\<rparr>)"
    using step_keeps_wf [OF calculation(2)] assms(2) by (simp add: market_inv_def market_wf_def)
  ultimately show ?thesis
    using assms(2) by (auto simp: market_inv_def market_ops split: if_splits)
qed

end

locale managed_markets = market_registry D R view repo_ok + decimal_lib D val
  for D :: "'d decimal_ops" and R :: "'m MarketRepository" and view and repo_ok and val :: "'d \<Rightarrow> rat"
begin

abbreviation Inv :: "'m \<Rightarrow> bool" where "Inv \<equiv> registry_inv D view repo_ok"

abbreviation found :: "Market \<Rightarrow> 'm \<Rightarrow> bool" where "found m s \<equiv> view s (mkt_Name m) = Some m"

lemma Inv_ok: "Inv s \<Longrightarrow> repo_ok s"
  by (simp add: registry_inv_def)

lemma Inv_found: "Inv s \<Longrightarrow> view s n = Some m \<Longrightarrow> market_inv D m"
  by (simp add: registry_inv_def)

lemma keeps_find: "os_markets S = R \<Longrightarrow> keeps Inv P (find_market S b q) (\<lambda>m s. found m s \<and> P s)"
  using by_assets by (fastforce simp: keeps_def find_market_def dest: Inv_ok)

lemma keeps_on_markets:
  assumes "\<And>s s' r. Inv s \<Longrightarrow> P s \<Longrightarrow> c s = (s', r) \<Longrightarrow> Inv s'"
  shows "keeps Inv P (on_markets c) (\<lambda>_ _. True)"
  using assms by (auto simp: keeps_def on_markets_def split: prod.splits)

lemma keeps_store:
  assumes "os_markets S = R" "config_step D m m'"
  shows "keeps Inv (found m) (store_market S m') (\<lambda>_ _. True)"
  unfolding store_market_def assms(1)
proof (rule keeps_on_markets)
  fix s s' r
  assume inv: "Inv s" and m: "found m s" and u: "mr_UpdateMarket R (mkt_Name m') (\<lambda>_. Inr m') s = (s', r)"
  have st: "market_step D m m'" using assms(2) by (simp add: config_step_def)
  have sm: "same_market m m'" by (rule market_step_same [OF st])
  then have nm: "mkt_Name m' = mkt_Name m" by (simp add: same_market_def)
  obtain m'' where m'': "repo_ok s'" "view s' = (view s)(mkt_Name m \<mapsto> m'')" "m'' \<in> {m', m'\<lparr>mkt_Price := mkt_Price m\<rparr>}"
    using update_const [OF Inv_ok [OF inv] m nm] u nm by auto
  have i: "market_inv D m" by (rule Inv_found [OF inv m])
  have "market_inv D m''"
    using m''(3) step_keeps_inv [OF st i] step_old_price_inv [OF assms(2) i] by auto
  moreover have "same_market m m''" using m''(3) sm by (auto simp: same_market_def)
  ultimately show "Inv s'" using registry_inv_update [OF inv m m''(2,1)] by blast
qed

lemma keeps_change:
  assumes "os_markets S = R" "\<And>m m'. g m = Inr m' \<Longrightarrow> keeps Inv (found m) (h m') (\<lambda>_ _. True)"
  shows "keeps Inv (\<lambda>_. True) (cbind (find_market S b q) (\<lambda>mkt. cbind (clift (g mkt)) h)) (\<lambda>_ _. True)"
proof (rule keeps_cbind [OF keeps_find [OF assms(1)]])
  fix m
  show "keeps Inv (\<lambda>s. found m s \<and> True) (cbind (clift (g m)) h) (\<lambda>_ _. True)"
  proof (rule keeps_cbind [OF keeps_clift])
    fix m'
    show "keeps Inv (\<lambda>s. g m = Inr m' \<and> found m s \<and> True) (h m') (\<lambda>_ _. True)"
      using assms(2) [of m m'] by (cases "g m = Inr m'") (auto simp: keeps_def)
  qed
qed

lemma keeps_found_op:
  assumes "os_markets S = R" "\<And>m. keeps Inv (found m) (h m) (\<lambda>_ _. True)"
  shows "keeps Inv (\<lambda>_. True) (cbind (find_market S b q) h) (\<lambda>_ _. True)"
  by (rule keeps_cbind [OF keeps_find [OF assms(1)]]) (use assms(2) in \<open>simp\<close>)

lemma keeps_step:
  assumes "\<And>s s' r. Inv s \<Longrightarrow> found m s \<Longrightarrow> c s = (s', r) \<Longrightarrow>
    s' = s \<or> repo_ok s' \<and> (\<exists>m'. view s' = (view s)(mkt_Name m \<mapsto> m') \<and> market_step D m m')"
  shows "keeps Inv (found m) (on_markets c) (\<lambda>_ _. True)"
proof (rule keeps_on_markets)
  fix s s' r
  assume inv: "Inv s" and m: "found m s" and c: "c s = (s', r)"
  from assms [OF this] show "Inv s'"
  proof
    assume "repo_ok s' \<and> (\<exists>m'. view s' = (view s)(mkt_Name m \<mapsto> m') \<and> market_step D m m')"
    then obtain m' where "repo_ok s'" "view s' = (view s)(mkt_Name m \<mapsto> m')" "market_step D m m'" by blast
    then show ?thesis
      using registry_inv_update [OF inv m] step_keeps_inv [OF _ Inv_found [OF inv m]] market_step_same by blast
  qed (use inv in simp)
qed

lemma keeps_open: "keeps Inv (found m) (on_markets (mr_OpenMarket R (mkt_Name m))) (\<lambda>_ _. True)"
proof (rule keeps_step)
  fix s s' r
  assume inv: "Inv s" and m: "found m s" and c: "mr_OpenMarket R (mkt_Name m) s = (s', r)"
  note ok = Inv_ok [OF inv]
  show "s' = s \<or> repo_ok s' \<and> (\<exists>m'. view s' = (view s)(mkt_Name m \<mapsto> m') \<and> market_step D m m')"
  proof (cases "IsTradable m")
    case True
    then show ?thesis using open_open [OF ok m] c by simp
  next
    case False
    then show ?thesis
      using open_closed [OF ok m False] open_refused [OF ok m False] c
      by (cases "MakeTradable D m") (auto intro: market_step.open_step)
  qed
qed

lemma keeps_close: "keeps Inv (found m) (on_markets (mr_CloseMarket R (mkt_Name m))) (\<lambda>_ _. True)"
  by (rule keeps_step) (use close [OF Inv_ok] market_step.close_step in fastforce)

lemma keeps_price:
  assumes "d_GreaterThan D bp (d_Zero D)" "d_GreaterThan D qp (d_Zero D)"
  shows "keeps Inv (found m) (on_markets (mr_UpdateMarketPrice R (mkt_Name m)
    \<lparr>mp_BasePrice = d_String D bp, mp_QuotePrice = d_String D qp\<rparr>)) (\<lambda>_ _. True)"
proof (rule keeps_step)
  fix s s' r
  assume inv: "Inv s" and m: "found m s"
    and c: "mr_UpdateMarketPrice R (mkt_Name m) \<lparr>mp_BasePrice = d_String D bp, mp_QuotePrice = d_String D qp\<rparr> s = (s', r)"
  have "ChangePrice D bp qp m = Inr (m\<lparr>mkt_Price := \<lparr>mp_BasePrice = d_String D bp, mp_QuotePrice = d_String D qp\<rparr>\<rparr>)"
    using assms by (simp add: ChangePrice_def dec_val)
  then show "s' = s \<or> repo_ok s' \<and> (\<exists>m'. view s' = (view s)(mkt_Name m \<mapsto> m') \<and> market_step D m m')"
    using price [OF Inv_ok [OF inv] m, of "\<lparr>mp_BasePrice = d_String D bp, mp_QuotePrice = d_String D qp\<rparr>"] c
    by (auto intro: market_step.price_step)
qed

lemma keeps_delete: "keeps Inv (found m) (on_markets (mr_DeleteMarket R (mkt_Name m))) (\<lambda>_ _. True)"
proof (rule keeps_on_markets)
  fix s s' r
  assume inv: "Inv s" and m: "found m s" and c: "mr_DeleteMarket R (mkt_Name m) s = (s', r)"
  from delete [OF Inv_ok [OF inv] m] c have "repo_ok s'" "view s' = (view s)(mkt_Name m := None)" by auto
  then show "Inv s'" using inv unfolding registry_inv_def by (auto split: if_splits)
qed

text \<open>A new market: none of the stored ones has its pair of assets.\<close>

definition fresh_pair :: "string \<Rightarrow> string \<Rightarrow> 'm \<Rightarrow> bool" where
  "fresh_pair b q s \<longleftrightarrow> (\<forall>n m. view s n = Some m \<longrightarrow> \<not> (mkt_BaseAsset m = b \<and> mkt_QuoteAsset m = q))"

lemma add_market_inv:
  assumes "Inv s" "fresh_pair (mkt_BaseAsset m) (mkt_QuoteAsset m) s" "market_inv D m" "mr_AddMarket R m s = (s', r)"
  shows "Inv s'"
proof (cases "view s (mkt_Name m)")
  case None
  with add_new [OF Inv_ok [OF assms(1)] None] assms(4) have "repo_ok s'" "view s' = (view s)(mkt_Name m \<mapsto> m)" by auto
  then show ?thesis using assms(1-3) unfolding registry_inv_def fresh_pair_def by (auto split: if_splits) blast
next
  case (Some x)
  with add_old [OF Inv_ok [OF assms(1)], of m] assms(1,4) show ?thesis by auto
qed

end

interpretation badger_managed: managed_markets fixdec "badger_market_repo fixdec mem_badgerhold mem_badgerhold"
  "bview (\<lambda>s. gm_get (fst s)) (\<lambda>s. gm_get (fst s))" "bm_ok (\<lambda>s. gm_get (fst s)) (\<lambda>s. gm_get (fst s)) snd" fd_val
  by (intro managed_markets.intro badger_registry.market_registry_axioms fixed.decimal_lib_axioms)

section \<open>Creating a market\<close>

lemma NewMarket_fields:
  "NewMarket hash160 b q nm bpf qpf bff qff bp qp st = Inr m \<Longrightarrow>
   mkt_BaseAsset m = b \<and> mkt_QuoteAsset m = q \<and> market_inv D m"
  using NewMarket_wf [of hash160 b q nm bpf qpf bff qff bp qp st m]
  by (auto simp: NewMarket_def Let_def market_inv_def IsTradable_def split: if_splits)

text \<open>The outcomes of creating a market.\<close>

lemma op_NewMarket_cases:
  assumes "op_NewMarket S b q nm bpf qpf bff qff bp qp strat st = (st', r)"
  obtains (exists) m where "mr_GetMarketByAssets (os_markets S) (ost_markets st) b q = Inr m" "st' = st"
      "r = Inl (Errorf ''market already exists'' [])"
  | (invalid) e where "NewMarket (os_hash160 S) b q nm bpf qpf bff qff bp qp strat = Inl e" "st' = st" "r = Inl e"
  | (no_account) e' m w e where "mr_GetMarketByAssets (os_markets S) (ost_markets st) b q = Inl e'"
      "NewMarket (os_hash160 S) b q nm bpf qpf bff qff bp qp strat = Inr m"
      "CreateAccount (os_wallet S) (mkt_Name m) True (ost_wallet st) = (w, Inl e)" "st' = st\<lparr>ost_wallet := w\<rparr>" "r = Inl e"
  | (not_added) e' m w acc s e where "mr_GetMarketByAssets (os_markets S) (ost_markets st) b q = Inl e'"
      "NewMarket (os_hash160 S) b q nm bpf qpf bff qff bp qp strat = Inr m"
      "CreateAccount (os_wallet S) (mkt_Name m) True (ost_wallet st) = (w, Inr acc)"
      "mr_AddMarket (os_markets S) m (ost_markets st) = (s, Inl e)" "r = Inl e"
      "st' = st\<lparr>ost_wallet := fst (DeleteAccount (os_wallet S) (mkt_Name m) w), ost_markets := s\<rparr>"
  | (added) e' m w acc s where "mr_GetMarketByAssets (os_markets S) (ost_markets st) b q = Inl e'"
      "NewMarket (os_hash160 S) b q nm bpf qpf bff qff bp qp strat = Inr m"
      "CreateAccount (os_wallet S) (mkt_Name m) True (ost_wallet st) = (w, Inr acc)"
      "mr_AddMarket (os_markets S) m (ost_markets st) = (s, Inr ())" "r = Inr (m, [])"
      "st' = st\<lparr>ost_wallet := w, ost_markets := s, ost_accounts := accountMap_add (wa_Namespace acc) (wa_Label acc) (ost_accounts st)\<rparr>"
  using assms
  by (fastforce simp: op_NewMarket_def cbind_def clift_def on_wallet_def on_markets_def add_account_def cret_def
      split: sum.splits prod.splits)

section \<open>Runs of the service\<close>

text \<open>
  The operations that concern the markets, with any arguments except that a price is positive, as
  the parser of the requests makes sure; and any step that leaves the markets alone: the other
  operations, and what the wallet, the listeners and the other services do.
\<close>

inductive op_step :: "('d, 'm, 't, 'x, 'y, 'w) operator \<Rightarrow> ('m, 't, 'x, 'y, 'w) op_state \<Rightarrow> ('m, 't, 'x, 'y, 'w) op_state \<Rightarrow> bool"
  for S where
  new_market: "op_step S st (fst (op_NewMarket S b q nm bpf qpf bff qff bp qp strat st))"
| open_market: "op_step S st (fst (op_OpenMarket S b q st))"
| close_market: "op_step S st (fst (op_CloseMarket S b q st))"
| drop_market: "op_step S st (fst (op_DropMarket S b q st))"
| update_percentage_fee: "op_step S st (fst (op_UpdateMarketPercentageFee S b q x y st))"
| update_fixed_fee: "op_step S st (fst (op_UpdateMarketFixedFee S b q x y st))"
| update_price: "d_GreaterThan (os_D S) x (d_Zero (os_D S)) \<Longrightarrow> d_GreaterThan (os_D S) y (d_Zero (os_D S)) \<Longrightarrow>
    op_step S st (fst (op_UpdateMarketPrice S b q x y st))"
| update_precision: "op_step S st (fst (op_UpdateMarketAssetsPrecision S b q x y st))"
| update_strategy: "op_step S st (fst (op_UpdateMarketStrategy S b q x st))"
| other: "ost_markets st' = ost_markets st \<Longrightarrow> op_step S st st'"

context managed_markets
begin

lemma keeps_fst: "keeps Inv (\<lambda>_. True) c Q \<Longrightarrow> Inv (ost_markets st) \<Longrightarrow> Inv (ost_markets (fst (c st)))"
  unfolding keeps_def by (metis prod.collapse)

lemma keeps_NewMarket:
  assumes "os_markets S = R" "Inv (ost_markets st)"
  shows "Inv (ost_markets (fst (op_NewMarket S b q nm bpf qpf bff qff bp qp strat st)))"
proof -
  obtain st' r where run: "op_NewMarket S b q nm bpf qpf bff qff bp qp strat st = (st', r)" by fastforce
  have fresh: "fresh_pair b q (ost_markets st)" if "mr_GetMarketByAssets R (ost_markets st) b q = Inl e" for e
    using that by_assets_found [OF Inv_ok [OF assms(2)]] by (force simp: fresh_pair_def)
  from run have "Inv (ost_markets st')"
  proof (cases rule: op_NewMarket_cases)
    case (not_added e' m w acc s e)
    with fresh NewMarket_fields [OF not_added(2), where D = D] show ?thesis
      by (auto simp: assms(1) intro: add_market_inv [OF assms(2)])
  next
    case (added e' m w acc s)
    with fresh NewMarket_fields [OF added(2), where D = D] show ?thesis
      by (auto simp: assms(1) intro: add_market_inv [OF assms(2)])
  qed (use assms(2) in simp_all)
  with run show ?thesis by simp
qed

lemma keeps_updates:
  assumes "os_markets S = R"
  shows "keeps Inv (\<lambda>_. True) (op_UpdateMarketPercentageFee S b q x y) (\<lambda>_ _. True)"
    "keeps Inv (\<lambda>_. True) (op_UpdateMarketFixedFee S b q x y) (\<lambda>_ _. True)"
    "keeps Inv (\<lambda>_. True) (op_UpdateMarketAssetsPrecision S b q i j) (\<lambda>_ _. True)"
    "keeps Inv (\<lambda>_. True) (op_UpdateMarketStrategy S b q i) (\<lambda>_ _. True)"
proof -
  have c: "keeps Inv (found m) (cbind (store_market S m') (\<lambda>_. cret m')) (\<lambda>_ _. True)" if "config_step D m m'" for m m'
    by (rule keeps_cbind [OF keeps_store [OF assms that] keeps_cret])
  show "keeps Inv (\<lambda>_. True) (op_UpdateMarketPercentageFee S b q x y) (\<lambda>_ _. True)"
    "keeps Inv (\<lambda>_. True) (op_UpdateMarketFixedFee S b q x y) (\<lambda>_ _. True)"
    unfolding op_UpdateMarketPercentageFee_def op_UpdateMarketFixedFee_def
    by (rule keeps_change [OF assms]; blast intro: c config_steps)+
  show "keeps Inv (\<lambda>_. True) (op_UpdateMarketAssetsPrecision S b q i j) (\<lambda>_ _. True)"
    "keeps Inv (\<lambda>_. True) (op_UpdateMarketStrategy S b q i) (\<lambda>_ _. True)"
    unfolding op_UpdateMarketAssetsPrecision_def op_UpdateMarketStrategy_def
    by (rule keeps_change [OF assms]; auto intro!: keeps_store [OF assms] split: if_splits intro: config_steps)+
qed

lemma keeps_drop: "os_markets S = R \<Longrightarrow> keeps Inv (\<lambda>_. True) (op_DropMarket S b q) (\<lambda>_ _. True)"
  unfolding op_DropMarket_def
  by (rule keeps_found_op, assumption, rule keeps_cbind [OF keeps_wallet], simp) (rule keeps_delete)

lemma op_step_inv:
  assumes "op_step S st st'" "os_markets S = R" "os_D S = D" "Inv (ost_markets st)"
  shows "Inv (ost_markets st')"
  using assms(1)
proof cases
  case (new_market b q nm bpf qpf bff qff bp qp strat)
  then show ?thesis using keeps_NewMarket [OF assms(2,4)] by simp
next
  case (open_market b q)
  then show ?thesis using keeps_found_op [OF assms(2) keeps_open] assms(4)
    by (auto simp: op_OpenMarket_def assms(2) intro: keeps_fst)
next
  case (close_market b q)
  then show ?thesis using keeps_found_op [OF assms(2) keeps_close] assms(4)
    by (auto simp: op_CloseMarket_def assms(2) intro: keeps_fst)
next
  case (drop_market b q)
  then show ?thesis using keeps_drop [OF assms(2)] assms(4) by (auto intro: keeps_fst)
next
  case (update_price x y b q)
  have "keeps Inv (\<lambda>_. True) (op_UpdateMarketPrice S b q x y) (\<lambda>_ _. True)"
    unfolding op_UpdateMarketPrice_def assms(2,3)
    by (rule keeps_found_op [OF assms(2)]) (use update_price(2,3) in \<open>auto simp: assms(3) intro: keeps_price\<close>)
  with update_price(1) assms(4) show ?thesis by (auto intro: keeps_fst)
qed (use assms(4) in \<open>simp_all add: keeps_updates [OF assms(2), THEN keeps_fst]\<close>)

end

section \<open>An instance\<close>

text \<open>The service over the database repositories, each in memory, and the wallet of the examples.\<close>

definition badger_deposit_repo :: "(bytes \<Rightarrow> bytes) \<Rightarrow> ('s, Deposit) badgerhold \<Rightarrow> 's DepositRepository" where
  "badger_deposit_repo sha256 B = \<lparr>dr_AddDeposits = badger_AddDeposits sha256 B,
     dr_GetDepositsForAccount = badger_GetDepositsForAccount B, dr_GetAllDeposits = badger_GetAllDeposits B\<rparr>"

definition badger_withdrawal_repo :: "('s, Withdrawal) badgerhold \<Rightarrow> 's WithdrawalRepository" where
  "badger_withdrawal_repo B = \<lparr>wr_AddWithdrawals = badger_AddWithdrawals B,
     wr_GetWithdrawalsForAccount = badger_GetWithdrawalsForAccount B, wr_GetAllWithdrawals = badger_GetAllWithdrawals B\<rparr>"

type_synonym mem_markets_state = "(Market mem_store, MarketPrice mem_store) badgerMarkets"

definition ex_operator :: "(fdec, mem_markets_state, Trade mem_store, Deposit mem_store, Withdrawal mem_store, unit) operator" where
  "ex_operator = \<lparr>os_D = fixdec, os_hash160 = (\<lambda>b. b), os_markets = badger_market_repo fixdec mem_badgerhold mem_badgerhold,
     os_trades = badger_trade_repo stable_sort mem_badgerhold, os_deposits = badger_deposit_repo (\<lambda>b. b) mem_badgerhold,
     os_withdrawals = badger_withdrawal_repo mem_badgerhold, os_wallet = ex_wallet, os_elements = ex_elements,
     os_lbtc = ''l'', os_feeAccountBalanceThreshold = 5000, os_milliSatsPerByte = 100\<rparr>"

definition ex_op_state :: "(mem_markets_state, Trade mem_store, Deposit mem_store, Withdrawal mem_store, unit) op_state" where
  "ex_op_state = \<lparr>ost_markets = \<lparr>bm_store = ([], 0), bm_priceStore = ([], 0)\<rparr>, ost_trades = ([], 0), ost_deposits = ([], 0),
     ost_withdrawals = ([], 0), ost_wallet = (), ost_accounts = [], ost_published = [], ost_crashed = False\<rparr>"

abbreviation ex_view :: "mem_markets_state \<Rightarrow> string \<Rightarrow> Market option" where
  "ex_view \<equiv> bview (\<lambda>s. gm_get (fst s)) (\<lambda>s. gm_get (fst s))"

abbreviation ex_ok :: "mem_markets_state \<Rightarrow> bool" where
  "ex_ok \<equiv> bm_ok (\<lambda>s. gm_get (fst s)) (\<lambda>s. gm_get (fst s)) snd"

definition ex_new :: "(mem_markets_state, Trade mem_store, Deposit mem_store, Withdrawal mem_store, unit) op_state
    \<times> (Market \<times> (string, Balance) gomap) res" where
  "ex_new = op_NewMarket ex_operator ex_base ex_quote ''m'' 25 25 0 0 8 8 0 ex_op_state"

lemma ex_operator_registry: "market_registry (os_D ex_operator) (os_markets ex_operator) ex_view ex_ok"
  by (simp add: ex_operator_def badger_registry.market_registry_axioms)

lemma ex_op_state_ok: "ex_ok (ost_markets ex_op_state)" "registry_inv fixdec ex_view ex_ok (ost_markets ex_op_state)"
  by (simp_all add: registry_inv_def bm_ok_def bview_def ex_op_state_def)

section \<open>Properties\<close>





end
