(* ===== verification/Tx_Classifier_Props.thy ===== *)
theory Tx_Classifier_Props
  imports Tx_Classifier Operator_Props
begin

text \<open>
  What the handlers of wallet transactions guarantee: the amounts recorded for an account are those
  the transaction moves, nothing is both a deposit and a withdrawal, a transaction that is notified
  again is neither stored nor published again, and low balances are reported.
\<close>

section \<open>Amounts\<close>

abbreviation toi_total :: "string \<Rightarrow> txOutputInfo list \<Rightarrow> u64" where
  "toi_total \<equiv> asset_total toi_asset toi_amount"

lemma tot_fold:
  "gm_amount (fold (\<lambda>out tot. gm_put (toi_asset out) (gm_amount tot (toi_asset out) + toi_amount out) tot) outs m) a
     = gm_amount m a + toi_total a outs"
  by (induction outs arbitrary: m) (simp_all add: ac_simps)

lemma tot_per_asset_amount: "gm_amount (tot_per_asset outs) a = toi_total a outs"
  by (simp add: tot_per_asset_def tot_fold)

lemma tot_fold_keys:
  "gm_get (fold (\<lambda>out tot. gm_put (toi_asset out) (gm_amount tot (toi_asset out) + toi_amount out) tot) outs m) a \<noteq> None
     \<longleftrightarrow> gm_get m a \<noteq> None \<or> a \<in> toi_asset ` set outs"
  by (induction outs arbitrary: m) (auto split: if_splits)

lemma tot_per_asset_keys: "gm_get (tot_per_asset outs) a = None \<longleftrightarrow> a \<notin> toi_asset ` set outs"
  using tot_fold_keys [of outs "[]" a] by (auto simp: tot_per_asset_def)

lemma gm_get_map_values: "gm_get (map (\<lambda>(k, v). (k, f k v)) m) k = map_option (f k) (gm_get m k)"
  by (induction m) auto

lemma toi_total_missing: "a \<notin> toi_asset ` set outs \<Longrightarrow> toi_total a outs = 0"
  by (induction outs) auto

text \<open>The amount withdrawn of an asset that is spent, and of one that is not.\<close>

lemma withdrawal_amount:
  "gm_amount (withdrawalAmountPerAsset i) a =
     (if a \<in> toi_asset ` set (txi_ownedInputs i) then toi_total a (txi_ownedInputs i) - toi_total a (txi_ownedOutputs i) else 0)"
proof (cases "gm_get (tot_per_asset (txi_ownedInputs i)) a")
  case None
  then have "a \<notin> toi_asset ` set (txi_ownedInputs i)" by (simp add: tot_per_asset_keys)
  with None show ?thesis
    by (simp add: withdrawalAmountPerAsset_def gm_amount_def gm_get_map_values)
next
  case (Some x)
  then have "a \<in> toi_asset ` set (txi_ownedInputs i)" using tot_per_asset_keys [of "txi_ownedInputs i" a] by simp
  moreover have "x = toi_total a (txi_ownedInputs i)" using Some tot_per_asset_amount [of "txi_ownedInputs i" a] by (simp add: gm_amount_def)
  moreover have "gm_amount (withdrawalAmountPerAsset i) a = x - gm_amount (tot_per_asset (txi_ownedOutputs i)) a"
    using Some by (simp add: withdrawalAmountPerAsset_def gm_amount_def [of "map _ _"] gm_get_map_values Let_def)
  ultimately show ?thesis by (simp add: tot_per_asset_amount)
qed

lemma deposit_not_withdrawal: "isDeposit i \<Longrightarrow> \<not> isWithdrawal i"
  by (cases "txi_ownedOutputs i") (auto simp: isDeposit_def isWithdrawal_def Let_def)

text \<open>An account that the transaction does not touch is taken for one that withdraws nothing.\<close>

lemma untouched_is_withdrawal:
  "txi_account i \<noteq> FeeAccount \<Longrightarrow> txi_ownedInputs i = [] \<Longrightarrow> txi_ownedOutputs i = [] \<Longrightarrow>
   isWithdrawal i \<and> withdrawalAmountPerAsset i = []"
  by (simp add: isWithdrawal_def withdrawalAmountPerAsset_def tot_per_asset_def)

section \<open>The transaction as an account sees it\<close>

definition seen_as :: "'w WalletService \<Rightarrow> elements \<Rightarrow> ChainTransaction \<Rightarrow> WalletAccount list \<Rightarrow> string \<Rightarrow> txInfo \<Rightarrow> bool" where
  "seen_as W E tx infos account i \<longleftrightarrow> (\<exists>w w'. getTxInfo W E tx account (blinding_key_of account infos) w = (w', Inr i))"

lemma getTxInfo_account: "getTxInfo W E tx account k w = (w', Inr i) \<Longrightarrow> txi_account i = account"
  by (auto simp: getTxInfo_def Let_def call_simps split: prod.splits)

lemma split_outputs_count:
  "split_outputs E k addrs outs fee = Inr (owned, notOwned, fee') \<Longrightarrow>
   length owned + length notOwned = length (filter (\<lambda>o'. out_Script o' \<noteq> []) outs)"
proof (induction outs arbitrary: fee owned notOwned fee')
  case (Cons out outs)
  then show ?case
    by (cases "out_Script out = []") (auto simp: rbind_def split: sum.splits option.splits prod.splits)
qed simp

text \<open>The accounts are looked at one after the other; what is recorded is what they give, in order.\<close>

lemma classify_infos:
  assumes "classify W E lbtc tx infos clock accounts w = (w', Inr (ds, ws))"
  shows "\<exists>js. map (\<lambda>j. txi_account (fst j)) js = accounts \<and> (\<forall>(i, now)\<in>set js. seen_as W E tx infos (txi_account i) i)
    \<and> ds = concat (map (\<lambda>(i, now). deposit_of (TxHash E tx) now i) js)
    \<and> ws = concat (map (\<lambda>(i, now). withdrawal_of lbtc (TxHash E tx) now i) js)"
  using assms
proof (induction accounts arbitrary: clock w ds ws)
  case Nil
  then show ?case by (simp add: call_simps)
next
  case (Cons a accounts)
  then obtain i w1 ds1 ws1 where i: "getTxInfo W E tx a (blinding_key_of a infos) w = (w1, Inr i)"
    and r: "classify W E lbtc tx infos (\<lambda>n. clock (Suc n)) accounts w1 = (w', Inr (ds1, ws1))"
    and d: "ds = deposit_of (TxHash E tx) (clock 0) i @ ds1" "ws = withdrawal_of lbtc (TxHash E tx) (clock 0) i @ ws1"
    by (auto simp: call_simps)
  from Cons.IH [OF r] obtain js where js: "map (\<lambda>j. txi_account (fst j)) js = accounts"
    "\<forall>(i, now)\<in>set js. seen_as W E tx infos (txi_account i) i"
    "ds1 = concat (map (\<lambda>(i, now). deposit_of (TxHash E tx) now i) js)"
    "ws1 = concat (map (\<lambda>(i, now). withdrawal_of lbtc (TxHash E tx) now i) js)" by blast
  have "txi_account i = a" "seen_as W E tx infos a i"
    using i getTxInfo_account [OF i] by (auto simp: seen_as_def)
  with js d show ?case by (intro exI [of _ "(i, clock 0) # js"]) simp
qed

lemma seen_function:
  assumes "map (\<lambda>j. txi_account (fst j)) js = accounts" "distinct accounts"
  obtains I where "\<And>i now. (i, now) \<in> set js \<Longrightarrow> I (txi_account i) = i"
proof
  let ?ps = "map (\<lambda>j. (txi_account (fst j), fst j)) js"
  fix i now assume "(i, now) \<in> set js"
  then have "(txi_account i, i) \<in> set ?ps" by force
  moreover have "distinct (map fst ?ps)" using assms by (simp add: comp_def)
  ultimately show "the (map_of ?ps (txi_account i)) = i" by simp
qed

lemma deposit_ofD:
  assumes "d \<in> set (deposit_of t now i)"
  shows "isDeposit i" "dep_AccountName d = txi_account i" "dep_TxID d = t"
    "gm_amount (dep_TotAmountPerAsset d) a = toi_total a (txi_ownedOutputs i)"
  using assms by (auto simp: deposit_of_def depositAmountPerAsset_def tot_per_asset_amount split: if_splits)

lemma withdrawal_ofD:
  assumes "x \<in> set (withdrawal_of lbtc t now i)"
  shows "isWithdrawal i" "wd_AccountName x = txi_account i" "wd_TxID x = t"
    "a \<in> toi_asset ` set (txi_ownedInputs i) \<Longrightarrow>
     gm_amount (wd_TotAmountPerAsset x) a + toi_total a (txi_ownedOutputs i)
       + (if txi_account i = FeeAccount \<and> a = lbtc then txi_fee i else 0) = toi_total a (txi_ownedInputs i)"
  using assms by (auto simp: withdrawal_of_def Let_def withdrawal_amount split: if_splits)

lemma deposit_of_some: "isDeposit i \<Longrightarrow> \<exists>d. deposit_of t now i = [d] \<and> dep_AccountName d = txi_account i"
  by (simp add: deposit_of_def)

lemma withdrawal_of_some: "isWithdrawal i \<Longrightarrow> \<exists>x. withdrawal_of lbtc t now i = [x] \<and> wd_AccountName x = txi_account i"
  by (simp add: withdrawal_of_def Let_def)

text \<open>The accounts of the entries that one reading per account gives.\<close>

lemma entry_accounts:
  assumes "map (\<lambda>j. txi_account (fst j)) js = accounts" "\<And>i now. (i, now) \<in> set js \<Longrightarrow> I (txi_account i) = i"
    and "\<And>e now i. e \<in> set (mk now i) \<Longrightarrow> P i \<and> nm e = txi_account i"
    and "\<And>now i. P i \<Longrightarrow> \<exists>e. mk now i = [e] \<and> nm e = txi_account i"
  shows "nm ` set (concat (map (\<lambda>(i, now). mk now i) js)) = {account \<in> set accounts. P (I account)}" (is "?l = ?r")
proof (intro set_eqI iffI)
  fix a assume "a \<in> ?l"
  then obtain i now e where "(i, now) \<in> set js" "e \<in> set (mk now i)" "a = nm e" by auto
  with assms(2,3) show "a \<in> ?r" unfolding assms(1) [symmetric] by force
next
  fix a assume "a \<in> ?r"
  then obtain i now where i: "(i, now) \<in> set js" "a = txi_account i" "P i"
    using assms(2) unfolding assms(1) [symmetric] by auto
  with assms(4) [OF i(3), of now] show "a \<in> ?l" by force
qed

section \<open>Calls that only read the wallet\<close>

definition quiet :: "('w, 'a) call \<Rightarrow> bool" where
  "quiet c \<longleftrightarrow> (\<forall>w. fst (c w) = w)"

named_theorems quiet_intros \<open>calls that leave the wallet as it is\<close>

lemma quiet_simple [quiet_intros]: "quiet (cret x)" "quiet (cfail e)" "quiet (clift r)" "quiet (cderef p)" "quiet (cindex xs k)"
  by (simp_all add: quiet_def cret_def cfail_def clift_def cderef_def cindex_def split: option.splits)

lemma quiet_cbind [quiet_intros]: "quiet c \<Longrightarrow> (\<And>x. quiet (f x)) \<Longrightarrow> quiet (cbind c f)"
  by (auto simp: quiet_def cbind_def split: sum.splits prod.splits) (metis fst_conv)+

lemma quiet_cignore [quiet_intros]: "quiet c \<Longrightarrow> quiet (cignore z c)"
  by (auto simp: quiet_def cignore_def split: sum.splits prod.splits) (metis fst_conv)+

lemma quiet_prod [quiet_intros]: "(\<And>x y. quiet (f x y)) \<Longrightarrow> quiet (case p of (x, y) \<Rightarrow> f x y)"
  by (cases p) simp

lemma quiet_if [quiet_intros]: "(b \<Longrightarrow> quiet c) \<Longrightarrow> (\<not> b \<Longrightarrow> quiet d) \<Longrightarrow> quiet (if b then c else d)"
  by simp

lemma quietD: "quiet c \<Longrightarrow> c w = (w, snd (c w))"
  by (metis quiet_def prod.collapse)

text \<open>The questions the handlers ask do not change the wallet.\<close>

definition read_only :: "'w WalletService \<Rightarrow> bool" where
  "read_only W \<longleftrightarrow> quiet (WalletAccounts W) \<and> (\<forall>a. quiet (ListAddresses W a) \<and> quiet (GetBalance W a))
     \<and> (\<forall>t. quiet (GetTransaction W t))"

lemma read_onlyD [quiet_intros]:
  "read_only W \<Longrightarrow> quiet (WalletAccounts W)" "read_only W \<Longrightarrow> quiet (ListAddresses W a)"
  "read_only W \<Longrightarrow> quiet (GetBalance W a)" "read_only W \<Longrightarrow> quiet (GetTransaction W t)"
  by (simp_all add: read_only_def)

lemma quiet_split_inputs [quiet_intros]: "read_only W \<Longrightarrow> quiet (split_inputs W E k addrs ins)"
  by (induction ins) (auto intro!: quiet_intros)

lemma quiet_getTxInfo [quiet_intros]: "read_only W \<Longrightarrow> quiet (getTxInfo W E tx account k)"
  by (auto simp: getTxInfo_def Let_def intro!: quiet_intros)

lemma quiet_classify [quiet_intros]: "read_only W \<Longrightarrow> quiet (classify W E lbtc tx infos clock accounts)"
  by (induction accounts arbitrary: clock) (auto intro!: quiet_intros)

section \<open>Logs of entries\<close>

text \<open>
  What the handler relies on of the repositories of deposits and withdrawals: adding entries keeps
  the first one with a key, and the count is zero exactly when all of them were there.
\<close>

locale entry_log =
  fixes key :: "'e \<Rightarrow> string" and add :: "'e list \<Rightarrow> 's \<Rightarrow> 's \<times> int res" and view :: "'s \<Rightarrow> string \<Rightarrow> 'e option"
  assumes add_entries: "\<exists>s' n. add es s = (s', Inr n) \<and> (n > 0 \<longleftrightarrow> (\<exists>e\<in>set es. view s (key e) = None))
    \<and> view s' = (\<lambda>k. case view s k of Some e \<Rightarrow> Some e | None \<Rightarrow> find (\<lambda>e. key e = k) es)"
begin

lemma add_known:
  assumes "\<forall>e\<in>set es. view s (key e) \<noteq> None"
  obtains s' n where "add es s = (s', Inr n)" "\<not> n > 0" "view s' = view s"
proof -
  from add_entries [of es s] obtain s' n where a: "add es s = (s', Inr n)" "\<not> n > 0"
    "view s' = (\<lambda>k. case view s k of Some e \<Rightarrow> Some e | None \<Rightarrow> find (\<lambda>e. key e = k) es)"
    using assms by blast
  have "view s' k = view s k" for k
    using assms by (auto simp: a(3) find_None_iff split: option.splits)
  with a(1,2) that show ?thesis by blast
qed

lemma entries_known:
  assumes "add es s = (s', r)" "e \<in> set es"
  shows "view s' (key e) \<noteq> None"
proof -
  from add_entries [of es s] assms(1)
  have "view s' = (\<lambda>k. case view s k of Some e \<Rightarrow> Some e | None \<Rightarrow> find (\<lambda>e. key e = k) es)" by auto
  moreover have "find (\<lambda>x. key x = key e) es \<noteq> None" using assms(2) by (auto simp: find_None_iff)
  ultimately show ?thesis by (simp split: option.splits)
qed

end

lemma loop_entry_log:
  fixes loop :: "'e list \<Rightarrow> int \<Rightarrow> 's \<Rightarrow> 's \<times> int res"
  assumes "\<And>c s. loop [] c s = (s, Inr c)"
    and "\<And>e es c s. loop (e # es) c s = (case ins e s of (s, Inl x) \<Rightarrow> (s, Inl x)
      | (s, Inr b) \<Rightarrow> loop es (if b then c + 1 else c) s)"
    and "\<And>e s. \<exists>s'. ins e s = (s', Inr (view s (key e) = None))
      \<and> view s' = (if view s (key e) = None then (view s)(key e \<mapsto> e) else view s)"
  shows "entry_log key (\<lambda>es. loop es 0) view"
proof
  have "\<exists>s' n. loop es c s = (s', Inr n) \<and> n \<ge> c \<and> (n > c \<longleftrightarrow> (\<exists>e\<in>set es. view s (key e) = None))
    \<and> view s' = (\<lambda>k. case view s k of Some e \<Rightarrow> Some e | None \<Rightarrow> find (\<lambda>e. key e = k) es)" for es c s
  proof (induction es arbitrary: c s)
    case Nil
    then show ?case by (auto simp: assms(1) fun_eq_iff split: option.splits)
  next
    case (Cons e es)
    from assms(3) [of e s] obtain s1 where s1: "ins e s = (s1, Inr (view s (key e) = None))"
      "view s1 = (if view s (key e) = None then (view s)(key e \<mapsto> e) else view s)" by blast
    from Cons.IH [of "if view s (key e) = None then c + 1 else c" s1] obtain s' n where
      n: "loop (e # es) c s = (s', Inr n)" "n \<ge> (if view s (key e) = None then c + 1 else c)"
      "n > (if view s (key e) = None then c + 1 else c) \<longleftrightarrow> (\<exists>e\<in>set es. view s1 (key e) = None)"
      "view s' = (\<lambda>k. case view s1 k of Some e \<Rightarrow> Some e | None \<Rightarrow> find (\<lambda>e. key e = k) es)"
      by (auto simp: assms(2) s1(1))
    show ?case
    proof (cases "view s (key e) = None")
      case True
      then show ?thesis using n s1(2) by (auto simp: fun_eq_iff split: option.splits)
    next
      case False
      then have "view s1 = view s" using s1(2) by (simp only: if_False)
      moreover have "view s' = (\<lambda>k. case view s k of Some e \<Rightarrow> Some e | None \<Rightarrow> find (\<lambda>e. key e = k) (e # es))"
        using n(4) False by (auto simp: calculation fun_eq_iff split: option.splits)
      ultimately show ?thesis using n(1-3) False by auto
    qed
  qed
  from this [of _ 0] show "\<exists>s' n. loop es 0 s = (s', Inr n) \<and> (n > 0 \<longleftrightarrow> (\<exists>e\<in>set es. view s (key e) = None))
    \<and> view s' = (\<lambda>k. case view s k of Some e \<Rightarrow> Some e | None \<Rightarrow> find (\<lambda>e. key e = k) es)" for es s
    by blast
qed

lemma badger_deposit_log:
  assumes "badgerhold_store B view pending"
  shows "entry_log (Deposit_Key h) (badger_AddDeposits h B) view"
  using loop_entry_log [of "insertDeposits_loop h B" "insertDeposit h B" view "Deposit_Key h"]
    insertDeposit_view [OF assms, of h]
  by (simp add: badger_AddDeposits_def [abs_def] insertDeposits_def [abs_def])

lemma insertWithdrawal_view:
  assumes "badgerhold_store B view pending"
  shows "\<exists>s'. insertWithdrawal B x s = (s', Inr (view s (wd_TxID x) = None))
    \<and> view s' = (if view s (wd_TxID x) = None then (view s)(wd_TxID x \<mapsto> x) else view s)"
proof (cases "view s (wd_TxID x) = None")
  case True
  with badgerhold_store.insert_new [OF assms True, of x] show ?thesis by (auto simp: insertWithdrawal_def)
next
  case False
  with badgerhold_store.insert_old [OF assms False, of x] show ?thesis by (auto simp: insertWithdrawal_def)
qed

lemma badger_withdrawal_log:
  assumes "badgerhold_store B view pending"
  shows "entry_log wd_TxID (badger_AddWithdrawals B) view"
  using loop_entry_log [of "insertWithdrawals_loop B" "insertWithdrawal B" view wd_TxID]
    insertWithdrawal_view [OF assms]
  by (simp add: badger_AddWithdrawals_def [abs_def] insertWithdrawals_def [abs_def])

interpretation deposit_log: entry_log "Deposit_Key h" "badger_AddDeposits h mem_badgerhold" "\<lambda>s. gm_get (fst s)" for h
  by (rule badger_deposit_log [OF mem.badgerhold_store_axioms])

interpretation withdrawal_log: entry_log wd_TxID "badger_AddWithdrawals mem_badgerhold" "\<lambda>s. gm_get (fst s)"
  by (rule badger_withdrawal_log [OF mem.badgerhold_store_axioms])

section \<open>Notified again\<close>

text \<open>The reading of the accounts does not depend on the time; nor do the keys of what is recorded.\<close>

lemma classify_keys:
  assumes "read_only W"
  shows "rel_sum (=) (\<lambda>(ds, ws) (ds', ws'). map (Deposit_Key h) ds' = map (Deposit_Key h) ds \<and> map wd_TxID ws' = map wd_TxID ws)
    (snd (classify W E lbtc tx infos clock accounts w)) (snd (classify W E lbtc tx infos clock' accounts w))"
proof (induction accounts arbitrary: clock clock')
  case (Cons a accounts)
  let ?r = "\<lambda>clock. snd (classify W E lbtc tx infos clock accounts w)"
  have c: "classify W E lbtc tx infos clock accounts w = (w, ?r clock)" for clock
    by (rule quietD) (rule quiet_classify [OF assms])
  have g: "getTxInfo W E tx a k w = (w, snd (getTxInfo W E tx a k w))" for k
    by (rule quietD) (rule quiet_getTxInfo [OF assms])
  have k: "map (Deposit_Key h) (deposit_of t now' i) = map (Deposit_Key h) (deposit_of t now i)"
    "map wd_TxID (withdrawal_of lbtc t now' i) = map wd_TxID (withdrawal_of lbtc t now i)" for t now now' i
    by (simp_all add: deposit_of_def withdrawal_of_def Deposit_Key_def Let_def)
  show ?case
  proof (cases "snd (getTxInfo W E tx a (blinding_key_of a infos) w)")
    case (Inl e)
    from g [of "blinding_key_of a infos", unfolded this] show ?thesis by (simp add: cbind_def)
  next
    case (Inr i)
    note IH = Cons.IH [of "\<lambda>n. clock (Suc n)" "\<lambda>n. clock' (Suc n)"]
    note g = g [of "blinding_key_of a infos", unfolded Inr]
    show ?thesis
    proof (cases "?r (\<lambda>n. clock (Suc n))")
      case (Inl e)
      with IH have "?r (\<lambda>n. clock' (Suc n)) = Inl e" by (cases "?r (\<lambda>n. clock' (Suc n))") auto
      from c [of "\<lambda>n. clock (Suc n)", unfolded Inl] c [of "\<lambda>n. clock' (Suc n)", unfolded this] show ?thesis
        by (simp add: cbind_def g)
    next
      case r: (Inr p)
      with IH obtain q where q: "?r (\<lambda>n. clock' (Suc n)) = Inr q" "map (Deposit_Key h) (fst q) = map (Deposit_Key h) (fst p)"
        "map wd_TxID (snd q) = map wd_TxID (snd p)"
        by (cases "?r (\<lambda>n. clock' (Suc n))") (simp_all add: case_prod_unfold)
      from c [of "\<lambda>n. clock (Suc n)", unfolded r] c [of "\<lambda>n. clock' (Suc n)", unfolded q(1)] q(2,3)
        k [of "TxHash E tx" "clock' 0" i "clock 0"] show ?thesis
        by (simp add: cbind_def g cret_def case_prod_unfold)
    qed
  qed
qed (simp add: cret_def)

lemma quiet_on_wallet [quiet_intros]: "quiet c \<Longrightarrow> quiet (on_wallet c)"
  by (simp add: quiet_def on_wallet_def case_prod_unfold)

lemma publish_frame:
  assumes "read_only (os_wallet S)"
  shows "ost_markets (publish_entries S nm ev es st) = ost_markets st \<and> ost_deposits (publish_entries S nm ev es st) = ost_deposits st
    \<and> ost_withdrawals (publish_entries S nm ev es st) = ost_withdrawals st \<and> ost_wallet (publish_entries S nm ev es st) = ost_wallet st
    \<and> ost_accounts (publish_entries S nm ev es st) = ost_accounts st"
proof (induction es arbitrary: st)
  case (Cons e es)
  have "quiet (cignore [] (on_wallet (GetBalance (os_wallet S) (nm e))))"
    using assms by (intro quiet_intros)
  then obtain r where "cignore [] (on_wallet (GetBalance (os_wallet S) (nm e))) st = (st, r)" by (blast dest: quietD)
  with Cons show ?case by (cases r) (auto split: sum.splits)
qed simp

text \<open>The two stores, and what is published when all entries are known.\<close>

lemma store_deposits_frame:
  assumes "read_only (os_wallet S)" "entry_log (Deposit_Key h) (dr_AddDeposits (os_deposits S)) view"
  shows "ost_withdrawals (store_deposits S ds st) = ost_withdrawals st" "ost_wallet (store_deposits S ds st) = ost_wallet st"
    "ost_accounts (store_deposits S ds st) = ost_accounts st"
    "\<forall>d\<in>set ds. view (ost_deposits (store_deposits S ds st)) (Deposit_Key h d) \<noteq> None"
    "\<forall>d\<in>set ds. view (ost_deposits st) (Deposit_Key h d) \<noteq> None \<Longrightarrow>
     view (ost_deposits (store_deposits S ds st)) = view (ost_deposits st)
     \<and> ost_published (store_deposits S ds st) = ost_published st \<and> ost_crashed (store_deposits S ds st) = ost_crashed st"
proof -
  obtain s r where a: "dr_AddDeposits (os_deposits S) ds (ost_deposits st) = (s, r)" by fastforce
  note f = publish_frame [OF assms(1), of dep_AccountName DepositEvent ds "st\<lparr>ost_deposits := s\<rparr>"]
  show "ost_withdrawals (store_deposits S ds st) = ost_withdrawals st" "ost_wallet (store_deposits S ds st) = ost_wallet st"
    "ost_accounts (store_deposits S ds st) = ost_accounts st"
    "\<forall>d\<in>set ds. view (ost_deposits (store_deposits S ds st)) (Deposit_Key h d) \<noteq> None"
    using entry_log.entries_known [OF assms(2) a] by (cases r; simp add: store_deposits_def a f)+
  assume "\<forall>d\<in>set ds. view (ost_deposits st) (Deposit_Key h d) \<noteq> None"
  then obtain s' n where "dr_AddDeposits (os_deposits S) ds (ost_deposits st) = (s', Inr n)" "\<not> n > 0" "view s' = view (ost_deposits st)"
    by (rule entry_log.add_known [OF assms(2)])
  then show "view (ost_deposits (store_deposits S ds st)) = view (ost_deposits st)
     \<and> ost_published (store_deposits S ds st) = ost_published st \<and> ost_crashed (store_deposits S ds st) = ost_crashed st"
    by (simp add: store_deposits_def)
qed

lemma store_withdrawals_frame:
  assumes "read_only (os_wallet S)" "entry_log wd_TxID (wr_AddWithdrawals (os_withdrawals S)) view"
  shows "ost_deposits (store_withdrawals S ws st) = ost_deposits st" "ost_wallet (store_withdrawals S ws st) = ost_wallet st"
    "ost_accounts (store_withdrawals S ws st) = ost_accounts st"
    "\<forall>x\<in>set ws. view (ost_withdrawals (store_withdrawals S ws st)) (wd_TxID x) \<noteq> None"
    "\<forall>x\<in>set ws. view (ost_withdrawals st) (wd_TxID x) \<noteq> None \<Longrightarrow>
     view (ost_withdrawals (store_withdrawals S ws st)) = view (ost_withdrawals st)
     \<and> ost_published (store_withdrawals S ws st) = ost_published st \<and> ost_crashed (store_withdrawals S ws st) = ost_crashed st"
proof -
  obtain s r where a: "wr_AddWithdrawals (os_withdrawals S) ws (ost_withdrawals st) = (s, r)" by fastforce
  note f = publish_frame [OF assms(1), of wd_AccountName WithdrawEvent ws "st\<lparr>ost_withdrawals := s\<rparr>"]
  show "ost_deposits (store_withdrawals S ws st) = ost_deposits st" "ost_wallet (store_withdrawals S ws st) = ost_wallet st"
    "ost_accounts (store_withdrawals S ws st) = ost_accounts st"
    "\<forall>x\<in>set ws. view (ost_withdrawals (store_withdrawals S ws st)) (wd_TxID x) \<noteq> None"
    using entry_log.entries_known [OF assms(2) a] by (cases r; simp add: store_withdrawals_def a f)+
  assume "\<forall>x\<in>set ws. view (ost_withdrawals st) (wd_TxID x) \<noteq> None"
  then obtain s' n where "wr_AddWithdrawals (os_withdrawals S) ws (ost_withdrawals st) = (s', Inr n)" "\<not> n > 0" "view s' = view (ost_withdrawals st)"
    by (rule entry_log.add_known [OF assms(2)])
  then show "view (ost_withdrawals (store_withdrawals S ws st)) = view (ost_withdrawals st)
     \<and> ost_published (store_withdrawals S ws st) = ost_published st \<and> ost_crashed (store_withdrawals S ws st) = ost_crashed st"
    by (simp add: store_withdrawals_def)
qed

text \<open>What the handler does with a pending transaction when the wallet is only read.\<close>

lemma on_wallet_quiet: "quiet c \<Longrightarrow> on_wallet c st = (st, snd (c (ost_wallet st)))"
  by (simp add: quiet_def on_wallet_def case_prod_unfold)

definition labels :: "('m, 't, 'x, 'y, 'w) op_state \<Rightarrow> WalletTxNotification \<Rightarrow> string list" where
  "labels st n = map (\<lambda>ns. accountMap_getLabel ns (ost_accounts st)) (tn_AccountNames n)"

lemma classifyAndStoreTx_pending:
  assumes "read_only (os_wallet S)" "tn_EventType n = TxBroadcasted \<or> tn_EventType n = TxUnconfirmed"
  shows "classifyAndStoreTx S clock n st = (case NewTxFromHex (os_elements S) (tn_TxHex n) of
      None \<Rightarrow> (st, Inl nil_deref)
    | Some tx \<Rightarrow> (case snd (WalletAccounts (os_wallet S) (ost_wallet st)) of
        Inl _ \<Rightarrow> (st, Inl nil_deref)
      | Inr infos \<Rightarrow> (case snd (classify (os_wallet S) (os_elements S) (os_lbtc S) tx infos clock (labels st n) (ost_wallet st)) of
          Inl e \<Rightarrow> (st, Inl e)
        | Inr (ds, ws) \<Rightarrow> (store_withdrawals S ws (store_deposits S ds st), Inr False))))"
  using assms(2)
  by (simp add: classifyAndStoreTx_def labels_def cbind_def cderef_def cfail_def cret_def
      on_wallet_quiet [OF read_onlyD(1) [OF assms(1)]] on_wallet_quiet [OF quiet_classify [OF assms(1)]] case_prod_unfold
      split: option.splits sum.splits)

section \<open>Low balances\<close>

text \<open>The balance as the handler sees it, empty when the wallet fails, and the warnings for an account.\<close>

definition seen_balance :: "('d, 'm, 't, 'x, 'y, 'w) operator \<Rightarrow> 'w \<Rightarrow> string \<Rightarrow> (string, Balance) gomap" where
  "seen_balance S w account = (case snd (GetBalance (os_wallet S) account w) of Inl _ \<Rightarrow> [] | Inr b \<Rightarrow> b)"

definition market_warning :: "('d, 'm, 't, 'x, 'y, 'w) operator \<Rightarrow> 'm \<Rightarrow> 'w \<Rightarrow> string \<Rightarrow> op_event list" where
  "market_warning S ms w account = (case mr_GetMarketByName (os_markets S) ms account of Inl _ \<Rightarrow> []
     | Inr m \<Rightarrow> if isLowBalance m (seen_balance S w account)
         then [LowBalanceEvent (mkt_Name m) (map (\<lambda>(a, b). (a, Some b)) (seen_balance S w account)) (Some m)] else [])"

definition fee_warning :: "('d, 'm, 't, 'x, 'y, 'w) operator \<Rightarrow> 'w \<Rightarrow> op_event list" where
  "fee_warning S w = (let bal = gm_get (seen_balance S w FeeAccount) (os_lbtc S)
     in if (case bal of None \<Rightarrow> True | Some b \<Rightarrow> bal_TotalBalance b < os_feeAccountBalanceThreshold S)
        then [LowBalanceEvent FeeAccount [(os_lbtc S, bal)] None] else [])"

definition warnings :: "('d, 'm, 't, 'x, 'y, 'w) operator \<Rightarrow> 'm \<Rightarrow> 'w \<Rightarrow> string \<Rightarrow> op_event list" where
  "warnings S ms w account = (if is_fragmenter account then []
     else (if account = FeeAccount then [] else market_warning S ms w account) @ fee_warning S w)"

text \<open>A failure of the wallet is an error it returns.\<close>

definition fails_gracefully :: "'w WalletService \<Rightarrow> bool" where
  "fails_gracefully W \<longleftrightarrow> (\<forall>a w e. snd (GetBalance W a w) = Inl e \<longrightarrow> \<not> is_panic e)"

abbreviation published_more :: "('m, 't, 'x, 'y, 'w) op_state \<Rightarrow> op_event list \<Rightarrow> ('m, 't, 'x, 'y, 'w) op_state" where
  "published_more st evs \<equiv> st\<lparr>ost_published := ost_published st @ evs\<rparr>"

lemma seen_balance_run:
  assumes "read_only (os_wallet S)" "fails_gracefully (os_wallet S)"
  shows "cignore [] (on_wallet (GetBalance (os_wallet S) account)) st = (st, Inr (seen_balance S (ost_wallet st) account))"
  using on_wallet_quiet [OF read_onlyD(3) [OF assms(1)], of account st] assms(2)
  by (auto simp: cignore_def seen_balance_def fails_gracefully_def split: sum.splits)

lemma check_market_run:
  assumes "read_only (os_wallet S)" "fails_gracefully (os_wallet S)"
  shows "check_market S account st = (published_more st (market_warning S (ost_markets st) (ost_wallet st) account), Inr ())"
  by (simp add: check_market_def market_warning_def cbind_def seen_balance_run [OF assms] op_publish_def cret_def split: sum.splits)

lemma check_fee_run:
  assumes "read_only (os_wallet S)" "fails_gracefully (os_wallet S)"
  shows "check_fee S st = (published_more st (fee_warning S (ost_wallet st)), Inr ())"
proof -
  have "cignore None (op_GetFeeBalance S) st = (st, Inr (gm_get (seen_balance S (ost_wallet st) FeeAccount) (os_lbtc S)))"
    using on_wallet_quiet [OF read_onlyD(3) [OF assms(1)], of FeeAccount st] assms(2)
    by (auto simp: cignore_def op_GetFeeBalance_def cbind_def cret_def seen_balance_def fails_gracefully_def split: sum.splits)
  then show ?thesis
    by (simp add: check_fee_def cbind_def fee_warning_def Let_def op_publish_def cret_def)
qed

lemma check_accounts_run:
  assumes "read_only (os_wallet S)" "fails_gracefully (os_wallet S)"
  shows "check_accounts S nss st = (published_more st (concat (map (\<lambda>ns. warnings S (ost_markets st) (ost_wallet st)
    (accountMap_getLabel ns (ost_accounts st))) nss)), Inr ())"
proof (induction nss arbitrary: st)
  case (Cons ns nss)
  let ?l = "accountMap_getLabel ns (ost_accounts st)"
  have "warnings S (ost_markets st) (ost_wallet st) ?l = (if is_fragmenter ?l then []
      else (if ?l = FeeAccount then [] else market_warning S (ost_markets st) (ost_wallet st) ?l) @ fee_warning S (ost_wallet st))"
    by (simp add: warnings_def)
  with Cons show ?case
    by (cases "is_fragmenter ?l"; cases "?l = FeeAccount")
      (simp_all add: cbind_def check_market_run [OF assms] check_fee_run [OF assms] cret_def)
qed (simp add: cret_def)

section \<open>Properties\<close>


text \<open>
  An instance: the market account \<open>m\<close> receives the second output of a transaction whose other
  output, without a script, is the fee; the account \<open>o\<close> owned the coin that is spent.
\<close>

definition ex_out :: "nat \<Rightarrow> ChainOutput" where
  "ex_out s = \<lparr>out_Asset = [], out_Value = [5], out_Script = replicate s 1, out_Nonce = [], out_RangeProof = [],
     out_SurjectionProof = []\<rparr>"

definition ex_tx :: ChainTransaction where
  "ex_tx = \<lparr>tx_Inputs = [([1], 0)], tx_Outputs = [ex_out 0, ex_out 1]\<rparr>"

definition ex_chain :: elements where
  "ex_chain = ex_elements\<lparr>NewTxFromHex := (\<lambda>h. Some (if h = ''prev'' then \<lparr>tx_Inputs = [], tx_Outputs = [ex_out 2]\<rparr> else ex_tx)),
     ToOutputScript := (\<lambda>addr. replicate (length addr) 1), ValueFromBytes := (\<lambda>_. 5),
     UnblindOutputWithKey := (\<lambda>out _. Some ([171], if length (out_Script out) = 1 then 20 else 25))\<rparr>"

definition ex_chain_wallet :: "unit WalletService" where
  "ex_chain_wallet = ex_wallet\<lparr>WalletAccounts := cret [], ListAddresses := (\<lambda>a. cret (if a = ''m'' then [''1''] else [''22''])),
     GetTransaction := (\<lambda>_. cret ''prev'')\<rparr>"



definition ex_tx_operator :: "(fdec, mem_markets_state, Trade mem_store, Deposit mem_store, Withdrawal mem_store, unit) operator" where
  "ex_tx_operator = ex_operator\<lparr>os_wallet := ex_chain_wallet, os_elements := ex_chain\<rparr>"

definition ex_tx_state :: "(mem_markets_state, Trade mem_store, Deposit mem_store, Withdrawal mem_store, unit) op_state" where
  "ex_tx_state = (fst ex_new)\<lparr>ost_accounts := [(''n1'', ''m''), (''n2'', FeeAccount)]\<rparr>"

definition ex_notification :: "WalletTxEventType \<Rightarrow> WalletTxNotification" where
  "ex_notification e = \<lparr>tn_EventType = e, tn_AccountNames = [''n1'', ''n2''], tn_TxHex = ''hex'', tn_BlockDetails = None\<rparr>"

lemma ex_read_only: "read_only (os_wallet ex_tx_operator)"
  by (simp add: ex_tx_operator_def ex_chain_wallet_def ex_wallet_def read_only_def quiet_def cret_def)


text \<open>
  An event for an account that is not a market takes the daemon down: the market that is not found
  is dereferenced. Any account of the wallet that the daemon did not create will do.
\<close>

lemma unknown_account_crashes:
  "ost_crashed (fst (classifyAndStoreTx ex_tx_operator (\<lambda>_. 7) (ex_notification TxBroadcasted) (ex_tx_state\<lparr>ost_accounts := []\<rparr>)))"
  by code_simp

text \<open>
  The warnings. A pending transaction of some accounts makes the handler publish, for each of them in
  turn, one low balance event for its market exactly when a balance cannot pay the fixed fee, and one
  for the fee account exactly when it is below the threshold; nothing else changes, and a transaction
  that is confirmed publishes nothing.
\<close>

lemma checkAccountsLowBalance_correct:
  assumes "read_only (os_wallet S)" "fails_gracefully (os_wallet S)"
  shows "checkAccountsLowBalance S n st = (published_more st
    (if tn_EventType n = TxConfirmed then [] else concat (map (warnings S (ost_markets st) (ost_wallet st)) (labels st n))), Inr False)"
  by (cases "tn_EventType n")
    (simp_all add: checkAccountsLowBalance_def cbind_def cret_def check_accounts_run [OF assms] labels_def comp_def)

lemma checkAccountsLowBalance_correct_example:
  "\<exists>m. snd (checkAccountsLowBalance ex_tx_operator (ex_notification TxBroadcasted) ex_tx_state) = Inr False
     \<and> ost_published (fst (checkAccountsLowBalance ex_tx_operator (ex_notification TxBroadcasted) ex_tx_state))
       = [LowBalanceEvent ''m'' [] (Some m), LowBalanceEvent FeeAccount [(''l'', None)] None, LowBalanceEvent FeeAccount [(''l'', None)] None]"
proof -
  have g: "fails_gracefully (os_wallet ex_tx_operator)"
    by (simp add: ex_tx_operator_def ex_chain_wallet_def ex_wallet_def fails_gracefully_def cret_def)
  have "concat (map (warnings ex_tx_operator (ost_markets ex_tx_state) (ost_wallet ex_tx_state)) (labels ex_tx_state (ex_notification TxBroadcasted)))
      = [LowBalanceEvent ''m'' [] (Some (the (ex_view (ost_markets ex_tx_state) ''m''))),
         LowBalanceEvent FeeAccount [(''l'', None)] None, LowBalanceEvent FeeAccount [(''l'', None)] None]"
    by code_simp
  moreover have "ost_published ex_tx_state = []" by code_simp
  moreover have "tn_EventType (ex_notification TxBroadcasted) \<noteq> TxConfirmed" by (simp add: ex_notification_def)
  ultimately show ?thesis
    using checkAccountsLowBalance_correct [OF ex_read_only g, of "ex_notification TxBroadcasted" ex_tx_state] by simp
qed

end
