(* ===== verification/Fragmenters.thy ===== *)
theory Fragmenters
  imports Operator
begin

text \<open>
  \<open>market_fragmenter_account.go\<close> and \<open>fee_fragmenter_account.go\<close> of
  \<open>internal/core/application/operator\<close>: the accounts that split the funds sent to them into
  many coins of a market or of the fee account. The replies streamed to the client are a list; a
  panic ends it. \<open>ord1\<close> and \<open>ord2\<close> are the orders in which the two loops visit the map of fragments, \<open>ord3\<close>
  and \<open>ord4\<close> those of \<open>SendToMany\<close>.
\<close>

section \<open>Replies\<close>

datatype fragmenterReply = Message string | ReplyError error

type_synonym 's replying = "'s \<Rightarrow> 's \<times> fragmenterReply list"

definition reply :: "string \<Rightarrow> 's replying \<Rightarrow> 's replying" where
  "reply msg k = (\<lambda>st. case k st of (st, replies) \<Rightarrow> (st, Message msg # replies))"

definition reply_error :: "error \<Rightarrow> 's replying" where
  "reply_error e = (\<lambda>st. (st, [ReplyError e]))"

text \<open>\<open>x, err := c()\<close> where an error is sent, wrapped, and ends the function.\<close>

definition replying :: "(error \<Rightarrow> error) \<Rightarrow> ('s, 'a) call \<Rightarrow> ('a \<Rightarrow> 's replying) \<Rightarrow> 's replying" where
  "replying wrap c k = (\<lambda>st. case c st of (st, Inl e) \<Rightarrow> (st, [ReplyError (wrap e)]) | (st, Inr x) \<Rightarrow> k x st)"

definition finished :: "'s replying" where
  "finished = (\<lambda>st. (st, [Message ''fragmentation succeeded'']))"

section \<open>Outputs\<close>

record fragment =
  out_asset :: string
  out_amount :: u64
  out_address :: string

text \<open>The methods of an output; an address without a blinding key is a nil pointer.\<close>

definition to_TxOutput :: "elements \<Rightarrow> fragment \<Rightarrow> TxOutput res" where
  "to_TxOutput E o' = (case FromConfidential E (out_address o') of
     None \<Rightarrow> Inl nil_deref
   | Some info \<Rightarrow> Inr \<lparr>to_Asset = out_asset o', to_Amount = out_amount o',
       to_Script = hex_EncodeToString (ToOutputScript E (out_address o')), to_BlindingKey = hex_EncodeToString (ai_BlindingKey info)\<rparr>)"

definition address_at :: "string list \<Rightarrow> nat \<Rightarrow> string res" where
  "address_at addresses i = (if i < length addresses then Inr (addresses ! i) else Inl (Panic ''index out of range''))"

section \<open>The fee fragmenter\<close>

abbreviation maxNumFragments :: nat where "maxNumFragments \<equiv> 20"

abbreviation defaultNumFragments :: nat where "defaultNumFragments \<equiv> maxNumFragments"

abbreviation feeFragmentAmount :: u64 where "feeFragmentAmount \<equiv> 5000"

definition op_DeriveFeeFragmenterAddresses :: "('d, 'm, 't, 'x, 'y, 'w) operator \<Rightarrow> int
    \<Rightarrow> (('m, 't, 'x, 'y, 'w) op_state, string list) call" where
  "op_DeriveFeeFragmenterAddresses S num = derive_addresses S FeeFragmenterAccount num"

definition op_ListFeeFragmenterExternalAddresses :: "('d, 'm, 't, 'x, 'y, 'w) operator
    \<Rightarrow> (('m, 't, 'x, 'y, 'w) op_state, string list) call" where
  "op_ListFeeFragmenterExternalAddresses S = on_wallet (ListAddresses (os_wallet S) FeeFragmenterAccount)"

definition op_GetFeeFragmenterBalance :: "('d, 'm, 't, 'x, 'y, 'w) operator
    \<Rightarrow> (('m, 't, 'x, 'y, 'w) op_state, (string, Balance) gomap) call" where
  "op_GetFeeFragmenterBalance S = on_wallet (GetBalance (os_wallet S) FeeFragmenterAccount)"

text \<open>The loop over the fragments: all of the same amount but the last, which takes the rest.\<close>

function fee_outputs :: "string \<Rightarrow> nat \<Rightarrow> string list \<Rightarrow> nat \<Rightarrow> u64 \<Rightarrow> fragment list res" where
  "fee_outputs lbtc numFragments addresses i balance =
     (if i < numFragments
      then let amount = (if i = numFragments - 1 then balance else feeFragmentAmount)
           in rbind (address_at addresses i) (\<lambda>addr.
              rbind (fee_outputs lbtc numFragments addresses (i + 1) (balance - feeFragmentAmount)) (\<lambda>outputs.
              Inr (\<lparr>out_asset = lbtc, out_amount = amount, out_address = addr\<rparr> # outputs)))
      else Inr [])"
  by pat_completeness auto
termination
  by (relation "measure (\<lambda>(_, n, _, i, _). n - i)") auto

declare fee_outputs.simps [simp del]

definition FeeFragmenterSplitFunds :: "('d, 'm, 't, 'x, 'y, 'w) operator \<Rightarrow> u32 \<Rightarrow> u64
    \<Rightarrow> ('m, 't, 'x, 'y, 'w) op_state replying" where
  "FeeFragmenterSplitFunds S maxFragments millisatsPerByte =
     reply ''fetching fee fragmenter account LBTC balance''
     (replying id (op_GetFeeFragmenterBalance S) (\<lambda>balanceInfo.
        case gm_get balanceInfo (os_lbtc S) of
          None \<Rightarrow> reply_error (Errorf ''fee fragmenter account has 0 LBTC balance'' [])
        | Some lbtcBalance \<Rightarrow>
            let balance = bal_ConfirmedBalance lbtcBalance;
                numFragments = (if maxFragments > 0 then unat maxFragments else defaultNumFragments)
            in if balance = 0 then reply_error (Errorf ''fee fragmenter account has 0 LBTC balance'' [])
               else if balance < feeFragmentAmount
               then reply_error (Errorf ''not enough LBTC balance  (%d) to fragment (required ar least %d)''
                      [itoa (uint balance), itoa (uint feeFragmentAmount)])
               else if feeFragmentAmount * of_nat numFragments - 1 \<ge> balance
               then reply_error (Errorf ''not enough lbtc balance (%d) for requested number of fragments (%d - %d sats each)''
                      [itoa (uint balance), itoa (int numFragments), itoa (uint feeFragmentAmount)])
               else reply (sprintf ''fetched funds with total LBTC balance of %d, to be split into %d fragments of %d sats each''
                      [itoa (uint balance), itoa (int numFragments), itoa (uint feeFragmentAmount)])
                 (reply ''crafting transaction to deposit funds to fee account''
                 (replying (wrap_err ''failed to derive addresses from fee account: %s'' [])
                    (op_DeriveFeeAddresses S (int numFragments)) (\<lambda>addresses.
                  replying id (clift (fee_outputs (os_lbtc S) numFragments addresses 0 balance)) (\<lambda>outputs.
                  replying id (clift (rmap (to_TxOutput (os_elements S)) outputs)) (\<lambda>outs.
                  replying id (on_wallet (Transfer (os_wallet S) FeeFragmenterAccount outs (os_milliSatsPerByte S))) (\<lambda>txHex.
                  reply ''broadcasting transaction''
                 (replying id (on_wallet (BroadcastTransaction (os_wallet S) txHex)) (\<lambda>txid.
                  reply (sprintf ''fee account funding transaction: %s'' [txid]) finished))))))))))"

definition op_WithdrawFeeFragmenterFunds :: "('d, 'm, 't, 'x, 'y, 'w) operator \<Rightarrow> string \<Rightarrow> TxOutput list \<Rightarrow> u64
    \<Rightarrow> (('m, 't, 'x, 'y, 'w) op_state, string) call" where
  "op_WithdrawFeeFragmenterFunds S password outs millisatsPerByte =
     cbind (authenticate S password) (\<lambda>_. on_wallet (transfer (os_wallet S) FeeFragmenterAccount outs millisatsPerByte))"

section \<open>The market fragmenter\<close>

abbreviation minMarketFragmentAmount :: u64 where "minMarketFragmentAmount \<equiv> 100000"

text \<open>A number of fragments and the share of each, a decimal mantissa and exponent.\<close>

definition fragmentationMap :: "(nat, int \<times> int) gomap" where
  "fragmentationMap = [(1, 3, - 1), (2, 15, - 2), (3, 1, - 1), (5, 2, - 2)]"

definition numFragments :: "(nat, int \<times> int) gomap \<Rightarrow> nat" where
  "numFragments m = sum_list (map fst m)"

definition percentageAmount :: "'d decimal_ops \<Rightarrow> u64 \<Rightarrow> int \<times> int \<Rightarrow> u64" where
  "percentageAmount D amount percentage =
     big_Uint64 (d_BigInt D (d_Mul D (d_NewFromInt D (int64 amount)) (d_NewFromFloat D (fst percentage) (snd percentage))))"

definition op_DeriveMarketFragmenterAddresses :: "('d, 'm, 't, 'x, 'y, 'w) operator \<Rightarrow> int
    \<Rightarrow> (('m, 't, 'x, 'y, 'w) op_state, string list) call" where
  "op_DeriveMarketFragmenterAddresses S num = derive_addresses S MarketFragmenterAccount num"

definition op_ListMarketFragmenterExternalAddresses :: "('d, 'm, 't, 'x, 'y, 'w) operator
    \<Rightarrow> (('m, 't, 'x, 'y, 'w) op_state, string list) call" where
  "op_ListMarketFragmenterExternalAddresses S = on_wallet (ListAddresses (os_wallet S) MarketFragmenterAccount)"

definition op_GetMarketFragmenterBalance :: "('d, 'm, 't, 'x, 'y, 'w) operator
    \<Rightarrow> (('m, 't, 'x, 'y, 'w) op_state, (string, Balance) gomap) call" where
  "op_GetMarketFragmenterBalance S = on_wallet (GetBalance (os_wallet S) MarketFragmenterAccount)"

definition isZeroMarketBalance :: "Market \<Rightarrow> (string, Balance) gomap \<Rightarrow> bool" where
  "isZeroMarketBalance market marketBalanceInfo \<longleftrightarrow>
     \<not> (case gm_get marketBalanceInfo (mkt_BaseAsset market) of Some b \<Rightarrow> bal_ConfirmedBalance b > 0 | None \<Rightarrow> False)
     \<and> \<not> (case gm_get marketBalanceInfo (mkt_QuoteAsset market) of Some b \<Rightarrow> bal_ConfirmedBalance b > 0 | None \<Rightarrow> False)"

text \<open>\<open>(!bOk && !qOk) || (bb.GetConfirmedBalance() == 0 && qb.GetConfirmedBalance() == 0)\<close>, from left to right.\<close>

definition no_balance :: "Balance option \<Rightarrow> Balance option \<Rightarrow> bool res" where
  "no_balance bb qb = (case bb of
     None \<Rightarrow> (case qb of None \<Rightarrow> Inr True | Some _ \<Rightarrow> Inl nil_deref)
   | Some b \<Rightarrow> (if bal_ConfirmedBalance b = 0
       then case qb of None \<Rightarrow> Inl nil_deref | Some q \<Rightarrow> Inr (bal_ConfirmedBalance q = 0)
       else Inr False))"

definition confirmed_or_zero :: "Balance option \<Rightarrow> u64" where
  "confirmed_or_zero b = (case b of Some b \<Rightarrow> bal_ConfirmedBalance b | None \<Rightarrow> 0)"

text \<open>The fragments of one asset; the addresses are counted from the outputs there are before the loop.\<close>

definition fragment_outputs :: "'d decimal_ops \<Rightarrow> string \<Rightarrow> u64 \<Rightarrow> string list \<Rightarrow> nat \<Rightarrow> (nat, int \<times> int) gomap \<Rightarrow> fragment list res" where
  "fragment_outputs D asset balance addresses offset m =
     rbind (rmap (\<lambda>(n, percentage). rmap (\<lambda>i. rbind (address_at addresses (offset + i)) (\<lambda>addr.
         Inr \<lparr>out_asset = asset, out_amount = percentageAmount D balance percentage, out_address = addr\<rparr>)) [0..<n]) m)
       (\<lambda>outputs. Inr (concat outputs))"

definition fragment_reply :: "string \<Rightarrow> u64 \<Rightarrow> 's replying \<Rightarrow> 's replying" where
  "fragment_reply which balance k = (if balance > minMarketFragmentAmount
     then reply (sprintf ''fetched funds with total %s balance of %d, to be split into %d fragments''
            [which, itoa (uint balance), itoa (int (numFragments fragmentationMap))]) k
     else k)"

definition fragment_asset :: "'d decimal_ops \<Rightarrow> ((nat, int \<times> int) gomap \<Rightarrow> (nat, int \<times> int) gomap) \<Rightarrow> string \<Rightarrow> u64
    \<Rightarrow> string list \<Rightarrow> fragment list \<Rightarrow> fragment list res" where
  "fragment_asset D ord asset balance addresses outputs = (if balance > minMarketFragmentAmount
     then rbind (fragment_outputs D asset balance addresses (length outputs) (ord fragmentationMap)) (\<lambda>outs. Inr (outputs @ outs))
     else Inr outputs)"

text \<open>The checks on the balances of the fragmenter and of the market.\<close>

definition check_balances :: "Market \<Rightarrow> (string, Balance) gomap \<Rightarrow> (string, Balance) gomap \<Rightarrow> (u64 \<times> u64) res" where
  "check_balances market marketBalanceInfo balanceInfo =
     (let bb = gm_get balanceInfo (mkt_BaseAsset market); qb = gm_get balanceInfo (mkt_QuoteAsset market);
          baseBalance = confirmed_or_zero bb; quoteBalance = confirmed_or_zero qb
      in if length balanceInfo \<le> 0 then Inl (Errorf ''market fragmenter account has 0 balance'' [])
         else rbind (no_balance bb qb) (\<lambda>zero.
           if zero then Inl (Errorf ''market fragmenter account has 0 balance'' [])
           else if baseBalance < minMarketFragmentAmount \<and> quoteBalance < minMarketFragmentAmount
           then Inl (Errorf ''not enough balance (base %d, quote %d) to fragment (required at least %d)''
                  [itoa (uint baseBalance), itoa (uint quoteBalance), itoa (uint minMarketFragmentAmount)])
           else if IsStrategyBalanced market \<and> isZeroMarketBalance market marketBalanceInfo \<and> baseBalance < minMarketFragmentAmount
           then Inl (Errorf ''since market has 0 balance, market fragmenter account must have enough base balance (%d) to fragment (required at least %d)''
                  [itoa (uint baseBalance), itoa (uint minMarketFragmentAmount)])
           else if IsStrategyBalanced market \<and> isZeroMarketBalance market marketBalanceInfo \<and> quoteBalance < minMarketFragmentAmount
           then Inl (Errorf ''since market has 0 balance, market fragmenter account must have enough quote balance (%d) to fragment (required at least %d)''
                  [itoa (uint quoteBalance), itoa (uint minMarketFragmentAmount)])
           else Inr (baseBalance, quoteBalance)))"

definition MarketFragmenterSplitFunds :: "('d, 'm, 't, 'x, 'y, 'w) operator
    \<Rightarrow> ((nat, int \<times> int) gomap \<Rightarrow> (nat, int \<times> int) gomap) \<Rightarrow> ((nat, int \<times> int) gomap \<Rightarrow> (nat, int \<times> int) gomap)
    \<Rightarrow> ((string \<times> u64) list \<Rightarrow> (string \<times> u64) list) \<Rightarrow> ((string \<times> u64) list \<Rightarrow> (string \<times> u64) list)
    \<Rightarrow> string \<Rightarrow> string \<Rightarrow> u64 \<Rightarrow> ('m, 't, 'x, 'y, 'w) op_state replying" where
  "MarketFragmenterSplitFunds S ord1 ord2 ord3 ord4 baseAsset quoteAsset millisatsPerByte =
     reply ''fetching market''
     (replying id (find_market S baseAsset quoteAsset) (\<lambda>market.
      replying id (cignore [] (on_wallet (GetBalance (os_wallet S) (mkt_Name market)))) (\<lambda>marketBalanceInfo.
      reply ''fetching market fragmenter account balance''
     (replying id (op_GetMarketFragmenterBalance S) (\<lambda>balanceInfo.
      replying id (clift (check_balances market marketBalanceInfo balanceInfo)) (\<lambda>(baseBalance, quoteBalance).
        let n = numFragments fragmentationMap;
            numOfAddresses = (if quoteBalance > minMarketFragmentAmount \<and> baseBalance > minMarketFragmentAmount then n * 2 else n)
        in replying (wrap_err ''failed to derive addresses for market account: %s'' [])
             (on_wallet (DeriveAddresses (os_wallet S) (mkt_Name market) (int numOfAddresses))) (\<lambda>addresses.
           fragment_reply ''base'' baseBalance
          (replying id (clift (fragment_asset (os_D S) ord1 (mkt_BaseAsset market) baseBalance addresses [])) (\<lambda>outputs.
           fragment_reply ''quote'' quoteBalance
          (replying id (clift (fragment_asset (os_D S) ord2 (mkt_QuoteAsset market) quoteBalance addresses outputs)) (\<lambda>outputs.
           reply ''crafting and broadcasting transaction to send funds to market account''
          (replying id (clift (rmap (to_TxOutput (os_elements S)) outputs)) (\<lambda>outs.
           replying (wrap_err ''failed to send funds to market account: %s'' [])
             (on_wallet (SendToMany (os_wallet S) (os_elements S) (os_lbtc S) ord3 ord4 MarketFragmenterAccount outs (os_milliSatsPerByte S))) (\<lambda>txid.
           reply (sprintf ''market account funding transaction: %s'' [txid]) finished))))))))))))))"

definition op_WithdrawMarketFragmenterFunds :: "('d, 'm, 't, 'x, 'y, 'w) operator
    \<Rightarrow> ((string \<times> u64) list \<Rightarrow> (string \<times> u64) list) \<Rightarrow> ((string \<times> u64) list \<Rightarrow> (string \<times> u64) list)
    \<Rightarrow> string \<Rightarrow> TxOutput list \<Rightarrow> u64 \<Rightarrow> (('m, 't, 'x, 'y, 'w) op_state, string) call" where
  "op_WithdrawMarketFragmenterFunds S ord3 ord4 password outputs millisatsPerByte =
     cbind (authenticate S password) (\<lambda>_.
     on_wallet (SendToMany (os_wallet S) (os_elements S) (os_lbtc S) ord3 ord4 MarketFragmenterAccount outputs millisatsPerByte))"

end
