(* ===== verification/Fragmenters_Props.thy ===== *)
theory Fragmenters_Props
  imports Fragmenters Operator_Props
begin

text \<open>
  What the fragmenters guarantee when they report success: the fee fragmenter sends its whole
  balance, in fragments of at least the standard amount; the market fragmenter sends, of each asset
  it fragments, eleven coins whose total misses at most ten units of the balance.
\<close>

section \<open>Success\<close>

definition succeeds :: "'s replying \<Rightarrow> 's \<Rightarrow> bool" where
  "succeeds k st \<longleftrightarrow> Message ''fragmentation succeeded'' \<in> set (snd (k st))"

lemma succeeds_simps [simp]:
  "succeeds (reply msg k) st \<longleftrightarrow> msg = ''fragmentation succeeded'' \<or> succeeds k st"
  "\<not> succeeds (reply_error e) st"
  "succeeds finished st"
  "succeeds (replying wrap c h) st \<longleftrightarrow> (\<exists>st1 x. c st = (st1, Inr x) \<and> succeeds (h x) st1)"
  by (auto simp: succeeds_def reply_def reply_error_def finished_def replying_def split: prod.splits sum.splits)

lemma succeeds_if: "succeeds (if b then k else k') st \<longleftrightarrow> (if b then succeeds k st else succeeds k' st)"
  by simp

lemma succeeds_option: "succeeds (case z of None \<Rightarrow> reply_error e | Some y \<Rightarrow> f y) st \<longleftrightarrow> (\<exists>y. z = Some y \<and> succeeds (f y) st)"
  by (cases z) auto

lemma succeeds_fragment_reply [simp]: "succeeds (fragment_reply which balance k) st \<longleftrightarrow> succeeds k st"
  by (simp add: fragment_reply_def)

lemma on_wallet_eq: "on_wallet c st = (st1, Inr x) \<longleftrightarrow> (\<exists>w. c (ost_wallet st) = (w, Inr x) \<and> st1 = st\<lparr>ost_wallet := w\<rparr>)"
  by (auto simp: on_wallet_def split: prod.splits)

lemma clift_eq: "clift r st = (st1, Inr x) \<longleftrightarrow> st1 = st \<and> r = Inr x"
  by (auto simp: clift_def)

lemma to_TxOutputs:
  assumes "rmap (to_TxOutput E) os' = Inr outs"
  shows "map to_Asset outs = map out_asset os'" "map to_Amount outs = map out_amount os'"
  using assms unfolding rmap_eq_Inr
  by (induction rule: list_all2_induct) (auto simp: to_TxOutput_def split: option.splits)

section \<open>Fee fragments\<close>

lemma fee_outputs_total:
  assumes "fee_outputs lbtc n addresses i balance = Inr outs" "i < n" "5000 * (n - i) \<le> unat balance"
  shows "length outs = n - i \<and> (\<forall>o'\<in>set outs. out_asset o' = lbtc \<and> out_amount o' \<ge> feeFragmentAmount)
    \<and> sum_list (map (\<lambda>o'. unat (out_amount o')) outs) = unat balance"
  using assms
proof (induction lbtc n addresses i balance arbitrary: outs rule: fee_outputs.induct)
  case (1 lbtc n addresses i balance)
  from "1.prems" obtain addr rest where r: "address_at addresses i = Inr addr"
    "fee_outputs lbtc n addresses (i + 1) (balance - feeFragmentAmount) = Inr rest"
    and outs: "outs = \<lparr>out_asset = lbtc, out_amount = (if i = n - 1 then balance else feeFragmentAmount), out_address = addr\<rparr> # rest"
    by (subst (asm) fee_outputs.simps) (auto simp: rbind_eq_Inr Let_def)
  have ge: "feeFragmentAmount \<le> balance" using "1.prems"(2,3) by (simp add: word_le_nat_alt)
  show ?case
  proof (cases "i = n - 1")
    case True
    then have "rest = []" using r(2) "1.prems"(2) by (subst (asm) fee_outputs.simps) simp
    with True outs ge "1.prems"(2) show ?thesis by simp
  next
    case False
    have d: "unat (balance - feeFragmentAmount) = unat balance - 5000" using ge by (simp add: unat_sub)
    have "length rest = n - (i + 1) \<and> (\<forall>o'\<in>set rest. out_asset o' = lbtc \<and> out_amount o' \<ge> feeFragmentAmount)
      \<and> sum_list (map (\<lambda>o'. unat (out_amount o')) rest) = unat (balance - feeFragmentAmount)"
      using "1.IH" [OF "1.prems"(2) _ r] False "1.prems"(2,3) by (simp add: d)
    then show ?thesis using False outs "1.prems"(2,3) d by simp
  qed
qed

lemma enough_for_fragments:
  assumes "\<not> feeFragmentAmount * of_nat n - 1 \<ge> (balance :: u64)" "n < 2 ^ 32" "n > 0"
  shows "5000 * n \<le> unat balance"
proof -
  have n: "unat (feeFragmentAmount * of_nat n :: u64) = 5000 * n"
    using assms(2) by (simp add: unat_word_ariths unat_of_nat take_bit_eq_mod)
  then have "unat (feeFragmentAmount * of_nat n - 1 :: u64) = 5000 * n - 1"
    using assms(3) by (simp add: unat_sub word_le_nat_alt)
  with assms(1,3) show ?thesis by (simp add: word_le_nat_alt)
qed

section \<open>Market fragments\<close>

definition share :: "int \<times> int \<Rightarrow> rat" where
  "share p = of_int (fst p) * 10 powi snd p"

context decimal_lib
begin

lemma percentageAmount_floor:
  assumes "unat amount < 2 ^ 63" "0 \<le> share p" "share p \<le> 1"
  shows "of_nat (unat (percentageAmount D amount p)) \<le> of_nat (unat amount) * share p"
    "of_nat (unat amount) * share p < of_nat (unat (percentageAmount D amount p)) + 1"
proof -
  have "int (unat amount) < int (2 ^ 63)" using assms(1) by (simp only: of_nat_less_iff)
  then have i: "int64 amount = int (unat amount)" using int64_small [of amount] by simp
  let ?x = "of_nat (unat amount) * share p"
  have x: "0 \<le> ?x" by (rule mult_nonneg_nonneg [OF of_nat_0_le_iff assms(2)])
  have "?x \<le> of_nat (unat amount) * 1" by (rule mult_left_mono [OF assms(3) of_nat_0_le_iff])
  then have "\<lfloor>?x\<rfloor> \<le> \<lfloor>of_nat (unat amount) :: rat\<rfloor>" by (intro floor_mono) simp
  also have "\<dots> = int (unat amount)" by (rule floor_of_nat)
  also have "\<dots> < 2 ^ 64" using \<open>int (unat amount) < int (2 ^ 63)\<close> by simp
  finally have "\<lfloor>?x\<rfloor> < 2 ^ 64" .
  then have "uint (big_Uint64 \<lfloor>?x\<rfloor>) = \<lfloor>?x\<rfloor>" using x by (intro uint_big_Uint64) (simp_all only: zero_le_floor)
  moreover have "percentageAmount D amount p = big_Uint64 \<lfloor>?x\<rfloor>"
    by (simp only: percentageAmount_def val_Mul val_NewFromInt val_NewFromFloat BigInt_val i of_int_of_nat_eq
        trunc_rat_nonneg [OF x] share_def [symmetric])
  moreover have "of_nat (unat v) = (of_int (uint v) :: rat)" for v :: u64
    by (subst uint_nat) (rule of_int_of_nat_eq [symmetric])
  ultimately have u: "of_nat (unat (percentageAmount D amount p)) = (of_int \<lfloor>?x\<rfloor> :: rat)" by (simp only:)
  show "of_nat (unat (percentageAmount D amount p)) \<le> ?x" "?x < of_nat (unat (percentageAmount D amount p)) + 1"
    unfolding u using floor_correct [of ?x] by (simp_all only: of_int_add of_int_1)
qed

end

text \<open>Eleven fragments of one asset, and their total.\<close>

definition fragments_of :: "string \<Rightarrow> u64 \<Rightarrow> TxOutput list \<Rightarrow> bool" where
  "fragments_of asset balance outs \<longleftrightarrow> (\<forall>o'\<in>set outs. to_Asset o' = asset)
     \<and> (if balance > minMarketFragmentAmount
        then length outs = 11 \<and> sum_list (map (\<lambda>o'. unat (to_Amount o')) outs) \<le> unat balance
          \<and> unat balance < sum_list (map (\<lambda>o'. unat (to_Amount o')) outs) + 11
        else outs = [])"

lemma fragment_outputs_groups:
  assumes "fragment_outputs D asset balance addresses offset m = Inr outs"
  shows "map out_asset outs = replicate (sum_list (map fst m)) asset"
    "map out_amount outs = concat (map (\<lambda>(n, p). replicate n (percentageAmount D balance p)) m)"
proof -
  let ?f = "\<lambda>(n, p). rmap (\<lambda>i. rbind (address_at addresses (offset + i)) (\<lambda>addr.
    Inr \<lparr>out_asset = asset, out_amount = percentageAmount D balance p, out_address = addr\<rparr>)) [0..<n]"
  from assms obtain oss where o': "rmap ?f m = Inr oss" "outs = concat oss"
    by (auto simp: fragment_outputs_def rbind_eq_Inr)
  have group: "map out_asset os' = replicate n asset \<and> map out_amount os' = replicate n (percentageAmount D balance p)"
    if "?f (n, p) = Inr os'" for n p os'
  proof -
    from that have l: "list_all2 (\<lambda>i x. rbind (address_at addresses (offset + i)) (\<lambda>addr.
        Inr \<lparr>out_asset = asset, out_amount = percentageAmount D balance p, out_address = addr\<rparr>) = Inr x) [0..<n] os'"
      by (simp add: rmap_eq_Inr)
    then have "length os' = n" by (auto dest: list_all2_lengthD)
    moreover have "\<forall>x\<in>set os'. out_asset x = asset \<and> out_amount x = percentageAmount D balance p"
      using l by (induction rule: list_all2_induct) (auto simp: rbind_eq_Inr)
    ultimately show ?thesis by (auto intro!: nth_equalityI)
  qed
  have "map out_asset (concat oss) = replicate (sum_list (map fst m)) asset
      \<and> map out_amount (concat oss) = concat (map (\<lambda>(n, p). replicate n (percentageAmount D balance p)) m)"
    using o'(1) unfolding rmap_eq_Inr
  proof (induction rule: list_all2_induct)
    case (Cons x xs y ys)
    then show ?case using group [of "fst x" "snd x" y] by (simp add: case_prod_unfold replicate_add)
  qed simp
  then show "map out_asset outs = replicate (sum_list (map fst m)) asset"
    "map out_amount outs = concat (map (\<lambda>(n, p). replicate n (percentageAmount D balance p)) m)"
    by (simp_all add: o'(2))
qed

lemma sum_unat_groups:
  "sum_list (map unat (concat (map (\<lambda>(n, p). replicate n (f p)) m))) = sum_list (map (\<lambda>(n, p). n * unat (f p)) m)"
  by (induction m) (auto simp: sum_list_replicate)

lemma visits_all_sum:
  fixes g :: "'k \<times> 'v \<Rightarrow> nat"
  assumes "visits_all ord"
  shows "sum_list (map g (ord m)) = sum_list (map g m)"
proof -
  have "mset (map g (ord m)) = mset (map g m)" using assms by (simp add: visits_all_def)
  then show ?thesis by (metis sum_mset_sum_list)
qed

context decimal_lib
begin

text \<open>The shares add up to one; each fragment loses less than one unit.\<close>

lemma fragmentation_total:
  assumes "unat balance < 2 ^ 63"
  defines "T \<equiv> sum_list (map (\<lambda>(n, p). n * unat (percentageAmount D balance p)) fragmentationMap)"
  shows "T \<le> unat balance" "unat balance < T + 11"
proof -
  define a :: "int \<times> int \<Rightarrow> rat" where "a p = of_nat (unat (percentageAmount D balance p))" for p
  define B :: rat where "B = of_nat (unat balance)"
  have s: "share (3, - 1) = 3 / 10" "share (15, - 2) = 15 / 100" "share (1, - 1) = 1 / 10" "share (2, - 2) = 2 / 100"
    by (simp_all add: share_def power_int_def power2_eq_square)
  have b: "0 \<le> share p \<Longrightarrow> share p \<le> 1 \<Longrightarrow> a p \<le> B * share p \<and> B * share p < a p + 1" for p
    unfolding a_def B_def using percentageAmount_floor [OF assms(1)] by blast
  have T: "of_nat T = a (3, - 1) + 2 * a (15, - 2) + 3 * a (1, - 1) + 5 * a (2, - 2)"
    unfolding T_def a_def by (simp add: fragmentationMap_def algebra_simps)
  have "of_nat T \<le> B" "B < of_nat (T + 11)"
    using b [of "(3, - 1)"] b [of "(15, - 2)"] b [of "(1, - 1)"] b [of "(2, - 2)"] unfolding s of_nat_add T by simp_all
  then show "T \<le> unat balance" "unat balance < T + 11" unfolding B_def by (simp_all only: of_nat_le_iff of_nat_less_iff)
qed

lemma fragment_asset_fragments:
  assumes "fragment_asset D ord asset balance addresses outputs = Inr outs" "visits_all ord" "unat balance < 2 ^ 63"
    and "rmap (to_TxOutput E) outs = Inr touts"
  obtains old new where "touts = old @ new" "rmap (to_TxOutput E) outputs = Inr old" "fragments_of asset balance new"
proof (cases "balance > minMarketFragmentAmount")
  case False
  with assms(1) have "outs = outputs" by (simp add: fragment_asset_def)
  with assms(4) False that [of touts "[]"] show ?thesis by (simp add: fragments_of_def)
next
  case True
  with assms(1) obtain fo where fo: "fragment_outputs D asset balance addresses (length outputs) (ord fragmentationMap) = Inr fo"
    "outs = outputs @ fo" by (auto simp: fragment_asset_def rbind_eq_Inr)
  with assms(4) obtain old new where n: "touts = old @ new" "rmap (to_TxOutput E) outputs = Inr old" "rmap (to_TxOutput E) fo = Inr new"
    by (auto simp: rmap_eq_Inr list_all2_append1)
  let ?g = "\<lambda>(n, p). n * unat (percentageAmount D balance p)"
  note g = fragment_outputs_groups [OF fo(1)] and t = to_TxOutputs [OF n(3)]
  have "sum_list (map fst (ord fragmentationMap)) = 11"
    using visits_all_sum [OF assms(2), of fst fragmentationMap] by (simp add: fragmentationMap_def)
  then have r: "map to_Asset new = replicate 11 asset" by (simp only: t g)
  have a: "\<forall>o'\<in>set new. to_Asset o' = asset" "length new = 11"
    using arg_cong [OF r, of set] arg_cong [OF r, of length] by auto
  have "sum_list (map (\<lambda>o'. unat (to_Amount o')) new) = sum_list (map unat (map to_Amount new))" by (simp add: comp_def)
  also have "\<dots> = sum_list (map ?g (ord fragmentationMap))" by (simp only: t g sum_unat_groups)
  also have "\<dots> = sum_list (map ?g fragmentationMap)" by (rule visits_all_sum [OF assms(2)])
  finally have "fragments_of asset balance new"
    using a True fragmentation_total [OF assms(3)] by (simp add: fragments_of_def)
  with that n(1,2) show ?thesis by blast
qed

end

text \<open>Balances of the wallet are amounts of coins, far below the range of \<open>int64\<close>.\<close>

definition plausible_balances :: "'w WalletService \<Rightarrow> bool" where
  "plausible_balances W \<longleftrightarrow> (\<forall>account w w' balances asset b. GetBalance W account w = (w', Inr balances) \<longrightarrow>
     gm_get balances asset = Some b \<longrightarrow> unat (bal_ConfirmedBalance b) < 2 ^ 63)"

section \<open>Properties\<close>


text \<open>
  C36. When the market fragmenter reports success it has sent to the market, of each of the two assets
  whose confirmed balance exceeds the minimum, eleven coins worth the balance less at most ten
  units, and nothing else; for balances below \<open>2 ^ 63\<close> and whatever the order in which the map of
  fragments is visited.
\<close>

theorem MarketFragmenterSplitFunds_conserves:
  assumes "succeeds (MarketFragmenterSplitFunds S ord1 ord2 ord3 ord4 baseAsset quoteAsset millisatsPerByte) st"
    and "decimal_lib (os_D S) val" "visits_all ord1" "visits_all ord2" "plausible_balances (os_wallet S)"
  shows "\<exists>m w0 w1 balances base quote w w' txid.
      mr_GetMarketByAssets (os_markets S) (ost_markets st) baseAsset quoteAsset = Inr m
    \<and> GetBalance (os_wallet S) MarketFragmenterAccount w0 = (w1, Inr balances)
    \<and> SendToMany (os_wallet S) (os_elements S) (os_lbtc S) ord3 ord4 MarketFragmenterAccount (base @ quote) (os_milliSatsPerByte S) w = (w', Inr txid)
    \<and> fragments_of (mkt_BaseAsset m) (confirmed_or_zero (gm_get balances (mkt_BaseAsset m))) base
    \<and> fragments_of (mkt_QuoteAsset m) (confirmed_or_zero (gm_get balances (mkt_QuoteAsset m))) quote"
proof -
  from assms(1) obtain m w0 w1 balances baseBalance quoteBalance mb addresses os1 os2 outs w w' txid where
    m: "mr_GetMarketByAssets (os_markets S) (ost_markets st) baseAsset quoteAsset = Inr m"
    and b: "GetBalance (os_wallet S) MarketFragmenterAccount w0 = (w1, Inr balances)"
      "check_balances m mb balances = Inr (baseBalance, quoteBalance)"
    and f: "fragment_asset (os_D S) ord1 (mkt_BaseAsset m) baseBalance addresses [] = Inr os1"
      "fragment_asset (os_D S) ord2 (mkt_QuoteAsset m) quoteBalance addresses os1 = Inr os2" "rmap (to_TxOutput (os_elements S)) os2 = Inr outs"
    and sent: "SendToMany (os_wallet S) (os_elements S) (os_lbtc S) ord3 ord4 MarketFragmenterAccount outs (os_milliSatsPerByte S) w = (w', Inr txid)"
    unfolding MarketFragmenterSplitFunds_def op_GetMarketFragmenterBalance_def Let_def
    by (auto simp: on_wallet_eq clift_eq find_market_def)
  from b(2) have bal: "baseBalance = confirmed_or_zero (gm_get balances (mkt_BaseAsset m))" "quoteBalance = confirmed_or_zero (gm_get balances (mkt_QuoteAsset m))"
    by (auto simp: check_balances_def Let_def rbind_eq_Inr split: if_splits)
  then have "unat baseBalance < 2 ^ 63" "unat quoteBalance < 2 ^ 63"
    using assms(5) b(1) by (auto simp: plausible_balances_def confirmed_or_zero_def split: option.splits)
  note frag = decimal_lib.fragment_asset_fragments [OF assms(2)]
  obtain base quote where q: "outs = base @ quote" "rmap (to_TxOutput (os_elements S)) os1 = Inr base" "fragments_of (mkt_QuoteAsset m) quoteBalance quote"
    by (rule frag [OF f(2) assms(4) \<open>unat quoteBalance < 2 ^ 63\<close> f(3)])
  have "fragments_of (mkt_BaseAsset m) baseBalance base"
    by (rule frag [OF f(1) assms(3) \<open>unat baseBalance < 2 ^ 63\<close> q(2)]) simp
  with m b(1) sent q bal show ?thesis by blast
qed

definition ex_balance :: "u64 \<Rightarrow> Balance" where
  "ex_balance n = \<lparr>bal_ConfirmedBalance = n, bal_UnconfirmedBalance = 0, bal_LockedBalance = 0, bal_TotalBalance = n\<rparr>"

definition ex_funded :: "(string, Balance) gomap \<Rightarrow> (fdec, mem_markets_state, Trade mem_store, Deposit mem_store, Withdrawal mem_store, unit) operator" where
  "ex_funded balances = ex_operator\<lparr>os_wallet := ex_wallet\<lparr>GetBalance := (\<lambda>_. cret balances)\<rparr>\<rparr>"

lemma ex_funded_simps:
  "os_lbtc (ex_funded bs) = ''l''" "os_milliSatsPerByte (ex_funded bs) = 100" "os_elements (ex_funded bs) = ex_elements"
  "GetBalance (os_wallet (ex_funded bs)) a w = (w, Inr bs)" "os_D (ex_funded bs) = fixdec"
  by (simp_all add: ex_funded_def ex_operator_def ex_wallet_def cret_def)


theorem MarketFragmenterSplitFunds_conserves_witness:
  "\<exists>base quote w w' txid. SendToMany (os_wallet (ex_funded [(ex_base, ex_balance 1000007), (ex_quote, ex_balance 5)])) ex_elements ''l'' (\<lambda>m. m) rev
       MarketFragmenterAccount (base @ quote) 100 w = (w', Inr txid)
     \<and> fragments_of ex_base 1000007 base \<and> fragments_of ex_quote 5 quote"
proof -
  let ?bs = "[(ex_base, ex_balance 1000007), (ex_quote, ex_balance 5)]"
  have run: "succeeds (MarketFragmenterSplitFunds (ex_funded ?bs) (\<lambda>m. m) rev (\<lambda>m. m) rev ex_base ex_quote 100) (fst ex_new)" by code_simp
  have m: "rbind (mr_GetMarketByAssets (os_markets (ex_funded ?bs)) (ost_markets (fst ex_new)) ex_base ex_quote)
      (\<lambda>m. Inr (mkt_BaseAsset m, mkt_QuoteAsset m)) = Inr (ex_base, ex_quote)" by code_simp
  have ne: "ex_quote \<noteq> ex_base" by code_simp
  then have c: "confirmed_or_zero (gm_get ?bs ex_base) = 1000007" "confirmed_or_zero (gm_get ?bs ex_quote) = 5"
    by (simp_all add: confirmed_or_zero_def ex_balance_def)
  have "plausible_balances (os_wallet (ex_funded ?bs))"
    by (auto simp: plausible_balances_def ex_funded_simps ex_balance_def split: if_splits)
  from MarketFragmenterSplitFunds_conserves [OF run _ visits_all_id visits_all_rev this, of fd_val] m c ne show ?thesis
    by (auto simp: ex_funded_simps fixed.decimal_lib_axioms rbind_eq_Inr) blast
qed

text \<open>
  Where the code does not do what it says. A fragmenter that has only the quote asset makes it
  panic; one with exactly the minimum passes the checks and gets no fragments.
\<close>

lemma quote_only_panics:
  "last (snd (MarketFragmenterSplitFunds (ex_funded [(ex_quote, ex_balance 1000007)]) (\<lambda>m. m) rev (\<lambda>m. m) rev ex_base ex_quote 100 (fst ex_new)))
     = ReplyError nil_deref"
  by code_simp

lemma minimum_not_fragmented:
  "check_balances m mb [(mkt_BaseAsset m, ex_balance 100000), (mkt_QuoteAsset m, ex_balance 100000)] = Inr (100000, 100000)
   \<and> fragment_asset D ord asset 100000 addresses [] = Inr []" if "mkt_BaseAsset m \<noteq> mkt_QuoteAsset m"
  using that by (simp add: check_balances_def no_balance_def confirmed_or_zero_def ex_balance_def fragment_asset_def Let_def)

end
