(* ===== verification/Calendar.thy ===== *)
theory Calendar
  imports Prelude
begin

text \<open>
  What the daemon uses of Go's \<open>time\<close> package (release 1.19, which builds it) beyond the clock:
  durations, the proleptic Gregorian calendar, and \<open>Parse\<close> and \<open>Format\<close> with the layout
  \<open>RFC3339\<close>. A location is its \<open>lookup\<close>: the offset from UTC in force at a Unix time and the
  period for which it is in force, as the time zone database of the machine has it.
\<close>

section \<open>Durations\<close>

definition hour :: int where "hour = 3600 * second"

definition minDuration :: int where "minDuration = - (2 ^ 63)"
definition maxDuration :: int where "maxDuration = 2 ^ 63 - 1"

text \<open>\<open>t.Sub(u)\<close> saturates.\<close>

definition time_Sub :: "time \<Rightarrow> time \<Rightarrow> int" where
  "time_Sub t u = max minDuration (min maxDuration (t - u))"

text \<open>Conversion of a fraction to an integer, towards zero.\<close>

definition quot :: "int \<Rightarrow> int \<Rightarrow> int" where
  "quot a b = (if a \<ge> 0 then a div b else - (- a div b))"

text \<open>
  \<open>int(d.Hours())\<close> and \<open>int64(d.Hours() / 24)\<close>. The fractions are exact here; a \<open>float64\<close> may round
  the last microsecond of an hour up.
\<close>

definition whole_hours :: "int \<Rightarrow> int" where
  "whole_hours d = quot d hour"

definition whole_days :: "int \<Rightarrow> int" where
  "whole_days d = quot d (24 * hour)"

section \<open>Dates\<close>

text \<open>Days since 1 January 1970; the day may lie outside the month, as \<open>time.Date\<close> allows.\<close>

definition days_from_civil :: "int \<Rightarrow> int \<Rightarrow> int \<Rightarrow> int" where
  "days_from_civil year month day =
     (let y = (if month \<le> 2 then year - 1 else year);
          era = y div 400; yoe = y mod 400;
          doy = (153 * (if month > 2 then month - 3 else month + 9) + 2) div 5 + day - 1;
          doe = yoe * 365 + yoe div 4 - yoe div 100 + doy
      in era * 146097 + doe - 719468)"

definition civil_from_days :: "int \<Rightarrow> int \<times> int \<times> int" where
  "civil_from_days z =
     (let z = z + 719468;
          era = z div 146097; doe = z mod 146097;
          yoe = (doe - doe div 1460 + doe div 36524 - doe div 146096) div 365;
          doy = doe - (365 * yoe + yoe div 4 - yoe div 100);
          mp = (5 * doy + 2) div 153;
          day = doy - (153 * mp + 2) div 5 + 1;
          month = (if mp < 10 then mp + 3 else mp - 9)
      in (yoe + era * 400 + (if month \<le> 2 then 1 else 0), month, day))"

type_synonym location = "int \<Rightarrow> int \<times> int \<times> int"

definition UTC :: location where
  "UTC = (\<lambda>_. (0, - (2 ^ 63), 2 ^ 63 - 1))"

text \<open>\<open>time.Date\<close>: the month is normalised into the year, then the local time is shifted to UTC.\<close>

definition time_Date :: "location \<Rightarrow> int \<Rightarrow> int \<Rightarrow> int \<Rightarrow> int \<Rightarrow> int \<Rightarrow> int \<Rightarrow> int \<Rightarrow> time" where
  "time_Date loc year month day hr mi sec nsec =
     (let m = month - 1; year = year + m div 12; month = m mod 12 + 1;
          unix = days_from_civil year month day * 86400 + hr * 3600 + mi * 60 + sec;
          (offset, begins, ends) = loc unix;
          offset = (if offset \<noteq> 0 \<and> (unix - offset < begins \<or> unix - offset \<ge> ends)
                    then fst (loc (unix - offset)) else offset)
      in (unix - offset) * second + nsec)"

text \<open>The local date, the seconds since local midnight and the nanoseconds of a time.\<close>

definition local_date :: "location \<Rightarrow> time \<Rightarrow> (int \<times> int \<times> int) \<times> int \<times> int" where
  "local_date loc t =
     (let unix = Unix t + fst (loc (Unix t))
      in (civil_from_days (unix div 86400), unix mod 86400, t mod second))"

definition time_Year :: "location \<Rightarrow> time \<Rightarrow> int" where
  "time_Year loc t = fst (fst (local_date loc t))"

definition AddDate :: "location \<Rightarrow> int \<Rightarrow> int \<Rightarrow> int \<Rightarrow> time \<Rightarrow> time" where
  "AddDate loc years months days t =
     (case local_date loc t of ((y, m, d), sec, nsec) \<Rightarrow>
        time_Date loc (y + years) (m + months) (d + days) (sec div 3600) (sec mod 3600 div 60) (sec mod 60) nsec)"

section \<open>Parsing\<close>

definition digit :: "char \<Rightarrow> int option" where
  "digit c = (let n = of_char c :: nat in if 48 \<le> n \<and> n \<le> 57 then Some (int n - 48) else None)"

fun digits :: "int \<Rightarrow> string \<Rightarrow> int option" where
  "digits acc [] = Some acc"
| "digits acc (c # s) = (case digit c of None \<Rightarrow> None | Some d \<Rightarrow> digits (10 * acc + d) s)"

text \<open>\<open>atoi\<close>: an optional sign, then digits up to the end.\<close>

definition atoi :: "string \<Rightarrow> int option" where
  "atoi s = (case s of
     c # s' \<Rightarrow> if c = CHR ''-'' then map_option uminus (digits 0 s') else if c = CHR ''+'' then digits 0 s' else digits 0 s
   | [] \<Rightarrow> Some 0)"

definition getnum :: "string \<Rightarrow> bool \<Rightarrow> (int \<times> string) option" where
  "getnum s fixed = (case s of [] \<Rightarrow> None | a # s' \<Rightarrow> (case digit a of None \<Rightarrow> None | Some x \<Rightarrow>
     (case s' of b # r \<Rightarrow> (case digit b of Some y \<Rightarrow> Some (10 * x + y, r)
                        | None \<Rightarrow> if fixed then None else Some (x, s'))
      | [] \<Rightarrow> if fixed then None else Some (x, s'))))"

definition skip :: "char \<Rightarrow> string \<Rightarrow> string option" where
  "skip c s = (case s of [] \<Rightarrow> None | x # r \<Rightarrow> if x = c then Some r else None)"

text \<open>A fraction of the seconds, of which nine digits count.\<close>

definition fraction :: "string \<Rightarrow> int \<times> string" where
  "fraction s = (case s of
     p # x # r \<Rightarrow>
       if (p = CHR ''.'' \<or> p = CHR '','') \<and> digit x \<noteq> None
       then let ds = takeWhile (\<lambda>c. digit c \<noteq> None) (x # r); used = take 9 ds
            in (the (digits 0 used) * 10 ^ (9 - length used), drop (length ds) (x # r))
       else (0, s)
   | _ \<Rightarrow> (0, s))"

text \<open>The time zone: \<open>Z\<close>, or a sign, hours and minutes; the offset in seconds.\<close>

definition zone :: "string \<Rightarrow> (int \<times> string) option" where
  "zone s = (if take 1 s = ''Z'' then Some (0, drop 1 s)
     else if length s < 6 \<or> s ! 3 \<noteq> CHR '':'' then None
     else case (atoi (take 2 (drop 1 s)), atoi (take 2 (drop 4 s))) of
         (Some hr, Some mm) \<Rightarrow>
           if s ! 0 = CHR ''+'' then Some ((hr * 60 + mm) * 60, drop 6 s)
           else if s ! 0 = CHR ''-'' then Some (- ((hr * 60 + mm) * 60), drop 6 s) else None
       | _ \<Rightarrow> None)"

definition is_leap :: "int \<Rightarrow> bool" where
  "is_leap y \<longleftrightarrow> 4 dvd y \<and> (\<not> 100 dvd y \<or> 400 dvd y)"

definition days_in :: "int \<Rightarrow> int \<Rightarrow> int" where
  "days_in month year = (if month = 2 then if is_leap year then 29 else 28
     else if month \<in> {4, 6, 9, 11} then 30 else 31)"

abbreviation in_range_opt :: "int \<Rightarrow> int \<Rightarrow> int \<times> string \<Rightarrow> (int \<times> string) option" where
  "in_range_opt lo hi \<equiv> \<lambda>(n, s). if lo \<le> n \<and> n \<le> hi then Some (n, s) else None"

definition Parse_RFC3339 :: "string \<Rightarrow> time option" where
  "Parse_RFC3339 value =
     Option.bind (if length value < 4 \<or> digit (value ! 0) = None then None
                  else map_option (\<lambda>y. (y, drop 4 value)) (atoi (take 4 value))) (\<lambda>(year, value).
     Option.bind (skip (CHR ''-'') value) (\<lambda>value.
     Option.bind (Option.bind (getnum value True) (in_range_opt 1 12)) (\<lambda>(month, value).
     Option.bind (skip (CHR ''-'') value) (\<lambda>value.
     Option.bind (getnum value True) (\<lambda>(day, value).
     Option.bind (skip (CHR ''T'') value) (\<lambda>value.
     Option.bind (Option.bind (getnum value False) (in_range_opt 0 23)) (\<lambda>(hr, value).
     Option.bind (skip (CHR '':'') value) (\<lambda>value.
     Option.bind (Option.bind (getnum value True) (in_range_opt 0 59)) (\<lambda>(mi, value).
     Option.bind (skip (CHR '':'') value) (\<lambda>value.
     Option.bind (Option.bind (getnum value True) (in_range_opt 0 59)) (\<lambda>(sec, value).
     let (nsec, value) = fraction value in
     Option.bind (zone value) (\<lambda>(offset, value).
     if value \<noteq> '''' \<or> day < 1 \<or> day > days_in month year then None
     else Some (time_Date UTC year month day hr mi sec nsec - offset * second)))))))))))))"

section \<open>Formatting\<close>

text \<open>Decimal digits, padded with zeros to a width.\<close>

fun pad :: "nat \<Rightarrow> int \<Rightarrow> string" where
  "pad 0 n = ''''"
| "pad (Suc w) n = pad w (n div 10) @ [char_of (nat (n mod 10) + 48)]"

text \<open>Years from 0 to 9999; a time without an offset ends in \<open>Z\<close>.\<close>

definition Format_RFC3339 :: "location \<Rightarrow> time \<Rightarrow> string" where
  "Format_RFC3339 loc t = (case local_date loc t of ((y, m, d), sec, _) \<Rightarrow>
     let offset = fst (loc (Unix t)); mins = quot \<bar>offset\<bar> 60 in
     pad 4 y @ ''-'' @ pad 2 m @ ''-'' @ pad 2 d @ ''T'' @ pad 2 (sec div 3600) @ '':'' @
     pad 2 (sec mod 3600 div 60) @ '':'' @ pad 2 (sec mod 60) @
     (if offset = 0 then ''Z'' else (if offset < 0 then ''-'' else ''+'') @ pad 2 (mins div 60) @ '':'' @ pad 2 (mins mod 60)))"

section \<open>Lemmas\<close>

lemma whole_hours_bound: "whole_hours (time_Sub t u) \<le> 2562047"
proof -
  have "time_Sub t u \<le> 9223372036854775807"
    by (simp add: time_Sub_def minDuration_def maxDuration_def)
  then have "whole_hours (time_Sub t u) \<le> 9223372036854775807 div hour" if "time_Sub t u \<ge> 0"
    using that zdiv_mono1 [of "time_Sub t u" 9223372036854775807 hour]
    by (simp add: whole_hours_def quot_def hour_def)
  moreover have "whole_hours (time_Sub t u) \<le> 0" if "time_Sub t u < 0"
    using that by (simp add: whole_hours_def quot_def hour_def div_int_pos_iff)
  ultimately show ?thesis by (fastforce simp: hour_def)
qed

lemma time_Sub_pos [simp]: "0 < time_Sub t u \<longleftrightarrow> u < t"
  by (auto simp: time_Sub_def minDuration_def maxDuration_def)

lemma Parse_example: "Parse_RFC3339 ''2009-11-10T19:00:00.5+01:00'' = Some (1257876000 * second + 500000000)"
  by code_simp

lemma AddDate_example:
  "Format_RFC3339 UTC (AddDate UTC 0 (- 1) 0 (time_Unix 1680220800)) = ''2023-03-03T00:00:00Z''"
  by code_simp

end
