(* ===== verification/Reports.thy ===== *)
theory Reports
  imports Calendar Repositories
begin

text \<open>
  The market report of the operator service (\<open>market_account.go\<close> and the report types of
  \<open>types.go\<close> in \<open>internal/core/application/operator\<close>): the period asked for, its division into
  frames, the volume of each frame and the fees collected. The loop that divides a period is a
  \<open>partial_function\<close>: \<open>None\<close> is a loop that does not end.
\<close>

section \<open>Definitions\<close>

datatype PredefinedPeriod = PeriodUnspecified | LastHour | LastDay | LastWeek | LastMonth | LastThreeMonths
  | YearToDate | LastYear | AllTime

record TimeRange =
  tr_PredefinedPeriod :: PredefinedPeriod
  tr_CustomPeriod :: "(string \<times> string) option"

record marketVolumeInfo =
  mv_start :: time
  mv_end :: time
  mv_baseVolume :: u64
  mv_quoteVolume :: u64

record tradeFeeInfo =
  tf_Trade :: Trade
  tf_marketPrice :: string

record marketFeeReportInfo =
  fr_start :: time
  fr_end :: time
  fr_totBaseFee :: u64
  fr_totQuoteFee :: u64
  fr_tradeFees :: "tradeFeeInfo list"

record marketReportInfo =
  rep_Market :: Market
  rep_fees :: marketFeeReportInfo
  rep_totVolume :: marketVolumeInfo
  rep_subVolumes :: "marketVolumeInfo list"

definition startYear :: int where "startYear = 2021"

text \<open>The zero \<open>time.Time\<close>, 1 January of year 1.\<close>

definition zero_time :: time where "zero_time = - 62135596800 * second"

definition parse_date :: "string \<Rightarrow> time res" where
  "parse_date s = (case Parse_RFC3339 s of None \<Rightarrow> Inl (External ''parsing time'') | Some t \<Rightarrow> Inr t)"

definition timeRangeToDates :: "location \<Rightarrow> time \<Rightarrow> TimeRange \<Rightarrow> (time \<times> time) res" where
  "timeRangeToDates loc now tr = (case tr_CustomPeriod tr of
     Some (startDate, endDate) \<Rightarrow>
       rbind (parse_date startDate) (\<lambda>startTime.
       if endDate \<noteq> '''' then rbind (parse_date endDate) (\<lambda>endTime. Inr (startTime, endTime))
       else Inr (startTime, now))
   | None \<Rightarrow> Inr (case tr_PredefinedPeriod tr of
       LastHour \<Rightarrow> (now - 60 * 60 * second, now)
     | LastDay \<Rightarrow> (AddDate loc 0 0 (- 1) now, now)
     | LastWeek \<Rightarrow> (AddDate loc 0 0 (- 7) now, now)
     | LastMonth \<Rightarrow> (AddDate loc 0 (- 1) 0 now, now)
     | LastThreeMonths \<Rightarrow> (AddDate loc 0 (- 3) 0 now, now)
     | YearToDate \<Rightarrow> (time_Date UTC (time_Year loc now) 1 1 0 0 0 0, now)
     | LastYear \<Rightarrow> (time_Date UTC (time_Year loc now - 1) 1 1 0 0 0 0, time_Date UTC (time_Year loc now - 1) 12 31 23 59 59 0)
     | AllTime \<Rightarrow> (time_Date UTC startYear 1 1 0 0 0 0, now)
     | PeriodUnspecified \<Rightarrow> (zero_time, now)))"

definition getDefaultTimeFrameForRange :: "time \<Rightarrow> time \<Rightarrow> int" where
  "getDefaultTimeFrameForRange start stop =
     (let delta = whole_days (time_Sub stop start) in
      if delta \<ge> 365 * 5 then 24 * 30
      else if delta \<ge> 365 then 24 * 7
      else if delta \<ge> 88 then 24
      else if delta \<ge> 7 then 4
      else 1)"

definition isInTimeRange :: "i64 \<Rightarrow> time \<Rightarrow> time \<Rightarrow> bool" where
  "isInTimeRange t start stop \<longleftrightarrow> \<not> time_Unix t < start \<and> \<not> time_Unix t > stop"

partial_function (option) split_loop :: "time \<Rightarrow> int \<Rightarrow> time \<Rightarrow> marketVolumeInfo list \<Rightarrow> marketVolumeInfo list option" where
  [code]: "split_loop start frame stop subRanges =
     (if stop = start \<or> stop < start then Some subRanges
      else
        let nextEnd = stop + wrap64 (- hour * frame);
            nextStart = (if time_Sub nextEnd start > 0 then nextEnd + second else start)
        in split_loop start frame nextEnd
             (subRanges @ [\<lparr>mv_start = nextStart, mv_end = stop, mv_baseVolume = 0, mv_quoteVolume = 0\<rparr>]))"

definition splitTimeRange :: "time \<Rightarrow> time \<Rightarrow> int \<Rightarrow> marketVolumeInfo list option" where
  "splitTimeRange start stop frame = split_loop start frame stop []"

text \<open>The amounts of a trade in the assets of the market, and one turn of the loop over the frames.\<close>

definition trade_amounts :: "Market \<Rightarrow> SwapRequest \<Rightarrow> u64 \<times> u64" where
  "trade_amounts mkt r = (if sr_AssetR r = mkt_QuoteAsset mkt then (sr_AmountP r, sr_AmountR r) else (sr_AmountR r, sr_AmountP r))"

definition add_volume :: "Market \<Rightarrow> i64 \<Rightarrow> SwapRequest option \<Rightarrow> marketVolumeInfo \<Rightarrow> marketVolumeInfo res" where
  "add_volume mkt ts swapRequest v =
     (if isInTimeRange ts (mv_start v) (mv_end v)
      then case swapRequest of None \<Rightarrow> Inl nil_deref
        | Some r \<Rightarrow> (case trade_amounts mkt r of (baseAmount, quoteAmount) \<Rightarrow>
            Inr (v\<lparr>mv_baseVolume := mv_baseVolume v + baseAmount, mv_quoteVolume := mv_quoteVolume v + quoteAmount\<rparr>))
      else Inr v)"

fun report_loop :: "SwapParser \<Rightarrow> Market \<Rightarrow> time \<Rightarrow> time \<Rightarrow> Trade list
    \<Rightarrow> tradeFeeInfo list \<times> marketVolumeInfo list \<Rightarrow> (tradeFeeInfo list \<times> marketVolumeInfo list) res" where
  "report_loop P mkt rangeStart rangeEnd [] acc = Inr acc"
| "report_loop P mkt rangeStart rangeEnd (trade # ts) (tradesFee, subVolumes) =
     (case trd_SwapRequest trade of None \<Rightarrow> Inl nil_deref
      | Some request \<Rightarrow>
          if isInTimeRange (swap_Timestamp request) rangeStart rangeEnd
          then rbind (SwapRequestMessage P trade) (\<lambda>swapRequest.
               let marketPrice = (if trd_FeeAsset trade = mkt_BaseAsset mkt then mp_QuotePrice (trd_MarketPrice trade)
                     else mp_BasePrice (trd_MarketPrice trade))
               in rbind (rmap (add_volume mkt (swap_Timestamp request) swapRequest) subVolumes) (\<lambda>subVolumes.
                  report_loop P mkt rangeStart rangeEnd ts
                    (tradesFee @ [\<lparr>tf_Trade = trade, tf_marketPrice = marketPrice\<rparr>], subVolumes)))
          else report_loop P mkt rangeStart rangeEnd ts (tradesFee, subVolumes))"

definition fee_totals :: "tradeFeeInfo list \<Rightarrow> u64 \<times> u64" where
  "fee_totals fees = fold (\<lambda>v (totBaseFee, totQuoteFee).
     if trd_FeeAsset (tf_Trade v) = trd_MarketBaseAsset (tf_Trade v)
     then (totBaseFee + trd_FeeAmount (tf_Trade v), totQuoteFee)
     else (totBaseFee, totQuoteFee + trd_FeeAmount (tf_Trade v))) fees (0, 0)"

definition make_report :: "Market \<Rightarrow> time \<Rightarrow> time \<Rightarrow> tradeFeeInfo list \<Rightarrow> marketVolumeInfo list \<Rightarrow> marketReportInfo" where
  "make_report mkt rangeStart rangeEnd tradesFee subVolumes =
     (let totVolume = \<lparr>mv_start = rangeStart, mv_end = rangeEnd, mv_baseVolume = sum_list (map mv_baseVolume subVolumes),
            mv_quoteVolume = sum_list (map mv_quoteVolume subVolumes)\<rparr>;
          feeReport = \<lparr>fr_start = rangeStart, fr_end = rangeEnd, fr_totBaseFee = fst (fee_totals tradesFee),
            fr_totQuoteFee = snd (fee_totals tradesFee), fr_tradeFees = tradesFee\<rparr>
      in \<lparr>rep_Market = mkt, rep_fees = feeReport, rep_totVolume = totVolume, rep_subVolumes = subVolumes\<rparr>)"

text \<open>
  The comparison of the sort reads the request of every trade when there are two or more, so one
  without a request is a nil dereference there already.
\<close>

definition request_time :: "Trade \<Rightarrow> i64" where
  "request_time t = (case trd_SwapRequest t of None \<Rightarrow> 0 | Some s \<Rightarrow> swap_Timestamp s)"

definition GetMarketReport :: "'m MarketRepository \<Rightarrow> 't TradeRepository \<Rightarrow> SwapParser \<Rightarrow> location \<Rightarrow> time
    \<Rightarrow> string \<Rightarrow> string \<Rightarrow> TimeRange \<Rightarrow> int \<Rightarrow> 'm \<Rightarrow> 't \<Rightarrow> marketReportInfo res option" where
  "GetMarketReport R T P loc now baseAsset quoteAsset timeRange timeFrame ms tst =
     (case timeRangeToDates loc now timeRange of
        Inl e \<Rightarrow> Some (Inl e)
      | Inr (rangeStart, rangeEnd) \<Rightarrow>
        let timeFrame = (if timeFrame = 0 then getDefaultTimeFrameForRange rangeStart rangeEnd else timeFrame) in
        if whole_hours (time_Sub rangeEnd rangeStart) < timeFrame
        then Some (Inl (Errorf ''time range must be larger than time frame'' []))
        else case mr_GetMarketByAssets R ms baseAsset quoteAsset of
          Inl e \<Rightarrow> Some (Inl e)
        | Inr mkt \<Rightarrow>
          case tr_GetCompletedTradesByMarket T tst (mkt_Name mkt) None of
            Inl e \<Rightarrow> Some (Inl e)
          | Inr ts \<Rightarrow>
            if length ts \<ge> 2 \<and> list_ex (\<lambda>t. trd_SwapRequest t = None) ts then Some (Inl nil_deref)
            else map_option (\<lambda>subVolumes.
              rbind (report_loop P mkt rangeStart rangeEnd (sort_newest request_time ts) ([], subVolumes))
                (\<lambda>(tradesFee, subVolumes). Inr (make_report mkt rangeStart rangeEnd tradesFee subVolumes)))
              (splitTimeRange rangeStart rangeEnd timeFrame))"

section \<open>Frames\<close>

definition covers :: "time \<Rightarrow> marketVolumeInfo \<Rightarrow> bool" where
  "covers t v \<longleftrightarrow> mv_start v \<le> t \<and> t \<le> mv_end v"

lemma isInTimeRange_covers: "isInTimeRange t (mv_start v) (mv_end v) \<longleftrightarrow> covers (time_Unix t) v"
  by (auto simp: isInTimeRange_def covers_def)

text \<open>Frames of at least an hour, not so long that the duration overflows.\<close>

definition frame_ok :: "int \<Rightarrow> bool" where
  "frame_ok frame \<longleftrightarrow> 0 < frame \<and> frame \<le> 2562047"

lemma frame_step: "frame_ok frame \<Longrightarrow> wrap64 (- (hour * frame)) = - (hour * frame)"
  by (subst wrap64_id) (auto simp: frame_ok_def hour_def)

lemma hour_bounds:
  assumes "frame_ok frame"
  shows "second < hour * frame" "second dvd hour * frame"
proof -
  show "second < hour * frame"
    using assms by (simp add: frame_ok_def hour_def)
  have "second dvd hour" by (simp add: hour_def)
  then show "second dvd hour * frame" by (rule dvd_mult2)
qed

lemma whole_after:
  assumes "second dvd a" "second dvd (b :: int)" "a < b"
  shows "a + second \<le> b"
proof -
  obtain x y where "a = second * x" "b = second * y" using assms(1,2) by (auto elim!: dvdE)
  with assms(3) show ?thesis by simp
qed

lemma split_loop_spec:
  assumes "frame_ok frame"
  shows "\<exists>vs. split_loop start frame stop acc = Some (acc @ vs)
    \<and> (\<forall>v\<in>set vs. mv_baseVolume v = 0 \<and> mv_quoteVolume v = 0 \<and> start \<le> mv_start v \<and> mv_end v \<le> stop)
    \<and> (second dvd stop \<longrightarrow> (\<forall>t. second dvd t \<longrightarrow>
         length (filter (covers t) vs) = (if start < stop \<and> start \<le> t \<and> t \<le> stop then 1 else 0)))"
proof (induction "nat (stop - start)" arbitrary: stop acc rule: less_induct)
  case less
  note h = hour_bounds [OF assms] and st = frame_step [OF assms]
  show ?case
  proof (cases "stop \<le> start")
    case True
    then have "split_loop start frame stop acc = Some (acc @ [])"
      by (subst split_loop.simps) auto
    with True show ?thesis by (intro exI [of _ "[]"]) auto
  next
    case False
    let ?e = "stop - hour * frame"
    let ?v = "\<lparr>mv_start = (if start < ?e then ?e + second else start), mv_end = stop, mv_baseVolume = 0, mv_quoteVolume = 0\<rparr>"
    have u: "split_loop start frame stop acc = split_loop start frame ?e (acc @ [?v])"
      using False by (subst split_loop.simps) (auto simp: st Let_def)
    have "nat (?e - start) < nat (stop - start)" using False h(1) by linarith
    from less [OF this, of "acc @ [?v]"] obtain vs where vs:
      "split_loop start frame ?e (acc @ [?v]) = Some ((acc @ [?v]) @ vs)"
      "\<forall>v\<in>set vs. mv_baseVolume v = 0 \<and> mv_quoteVolume v = 0 \<and> start \<le> mv_start v \<and> mv_end v \<le> ?e"
      "second dvd ?e \<Longrightarrow> second dvd t \<Longrightarrow>
         length (filter (covers t) vs) = (if start < ?e \<and> start \<le> t \<and> t \<le> ?e then 1 else 0)" for t
      by blast
    have "length (filter (covers t) (?v # vs)) = (if start < stop \<and> start \<le> t \<and> t \<le> stop then 1 else 0)"
      if "second dvd stop" "second dvd t" for t
    proof -
      have e: "second dvd ?e" using that(1) h(2) by (rule dvd_diff)
      have "?e < t \<Longrightarrow> ?e + second \<le> t" by (rule whole_after [OF e that(2)])
      with vs(3) [OF e that(2)] False h(1) show ?thesis by (auto simp: covers_def)
    qed
    moreover have "\<forall>v\<in>set (?v # vs). mv_baseVolume v = 0 \<and> mv_quoteVolume v = 0 \<and> start \<le> mv_start v \<and> mv_end v \<le> stop"
      using vs(2) False h(1) by auto
    ultimately show ?thesis using u vs(1) by (intro exI [of _ "?v # vs"]) auto
  qed
qed

lemma default_frame_ok: "frame_ok (getDefaultTimeFrameForRange a b)"
  by (simp add: getDefaultTimeFrameForRange_def Let_def frame_ok_def)

section \<open>Volumes and fees\<close>

definition trade_volume :: "SwapParser \<Rightarrow> Market \<Rightarrow> Trade \<Rightarrow> u64 \<times> u64" where
  "trade_volume P mkt t = (case SwapRequestMessage P t of Inr (Some r) \<Rightarrow> trade_amounts mkt r | _ \<Rightarrow> (0, 0))"

abbreviation base_total :: "marketVolumeInfo list \<Rightarrow> u64" where
  "base_total vs \<equiv> sum_list (map mv_baseVolume vs)"

abbreviation quote_total :: "marketVolumeInfo list \<Rightarrow> u64" where
  "quote_total vs \<equiv> sum_list (map mv_quoteVolume vs)"

abbreviation bounds :: "marketVolumeInfo list \<Rightarrow> (time \<times> time) list" where
  "bounds vs \<equiv> map (\<lambda>v. (mv_start v, mv_end v)) vs"

lemma covers_count:
  assumes "bounds vs = bounds vs'"
  shows "length (filter (covers t) vs) = length (filter (covers t) vs')"
proof -
  have "length (filter (covers t) vs) = length (filter (\<lambda>(a, b). a \<le> t \<and> t \<le> b) (bounds vs))" for vs
    by (simp add: filter_map o_def covers_def [abs_def])
  from this [of vs] this [of vs'] show ?thesis unfolding assms by (rule trans [OF _ sym])
qed

lemma add_volume_totals:
  "rmap (add_volume mkt ts (Some r)) vs = Inr vs' \<Longrightarrow> bounds vs' = bounds vs
    \<and> base_total vs' = base_total vs + of_nat (length (filter (covers (time_Unix ts)) vs)) * fst (trade_amounts mkt r)
    \<and> quote_total vs' = quote_total vs + of_nat (length (filter (covers (time_Unix ts)) vs)) * snd (trade_amounts mkt r)"
proof (induction vs arbitrary: vs')
  case (Cons v vs)
  then obtain v' ws where "add_volume mkt ts (Some r) v = Inr v'" "rmap (add_volume mkt ts (Some r)) vs = Inr ws" "vs' = v' # ws"
    by (auto simp: rbind_eq_Inr)
  moreover note Cons.IH [of ws]
  moreover have "v' = (if covers (time_Unix ts) v
      then v\<lparr>mv_baseVolume := mv_baseVolume v + fst (trade_amounts mkt r), mv_quoteVolume := mv_quoteVolume v + snd (trade_amounts mkt r)\<rparr>
      else v)"
    using calculation(1) by (auto simp: add_volume_def isInTimeRange_covers split: if_splits prod.splits)
  ultimately show ?case by (auto simp: algebra_simps)
qed simp

lemma add_volume_nil: "rmap (add_volume mkt ts None) vs = Inr vs' \<Longrightarrow> filter (covers (time_Unix ts)) vs = []"
  by (induction vs arbitrary: vs') (auto simp: rbind_eq_Inr add_volume_def isInTimeRange_covers split: if_splits)

lemma report_loop_totals:
  assumes "report_loop P mkt a b ts (fees, vs) = Inr (fees', vs')"
    and "\<And>t. isInTimeRange t a b \<Longrightarrow> length (filter (covers (time_Unix t)) vs) = 1"
  shows "let inside = filter (\<lambda>t. isInTimeRange (request_time t) a b) ts in
      base_total vs' = base_total vs + sum_list (map (\<lambda>t. fst (trade_volume P mkt t)) inside)
    \<and> quote_total vs' = quote_total vs + sum_list (map (\<lambda>t. snd (trade_volume P mkt t)) inside)
    \<and> map tf_Trade fees' = map tf_Trade fees @ inside"
  using assms
proof (induction ts arbitrary: fees vs)
  case (Cons t ts)
  from Cons.prems(1) obtain s where s: "trd_SwapRequest t = Some s" by (auto split: option.splits)
  then have rt: "request_time t = swap_Timestamp s" by (simp add: request_time_def)
  show ?case
  proof (cases "isInTimeRange (swap_Timestamp s) a b")
    case True
    with Cons.prems(1) s obtain q ws f where q: "SwapRequestMessage P t = Inr q"
      "rmap (add_volume mkt (swap_Timestamp s) q) vs = Inr ws" "report_loop P mkt a b ts (fees @ [f], ws) = Inr (fees', vs')"
      "tf_Trade f = t"
      by (auto simp: rbind_eq_Inr Let_def)
    have one: "length (filter (covers (time_Unix (swap_Timestamp s))) vs) = 1" by (rule Cons.prems(2) [OF True])
    with q(2) obtain r where r: "q = Some r" by (cases q) (auto dest: add_volume_nil)
    with add_volume_totals [of mkt "swap_Timestamp s" r vs ws] q(2) one
    have w: "bounds ws = bounds vs" "base_total ws = base_total vs + fst (trade_volume P mkt t)"
      "quote_total ws = quote_total vs + snd (trade_volume P mkt t)"
      by (simp_all add: trade_volume_def q(1))
    have "length (filter (covers (time_Unix t')) ws) = 1" if "isInTimeRange t' a b" for t'
      using covers_count [OF w(1)] Cons.prems(2) [OF that] by simp
    from Cons.IH [OF q(3) this] True rt w(2,3) q(4) show ?thesis by (simp add: Let_def add.assoc)
  next
    case False
    with Cons s rt show ?thesis by (simp add: Let_def)
  qed
qed simp

abbreviation on_base :: "Trade \<Rightarrow> bool" where
  "on_base t \<equiv> trd_FeeAsset t = trd_MarketBaseAsset t"

lemma fee_totals_sum:
  "fee_totals fs = (sum_list (map trd_FeeAmount (filter on_base (map tf_Trade fs))),
     sum_list (map trd_FeeAmount (filter (\<lambda>t. \<not> on_base t) (map tf_Trade fs))))"
proof -
  have "fold (\<lambda>v (x, y). if on_base (tf_Trade v) then (x + trd_FeeAmount (tf_Trade v), y) else (x, y + trd_FeeAmount (tf_Trade v))) fs (m, n)
    = (m + sum_list (map trd_FeeAmount (filter on_base (map tf_Trade fs))),
       n + sum_list (map trd_FeeAmount (filter (\<lambda>t. \<not> on_base t) (map tf_Trade fs))))" for m n
    by (induction fs arbitrary: m n) (auto simp: algebra_simps)
  from this [of 0 0] show ?thesis by (simp add: fee_totals_def)
qed

lemma sum_list_sorted: "sum_list (map f (filter Q (sort_newest g xs))) = (sum_list (map f (filter Q xs)) :: 'b :: comm_monoid_add)"
proof -
  have "mset (map f (filter Q (sort_newest g xs))) = mset (map f (filter Q xs))" by (simp add: mset_filter)
  then show ?thesis by (metis sum_mset_sum_list)
qed

section \<open>Properties\<close>

text \<open>
  A report is always returned, an error included, when the frame asked for is not negative: the loop
  that divides the period ends, because a frame that is accepted is at least an hour and no
  longer than the period, so its length does not overflow.
\<close>

lemma GetMarketReport_returns:
  assumes "0 \<le> timeFrame"
  shows "GetMarketReport R T P loc now baseAsset quoteAsset timeRange timeFrame ms tst \<noteq> None"
proof -
  have "splitTimeRange a b frame \<noteq> None" if "frame_ok frame" for a b frame
    using split_loop_spec [OF that, of a b "[]"] by (auto simp: splitTimeRange_def)
  moreover have "frame_ok timeFrame" if "timeFrame \<noteq> 0" "\<not> whole_hours (time_Sub b a) < timeFrame" for a b
    using that assms whole_hours_bound [of b a] by (simp add: frame_ok_def)
  ultimately show ?thesis
    using default_frame_ok by (auto simp: GetMarketReport_def Let_def split: sum.splits prod.splits option.splits)
qed


section \<open>Examples\<close>

text \<open>One settled trade, requested at 900 seconds, in a period given by its dates.\<close>

definition ex_settled_trade :: Trade where
  "ex_settled_trade = ex_settled\<lparr>trd_Id := ''id'', trd_SwapRequest := Some \<lparr>swap_Id = ''req'', swap_Message = [1], swap_Timestamp = 900\<rparr>\<rparr>"

definition ex_trade_store :: tradeInmemoryStore where
  "ex_trade_store = \<lparr>trades = [(''id'', ex_settled_trade)], tradesBySwapAcceptId = [],
     tradesByMarket = map (\<lambda>(n, _). (n, [''id''])) (markets ex_store)\<rparr>"

definition ex_dates :: TimeRange where
  "ex_dates = \<lparr>tr_PredefinedPeriod = PeriodUnspecified, tr_CustomPeriod = Some (''1970-01-01T00:00:00Z'', ''1970-01-01T05:00:00Z'')\<rparr>"

definition ex_report :: "TimeRange \<Rightarrow> time \<Rightarrow> int \<Rightarrow> marketReportInfo res option" where
  "ex_report tr now frame = GetMarketReport (inmemory_market_repo fixdec (\<lambda>s. [1]) (\<lambda>m. m)) (inmemory_trade_repo (\<lambda>m. m))
     (ex_parser\<lparr>DeserializeRequest := (\<lambda>_ _ _. Some ex_request)\<rparr>) UTC now ex_base ex_quote tr frame ex_store ex_trade_store"


text \<open>
  A period that ends within a second, as one that ends now does, has a gap of a second between
  frames: a trade requested in it is among the fees of the report and in no volume.
\<close>

lemma report_gap:
  "case ex_report \<lparr>tr_PredefinedPeriod = LastDay, tr_CustomPeriod = None\<rparr> (899 * second + 10 * hour + 500000000) 1 of
     Some (Inr rep) \<Rightarrow> mv_baseVolume (rep_totVolume rep) = 0 \<and> fr_totQuoteFee (rep_fees rep) \<noteq> 0 | _ \<Rightarrow> False"
  by code_simp

text \<open>A frame of a negative number of hours moves the end of the period away: the loop does not end.\<close>

lemma negative_frame_diverges:
  assumes "frame < 0" "- hour * frame < 2 ^ 63" "start < stop"
  shows "split_loop start frame stop acc = None"
proof -
  have w: "wrap64 (- hour * frame) = - hour * frame" "0 < - hour * frame"
    using assms(1,2) by (simp_all add: wrap64_id hour_def)
  have "f = frame \<longrightarrow> start < stop \<longrightarrow> False" if "split_loop start f stop acc = Some vs" for f vs
    using that
  proof (rule split_loop.raw_induct [rotated])
    fix loop start f stop acc vs
    assume IH: "\<And>start f stop acc vs. loop start f stop acc = Some vs \<Longrightarrow> f = frame \<longrightarrow> start < stop \<longrightarrow> False"
      and body: "(if stop = start \<or> stop < start then Some acc
        else let nextEnd = stop + wrap64 (- hour * f); nextStart = if 0 < time_Sub nextEnd start then nextEnd + second else start
          in loop start f nextEnd (acc @ [\<lparr>mv_start = nextStart, mv_end = stop, mv_baseVolume = 0, mv_quoteVolume = 0\<rparr>])) = Some vs"
    show "f = frame \<longrightarrow> start < stop \<longrightarrow> False"
      using body w by (auto simp: Let_def dest!: IH)
  qed
  then show ?thesis using assms(3) by (cases "split_loop start frame stop acc") auto
qed

end
