(* ===== verification/Handler_Utils.thy ===== *)
theory Handler_Utils
  imports Reports Errors Market Wallet
begin

text \<open>
  \<open>internal/interfaces/grpc/handler/utils.go\<close>: the checks on the fields of a request. A protobuf
  message is a record, a nil message \<open>None\<close>, an enum its number (a client may send any). A
  \<open>float64\<close> is given by the shortest decimal literal that denotes it. \<open>address.ParseScript\<close> and
  \<open>btcec.ParsePubKey\<close> are third-party: \<open>libs\<close> says what they accept.
\<close>

section \<open>Messages\<close>

datatype float64 = Finite int int | PosInf | NegInf | NaN

record pb_Market =
  pbm_BaseAsset :: string
  pbm_QuoteAsset :: string

record pb_MarketFee =
  pbf_BaseAsset :: i64
  pbf_QuoteAsset :: i64

record pb_Price =
  pbp_BasePrice :: float64
  pbp_QuotePrice :: float64

record pb_Page =
  pbg_Number :: i64
  pbg_Size :: i64

record pb_TimeRange =
  pbt_PredefinedPeriod :: int
  pbt_CustomPeriod :: "(string \<times> string) option"

record pb_SwapRequest =
  pbs_Id :: string
  pbs_AssetP :: string
  pbs_AssetR :: string
  pbs_AmountP :: u64
  pbs_AmountR :: u64
  pbs_Transaction :: string
  pbs_UnblindedInputs :: "UnblindedInput list"

record pb_AddWebhookRequest =
  pbw_Event :: int
  pbw_Endpoint :: string
  pbw_Secret :: string

record libs =
  ParseScript_ok :: "bytes \<Rightarrow> bool"
  ParsePubKey_ok :: "bytes \<Rightarrow> bool"

section \<open>Validity\<close>

definition isValidPassword :: "string \<Rightarrow> bool" where
  "isValidPassword pwd \<longleftrightarrow> length pwd \<ge> 8"

definition pb_isValidAsset :: "string \<Rightarrow> bool" where
  "pb_isValidAsset asset = (case hex_DecodeString asset of (b, ok) \<Rightarrow> ok \<and> length b = 32)"

fun isValidPrice :: "float64 \<Rightarrow> bool" where
  "isValidPrice (Finite m e) = (m > 0)"
| "isValidPrice PosInf = True"
| "isValidPrice NegInf = False"
| "isValidPrice NaN = False"

definition isValidScript :: "libs \<Rightarrow> string \<Rightarrow> bool" where
  "isValidScript L script = (if length script \<le> 0 then True
     else case hex_DecodeString script of (buf, ok) \<Rightarrow> ok \<and> ParseScript_ok L buf)"

definition isValidBlindKey :: "libs \<Rightarrow> string \<Rightarrow> bool" where
  "isValidBlindKey L blindKey = (if length blindKey \<le> 0 then True
     else case hex_DecodeString blindKey of (buf, ok) \<Rightarrow> ok \<and> ParsePubKey_ok L buf)"

definition isValidAmount :: "u64 \<Rightarrow> bool" where
  "isValidAmount amount \<longleftrightarrow> int64 amount \<ge> 0"

definition isValidAccount :: "string \<Rightarrow> bool" where
  "isValidAccount account \<longleftrightarrow> length account > 0"

definition isValidTransaction :: "elements \<Rightarrow> string \<Rightarrow> bool" where
  "isValidTransaction E tx \<longleftrightarrow> NewPsetFromBase64 E tx \<noteq> None"

definition isValidIndex :: "u32 \<Rightarrow> bool" where
  "isValidIndex index \<longleftrightarrow> uint index \<ge> 0"

definition isValidUnblindedInputList :: "UnblindedInput list \<Rightarrow> bool" where
  "isValidUnblindedInputList = list_all (\<lambda>i. \<not> (\<not> isValidIndex (ui_Index i) \<or> \<not> pb_isValidAsset (ui_Asset i)
     \<or> \<not> isValidAmount (ui_Amount i) \<or> \<not> pb_isValidAsset (ui_AssetBlinder i) \<or> \<not> pb_isValidAsset (ui_AmountBlinder i)))"

section \<open>Parsing\<close>

abbreviation bad :: "string \<Rightarrow> 'a res" where
  "bad msg \<equiv> Inl (Errorf msg [])"

definition parsePassword :: "string \<Rightarrow> string res" where
  "parsePassword pwd = (if length pwd \<le> 0 then bad ''missing password''
     else if \<not> isValidPassword pwd then bad ''invalid password'' else Inr pwd)"

definition parseMarket :: "pb_Market option \<Rightarrow> (string \<times> string) res" where
  "parseMarket market = (case market of
     None \<Rightarrow> bad ''missing market''
   | Some m \<Rightarrow> if \<not> pb_isValidAsset (pbm_BaseAsset m) then bad ''invalid base asset''
       else if \<not> pb_isValidAsset (pbm_QuoteAsset m) then bad ''invalid quote asset''
       else Inr (pbm_BaseAsset m, pbm_QuoteAsset m))"

definition parseMarketFee :: "pb_MarketFee option \<Rightarrow> (i64 \<times> i64) res" where
  "parseMarketFee fee = (case fee of
     None \<Rightarrow> Inr (0, 0)
   | Some fee \<Rightarrow> let baseFee = pbf_BaseAsset fee; quoteFee = pbf_QuoteAsset fee in
       if baseFee < - 1 then bad ''invalid market base fee value''
       else if quoteFee < - 1 then bad ''invalid market quote fee value''
       else if baseFee = - 1 \<and> baseFee = quoteFee then bad ''invalid market base and quote fee values''
       else Inr (baseFee, quoteFee))"

definition parseStrategy :: "int \<Rightarrow> int res" where
  "parseStrategy strategyType =
     (if strategyType = 2 then Inr StrategyTypeBalanced
      else if strategyType = 1 then Inr StrategyTypePluggable
      else if strategyType = 0 then Inr StrategyTypeUndefined
      else bad ''unknown strategy type'')"

definition parseStrategySafe :: "int \<Rightarrow> int res" where
  "parseStrategySafe strategyType = rbind (parseStrategy strategyType) (\<lambda>strategy.
     if strategy = StrategyTypeUndefined then bad ''invalid strategy type'' else Inr strategy)"

definition parsePrecision :: "u32 \<Rightarrow> u64 res" where
  "parsePrecision precision = (if precision > 8 then bad ''asset precision must be in range [0, 8]'' else Inr (ucast precision))"

text \<open>\<open>decimal.NewFromFloat\<close> panics on what is not a number.\<close>

fun NewFromFloat :: "'d decimal_ops \<Rightarrow> float64 \<Rightarrow> 'd res" where
  "NewFromFloat D (Finite m e) = Inr (d_NewFromFloat D m e)"
| "NewFromFloat D _ = Inl (Panic ''Cannot create a Decimal from Inf or NaN'')"

definition parsePrice :: "'d decimal_ops \<Rightarrow> pb_Price option \<Rightarrow> ('d \<times> 'd) res" where
  "parsePrice D price = (case price of
     None \<Rightarrow> bad ''missing market price''
   | Some price \<Rightarrow>
       if \<not> isValidPrice (pbp_BasePrice price) then bad ''invalid base price''
       else if \<not> isValidPrice (pbp_QuotePrice price) then bad ''invalid base price''
       else rbind (NewFromFloat D (pbp_BasePrice price)) (\<lambda>basePrice.
            rbind (NewFromFloat D (pbp_QuotePrice price)) (\<lambda>quotePrice. Inr (basePrice, quotePrice))))"

fun parse_outputs_from :: "libs \<Rightarrow> nat \<Rightarrow> TxOutput list \<Rightarrow> TxOutput list res" where
  "parse_outputs_from L i [] = Inr []"
| "parse_outputs_from L i (o' # outs) =
     (if \<not> pb_isValidAsset (to_Asset o') then Inl (Errorf ''invalid asset for output %d'' [itoa (int i)])
      else if \<not> isValidScript L (to_Script o') then Inl (Errorf ''invalid address for output %d'' [itoa (int i)])
      else if \<not> isValidBlindKey L (to_BlindingKey o') then Inl (Errorf ''invalid address for output %d'' [itoa (int i)])
      else if \<not> isValidAmount (to_Amount o') then Inl (Errorf ''invalid amount for outut %d'' [itoa (int i)])
      else rbind (parse_outputs_from L (Suc i) outs) (\<lambda>list. Inr (o' # list)))"

definition parseOutputs :: "libs \<Rightarrow> TxOutput list \<Rightarrow> TxOutput list res" where
  "parseOutputs L outs = parse_outputs_from L 0 outs"

definition parseAccountName :: "string \<Rightarrow> string res" where
  "parseAccountName account = (if \<not> isValidAccount account then bad ''missing account name'' else Inr account)"

text \<open>With the fee, the request as the trade service takes it (\<open>swapRequestInfo\<close> of \<open>types.go\<close>).\<close>

definition parseSwapRequest :: "elements \<Rightarrow> pb_SwapRequest option \<Rightarrow> string \<Rightarrow> u64 \<Rightarrow> SwapRequest res" where
  "parseSwapRequest E sr feeAsset feeAmount = (case sr of
     None \<Rightarrow> bad ''missing swap request''
   | Some sr \<Rightarrow>
       if \<not> isValidAmount (pbs_AmountP sr) then bad ''invalid swap request amount proposed''
       else if \<not> pb_isValidAsset (pbs_AssetP sr) then bad ''invalid swap request asset proposed''
       else if \<not> isValidAmount (pbs_AmountR sr) then bad ''invalid swap request amount received''
       else if \<not> pb_isValidAsset (pbs_AssetR sr) then bad ''invalid swap request asset received''
       else if \<not> isValidTransaction E (pbs_Transaction sr) then bad ''invalid swap request transaction''
       else if \<not> isValidUnblindedInputList (pbs_UnblindedInputs sr) then bad ''invalid unblinded input(s)''
       else if \<not> pb_isValidAsset feeAsset then bad ''invalid fee asset''
       else if \<not> isValidAmount feeAmount then bad ''invalid fee amount''
       else Inr \<lparr>sr_Id = pbs_Id sr, sr_AssetP = pbs_AssetP sr, sr_AssetR = pbs_AssetR sr, sr_AmountP = pbs_AmountP sr,
         sr_AmountR = pbs_AmountR sr, sr_Transaction = pbs_Transaction sr, sr_FeeAsset = feeAsset, sr_FeeAmount = feeAmount,
         sr_UnblindedInputs = pbs_UnblindedInputs sr\<rparr>)"

text \<open>Whether the type is a purchase (\<open>TRADE_TYPE_BUY\<close> is 0): what \<open>IsBuy\<close> of the result answers, \<open>IsSell\<close> being its negation.\<close>

definition parseTradeType :: "int \<Rightarrow> bool res" where
  "parseTradeType tradeType = (if tradeType \<noteq> 0 \<and> tradeType \<noteq> 1 then bad ''unknown trade type'' else Inr (tradeType = 0))"

definition parseAmount :: "u64 \<Rightarrow> u64 res" where
  "parseAmount amount = (if \<not> isValidAmount amount then bad ''invalid amount'' else Inr amount)"

definition parseAsset :: "string \<Rightarrow> string res" where
  "parseAsset asset = (if length asset \<le> 0 then bad ''missing asset''
     else if \<not> pb_isValidAsset asset then bad ''invalid asset'' else Inr asset)"

definition parseNumOfAddresses :: "i64 \<Rightarrow> int res" where
  "parseNumOfAddresses num = (if num < 0 then bad ''invalid number of derived addresses'' else if num = 0 then Inr 1 else Inr num)"

definition parseMaxFragments :: "u32 \<Rightarrow> u32 res" where
  "parseMaxFragments num = (if uint num < 0 then bad ''invalid max number of fragments'' else Inr num)"

definition parseMillisatsPerByte :: "u64 \<Rightarrow> u64 res" where
  "parseMillisatsPerByte msatsPerByte = (if int64 msatsPerByte < 0 then bad ''invalid mSats/vByte value'' else Inr msatsPerByte)"

definition parseMnemonic :: "string list \<Rightarrow> string list res" where
  "parseMnemonic mnemonic = (if length mnemonic \<le> 0 then bad ''missing mnemonic'' else Inr mnemonic)"

text \<open>The accessors of \<open>pageInfo\<close> read a number or size that is not positive as 1.\<close>

definition pageInfo :: "pb_Page \<Rightarrow> page" where
  "pageInfo p = \<lparr>page_number = (if pbg_Number p \<le> 0 then 1 else pbg_Number p),
     page_size = (if pbg_Size p \<le> 0 then 1 else pbg_Size p)\<rparr>"

definition parsePage :: "pb_Page option \<Rightarrow> page option res" where
  "parsePage page = (case page of
     None \<Rightarrow> Inr None
   | Some p \<Rightarrow> if pbg_Number p < 0 then bad ''invalid page number''
       else if pbg_Size p \<le> 0 then bad ''invalid page size'' else Inr (Some (pageInfo p)))"

text \<open>The numbers of the events that have a name.\<close>

definition parseWebhookEvent :: "int \<Rightarrow> int res" where
  "parseWebhookEvent event = (if event < 0 \<or> event > 5 then bad ''invalid event'' else Inr event)"

definition parseWebhook :: "pb_AddWebhookRequest \<Rightarrow> pb_AddWebhookRequest res" where
  "parseWebhook hook = rbind (parseWebhookEvent (pbw_Event hook)) (\<lambda>_.
     if pbw_Event hook = 0 then bad ''invalid event''
     else if length (pbw_Endpoint hook) \<le> 0 then bad ''missing webhook endpoint''
     else Inr hook)"

definition parseId :: "string \<Rightarrow> string res" where
  "parseId i = (if length i \<le> 0 then bad ''missing id'' else Inr i)"

definition predefinedPeriodInfo :: "int \<Rightarrow> PredefinedPeriod" where
  "predefinedPeriodInfo pp = (if pp = 1 then LastHour else if pp = 2 then LastDay else if pp = 3 then LastWeek
     else if pp = 4 then LastMonth else if pp = 5 then LastThreeMonths else if pp = 6 then YearToDate
     else if pp = 7 then LastYear else if pp = 8 then AllTime else PeriodUnspecified)"

definition timeRangeInfo :: "pb_TimeRange \<Rightarrow> TimeRange" where
  "timeRangeInfo tr = \<lparr>tr_PredefinedPeriod = predefinedPeriodInfo (pbt_PredefinedPeriod tr), tr_CustomPeriod = pbt_CustomPeriod tr\<rparr>"

definition parseTimeRange :: "pb_TimeRange option \<Rightarrow> TimeRange res" where
  "parseTimeRange timeRange =
     (let tr = (case timeRange of Some tr \<Rightarrow> tr | None \<Rightarrow> \<lparr>pbt_PredefinedPeriod = 0, pbt_CustomPeriod = None\<rparr>);
          pp = pbt_PredefinedPeriod tr; cp = pbt_CustomPeriod tr
      in if pp = 0 \<and> cp = None then bad ''missing predefined or custom period''
         else if pp < 0 \<or> pp > 8 then bad ''unknown predefined period''
         else case cp of
           None \<Rightarrow> Inr (timeRangeInfo tr)
         | Some (startDate, endDate) \<Rightarrow>
             if startDate = '''' \<and> endDate = '''' then bad ''missing custom start and end dates''
             else case parse_date startDate of
               Inl e \<Rightarrow> Inl (wrap_err ''invalid custom start date: %s'' [] e)
             | Inr sd \<Rightarrow> (case parse_date endDate of
                 Inl e \<Rightarrow> Inl (wrap_err ''invalid custom end date: %s'' [] e)
               | Inr ed \<Rightarrow> if ed = sd \<or> ed < sd then bad ''invalid custom period: end date is equal or before start date''
                   else Inr (timeRangeInfo tr)))"

definition parseTimeFrame :: "int \<Rightarrow> int res" where
  "parseTimeFrame timeFrame =
     (if timeFrame = 0 then Inr 0 else if timeFrame = 1 then Inr 1 else if timeFrame = 2 then Inr 4
      else if timeFrame = 3 then Inr 24 else if timeFrame = 4 then Inr (24 * 7) else if timeFrame = 5 then Inr (24 * 30)
      else bad ''unknown time frame'')"

definition timestampToString :: "location \<Rightarrow> i64 \<Rightarrow> string" where
  "timestampToString loc timestamp = (if timestamp = 0 then '''' else Format_RFC3339 loc (time_Unix timestamp))"

section \<open>Lemmas\<close>

text \<open>The check on assets is the one of the domain.\<close>

lemma pb_isValidAsset_domain: "pb_isValidAsset = isValidAsset"
  by (simp add: fun_eq_iff pb_isValidAsset_def isValidAsset_def)

lemma unat_ucast_u32: "unat (ucast (n :: u32) :: u64) = unat n"
  using unsigned_less [of n, where 'a = nat] by (simp add: unsigned_ucast_eq take_bit_nat_eq_self)

text \<open>Only valid fields get past the checks.\<close>

lemma parse_ok:
  "parseMarket pm = Inr (b, q) \<Longrightarrow> isValidAsset b \<and> isValidAsset q"
  "parsePassword p = Inr p' \<Longrightarrow> p' = p \<and> length p \<ge> 8"
  "parsePrecision n = Inr k \<Longrightarrow> unat k = unat n \<and> unat k \<le> 8"
  "parseNumOfAddresses num = Inr c \<Longrightarrow> c \<ge> 1"
  "parseTimeFrame tf = Inr h \<Longrightarrow> h \<ge> 0"
  by (auto simp: parseMarket_def parsePassword_def isValidPassword_def parsePrecision_def parseNumOfAddresses_def
      parseTimeFrame_def pb_isValidAsset_domain word_less_nat_alt unat_ucast_u32 split: option.splits if_splits)

context decimal_lib
begin

text \<open>A price that was parsed is positive.\<close>

lemma NewFromFloat_positive: "isValidPrice f \<Longrightarrow> NewFromFloat D f = Inr x \<Longrightarrow> d_GreaterThan D x (d_Zero D)"
  by (cases f) (auto simp: GreaterThan_val val_NewFromFloat)

lemma parsePrice_positive:
  "parsePrice D pr = Inr (bp, qp) \<Longrightarrow> d_GreaterThan D bp (d_Zero D) \<and> d_GreaterThan D qp (d_Zero D)"
  by (auto simp: parsePrice_def rbind_eq_Inr NewFromFloat_positive split: option.splits if_splits)

end

text \<open>The period of a request that was parsed has dates the service can read.\<close>

lemma parseTimeRange_dates:
  assumes "parseTimeRange tr = Inr r"
  shows "\<exists>start stop. timeRangeToDates loc now r = Inr (start, stop) \<and> (tr_CustomPeriod r \<noteq> None \<longrightarrow> start < stop)"
proof (cases "tr_CustomPeriod r")
  case None
  then show ?thesis by (auto simp: timeRangeToDates_def)
next
  case (Some cp)
  then obtain s e where cp: "tr_CustomPeriod r = Some (s, e)" by (cases cp) auto
  with assms obtain sd ed where "parse_date s = Inr sd" "parse_date e = Inr ed" "sd < ed"
    by (auto simp: parseTimeRange_def timeRangeInfo_def Let_def split: if_splits option.splits sum.splits)
  moreover have "e \<noteq> []" using \<open>parse_date e = Inr ed\<close> by (auto simp: parse_date_def Parse_RFC3339_def)
  ultimately show ?thesis using cp by (simp add: timeRangeToDates_def)
qed

end
