(* ===== verification/Handler_Types.thy ===== *)
theory Handler_Types
  imports Handler_Utils Deposit_Repo
begin

text \<open>
  \<open>internal/interfaces/grpc/handler/types.go\<close>: what the handlers answer, as protobuf messages, and the
  accessors of \<open>internal/core/application/operator/types.go\<close> they read. \<open>f64\<close> is the third-party
  \<open>Decimal.Float64\<close>, \<open>loc\<close> the local time zone. The bounds of a report are instants; their
  text, which depends on the zone of the request, is not modelled.
\<close>

section \<open>Messages\<close>

record pb_Fee =
  pb_PercentageFee :: pb_MarketFee
  pb_FixedFee :: pb_MarketFee

record pb_MarketInfo =
  pbi_Market :: pb_Market
  pbi_Tradable :: bool
  pbi_StrategyType :: int
  pbi_Name :: string
  pbi_Price :: pb_Price
  pbi_Balance :: "(string, Balance) gomap"
  pbi_BaseAssetPrecision :: u32
  pbi_QuoteAssetPrecision :: u32
  pbi_Fee :: pb_Fee

record pb_MarketVolume =
  pbv_BaseVolume :: u64
  pbv_QuoteVolume :: u64
  pbv_Start :: time
  pbv_End :: time

record pb_FeeInfo =
  pbfi_TradeId :: string
  pbfi_PercentageFee :: u64
  pbfi_FixedFee :: u64
  pbfi_Asset :: string
  pbfi_Amount :: u64
  pbfi_MarketPrice :: float64
  pbfi_RequestDate :: string

record pb_CollectedFees =
  pbc_BaseAmount :: u64
  pbc_QuoteAmount :: u64
  pbc_Start :: time
  pbc_End :: time
  pbc_FeesPerTrade :: "pb_FeeInfo list"

record pb_MarketReport =
  pbr_TotalCollectedFees :: pb_CollectedFees
  pbr_TotalVolume :: pb_MarketVolume
  pbr_VolumesPerFrame :: "pb_MarketVolume list"

record pb_SwapInfo =
  psi_AssetP :: string
  psi_AmountP :: u64
  psi_AssetR :: string
  psi_AmountR :: u64
  psi_FeeAsset :: string
  psi_FeeAmount :: u64

record pb_TradeInfo =
  pti_TradeId :: string
  pti_TradeType :: int
  pti_Status :: "int \<times> bool"
  pti_SwapInfo :: "pb_SwapInfo option"
  pti_FailInfo :: "(u32 \<times> string) option"
  pti_Market :: pb_Market
  pti_Fee :: pb_Fee
  pti_Price :: pb_Price
  pti_Timestamps :: "i64 list"
  pti_Dates :: "string list"
  pti_Txid :: string
  pti_TxHex :: string
  pti_FeeAsset :: string
  pti_FeeAmount :: u64

record pb_UtxoInfo =
  pu_Hash :: string
  pu_Index :: u32
  pu_Asset :: string
  pu_Value :: u64

record pb_Transaction =
  ptx_Txid :: string
  ptx_TotalAmountPerAsset :: "(string, u64) gomap"
  ptx_Timestamp :: i64
  ptx_Date :: string

record pb_AccountInfo =
  pa_Name :: string
  pa_DerivationPath :: string
  pa_Xpubs :: "string list"
  pa_MasterBlindingKey :: string

section \<open>Markets\<close>

definition market_toProto :: "string \<Rightarrow> string \<Rightarrow> pb_Market" where
  "market_toProto baseAsset quoteAsset = \<lparr>pbm_BaseAsset = baseAsset, pbm_QuoteAsset = quoteAsset\<rparr>"

definition marketFeeInfo_toProto :: "MarketFee \<Rightarrow> MarketFee \<Rightarrow> pb_Fee" where
  "marketFeeInfo_toProto percentageFee fixedFee =
     \<lparr>pb_PercentageFee = \<lparr>pbf_BaseAsset = int64 (mf_BaseAsset percentageFee), pbf_QuoteAsset = int64 (mf_QuoteAsset percentageFee)\<rparr>,
      pb_FixedFee = \<lparr>pbf_BaseAsset = int64 (mf_BaseAsset fixedFee), pbf_QuoteAsset = int64 (mf_QuoteAsset fixedFee)\<rparr>\<rparr>"

definition marketPriceInfo_toProto :: "'d decimal_ops \<Rightarrow> ('d \<Rightarrow> float64) \<Rightarrow> MarketPrice \<Rightarrow> pb_Price" where
  "marketPriceInfo_toProto D f64 info = \<lparr>pbp_BasePrice = f64 (GetBasePrice D info), pbp_QuotePrice = f64 (GetQuotePrice D info)\<rparr>"

definition marketBalanceInfo_toProto :: "Balance option \<Rightarrow> Balance" where
  "marketBalanceInfo_toProto info = (case info of
     None \<Rightarrow> \<lparr>bal_ConfirmedBalance = 0, bal_UnconfirmedBalance = 0, bal_LockedBalance = 0, bal_TotalBalance = 0\<rparr>
   | Some b \<Rightarrow> b)"

definition marketStrategyInfo_toProto :: "int \<Rightarrow> int" where
  "marketStrategyInfo_toProto s = (if s = StrategyTypeBalanced then 2 else if s = StrategyTypePluggable then 1 else 0)"

definition balances_toProto :: "(string, Balance) gomap \<Rightarrow> (string, Balance) gomap" where
  "balances_toProto info = map (\<lambda>(asset, bal). (asset, marketBalanceInfo_toProto (Some bal))) info"

definition marketInfo_toProto :: "'d decimal_ops \<Rightarrow> ('d \<Rightarrow> float64) \<Rightarrow> Market \<times> (string, Balance) gomap \<Rightarrow> pb_MarketInfo" where
  "marketInfo_toProto D f64 = (\<lambda>(m, balance). \<lparr>pbi_Market = market_toProto (mkt_BaseAsset m) (mkt_QuoteAsset m),
     pbi_Tradable = mkt_Tradable m, pbi_StrategyType = marketStrategyInfo_toProto (mkt_StrategyType m), pbi_Name = mkt_Name m,
     pbi_Price = marketPriceInfo_toProto D f64 (mkt_Price m), pbi_Balance = balances_toProto balance,
     pbi_BaseAssetPrecision = ucast (mkt_BaseAssetPrecision m), pbi_QuoteAssetPrecision = ucast (mkt_QuoteAssetPrecision m),
     pbi_Fee = marketFeeInfo_toProto (mkt_PercentageFee m) (mkt_FixedFee m)\<rparr>)"

section \<open>Reports\<close>

definition volumeInfo_toProto :: "marketVolumeInfo \<Rightarrow> pb_MarketVolume" where
  "volumeInfo_toProto info = \<lparr>pbv_BaseVolume = mv_baseVolume info, pbv_QuoteVolume = mv_quoteVolume info,
     pbv_Start = mv_start info, pbv_End = mv_end info\<rparr>"

definition tradeFeeInfo_GetPercentageFee :: "tradeFeeInfo \<Rightarrow> u64" where
  "tradeFeeInfo_GetPercentageFee i = (if trd_FeeAsset (tf_Trade i) = trd_MarketBaseAsset (tf_Trade i)
     then mf_BaseAsset (trd_MarketPercentageFee (tf_Trade i)) else mf_QuoteAsset (trd_MarketPercentageFee (tf_Trade i)))"

definition tradeFeeInfo_GetFixedFee :: "tradeFeeInfo \<Rightarrow> u64" where
  "tradeFeeInfo_GetFixedFee i = (if trd_FeeAsset (tf_Trade i) = trd_MarketBaseAsset (tf_Trade i)
     then mf_BaseAsset (trd_MarketFixedFee (tf_Trade i)) else mf_QuoteAsset (trd_MarketFixedFee (tf_Trade i)))"

definition feeInfo_toProto :: "'d decimal_ops \<Rightarrow> ('d \<Rightarrow> float64) \<Rightarrow> location \<Rightarrow> tradeFeeInfo \<Rightarrow> pb_FeeInfo res" where
  "feeInfo_toProto D f64 loc i = (case trd_SwapRequest (tf_Trade i) of
     None \<Rightarrow> Inl nil_deref
   | Some sr \<Rightarrow> Inr \<lparr>pbfi_TradeId = trd_Id (tf_Trade i), pbfi_PercentageFee = tradeFeeInfo_GetPercentageFee i,
       pbfi_FixedFee = tradeFeeInfo_GetFixedFee i, pbfi_Asset = trd_FeeAsset (tf_Trade i), pbfi_Amount = trd_FeeAmount (tf_Trade i),
       pbfi_MarketPrice = f64 (decimal_or_zero D (tf_marketPrice i)),
       pbfi_RequestDate = Format_RFC3339 loc (time_Unix (swap_Timestamp sr))\<rparr>)"

definition collectedFeesInfo_toProto :: "'d decimal_ops \<Rightarrow> ('d \<Rightarrow> float64) \<Rightarrow> location \<Rightarrow> marketFeeReportInfo \<Rightarrow> pb_CollectedFees res" where
  "collectedFeesInfo_toProto D f64 loc info = rbind (rmap (feeInfo_toProto D f64 loc) (fr_tradeFees info)) (\<lambda>feesPerTrade.
     Inr \<lparr>pbc_BaseAmount = fr_totBaseFee info, pbc_QuoteAmount = fr_totQuoteFee info, pbc_Start = fr_start info, pbc_End = fr_end info,
       pbc_FeesPerTrade = feesPerTrade\<rparr>)"

definition marketReportInfo_toProto :: "'d decimal_ops \<Rightarrow> ('d \<Rightarrow> float64) \<Rightarrow> location \<Rightarrow> marketReportInfo \<Rightarrow> pb_MarketReport res" where
  "marketReportInfo_toProto D f64 loc report = rbind (collectedFeesInfo_toProto D f64 loc (rep_fees report)) (\<lambda>fees.
     Inr \<lparr>pbr_TotalCollectedFees = fees, pbr_TotalVolume = volumeInfo_toProto (rep_totVolume report),
       pbr_VolumesPerFrame = map volumeInfo_toProto (rep_subVolumes report)\<rparr>)"

section \<open>Trades\<close>

definition tradeStatusInfo_toProto :: "TradeStatus \<Rightarrow> int \<times> bool" where
  "tradeStatusInfo_toProto s =
     (let status = 0;
          status = (if ts_Code s = TradeStatusCodeProposal then 1 else status);
          status = (if ts_Code s = TradeStatusCodeAccepted then 2 else status);
          status = (if ts_Code s = TradeStatusCodeCompleted then 3 else status);
          status = (if ts_Code s = TradeStatusCodeSettled then 4 else status);
          status = (if ts_Code s = TradeStatusCodeExpired then 5 else status)
      in (status, ts_Failed s))"

definition swapInfo_toProto :: "SwapRequest option \<Rightarrow> pb_SwapInfo option" where
  "swapInfo_toProto info = map_option (\<lambda>i. \<lparr>psi_AssetP = sr_AssetP i, psi_AmountP = sr_AmountP i, psi_AssetR = sr_AssetR i,
     psi_AmountR = sr_AmountR i, psi_FeeAsset = sr_FeeAsset i, psi_FeeAmount = sr_FeeAmount i\<rparr>) info"

definition failInfo_toProto :: "SwapFail option \<Rightarrow> (u32 \<times> string) option" where
  "failInfo_toProto info = map_option (\<lambda>i. (sf_FailureCode i, sf_FailureMessage i)) info"

text \<open>\<open>GetSwapInfo\<close> and \<open>GetSwapFailInfo\<close> read their message before they look whether there is one.\<close>

definition swap_timestamp :: "Swap option \<Rightarrow> i64" where
  "swap_timestamp s = (case s of None \<Rightarrow> 0 | Some s \<Rightarrow> swap_Timestamp s)"

definition tradeInfo_toProto :: "'d decimal_ops \<Rightarrow> ('d \<Rightarrow> float64) \<Rightarrow> location \<Rightarrow> SwapParser \<Rightarrow> bool \<Rightarrow> Trade \<Rightarrow> pb_TradeInfo res" where
  "tradeInfo_toProto D f64 loc P withHex t =
     rbind (SwapRequestMessage P t) (\<lambda>swap. rbind (SwapFailMessage P t) (\<lambda>fail.
     let stamps = [swap_timestamp (trd_SwapRequest t), swap_timestamp (trd_SwapAccept t), swap_timestamp (trd_SwapComplete t),
           trd_SettlementTime t, trd_ExpiryTime t]
     in Inr \<lparr>pti_TradeId = trd_Id t, pti_TradeType = (if trd_Type t = TradeSell then 1 else 0),
          pti_Status = tradeStatusInfo_toProto (trd_Status t), pti_SwapInfo = swapInfo_toProto swap, pti_FailInfo = failInfo_toProto fail,
          pti_Market = market_toProto (trd_MarketBaseAsset t) (trd_MarketQuoteAsset t),
          pti_Fee = marketFeeInfo_toProto (trd_MarketPercentageFee t) (trd_MarketFixedFee t),
          pti_Price = marketPriceInfo_toProto D f64 (trd_MarketPrice t), pti_Timestamps = stamps,
          pti_Dates = map (timestampToString loc) stamps, pti_Txid = trd_TxId t, pti_TxHex = (if withHex then trd_TxHex t else ''''),
          pti_FeeAsset = trd_FeeAsset t, pti_FeeAmount = trd_FeeAmount t\<rparr>))"

definition tradesInfo_toProto :: "'d decimal_ops \<Rightarrow> ('d \<Rightarrow> float64) \<Rightarrow> location \<Rightarrow> SwapParser \<Rightarrow> bool \<Rightarrow> Trade list \<Rightarrow> pb_TradeInfo list res" where
  "tradesInfo_toProto D f64 loc P withHex ts = rmap (tradeInfo_toProto D f64 loc P withHex) ts"

text \<open>The answers to a proposal, without the fields that the message does not have.\<close>

definition swapAcceptInfo_toProto :: "SwapAccept option \<Rightarrow> SwapAccept option" where
  "swapAcceptInfo_toProto info = map_option (\<lambda>i. i\<lparr>sa_UnblindedInputs := []\<rparr>) info"

definition swapFailInfo_toProto :: "SwapFail option \<Rightarrow> SwapFail option" where
  "swapFailInfo_toProto info = info"

section \<open>Coins, deposits and withdrawals, accounts\<close>

definition utxoInfo_toProto :: "WalletUtxo \<Rightarrow> pb_UtxoInfo" where
  "utxoInfo_toProto i = \<lparr>pu_Hash = wu_Txid i, pu_Index = wu_Index i, pu_Asset = wu_Asset i, pu_Value = wu_Value i\<rparr>"

definition utxosInfo_toProto :: "WalletUtxo list \<Rightarrow> pb_UtxoInfo list" where
  "utxosInfo_toProto = map utxoInfo_toProto"

definition depositsInfo_toProto :: "location \<Rightarrow> Deposit list \<Rightarrow> pb_Transaction list" where
  "depositsInfo_toProto loc = map (\<lambda>i. \<lparr>ptx_Txid = dep_TxID i, ptx_TotalAmountPerAsset = dep_TotAmountPerAsset i,
     ptx_Timestamp = dep_Timestamp i, ptx_Date = timestampToString loc (dep_Timestamp i)\<rparr>)"

definition withdrawalsInfo_toProto :: "location \<Rightarrow> Withdrawal list \<Rightarrow> pb_Transaction list" where
  "withdrawalsInfo_toProto loc = map (\<lambda>i. \<lparr>ptx_Txid = wd_TxID i, ptx_TotalAmountPerAsset = wd_TotAmountPerAsset i,
     ptx_Timestamp = wd_Timestamp i, ptx_Date = timestampToString loc (wd_Timestamp i)\<rparr>)"

definition accountsInfo_toProto :: "WalletAccount list \<Rightarrow> pb_AccountInfo list" where
  "accountsInfo_toProto = map (\<lambda>a. \<lparr>pa_Name = wa_Label a, pa_DerivationPath = wa_DerivationPath a, pa_Xpubs = wa_Xpubs a,
     pa_MasterBlindingKey = wa_MasterBlindingKey a\<rparr>)"

section \<open>Properties\<close>



end
