(* ===== verification/Operator_Handler.thy ===== *)
theory Operator_Handler
  imports Handler_Types Operator Fragmenters
begin

text \<open>
  \<open>internal/interfaces/grpc/handler/operator.go\<close>: the operator interface of the daemon. A handler
  checks the fields of the request, calls the service and converts the answer. A field that is
  refused gives \<open>InvalidArgument\<close>; an error of the service is passed on; a panic is one that the
  recovery interceptor catches. \<open>ord\<close>s are visiting orders of maps, \<open>now\<close> is the clock. A stream
  takes every message sent to it.
\<close>

section \<open>Handlers\<close>

datatype rpc_error = InvalidArgument string | Internal string | ServiceError error

type_synonym ('s, 'a) rpc = "'s \<Rightarrow> 's \<times> (rpc_error + 'a)"

definition checked :: "'a res \<Rightarrow> ('a \<Rightarrow> ('s, 'b) rpc) \<Rightarrow> ('s, 'b) rpc" where
  "checked r k = (\<lambda>st. case r of
     Inl e \<Rightarrow> (st, Inl (if is_panic e then ServiceError e else InvalidArgument (error_text e)))
   | Inr x \<Rightarrow> k x st)"

definition calling :: "('s, 'a) call \<Rightarrow> ('a \<Rightarrow> 'b) \<Rightarrow> ('s, 'b) rpc" where
  "calling c f = (\<lambda>st. case c st of (st, Inl e) \<Rightarrow> (st, Inl (ServiceError e)) | (st, Inr x) \<Rightarrow> (st, Inr (f x)))"

definition no_answer :: "'a \<Rightarrow> unit" where
  "no_answer _ = ()"

record ('d, 'm, 't, 'x, 'y, 'w) operatorHandler =
  oh_svc :: "('d, 'm, 't, 'x, 'y, 'w) operator"
  oh_libs :: libs
  oh_f64 :: "'d \<Rightarrow> float64"
  oh_loc :: location
  oh_P :: SwapParser

type_synonym ('m, 't, 'x, 'y, 'w, 'a) op_rpc = "(('m, 't, 'x, 'y, 'w) op_state, 'a) rpc"

section \<open>The fee account\<close>

definition deriveFeeAddresses :: "('d, 'm, 't, 'x, 'y, 'w) operatorHandler \<Rightarrow> i64 \<Rightarrow> ('m, 't, 'x, 'y, 'w, string list) op_rpc" where
  "deriveFeeAddresses h numOfAddresses = checked (parseNumOfAddresses numOfAddresses) (\<lambda>num.
     calling (op_DeriveFeeAddresses (oh_svc h) num) id)"

definition listFeeAddresses :: "('d, 'm, 't, 'x, 'y, 'w) operatorHandler \<Rightarrow> ('m, 't, 'x, 'y, 'w, string list) op_rpc" where
  "listFeeAddresses h = calling (op_ListFeeExternalAddresses (oh_svc h)) id"

definition getFeeBalance :: "('d, 'm, 't, 'x, 'y, 'w) operatorHandler \<Rightarrow> ('m, 't, 'x, 'y, 'w, Balance) op_rpc" where
  "getFeeBalance h = calling (op_GetFeeBalance (oh_svc h)) marketBalanceInfo_toProto"

text \<open>The fields of a withdrawal: outputs, fee rate, password.\<close>

definition checked_withdrawal :: "libs \<Rightarrow> TxOutput list \<Rightarrow> u64 \<Rightarrow> string \<Rightarrow> (TxOutput list \<Rightarrow> u64 \<Rightarrow> string \<Rightarrow> ('s, 'b) rpc) \<Rightarrow> ('s, 'b) rpc" where
  "checked_withdrawal L outs msats pwd k = checked (parseOutputs L outs) (\<lambda>outputs.
     checked (parseMillisatsPerByte msats) (\<lambda>msatsPerByte.
     checked (parsePassword pwd) (\<lambda>password. k outputs msatsPerByte password)))"

definition withdrawFee :: "('d, 'm, 't, 'x, 'y, 'w) operatorHandler \<Rightarrow> TxOutput list \<Rightarrow> u64 \<Rightarrow> string
    \<Rightarrow> ('m, 't, 'x, 'y, 'w, string) op_rpc" where
  "withdrawFee h outs msats pwd = checked_withdrawal (oh_libs h) outs msats pwd (\<lambda>outputs msatsPerByte password.
     calling (op_WithdrawFeeFunds (oh_svc h) password outputs msatsPerByte) id)"

section \<open>Market accounts\<close>

record pb_NewMarketRequest =
  nm_Market :: "pb_Market option"
  nm_Name :: string
  nm_PercentageFee :: "pb_MarketFee option"
  nm_FixedFee :: "pb_MarketFee option"
  nm_BaseAssetPrecision :: u32
  nm_QuoteAssetPrecision :: u32
  nm_StrategyType :: int

definition newMarket :: "('d, 'm, 't, 'x, 'y, 'w) operatorHandler \<Rightarrow> pb_NewMarketRequest \<Rightarrow> ('m, 't, 'x, 'y, 'w, unit) op_rpc" where
  "newMarket h req = checked (parseMarket (nm_Market req)) (\<lambda>(baseAsset, quoteAsset).
     checked (parseMarketFee (nm_PercentageFee req)) (\<lambda>(basePercentageFee, quotePercentageFee).
     checked (parseMarketFee (nm_FixedFee req)) (\<lambda>(baseFixedFee, quoteFixedFee).
     checked (parsePrecision (nm_BaseAssetPrecision req)) (\<lambda>basePrecision.
     checked (parsePrecision (nm_QuoteAssetPrecision req)) (\<lambda>quotePrecision.
     checked (parseStrategy (nm_StrategyType req)) (\<lambda>strategyType.
     calling (op_NewMarket (oh_svc h) baseAsset quoteAsset (nm_Name req) (uint64 basePercentageFee) (uint64 quotePercentageFee)
       (uint64 baseFixedFee) (uint64 quoteFixedFee) basePrecision quotePrecision (uint64 strategyType)) no_answer))))))"

definition getMarketInfo :: "('d, 'm, 't, 'x, 'y, 'w) operatorHandler \<Rightarrow> pb_Market option \<Rightarrow> ('m, 't, 'x, 'y, 'w, pb_MarketInfo) op_rpc" where
  "getMarketInfo h market = checked (parseMarket market) (\<lambda>(b, q).
     calling (op_GetMarketInfo (oh_svc h) b q) (marketInfo_toProto (os_D (oh_svc h)) (oh_f64 h)))"

definition deriveMarketAddresses :: "('d, 'm, 't, 'x, 'y, 'w) operatorHandler \<Rightarrow> pb_Market option \<Rightarrow> i64
    \<Rightarrow> ('m, 't, 'x, 'y, 'w, string list) op_rpc" where
  "deriveMarketAddresses h market numOfAddresses = checked (parseMarket market) (\<lambda>(b, q).
     calling (op_DeriveMarketAddresses (oh_svc h) b q numOfAddresses) id)"

definition listMarketAddresses :: "('d, 'm, 't, 'x, 'y, 'w) operatorHandler \<Rightarrow> pb_Market option
    \<Rightarrow> ('m, 't, 'x, 'y, 'w, string list) op_rpc" where
  "listMarketAddresses h market = checked (parseMarket market) (\<lambda>(b, q).
     calling (op_ListMarketExternalAddresses (oh_svc h) b q) id)"

definition openMarket :: "('d, 'm, 't, 'x, 'y, 'w) operatorHandler \<Rightarrow> pb_Market option \<Rightarrow> ('m, 't, 'x, 'y, 'w, unit) op_rpc" where
  "openMarket h market = checked (parseMarket market) (\<lambda>(b, q). calling (op_OpenMarket (oh_svc h) b q) id)"

definition closeMarket :: "('d, 'm, 't, 'x, 'y, 'w) operatorHandler \<Rightarrow> pb_Market option \<Rightarrow> ('m, 't, 'x, 'y, 'w, unit) op_rpc" where
  "closeMarket h market = checked (parseMarket market) (\<lambda>(b, q). calling (op_CloseMarket (oh_svc h) b q) id)"

definition dropMarket :: "('d, 'm, 't, 'x, 'y, 'w) operatorHandler \<Rightarrow> pb_Market option \<Rightarrow> ('m, 't, 'x, 'y, 'w, unit) op_rpc" where
  "dropMarket h market = checked (parseMarket market) (\<lambda>(b, q). calling (op_DropMarket (oh_svc h) b q) id)"

definition withdrawMarket :: "('d, 'm, 't, 'x, 'y, 'w) operatorHandler
    \<Rightarrow> ((string \<times> u64) list \<Rightarrow> (string \<times> u64) list) \<Rightarrow> ((string \<times> u64) list \<Rightarrow> (string \<times> u64) list)
    \<Rightarrow> pb_Market option \<Rightarrow> TxOutput list \<Rightarrow> u64 \<Rightarrow> string \<Rightarrow> ('m, 't, 'x, 'y, 'w, string) op_rpc" where
  "withdrawMarket h ord1 ord2 market outs msats pwd = checked (parseMarket market) (\<lambda>(b, q).
     checked_withdrawal (oh_libs h) outs msats pwd (\<lambda>outputs msatsPerByte password.
     calling (op_WithdrawMarketFunds (oh_svc h) ord1 ord2 password b q outputs msatsPerByte) id))"

text \<open>\<open>None\<close> when the report is never made.\<close>

definition getMarketReport :: "('d, 'm, 't, 'x, 'y, 'w) operatorHandler \<Rightarrow> time \<Rightarrow> pb_Market option \<Rightarrow> pb_TimeRange option \<Rightarrow> int
    \<Rightarrow> ('m, 't, 'x, 'y, 'w) op_state \<Rightarrow> (('m, 't, 'x, 'y, 'w) op_state \<times> (rpc_error + pb_MarketReport)) option" where
  "getMarketReport h now market timeRange timeFrame st =
     (let S = oh_svc h; fields = rbind (parseMarket market) (\<lambda>m. rbind (parseTimeRange timeRange) (\<lambda>tr.
            rbind (parseTimeFrame timeFrame) (\<lambda>tf. Inr (m, tr, tf))))
      in case fields of
        Inl e \<Rightarrow> Some (st, Inl (if is_panic e then ServiceError e else InvalidArgument (error_text e)))
      | Inr ((b, q), tr, tf) \<Rightarrow>
          map_option (\<lambda>report. calling (clift (rbind report (marketReportInfo_toProto (os_D S) (oh_f64 h) (oh_loc h)))) id st)
            (GetMarketReport (os_markets S) (os_trades S) (oh_P h) (oh_loc h) now b q tr tf (ost_markets st) (ost_trades st)))"

definition marketWithFee :: "Market \<Rightarrow> pb_Market \<times> pb_Fee" where
  "marketWithFee m = (market_toProto (mkt_BaseAsset m) (mkt_QuoteAsset m), marketFeeInfo_toProto (mkt_PercentageFee m) (mkt_FixedFee m))"

definition updateMarketPercentageFee :: "('d, 'm, 't, 'x, 'y, 'w) operatorHandler \<Rightarrow> pb_Market option \<Rightarrow> pb_MarketFee option
    \<Rightarrow> ('m, 't, 'x, 'y, 'w, pb_Market \<times> pb_Fee) op_rpc" where
  "updateMarketPercentageFee h market fee = checked (parseMarket market) (\<lambda>(b, q). checked (parseMarketFee fee) (\<lambda>(x, y).
     calling (op_UpdateMarketPercentageFee (oh_svc h) b q x y) marketWithFee))"

definition updateMarketFixedFee :: "('d, 'm, 't, 'x, 'y, 'w) operatorHandler \<Rightarrow> pb_Market option \<Rightarrow> pb_MarketFee option
    \<Rightarrow> ('m, 't, 'x, 'y, 'w, pb_Market \<times> pb_Fee) op_rpc" where
  "updateMarketFixedFee h market fee = checked (parseMarket market) (\<lambda>(b, q). checked (parseMarketFee fee) (\<lambda>(x, y).
     calling (op_UpdateMarketFixedFee (oh_svc h) b q x y) marketWithFee))"

definition updateMarketAssetsPrecision :: "('d, 'm, 't, 'x, 'y, 'w) operatorHandler \<Rightarrow> pb_Market option \<Rightarrow> int \<Rightarrow> int
    \<Rightarrow> ('m, 't, 'x, 'y, 'w, unit) op_rpc" where
  "updateMarketAssetsPrecision h market basePrecision quotePrecision = checked (parseMarket market) (\<lambda>(b, q).
     calling (op_UpdateMarketAssetsPrecision (oh_svc h) b q basePrecision quotePrecision) id)"

definition updateMarketPrice :: "('d, 'm, 't, 'x, 'y, 'w) operatorHandler \<Rightarrow> pb_Market option \<Rightarrow> pb_Price option
    \<Rightarrow> ('m, 't, 'x, 'y, 'w, unit) op_rpc" where
  "updateMarketPrice h market price = checked (parseMarket market) (\<lambda>(b, q). checked (parsePrice (os_D (oh_svc h)) price) (\<lambda>(x, y).
     calling (op_UpdateMarketPrice (oh_svc h) b q x y) id))"

definition updateMarketStrategy :: "('d, 'm, 't, 'x, 'y, 'w) operatorHandler \<Rightarrow> pb_Market option \<Rightarrow> int
    \<Rightarrow> ('m, 't, 'x, 'y, 'w, unit) op_rpc" where
  "updateMarketStrategy h market strategyType = checked (parseMarket market) (\<lambda>(b, q). checked (parseStrategySafe strategyType) (\<lambda>s.
     calling (op_UpdateMarketStrategy (oh_svc h) b q s) id))"

section \<open>Fragmenters\<close>

definition deriveFeeFragmenterAddresses :: "('d, 'm, 't, 'x, 'y, 'w) operatorHandler \<Rightarrow> i64 \<Rightarrow> ('m, 't, 'x, 'y, 'w, string list) op_rpc" where
  "deriveFeeFragmenterAddresses h numOfAddresses = checked (parseNumOfAddresses numOfAddresses) (\<lambda>num.
     calling (op_DeriveFeeFragmenterAddresses (oh_svc h) num) id)"

definition listFeeFragmenterAddresses :: "('d, 'm, 't, 'x, 'y, 'w) operatorHandler \<Rightarrow> ('m, 't, 'x, 'y, 'w, string list) op_rpc" where
  "listFeeFragmenterAddresses h = calling (op_ListFeeFragmenterExternalAddresses (oh_svc h)) id"

definition getFeeFragmenterBalance :: "('d, 'm, 't, 'x, 'y, 'w) operatorHandler \<Rightarrow> ('m, 't, 'x, 'y, 'w, (string, Balance) gomap) op_rpc" where
  "getFeeFragmenterBalance h = calling (op_GetFeeFragmenterBalance (oh_svc h)) balances_toProto"

text \<open>The loop over the replies: messages are sent on, the first error ends it.\<close>

fun relay :: "fragmenterReply list \<Rightarrow> string list \<times> error option" where
  "relay [] = ([], None)"
| "relay (ReplyError e # replies) = ([], Some e)"
| "relay (Message m # replies) = (case relay replies of (ms, e) \<Rightarrow> (m # ms, e))"

text \<open>The service runs in a goroutine of its own: a panic there is not caught by the interceptor.\<close>

definition streaming :: "('m, 't, 'x, 'y, 'w) op_state replying \<Rightarrow> ('m, 't, 'x, 'y, 'w, string list) op_rpc" where
  "streaming k = (\<lambda>st. case k st of (st, replies) \<Rightarrow> (case relay replies of
     (ms, None) \<Rightarrow> (st, Inr ms)
   | (ms, Some e) \<Rightarrow> (if is_panic e then st\<lparr>ost_crashed := True\<rparr> else st, Inl (ServiceError e))))"

definition feeFragmenterSplitFunds :: "('d, 'm, 't, 'x, 'y, 'w) operatorHandler \<Rightarrow> u32 \<Rightarrow> u64
    \<Rightarrow> ('m, 't, 'x, 'y, 'w, string list) op_rpc" where
  "feeFragmenterSplitFunds h maxFragments msats = checked (parseMaxFragments maxFragments) (\<lambda>maxFragments.
     checked (parseMillisatsPerByte msats) (\<lambda>msatsPerByte. streaming (FeeFragmenterSplitFunds (oh_svc h) maxFragments msatsPerByte)))"

definition withdrawFeeFragmenter :: "('d, 'm, 't, 'x, 'y, 'w) operatorHandler \<Rightarrow> TxOutput list \<Rightarrow> u64 \<Rightarrow> string
    \<Rightarrow> ('m, 't, 'x, 'y, 'w, string) op_rpc" where
  "withdrawFeeFragmenter h outs msats pwd = checked_withdrawal (oh_libs h) outs msats pwd (\<lambda>outputs msatsPerByte password.
     calling (op_WithdrawFeeFragmenterFunds (oh_svc h) password outputs msatsPerByte) id)"

definition deriveMarketFragmenterAddresses :: "('d, 'm, 't, 'x, 'y, 'w) operatorHandler \<Rightarrow> i64 \<Rightarrow> ('m, 't, 'x, 'y, 'w, string list) op_rpc" where
  "deriveMarketFragmenterAddresses h numOfAddresses = checked (parseNumOfAddresses numOfAddresses) (\<lambda>num.
     calling (op_DeriveMarketFragmenterAddresses (oh_svc h) num) id)"

definition listMarketFragmenterAddresses :: "('d, 'm, 't, 'x, 'y, 'w) operatorHandler \<Rightarrow> ('m, 't, 'x, 'y, 'w, string list) op_rpc" where
  "listMarketFragmenterAddresses h = calling (op_ListMarketFragmenterExternalAddresses (oh_svc h)) id"

definition getMarketFragmenterBalance :: "('d, 'm, 't, 'x, 'y, 'w) operatorHandler \<Rightarrow> ('m, 't, 'x, 'y, 'w, (string, Balance) gomap) op_rpc" where
  "getMarketFragmenterBalance h = calling (op_GetMarketFragmenterBalance (oh_svc h)) balances_toProto"

definition marketFragmenterSplitFunds :: "('d, 'm, 't, 'x, 'y, 'w) operatorHandler
    \<Rightarrow> ((nat, int \<times> int) gomap \<Rightarrow> (nat, int \<times> int) gomap) \<Rightarrow> ((nat, int \<times> int) gomap \<Rightarrow> (nat, int \<times> int) gomap)
    \<Rightarrow> ((string \<times> u64) list \<Rightarrow> (string \<times> u64) list) \<Rightarrow> ((string \<times> u64) list \<Rightarrow> (string \<times> u64) list)
    \<Rightarrow> pb_Market option \<Rightarrow> u64 \<Rightarrow> ('m, 't, 'x, 'y, 'w, string list) op_rpc" where
  "marketFragmenterSplitFunds h ord1 ord2 ord3 ord4 market msats = checked (parseMarket market) (\<lambda>(b, q).
     checked (parseMillisatsPerByte msats) (\<lambda>msatsPerByte.
     streaming (MarketFragmenterSplitFunds (oh_svc h) ord1 ord2 ord3 ord4 b q msatsPerByte)))"

definition withdrawMarketFragmenter :: "('d, 'm, 't, 'x, 'y, 'w) operatorHandler
    \<Rightarrow> ((string \<times> u64) list \<Rightarrow> (string \<times> u64) list) \<Rightarrow> ((string \<times> u64) list \<Rightarrow> (string \<times> u64) list)
    \<Rightarrow> TxOutput list \<Rightarrow> u64 \<Rightarrow> string \<Rightarrow> ('m, 't, 'x, 'y, 'w, string) op_rpc" where
  "withdrawMarketFragmenter h ord3 ord4 outs msats pwd = checked_withdrawal (oh_libs h) outs msats pwd (\<lambda>outputs msatsPerByte password.
     calling (op_WithdrawMarketFragmenterFunds (oh_svc h) ord3 ord4 password outputs msatsPerByte) id)"

section \<open>Listings\<close>

definition listTrades :: "('d, 'm, 't, 'x, 'y, 'w) operatorHandler \<Rightarrow> pb_Market option \<Rightarrow> pb_Page option \<Rightarrow> bool
    \<Rightarrow> ('m, 't, 'x, 'y, 'w, pb_TradeInfo list) op_rpc" where
  "listTrades h market p withHex = checked (parseMarket market) (\<lambda>m. checked (parsePage p) (\<lambda>p.
     calling (cbind (op_ListTradesForMarket (oh_svc h) (Some m) p)
       (\<lambda>ts. clift (tradesInfo_toProto (os_D (oh_svc h)) (oh_f64 h) (oh_loc h) (oh_P h) withHex ts))) id))"

definition listMarkets :: "('d, 'm, 't, 'x, 'y, 'w) operatorHandler \<Rightarrow> ('m, 't, 'x, 'y, 'w, pb_MarketInfo list) op_rpc" where
  "listMarkets h = calling (op_ListMarkets (oh_svc h)) (map (marketInfo_toProto (os_D (oh_svc h)) (oh_f64 h)))"

definition listUtxos :: "('d, 'm, 't, 'x, 'y, 'w) operatorHandler \<Rightarrow> string \<Rightarrow> pb_Page option
    \<Rightarrow> ('m, 't, 'x, 'y, 'w, pb_UtxoInfo list \<times> pb_UtxoInfo list) op_rpc" where
  "listUtxos h account p = checked (parseAccountName account) (\<lambda>accountName. checked (parsePage p) (\<lambda>_.
     calling (op_ListUtxos (oh_svc h) accountName) (\<lambda>(spendable, locked). (utxosInfo_toProto spendable, utxosInfo_toProto locked))))"

definition listDeposits :: "('d, 'm, 't, 'x, 'y, 'w) operatorHandler \<Rightarrow> string \<Rightarrow> pb_Page option
    \<Rightarrow> ('m, 't, 'x, 'y, 'w, string \<times> pb_Transaction list) op_rpc" where
  "listDeposits h account p = checked (parseAccountName account) (\<lambda>accountName. checked (parsePage p) (\<lambda>p.
     calling (op_ListDeposits (oh_svc h) accountName p) (\<lambda>deposits. (accountName, depositsInfo_toProto (oh_loc h) deposits))))"

definition listWithdrawals :: "('d, 'm, 't, 'x, 'y, 'w) operatorHandler \<Rightarrow> string \<Rightarrow> pb_Page option
    \<Rightarrow> ('m, 't, 'x, 'y, 'w, string \<times> pb_Transaction list) op_rpc" where
  "listWithdrawals h account p = checked (parseAccountName account) (\<lambda>accountName. checked (parsePage p) (\<lambda>p.
     calling (op_ListWithdrawals (oh_svc h) accountName p) (\<lambda>withdrawals. (accountName, withdrawalsInfo_toProto (oh_loc h) withdrawals))))"

end
