(* ===== verification/Operator_Handler_Props.thy ===== *)
theory Operator_Handler_Props
  imports Operator_Handler Operator_Props
begin

text \<open>
  The operator interface as a whole: every request gets an answer, one with a field that is refused
  changes nothing, and whatever requests come, in whatever order, the markets stay well formed.
\<close>

section \<open>Requests\<close>

datatype op_request =
    DeriveFeeAddressesReq i64 | ListFeeAddressesReq | GetFeeBalanceReq | WithdrawFeeReq "TxOutput list" u64 string
  | NewMarketReq pb_NewMarketRequest | GetMarketInfoReq "pb_Market option" | DeriveMarketAddressesReq "pb_Market option" i64
  | ListMarketAddressesReq "pb_Market option" | OpenMarketReq "pb_Market option" | CloseMarketReq "pb_Market option"
  | DropMarketReq "pb_Market option" | WithdrawMarketReq "pb_Market option" "TxOutput list" u64 string
  | GetMarketReportReq "pb_Market option" "pb_TimeRange option" int
  | UpdatePercentageFeeReq "pb_Market option" "pb_MarketFee option" | UpdateFixedFeeReq "pb_Market option" "pb_MarketFee option"
  | UpdatePrecisionReq "pb_Market option" int int | UpdatePriceReq "pb_Market option" "pb_Price option"
  | UpdateStrategyReq "pb_Market option" int
  | DeriveFeeFragmenterAddressesReq i64 | ListFeeFragmenterAddressesReq | GetFeeFragmenterBalanceReq
  | FeeFragmenterSplitFundsReq u32 u64 | WithdrawFeeFragmenterReq "TxOutput list" u64 string
  | DeriveMarketFragmenterAddressesReq i64 | ListMarketFragmenterAddressesReq | GetMarketFragmenterBalanceReq
  | MarketFragmenterSplitFundsReq "pb_Market option" u64 | WithdrawMarketFragmenterReq "TxOutput list" u64 string
  | ListTradesReq "pb_Market option" "pb_Page option" bool | ListMarketsReq | ListUtxosReq string "pb_Page option"
  | ListDepositsReq string "pb_Page option" | ListWithdrawalsReq string "pb_Page option"

text \<open>The state after a request and the error it is answered with, if any.\<close>

definition outcome :: "'s \<times> (rpc_error + 'a) \<Rightarrow> 's \<times> rpc_error option" where
  "outcome = (\<lambda>(st, r). (st, case r of Inl e \<Rightarrow> Some e | Inr _ \<Rightarrow> None))"

text \<open>The orders in which maps are visited while a request is served, and the time.\<close>

record circumstances =
  cir_now :: time
  cir_frag1 :: "(nat, int \<times> int) gomap \<Rightarrow> (nat, int \<times> int) gomap"
  cir_frag2 :: "(nat, int \<times> int) gomap \<Rightarrow> (nat, int \<times> int) gomap"
  cir_send1 :: "(string \<times> u64) list \<Rightarrow> (string \<times> u64) list"
  cir_send2 :: "(string \<times> u64) list \<Rightarrow> (string \<times> u64) list"

fun serve :: "('d, 'm, 't, 'x, 'y, 'w) operatorHandler \<Rightarrow> circumstances \<Rightarrow> op_request \<Rightarrow> ('m, 't, 'x, 'y, 'w) op_state
    \<Rightarrow> (('m, 't, 'x, 'y, 'w) op_state \<times> rpc_error option) option" where
  "serve h c (DeriveFeeAddressesReq n) st = Some (outcome (deriveFeeAddresses h n st))"
| "serve h c ListFeeAddressesReq st = Some (outcome (listFeeAddresses h st))"
| "serve h c GetFeeBalanceReq st = Some (outcome (getFeeBalance h st))"
| "serve h c (WithdrawFeeReq os' f pw) st = Some (outcome (withdrawFee h os' f pw st))"
| "serve h c (NewMarketReq r) st = Some (outcome (newMarket h r st))"
| "serve h c (GetMarketInfoReq m) st = Some (outcome (getMarketInfo h m st))"
| "serve h c (DeriveMarketAddressesReq m n) st = Some (outcome (deriveMarketAddresses h m n st))"
| "serve h c (ListMarketAddressesReq m) st = Some (outcome (listMarketAddresses h m st))"
| "serve h c (OpenMarketReq m) st = Some (outcome (openMarket h m st))"
| "serve h c (CloseMarketReq m) st = Some (outcome (closeMarket h m st))"
| "serve h c (DropMarketReq m) st = Some (outcome (dropMarket h m st))"
| "serve h c (WithdrawMarketReq m os' f pw) st = Some (outcome (withdrawMarket h (cir_send1 c) (cir_send2 c) m os' f pw st))"
| "serve h c (GetMarketReportReq m tr tf) st = map_option outcome (getMarketReport h (cir_now c) m tr tf st)"
| "serve h c (UpdatePercentageFeeReq m fee) st = Some (outcome (updateMarketPercentageFee h m fee st))"
| "serve h c (UpdateFixedFeeReq m fee) st = Some (outcome (updateMarketFixedFee h m fee st))"
| "serve h c (UpdatePrecisionReq m x y) st = Some (outcome (updateMarketAssetsPrecision h m x y st))"
| "serve h c (UpdatePriceReq m p) st = Some (outcome (updateMarketPrice h m p st))"
| "serve h c (UpdateStrategyReq m s) st = Some (outcome (updateMarketStrategy h m s st))"
| "serve h c (DeriveFeeFragmenterAddressesReq n) st = Some (outcome (deriveFeeFragmenterAddresses h n st))"
| "serve h c ListFeeFragmenterAddressesReq st = Some (outcome (listFeeFragmenterAddresses h st))"
| "serve h c GetFeeFragmenterBalanceReq st = Some (outcome (getFeeFragmenterBalance h st))"
| "serve h c (FeeFragmenterSplitFundsReq n f) st = Some (outcome (feeFragmenterSplitFunds h n f st))"
| "serve h c (WithdrawFeeFragmenterReq os' f pw) st = Some (outcome (withdrawFeeFragmenter h os' f pw st))"
| "serve h c (DeriveMarketFragmenterAddressesReq n) st = Some (outcome (deriveMarketFragmenterAddresses h n st))"
| "serve h c ListMarketFragmenterAddressesReq st = Some (outcome (listMarketFragmenterAddresses h st))"
| "serve h c GetMarketFragmenterBalanceReq st = Some (outcome (getMarketFragmenterBalance h st))"
| "serve h c (MarketFragmenterSplitFundsReq m f) st =
     Some (outcome (marketFragmenterSplitFunds h (cir_frag1 c) (cir_frag2 c) (cir_send1 c) (cir_send2 c) m f st))"
| "serve h c (WithdrawMarketFragmenterReq os' f pw) st =
     Some (outcome (withdrawMarketFragmenter h (cir_send1 c) (cir_send2 c) os' f pw st))"
| "serve h c (ListTradesReq m p b) st = Some (outcome (listTrades h m p b st))"
| "serve h c ListMarketsReq st = Some (outcome (listMarkets h st))"
| "serve h c (ListUtxosReq a p) st = Some (outcome (listUtxos h a p st))"
| "serve h c (ListDepositsReq a p) st = Some (outcome (listDeposits h a p st))"
| "serve h c (ListWithdrawalsReq a p) st = Some (outcome (listWithdrawals h a p st))"

section \<open>Requests that are refused\<close>

text \<open>A handler that refuses a field before it does anything.\<close>

definition refuses_first :: "('s, 'a) rpc \<Rightarrow> bool" where
  "refuses_first k \<longleftrightarrow> (\<forall>st st' m. k st = (st', Inl (InvalidArgument m)) \<longrightarrow> st' = st)"

named_theorems refuses_intros \<open>handlers that refuse a field before anything else\<close>

lemma refuses_checked [refuses_intros]: "(\<And>x. refuses_first (k x)) \<Longrightarrow> refuses_first (checked r k)"
  by (cases r) (auto simp: refuses_first_def checked_def)

lemma refuses_calling [refuses_intros]: "refuses_first (calling c f)"
  by (auto simp: refuses_first_def calling_def split: prod.splits sum.splits)

lemma refuses_streaming [refuses_intros]: "refuses_first (streaming k)"
  by (auto simp: refuses_first_def streaming_def split: prod.splits option.splits if_splits)

lemma refuses_prod [refuses_intros]: "(\<And>x y. refuses_first (f x y)) \<Longrightarrow> refuses_first (case p of (x, y) \<Rightarrow> f x y)"
  by (cases p) simp

lemma refuses_withdrawal [refuses_intros]: "(\<And>x y z. refuses_first (k x y z)) \<Longrightarrow> refuses_first (checked_withdrawal L os' f pw k)"
  unfolding checked_withdrawal_def by (intro refuses_intros)

lemma refuses_outcome: "refuses_first k \<Longrightarrow> outcome (k st) = (st', Some (InvalidArgument m)) \<Longrightarrow> st' = st"
  by (cases "k st") (auto simp: refuses_first_def outcome_def split: sum.splits)

lemmas handler_defs = deriveFeeAddresses_def listFeeAddresses_def getFeeBalance_def withdrawFee_def newMarket_def
  getMarketInfo_def deriveMarketAddresses_def listMarketAddresses_def openMarket_def closeMarket_def dropMarket_def
  withdrawMarket_def updateMarketPercentageFee_def updateMarketFixedFee_def updateMarketAssetsPrecision_def
  updateMarketPrice_def updateMarketStrategy_def deriveFeeFragmenterAddresses_def listFeeFragmenterAddresses_def
  getFeeFragmenterBalance_def feeFragmenterSplitFunds_def withdrawFeeFragmenter_def deriveMarketFragmenterAddresses_def
  listMarketFragmenterAddresses_def getMarketFragmenterBalance_def marketFragmenterSplitFunds_def
  withdrawMarketFragmenter_def listTrades_def listMarkets_def listUtxos_def listDeposits_def listWithdrawals_def

lemma refuses_handlers:
  "refuses_first (deriveFeeAddresses h n)" "refuses_first (listFeeAddresses h)" "refuses_first (getFeeBalance h)"
  "refuses_first (withdrawFee h os' f pw)" "refuses_first (newMarket h r)" "refuses_first (getMarketInfo h m)"
  "refuses_first (deriveMarketAddresses h m n)" "refuses_first (listMarketAddresses h m)" "refuses_first (openMarket h m)"
  "refuses_first (closeMarket h m)" "refuses_first (dropMarket h m)" "refuses_first (withdrawMarket h o1 o2 m os' f pw)"
  "refuses_first (updateMarketPercentageFee h m fee)" "refuses_first (updateMarketFixedFee h m fee)"
  "refuses_first (updateMarketAssetsPrecision h m x y)" "refuses_first (updateMarketPrice h m p)"
  "refuses_first (updateMarketStrategy h m s)" "refuses_first (deriveFeeFragmenterAddresses h n)"
  "refuses_first (listFeeFragmenterAddresses h)" "refuses_first (getFeeFragmenterBalance h)"
  "refuses_first (feeFragmenterSplitFunds h k f)" "refuses_first (withdrawFeeFragmenter h os' f pw)"
  "refuses_first (deriveMarketFragmenterAddresses h n)" "refuses_first (listMarketFragmenterAddresses h)"
  "refuses_first (getMarketFragmenterBalance h)" "refuses_first (marketFragmenterSplitFunds h o1' o2' o3 o4 m f)"
  "refuses_first (withdrawMarketFragmenter h o1 o2 os' f pw)" "refuses_first (listTrades h m pg b)"
  "refuses_first (listMarkets h)" "refuses_first (listUtxos h a pg)" "refuses_first (listDeposits h a pg)"
  "refuses_first (listWithdrawals h a pg)"
  unfolding handler_defs by (intro refuses_intros)+

lemma calling_clift_eq: "calling (clift r) f st = (st', x) \<longleftrightarrow> st' = st \<and> x = map_sum ServiceError f r"
  by (cases r) (auto simp: calling_def clift_def)

lemma report_reads:
  assumes "getMarketReport h now m tr tf st = Some (st', r)"
  shows "st' = st"
  using assms by (auto simp: getMarketReport_def Let_def calling_clift_eq split: sum.splits prod.splits)

section \<open>Calls that leave the markets alone\<close>

definition spares :: "(('m, 't, 'x, 'y, 'w) op_state \<Rightarrow> ('m, 't, 'x, 'y, 'w) op_state \<times> 'a) \<Rightarrow> bool" where
  "spares c \<longleftrightarrow> (\<forall>st. ost_markets (fst (c st)) = ost_markets st)"

named_theorems spares_intros \<open>calls that leave the markets as they are\<close>

lemma spares_basic [spares_intros]:
  "spares (on_wallet c)" "spares (cret x)" "spares (cfail e)" "spares (clift r)" "spares (find_market S b q)"
  "spares (add_account a)" "spares (reply_error e)" "spares finished"
  by (simp_all add: spares_def on_wallet_def cret_def cfail_def clift_def find_market_def add_account_def reply_error_def
      finished_def case_prod_unfold)

lemma spares_cbind [spares_intros]: "spares c \<Longrightarrow> (\<And>x. spares (f x)) \<Longrightarrow> spares (cbind c f)"
  by (auto simp: spares_def cbind_def split: prod.splits sum.splits) (metis fst_conv)+

lemma spares_cignore [spares_intros]: "spares c \<Longrightarrow> spares (cignore z c)"
  by (auto simp: spares_def cignore_def split: prod.splits sum.splits) (metis fst_conv)+

lemma spares_if [spares_intros]: "spares c \<Longrightarrow> spares d \<Longrightarrow> spares (if b then c else d)"
  by simp

lemma spares_option [spares_intros]: "spares c \<Longrightarrow> (\<And>x. spares (f x)) \<Longrightarrow> spares (case p of None \<Rightarrow> c | Some x \<Rightarrow> f x)"
  by (cases p) simp_all

lemma spares_prod [spares_intros]: "(\<And>x y. spares (f x y)) \<Longrightarrow> spares (case p of (x, y) \<Rightarrow> f x y)"
  by (cases p) simp

lemma spares_reply [spares_intros]: "spares k \<Longrightarrow> spares (reply m k)"
  by (simp add: spares_def reply_def case_prod_unfold)

lemma spares_fragment_reply [spares_intros]: "spares k \<Longrightarrow> spares (fragment_reply w b k)"
  by (simp add: fragment_reply_def spares_reply)

lemma spares_replying [spares_intros]: "spares c \<Longrightarrow> (\<And>x. spares (f x)) \<Longrightarrow> spares (replying w c f)"
  by (auto simp: spares_def replying_def split: prod.splits sum.splits) (metis fst_conv)+

lemma spares_checked [spares_intros]: "(\<And>x. spares (k x)) \<Longrightarrow> spares (checked r k)"
  by (cases r) (auto simp: spares_def checked_def)

lemma spares_calling [spares_intros]: "spares c \<Longrightarrow> spares (calling c f)"
  by (auto simp: spares_def calling_def split: prod.splits sum.splits) (metis fst_conv)+

lemma spares_streaming [spares_intros]: "spares k \<Longrightarrow> spares (streaming k)"
  by (auto simp: spares_def streaming_def case_prod_unfold split: option.splits)

lemma spares_withdrawal [spares_intros]: "(\<And>x y z. spares (k x y z)) \<Longrightarrow> spares (checked_withdrawal L os' f pw k)"
  unfolding checked_withdrawal_def by (intro spares_intros)

lemma spares_let [spares_intros]: "spares (f x) \<Longrightarrow> spares (let y = x in f y)"
  by simp

lemma spares_authenticate [spares_intros]: "spares (authenticate S pw)"
  unfolding authenticate_def by (intro spares_intros)

lemma spares_derive [spares_intros]: "spares (derive_addresses S a n)"
  unfolding derive_addresses_def accountExists_def by (intro spares_intros)

lemma spares_reads [spares_intros]:
  "spares (\<lambda>st. (st, f st))" "spares (op_ListMarkets S)" "spares (op_ListTradesForMarket S m p)"
proof -
  show "spares (\<lambda>st. (st, f st))"
    by (simp add: spares_def)
  show "spares (op_ListMarkets S)"
    by (auto simp: spares_def op_ListMarkets_def on_wallet_def case_prod_unfold split: sum.splits)
  show "spares (op_ListTradesForMarket S m p)"
    unfolding op_ListTradesForMarket_def by (intro spares_intros) (simp add: spares_def)
qed

lemmas wallet_op_defs = op_DeriveFeeAddresses_def op_ListFeeExternalAddresses_def op_GetFeeBalance_def op_WithdrawFeeFunds_def
  op_GetMarketInfo_def op_DeriveMarketAddresses_def op_ListMarketExternalAddresses_def op_WithdrawMarketFunds_def
  op_DeriveFeeFragmenterAddresses_def op_ListFeeFragmenterExternalAddresses_def op_GetFeeFragmenterBalance_def
  op_WithdrawFeeFragmenterFunds_def op_DeriveMarketFragmenterAddresses_def op_ListMarketFragmenterExternalAddresses_def
  op_GetMarketFragmenterBalance_def op_WithdrawMarketFragmenterFunds_def op_ListUtxos_def op_ListDeposits_def
  op_ListWithdrawals_def

lemma spares_wallet_ops [spares_intros]:
  "spares (op_DeriveFeeAddresses S n)" "spares (op_ListFeeExternalAddresses S)" "spares (op_GetFeeBalance S)"
  "spares (op_WithdrawFeeFunds S pw os' f)" "spares (op_GetMarketInfo S b q)" "spares (op_DeriveMarketAddresses S b q n)"
  "spares (op_ListMarketExternalAddresses S b q)" "spares (op_WithdrawMarketFunds S o1 o2 pw b q os' f)"
  "spares (op_DeriveFeeFragmenterAddresses S n)" "spares (op_ListFeeFragmenterExternalAddresses S)"
  "spares (op_GetFeeFragmenterBalance S)" "spares (op_WithdrawFeeFragmenterFunds S pw os' f)"
  "spares (op_DeriveMarketFragmenterAddresses S n)" "spares (op_ListMarketFragmenterExternalAddresses S)"
  "spares (op_GetMarketFragmenterBalance S)" "spares (op_WithdrawMarketFragmenterFunds S o1 o2 pw os' f)"
  "spares (op_ListUtxos S a)" "spares (op_ListDeposits S a p)" "spares (op_ListWithdrawals S a p)"
  unfolding wallet_op_defs by (intro spares_intros)+

lemma spares_fragmenters [spares_intros]:
  "spares (FeeFragmenterSplitFunds S n f)" "spares (MarketFragmenterSplitFunds S o1 o2 o3 o4 b q f)"
  unfolding FeeFragmenterSplitFunds_def MarketFragmenterSplitFunds_def Let_def by (intro spares_intros)+

section \<open>Requests are steps of the service\<close>

definition steps :: "('d, 'm, 't, 'x, 'y, 'w) operator \<Rightarrow> (('m, 't, 'x, 'y, 'w) op_state \<Rightarrow> ('m, 't, 'x, 'y, 'w) op_state \<times> 'a) \<Rightarrow> bool" where
  "steps S c \<longleftrightarrow> (\<forall>st. op_step S st (fst (c st)))"

named_theorems steps_intros \<open>handlers that are steps of the service\<close>

lemma spares_steps: "spares c \<Longrightarrow> steps S c"
  by (simp add: spares_def steps_def op_step.other)

lemma steps_checked [steps_intros]: "(\<And>x. r = Inr x \<Longrightarrow> steps S (k x)) \<Longrightarrow> steps S (checked r k)"
  by (cases r) (auto simp: steps_def checked_def intro: op_step.other)

lemma steps_prod [steps_intros]: "(\<And>x y. p = (x, y) \<Longrightarrow> steps S (f x y)) \<Longrightarrow> steps S (case p of (x, y) \<Rightarrow> f x y)"
  by (cases p) simp

lemma steps_calling [steps_intros]: "steps S c \<Longrightarrow> steps S (calling c f)"
  by (auto simp: steps_def calling_def split: prod.splits sum.splits) (metis fst_conv)+

lemma steps_market_ops [steps_intros]:
  "steps S (op_NewMarket S b q nm bpf qpf bff qff bp qp strat)" "steps S (op_OpenMarket S b q)" "steps S (op_CloseMarket S b q)"
  "steps S (op_DropMarket S b q)" "steps S (op_UpdateMarketPercentageFee S b q i j)" "steps S (op_UpdateMarketFixedFee S b q i j)"
  "steps S (op_UpdateMarketAssetsPrecision S b q k l)" "steps S (op_UpdateMarketStrategy S b q k)"
  by (auto simp: steps_def intro: op_step.intros)

lemma steps_price:
  "decimal_lib (os_D S) val \<Longrightarrow> parsePrice (os_D S) p = Inr (x, y) \<Longrightarrow> steps S (op_UpdateMarketPrice S b q x y)"
  using decimal_lib.parsePrice_positive by (fastforce simp: steps_def intro: op_step.update_price)

text \<open>The handlers that change markets, and the others.\<close>

lemma steps_market_handlers:
  "steps (oh_svc h) (newMarket h r)" "steps (oh_svc h) (openMarket h m)" "steps (oh_svc h) (closeMarket h m)"
  "steps (oh_svc h) (dropMarket h m)" "steps (oh_svc h) (updateMarketPercentageFee h m fee)"
  "steps (oh_svc h) (updateMarketFixedFee h m fee)" "steps (oh_svc h) (updateMarketAssetsPrecision h m x y)"
  "steps (oh_svc h) (updateMarketStrategy h m s)"
  unfolding handler_defs by (intro steps_intros)+

lemma steps_updateMarketPrice:
  assumes "decimal_lib (os_D (oh_svc h)) val"
  shows "steps (oh_svc h) (updateMarketPrice h m p)"
  unfolding handler_defs by (intro steps_intros) (use steps_price [OF assms] in blast)

lemma spares_handlers:
  "spares (deriveFeeAddresses h n)" "spares (listFeeAddresses h)" "spares (getFeeBalance h)" "spares (withdrawFee h os' f pw)"
  "spares (getMarketInfo h m)" "spares (deriveMarketAddresses h m n)" "spares (listMarketAddresses h m)"
  "spares (withdrawMarket h o1 o2 m os' f pw)" "spares (deriveFeeFragmenterAddresses h n)"
  "spares (listFeeFragmenterAddresses h)" "spares (getFeeFragmenterBalance h)" "spares (feeFragmenterSplitFunds h k f)"
  "spares (withdrawFeeFragmenter h os' f pw)" "spares (deriveMarketFragmenterAddresses h n)"
  "spares (listMarketFragmenterAddresses h)" "spares (getMarketFragmenterBalance h)"
  "spares (marketFragmenterSplitFunds h o1' o2' o3 o4 m f)" "spares (withdrawMarketFragmenter h o1 o2 os' f pw)"
  "spares (listTrades h m p b)" "spares (listMarkets h)" "spares (listUtxos h a p)" "spares (listDeposits h a p)"
  "spares (listWithdrawals h a p)"
  unfolding handler_defs by (intro spares_intros)+

lemma steps_outcome: "steps S k \<Longrightarrow> outcome (k st) = (st', e) \<Longrightarrow> op_step S st st'"
  by (cases "k st") (auto simp: steps_def outcome_def dest: spec [of _ st])

lemma serve_step:
  assumes "serve h c req st = Some (st', e)" "decimal_lib (os_D (oh_svc h)) val"
  shows "op_step (oh_svc h) st st'"
proof (cases req)
  case (GetMarketReportReq m tr tf)
  with assms(1) obtain r where "getMarketReport h (cir_now c) m tr tf st = Some (st', r)"
    by (auto simp: outcome_def)
  then have "st' = st" by (rule report_reads)
  then show ?thesis by (simp add: op_step.other)
qed (use assms(1) in \<open>auto dest: steps_updateMarketPrice [OF assms(2), THEN steps_outcome]
    steps_market_handlers [THEN steps_outcome] spares_handlers [THEN spares_steps, THEN steps_outcome]\<close>)

section \<open>Runs\<close>

text \<open>Requests one after the other, and whatever happens in between and leaves the markets alone.\<close>

inductive served :: "('d, 'm, 't, 'x, 'y, 'w) operatorHandler \<Rightarrow> ('m, 't, 'x, 'y, 'w) op_state \<Rightarrow> ('m, 't, 'x, 'y, 'w) op_state \<Rightarrow> bool"
  for h where
  request: "serve h c req st = Some (st', e) \<Longrightarrow> served h st st'"
| elsewhere: "ost_markets st' = ost_markets st \<Longrightarrow> served h st st'"

inductive_cases servedE: "served h st st'"

lemma served_step: "served h st st' \<Longrightarrow> decimal_lib (os_D (oh_svc h)) val \<Longrightarrow> op_step (oh_svc h) st st'"
  by (erule servedE) (auto intro: serve_step op_step.other)

section \<open>An instance\<close>

definition ex_handler :: "(fdec, mem_markets_state, Trade mem_store, Deposit mem_store, Withdrawal mem_store, unit) operatorHandler" where
  "ex_handler = \<lparr>oh_svc = ex_operator, oh_libs = \<lparr>ParseScript_ok = (\<lambda>_. True), ParsePubKey_ok = (\<lambda>_. True)\<rparr>, oh_f64 = (\<lambda>_. NaN),
     oh_loc = UTC, oh_P = ex_parser\<rparr>"

definition ex_circumstances :: circumstances where
  "ex_circumstances = \<lparr>cir_now = 0, cir_frag1 = id, cir_frag2 = id, cir_send1 = id, cir_send2 = id\<rparr>"

definition ex_pb_market :: "pb_Market option" where
  "ex_pb_market = Some \<lparr>pbm_BaseAsset = ex_base, pbm_QuoteAsset = ex_quote\<rparr>"

definition ex_new_request :: pb_NewMarketRequest where
  "ex_new_request = \<lparr>nm_Market = ex_pb_market, nm_Name = ''m'', nm_PercentageFee = Some \<lparr>pbf_BaseAsset = 25, pbf_QuoteAsset = 25\<rparr>,
     nm_FixedFee = Some \<lparr>pbf_BaseAsset = 0, pbf_QuoteAsset = 0\<rparr>, nm_BaseAssetPrecision = 8, nm_QuoteAssetPrecision = 8, nm_StrategyType = 1\<rparr>"

text \<open>A pluggable market is created, given a price and opened.\<close>

definition ex_served :: "(mem_markets_state, Trade mem_store, Deposit mem_store, Withdrawal mem_store, unit) op_state" where
  "ex_served = fst (openMarket ex_handler ex_pb_market (fst (updateMarketPrice ex_handler ex_pb_market
     (Some \<lparr>pbp_BasePrice = Finite 5 0, pbp_QuotePrice = Finite 2 (- 1)\<rparr>) (fst (newMarket ex_handler ex_new_request ex_op_state)))))"

lemma served_outcome: "serve h c req st = Some (outcome (k st)) \<Longrightarrow> served h st (fst (k st))"
  by (rule served.request [of h c req]) (simp add: outcome_def case_prod_unfold)

lemma ex_served_run: "(served ex_handler)\<^sup>*\<^sup>* ex_op_state ex_served"
  unfolding ex_served_def
  by (rule rtranclp.rtrancl_into_rtrancl, rule rtranclp.rtrancl_into_rtrancl, rule r_into_rtranclp,
      rule served_outcome [OF serve.simps(5)], rule served_outcome [OF serve.simps(17)], rule served_outcome [OF serve.simps(9)])

section \<open>Properties\<close>


text \<open>
  C31. A request one of whose fields is refused changes nothing: all the fields are checked before the
  service is called. This holds of every handler of the operator interface.
\<close>

theorem serve_invalid:
  assumes "serve h c req st = Some (st', Some (InvalidArgument m))"
  shows "st' = st"
proof (cases req)
  case (GetMarketReportReq m' tr tf)
  with assms obtain r where "getMarketReport h (cir_now c) m' tr tf st = Some (st', r)" by (auto simp: outcome_def)
  then show ?thesis by (rule report_reads)
qed (use assms in \<open>auto dest: refuses_handlers [THEN refuses_outcome]\<close>)

theorem serve_invalid_witness:
  "\<exists>m st'. serve ex_handler ex_circumstances (DropMarketReq None) ex_op_state = Some (st', Some (InvalidArgument m)) \<and> st' = ex_op_state"
proof -
  obtain m st' where "serve ex_handler ex_circumstances (DropMarketReq None) ex_op_state = Some (st', Some (InvalidArgument m))"
    by (simp add: dropMarket_def parseMarket_def checked_def outcome_def)
  with serve_invalid [OF this] show ?thesis by blast
qed

text \<open>
  C3. Whatever requests the operator interface serves, in whatever order, every market in the repository
  is well formed (fees, precisions and strategy in range, a price that is empty or positive, a
  positive one when it is open and pluggable), is stored under its own name, and is the only one with
  its pair of assets.
\<close>

theorem served_markets_inv:
  assumes "(served h)\<^sup>*\<^sup>* st st'" "market_registry (os_D (oh_svc h)) (os_markets (oh_svc h)) view ok"
    and "decimal_lib (os_D (oh_svc h)) val" "registry_inv (os_D (oh_svc h)) view ok (ost_markets st)"
  shows "\<forall>n m. view (ost_markets st') n = Some m \<longrightarrow> market_inv (os_D (oh_svc h)) m \<and> mkt_Name m = n
    \<and> (\<forall>n' m'. view (ost_markets st') n' = Some m' \<longrightarrow> mkt_BaseAsset m' = mkt_BaseAsset m \<longrightarrow>
         mkt_QuoteAsset m' = mkt_QuoteAsset m \<longrightarrow> n' = n)"
proof -
  have "registry_inv (os_D (oh_svc h)) view ok (ost_markets st')"
    using assms(1)
  proof induction
    case (step st1 st2)
    then show ?case
      using managed_markets.op_step_inv [OF managed_markets.intro [OF assms(2,3)] served_step [OF step(2) assms(3)]] by simp
  qed (rule assms(4))
  then show ?thesis unfolding registry_inv_def by blast
qed

theorem served_markets_inv_witness:
  "\<exists>m. ex_view (ost_markets ex_served) ''m'' = Some m \<and> mkt_Tradable m \<and> IsStrategyPluggable m
     \<and> market_inv (os_D (oh_svc ex_handler)) m \<and> mkt_Name m = ''m''"
proof -
  have D: "decimal_lib (os_D (oh_svc ex_handler)) fd_val" "os_D (oh_svc ex_handler) = fixdec"
    "market_registry (os_D (oh_svc ex_handler)) (os_markets (oh_svc ex_handler)) ex_view ex_ok"
    using ex_operator_registry by (simp_all add: ex_handler_def ex_operator_def fixed.decimal_lib_axioms)
  have "case ex_view (ost_markets ex_served) ''m'' of Some m \<Rightarrow> mkt_Tradable m \<and> IsStrategyPluggable m | None \<Rightarrow> False" by code_simp
  then obtain m where m: "ex_view (ost_markets ex_served) ''m'' = Some m" "mkt_Tradable m" "IsStrategyPluggable m"
    by (auto split: option.splits)
  with served_markets_inv [OF ex_served_run D(3,1)] ex_op_state_ok(2) D(2) show ?thesis by auto
qed

end
