(* ===== verification/Json.thy ===== *)
theory Json
  imports Errors Hex
begin

text \<open>
  What the webhooks use of Go's \<open>bytes\<close>, \<open>strings\<close> and \<open>encoding/json\<close>: splitting and joining,
  UTF-8, and the text of JSON strings. A \<open>char\<close> is a byte.
\<close>

section \<open>Splitting and joining\<close>

text \<open>\<open>strings.Split\<close> and \<open>strings.Join\<close> with a separator of one byte.\<close>

fun split_on :: "char \<Rightarrow> string \<Rightarrow> string list" where
  "split_on sep [] = [[]]"
| "split_on sep (c # s) = (if c = sep then [] # split_on sep s
     else case split_on sep s of [] \<Rightarrow> [[c]] | w # ws \<Rightarrow> (c # w) # ws)"

fun join_with :: "char \<Rightarrow> string list \<Rightarrow> string" where
  "join_with sep [] = []"
| "join_with sep [w] = w"
| "join_with sep (w # ws) = w @ sep # join_with sep ws"

lemma split_on_ne [simp]: "split_on sep s \<noteq> []"
  by (cases s) (auto split: list.splits)

lemma split_on_word: "sep \<notin> set w \<Longrightarrow> split_on sep w = [w]"
  by (induction w) auto

lemma split_on_append: "sep \<notin> set w \<Longrightarrow> split_on sep (w @ sep # s) = w # split_on sep s"
  by (induction w) (auto split: list.splits)

lemma split_join: "ws \<noteq> [] \<Longrightarrow> (\<And>w. w \<in> set ws \<Longrightarrow> sep \<notin> set w) \<Longrightarrow> split_on sep (join_with sep ws) = ws"
  by (induction sep ws rule: join_with.induct) (auto simp: split_on_word split_on_append)

lemma join_with_ne: "[] \<notin> set ws \<Longrightarrow> ws \<noteq> [] \<Longrightarrow> join_with sep ws \<noteq> []"
  by (cases "(sep, ws)" rule: join_with.cases) auto

section \<open>UTF-8\<close>

abbreviation byte :: "char \<Rightarrow> nat" where "byte \<equiv> of_char"

definition continuation :: "char \<Rightarrow> bool" where
  "continuation c \<longleftrightarrow> 128 \<le> byte c \<and> byte c < 192"

text \<open>Whether the bytes are one encoded character of more than one byte.\<close>

fun multibyte :: "string \<Rightarrow> bool" where
  "multibyte [a, b] \<longleftrightarrow> 194 \<le> byte a \<and> byte a \<le> 223 \<and> continuation b"
| "multibyte [a, b, c] \<longleftrightarrow> continuation b \<and> continuation c \<and>
     (byte a = 224 \<and> 160 \<le> byte b \<or> byte a = 237 \<and> byte b \<le> 159 \<or> 225 \<le> byte a \<and> byte a \<le> 239 \<and> byte a \<noteq> 237)"
| "multibyte [a, b, c, d] \<longleftrightarrow> continuation b \<and> continuation c \<and> continuation d \<and>
     (byte a = 240 \<and> 144 \<le> byte b \<or> 241 \<le> byte a \<and> byte a \<le> 243 \<or> byte a = 244 \<and> byte b \<le> 143)"
| "multibyte _ \<longleftrightarrow> False"

text \<open>The size of the first character: a byte that starts none counts alone.\<close>

definition rune_size :: "string \<Rightarrow> nat" where
  "rune_size s = (if multibyte (take 2 s) then 2 else if multibyte (take 3 s) then 3 else if multibyte (take 4 s) then 4 else 1)"

lemma rune_size_pos [simp]: "0 < rune_size s"
  by (simp add: rune_size_def)

text \<open>A string as its characters.\<close>

function runes :: "string \<Rightarrow> string list" where
  "runes s = (if s = [] then [] else take (rune_size s) s # runes (drop (rune_size s) s))"
  by auto
termination by (relation "measure length") auto

declare runes.simps [simp del]

text \<open>A character: a byte below 128, or an encoding of several bytes. Any other byte is an error.\<close>

definition is_rune :: "string \<Rightarrow> bool" where
  "is_rune u \<longleftrightarrow> multibyte u \<or> (\<exists>c. u = [c] \<and> byte c < 128)"

definition valid_utf8 :: "string \<Rightarrow> bool" where
  "valid_utf8 s \<longleftrightarrow> list_all is_rune (runes s)"

lemma is_rune_code [code]: "is_rune u \<longleftrightarrow> multibyte u \<or> (case u of [c] \<Rightarrow> byte c < 128 | _ \<Rightarrow> False)"
  by (auto simp: is_rune_def split: list.splits)

text \<open>The encoding of a code point, \<open>utf8.EncodeRune\<close>; surrogates and what is out of range give U+FFFD.\<close>

definition utf8 :: "nat \<Rightarrow> string" where
  "utf8 r = map char_of (
     if r < 128 then [r]
     else if r < 2048 then [192 + r div 64, 128 + r mod 64]
     else if 55296 \<le> r \<and> r \<le> 57343 \<or> 1114111 < r then [239, 191, 189]
     else if r < 65536 then [224 + r div 4096, 128 + r div 64 mod 64, 128 + r mod 64]
     else [240 + r div 262144, 128 + r div 4096 mod 64, 128 + r div 64 mod 64, 128 + r mod 64])"

section \<open>Strings\<close>

definition hex4 :: "nat \<Rightarrow> string" where
  "hex4 n = [CHR 0x5C, CHR ''u'', hex_char (n div 4096), hex_char (n div 256 mod 16), hex_char (n div 16 mod 16), hex_char (n mod 16)]"

text \<open>One character inside quotes; quotes, control characters and those of HTML are escaped.\<close>

definition escape :: "string \<Rightarrow> string" where
  "escape u = (case u of
     [c] \<Rightarrow> if byte c \<ge> 128 then hex4 65533
       else if c = CHR 0x22 \<or> c = CHR 0x5C then [CHR 0x5C, c]
       else if c = CHR 0x0A then [CHR 0x5C, CHR ''n'']
       else if c = CHR 0x0D then [CHR 0x5C, CHR ''r'']
       else if c = CHR 0x09 then [CHR 0x5C, CHR ''t'']
       else if byte c < 32 \<or> c \<in> set ''<>&'' then hex4 (byte c)
       else [c]
   | _ \<Rightarrow> if u = map char_of [226, 128, 168 :: nat] then hex4 8232
          else if u = map char_of [226, 128, 169 :: nat] then hex4 8233 else u)"

definition json_quote :: "string \<Rightarrow> string" where
  "json_quote s = CHR 0x22 # concat (map escape (runes s)) @ [CHR 0x22]"

text \<open>The value of four hexadecimal digits.\<close>

fun unhex4 :: "string \<Rightarrow> nat option" where
  "unhex4 [a, b, c, d] = (case (hex_digit a, hex_digit b, hex_digit c, hex_digit d) of
     (Some w, Some x, Some y, Some z) \<Rightarrow> Some (w * 4096 + x * 256 + y * 16 + z) | _ \<Rightarrow> None)"
| "unhex4 _ = None"

text \<open>A surrogate followed by the escape of another one is one character.\<close>

definition surrogates :: "nat \<Rightarrow> string \<Rightarrow> (nat \<times> string) option" where
  "surrogates r s = (if 55296 \<le> r \<and> r < 56320 \<and> take 2 s = [CHR 0x5C, CHR ''u'']
     then case unhex4 (take 4 (drop 2 s)) of
       Some r' \<Rightarrow> if 56320 \<le> r' \<and> r' < 57344 then Some ((r - 55296) * 1024 + (r' - 56320) + 65536, drop 6 s) else None
     | None \<Rightarrow> None
     else None)"

text \<open>A character that a backslash stands before, and what follows.\<close>

definition unescape :: "string \<Rightarrow> (string \<times> string) option" where
  "unescape s = (case s of
     [] \<Rightarrow> None
   | c # s \<Rightarrow>
       if c \<in> {CHR 0x22, CHR 0x5C, CHR ''/''} then Some ([c], s)
       else if c = CHR ''b'' then Some ([CHR 0x08], s)
       else if c = CHR ''f'' then Some ([CHR 0x0C], s)
       else if c = CHR ''n'' then Some ([CHR 0x0A], s)
       else if c = CHR ''r'' then Some ([CHR 0x0D], s)
       else if c = CHR ''t'' then Some ([CHR 0x09], s)
       else if c = CHR ''u'' then (case unhex4 (take 4 s) of
         None \<Rightarrow> None
       | Some r \<Rightarrow> (case surrogates r (drop 4 s) of Some (r', s') \<Rightarrow> Some (utf8 r', s') | None \<Rightarrow> Some (utf8 r, drop 4 s)))
       else None)"

lemma surrogates_length: "surrogates r s = Some (r', s') \<Longrightarrow> length s' \<le> length s"
  by (auto simp: surrogates_def split: if_splits option.splits)

lemma unescape_length: "unescape s = Some (u, r) \<Longrightarrow> length r < length s"
  by (auto simp: unescape_def split: list.splits if_splits option.splits dest!: surrogates_length)

text \<open>The rest of a string after its opening quote: what it says, and what follows the closing quote.\<close>

function unquote :: "string \<Rightarrow> (string \<times> string) option" where
  "unquote s = (case s of
     [] \<Rightarrow> None
   | c # s' \<Rightarrow>
       if c = CHR 0x22 then Some ([], s')
       else if c = CHR 0x5C then (case unescape s' of
         None \<Rightarrow> None
       | Some (u, r) \<Rightarrow> map_option (apfst (append u)) (unquote r))
       else if byte c < 32 then None
       else let n = rune_size s; u = take n s
            in map_option (apfst (append (if is_rune u then u else utf8 65533))) (unquote (drop n s)))"
  by auto
termination by (relation "measure length") (auto dest: unescape_length)

declare unquote.simps [simp del]

section \<open>Reading back what was written\<close>

text \<open>A character with the bytes that are none replaced, as \<open>encoding/json\<close> writes and reads it.\<close>

definition mend :: "string \<Rightarrow> string" where
  "mend u = (if is_rune u then u else utf8 65533)"

lemma multibyte_bytes: "multibyte u \<Longrightarrow> c \<in> set u \<Longrightarrow> 128 \<le> byte c \<and> byte c < 255"
  by (cases u rule: multibyte.cases) (auto simp: continuation_def)

lemma multibyte_long: "multibyte u \<Longrightarrow> \<exists>a b v. u = a # b # v"
  by (cases u rule: multibyte.cases) auto

lemma multibyte_rune_size: "multibyte u \<Longrightarrow> rune_size (u @ t) = length u"
  by (cases u rule: multibyte.cases) (auto simp: rune_size_def numeral_eq_Suc)

lemma ascii_rune_size: "byte c < 128 \<Longrightarrow> rune_size (c # t) = 1"
proof -
  assume c: "byte c < 128"
  have "\<not> multibyte (take n (c # t))" for n
  proof
    assume "multibyte (take n (c # t))"
    from multibyte_bytes [OF this, of c] multibyte_long [OF this] c show False by (cases n) auto
  qed
  then show ?thesis by (simp add: rune_size_def del: take_Cons_numeral)
qed

lemma runes_units: "u \<in> set (runes s) \<Longrightarrow> multibyte u \<or> (\<exists>c. u = [c])"
proof (induction s rule: runes.induct)
  case (1 s)
  show ?case
  proof (cases "s = []")
    case True
    with 1(2) show ?thesis by (simp add: runes.simps)
  next
    case False
    have "multibyte (take (rune_size s) s) \<or> (\<exists>c. take (rune_size s) s = [c])"
      using False by (cases s) (auto simp: rune_size_def)
    with 1 False show ?thesis by (subst (asm) runes.simps) auto
  qed
qed

lemma concat_runes: "concat (runes s) = s"
  by (induction s rule: runes.induct) (subst runes.simps, simp)

lemma unhex4_hex4: "n < 65536 \<Longrightarrow> unhex4 [hex_char (n div 4096), hex_char (n div 256 mod 16), hex_char (n div 16 mod 16), hex_char (n mod 16)] = Some n"
proof -
  assume n: "n < 65536"
  have "n div 16 div 16 = n div 256" "n div 256 div 16 = n div 4096" by (simp_all add: div_mult2_eq [symmetric])
  then have "n div 4096 * 4096 + n div 256 mod 16 * 256 + n div 16 mod 16 * 16 + n mod 16 = n"
    using div_mult_mod_eq [of n 16] div_mult_mod_eq [of "n div 16" 16] div_mult_mod_eq [of "n div 256" 16] by linarith
  moreover have "n div 4096 < 16" using n by (simp add: less_mult_imp_div_less)
  ultimately show ?thesis by simp
qed

lemma unquote_hex4:
  assumes "n < 55296 \<or> 57344 \<le> n" "n < 65536"
  shows "unquote (hex4 n @ t) = map_option (apfst (append (utf8 n))) (unquote t)"
proof -
  have "surrogates n t = None" using assms by (auto simp: surrogates_def)
  then have "unescape (tl (hex4 n) @ t) = Some (utf8 n, t)"
    using unhex4_hex4 [OF assms(2)] by (simp add: unescape_def hex4_def)
  then show ?thesis by (subst unquote.simps) (simp add: hex4_def)
qed

lemma unquote_ascii:
  "byte c < 128 \<Longrightarrow> 32 \<le> byte c \<Longrightarrow> c \<noteq> CHR 0x22 \<Longrightarrow> c \<noteq> CHR 0x5C \<Longrightarrow>
   unquote (c # t) = map_option (apfst (append [c])) (unquote t)"
  by (subst unquote.simps) (simp add: ascii_rune_size is_rune_def Let_def)

lemma unquote_multibyte:
  assumes "multibyte u"
  shows "unquote (u @ t) = map_option (apfst (append u)) (unquote t)"
proof -
  obtain a b v where u: "u = a # b # v" using multibyte_long [OF assms] by blast
  then have "128 \<le> byte a" using multibyte_bytes [OF assms, of a] by simp
  then have a: "a \<noteq> CHR 0x22" "a \<noteq> CHR 0x5C" "\<not> byte a < 32" by auto
  show ?thesis
    using multibyte_rune_size [OF assms, of t] a assms
    by (subst unquote.simps) (simp add: u is_rune_def Let_def)
qed

lemma unquote_pair: "unescape (e # t) = Some (u, t) \<Longrightarrow> unquote (CHR 0x5C # e # t) = map_option (apfst (append u)) (unquote t)"
  by (subst unquote.simps) simp

lemma unquote_escape_byte:
  "unquote (escape [c] @ t) = map_option (apfst (append (mend [c]))) (unquote t)"
proof -
  have m: "mend [c] = (if byte c < 128 then [c] else utf8 65533)" by (auto simp: mend_def is_rune_def)
  consider (high) "128 \<le> byte c" | (quote) "c = CHR 0x22 \<or> c = CHR 0x5C" | (nl) "c = CHR 0x0A" | (cr) "c = CHR 0x0D"
    | (tab) "c = CHR 0x09"
    | (other) "\<not> 128 \<le> byte c" "c \<noteq> CHR 0x22" "c \<noteq> CHR 0x5C" "c \<noteq> CHR 0x0A" "c \<noteq> CHR 0x0D" "c \<noteq> CHR 0x09"
    by blast
  then show ?thesis
  proof cases
    case high
    then show ?thesis by (simp add: m escape_def unquote_hex4)
  next
    case other
    then have e: "escape [c] = (if byte c < 32 \<or> c \<in> set ''<>&'' then hex4 (byte c) else [c])" by (simp add: escape_def)
    have "utf8 (byte c) = [c]" using other(1) by (simp add: utf8_def)
    then show ?thesis
      unfolding e using unquote_hex4 [of "byte c" t] unquote_ascii [of c t] other(1-3) by (simp add: m)
  next
    case quote
    then show ?thesis using unquote_pair [of c t "[c]"] by (auto simp: m escape_def unescape_def)
  next
    case nl
    then show ?thesis unfolding m using unquote_pair [of "CHR ''n''" t "[c]"] by (simp add: escape_def unescape_def)
  next
    case cr
    then show ?thesis unfolding m using unquote_pair [of "CHR ''r''" t "[c]"] by (simp add: escape_def unescape_def)
  next
    case tab
    then show ?thesis unfolding m using unquote_pair [of "CHR ''t''" t "[c]"] by (simp add: escape_def unescape_def)
  qed
qed

lemma escape_multibyte:
  assumes "multibyte u"
  obtains "escape u = u" | n where "escape u = hex4 n" "u = utf8 n" "n \<in> {8232, 8233}"
proof -
  obtain a b v where "u = a # b # v" using multibyte_long [OF assms] by blast
  then have e: "escape u = (if u = map char_of [226, 128, 168 :: nat] then hex4 8232
      else if u = map char_of [226, 128, 169 :: nat] then hex4 8233 else u)"
    by (simp add: escape_def)
  have "utf8 8232 = map char_of [226, 128, 168 :: nat]" "utf8 8233 = map char_of [226, 128, 169 :: nat]"
    by (simp_all add: utf8_def)
  with e that show ?thesis by (metis insertI1 insertI2)
qed

lemma unquote_escape:
  assumes "multibyte u \<or> (\<exists>c. u = [c])"
  shows "unquote (escape u @ t) = map_option (apfst (append (mend u))) (unquote t)"
proof (cases "multibyte u")
  case True
  then have m: "mend u = u" by (simp add: mend_def is_rune_def)
  show ?thesis
  proof (rule escape_multibyte [OF True])
    fix n assume n: "escape u = hex4 n" "u = utf8 n" "n \<in> {8232, 8233 :: nat}"
    then show ?thesis using unquote_hex4 [of n t] m by auto
  qed (simp add: m unquote_multibyte [OF True])
next
  case False
  then show ?thesis using assms unquote_escape_byte by blast
qed

lemma unquote_json_quote: "unquote (tl (json_quote s) @ t) = Some (concat (map mend (runes s)), t)"
proof -
  have "unquote (concat (map escape us) @ CHR 0x22 # t) = Some (concat (map mend us), t)"
    if "\<And>u. u \<in> set us \<Longrightarrow> multibyte u \<or> (\<exists>c. u = [c])" for us
    using that
  proof (induction us)
    case Nil
    show ?case by (subst unquote.simps) simp
  next
    case (Cons u us)
    then show ?case using unquote_escape [of u] by simp
  qed
  from this [OF runes_units] show ?thesis by (simp add: json_quote_def)
qed

lemma unquote_valid: "valid_utf8 s \<Longrightarrow> unquote (tl (json_quote s) @ t) = Some (s, t)"
  unfolding unquote_json_quote valid_utf8_def
  by (simp add: list_all_iff mend_def cong: map_cong) (simp add: concat_runes)

lemma hex_char_ascii: "n < 16 \<Longrightarrow> hex_char n \<noteq> CHR 0xFF"
proof
  assume "n < 16" "hex_char n = CHR 0xFF"
  then have "hex_digit (CHR 0xFF) = Some n" by (metis hex_digit_hex_char)
  then show False by (simp add: hex_digit_def)
qed

lemma hex4_no_ff: "n < 65536 \<Longrightarrow> CHR 0xFF \<notin> set (hex4 n)"
  using hex_char_ascii [of "n div 4096"] hex_char_ascii [of "n div 256 mod 16"] hex_char_ascii [of "n div 16 mod 16"]
    hex_char_ascii [of "n mod 16"]
  by (auto simp: hex4_def less_mult_imp_div_less)

lemma escape_no_ff:
  assumes "multibyte u \<or> (\<exists>c. u = [c])"
  shows "CHR 0xFF \<notin> set (escape u)"
proof (cases "multibyte u")
  case True
  have "CHR 0xFF \<notin> set u" using multibyte_bytes [OF True, of "CHR 0xFF"] by auto
  with hex4_no_ff [of 8232] hex4_no_ff [of 8233] show ?thesis by (rule_tac escape_multibyte [OF True]) auto
next
  case False
  then obtain c where c: "u = [c]" using assms by blast
  have "byte c < 256" by (metis UNIV_I atLeastLessThan_iff image_eqI range_nat_of_char)
  then have "byte c < 65536" by linarith
  then have low: "CHR 0xFF \<notin> set (hex4 (byte c))" by (rule hex4_no_ff)
  show ?thesis
  proof (cases "128 \<le> byte c")
    case True
    then show ?thesis using hex4_no_ff [of 65533] by (simp add: c escape_def)
  next
    case False
    then have "c \<noteq> CHR 0xFF" by auto
    with False low show ?thesis by (simp add: c escape_def)
  qed
qed

lemma json_quote_no_ff: "CHR 0xFF \<notin> set (json_quote s)"
  using escape_no_ff [OF runes_units] by (auto simp: json_quote_def)

end
