(* ===== verification/Secure_Store.thy ===== *)
theory Secure_Store
  imports Ports Json
begin

text \<open>
  \<open>pkg/securestore\<close>: a key/value store whose values are encrypted, over a bolt database. The database and
  the \<open>snacl\<close> cipher are third-party packages: records of the operations that are called, with what they
  document as the laws of the locales \<open>bolt_db\<close> and \<open>snacl_lib\<close>. Byte strings are strings. The bucket
  \<open>[]\<close> is the root bucket, as an empty bucket key is in the code.
\<close>

section \<open>The interface\<close>

record 's SecureStorage =
  sec_Lock :: "'s \<Rightarrow> 's"
  sec_IsLocked :: "'s \<Rightarrow> bool"
  sec_CreateUnlock :: "string option \<Rightarrow> ('s, unit) call"
  sec_ChangePassword :: "string option \<Rightarrow> string option \<Rightarrow> ('s, unit) call"
  sec_CreateBucket :: "string \<Rightarrow> ('s, unit) call"
  sec_AddToBucket :: "string \<Rightarrow> string \<Rightarrow> string \<Rightarrow> ('s, unit) call"
  sec_GetFromBucket :: "string \<Rightarrow> string \<Rightarrow> 's \<Rightarrow> string option res"
  sec_GetAllFromBucket :: "string \<Rightarrow> 's \<Rightarrow> (string, string) gomap res"
  sec_ListBuckets :: "'s \<Rightarrow> string list res"
  sec_RemoveFromBucket :: "string \<Rightarrow> string \<Rightarrow> ('s, unit) call"
  sec_RemoveBucket :: "string \<Rightarrow> ('s, unit) call"

section \<open>Third-party packages\<close>

text \<open>The nested buckets of the root bucket and the entries of a bucket. A write that fails changes nothing.\<close>

record 'b bolt =
  bt_Root :: "'b \<Rightarrow> bool"
  bt_Bucket :: "'b \<Rightarrow> string \<Rightarrow> bool"
  bt_Get :: "'b \<Rightarrow> string \<Rightarrow> string \<Rightarrow> string"
  bt_ForEach :: "'b \<Rightarrow> string \<Rightarrow> (string \<times> string option) list"
  bt_CreateBucketIfNotExists :: "string \<Rightarrow> 'b \<Rightarrow> 'b res"
  bt_Put :: "string \<Rightarrow> string \<Rightarrow> string \<Rightarrow> 'b \<Rightarrow> 'b res"
  bt_Delete :: "string \<Rightarrow> string \<Rightarrow> 'b \<Rightarrow> 'b res"
  bt_DeleteNestedBucket :: "string \<Rightarrow> 'b \<Rightarrow> 'b res"

text \<open>Keys made from passwords; the number is the randomness that is drawn.\<close>

record 'k snacl =
  sn_NewSecretKey :: "nat \<Rightarrow> string \<Rightarrow> 'k res"
  sn_Marshal :: "'k \<Rightarrow> string"
  sn_Unmarshal :: "string \<Rightarrow> 'k res"
  sn_DeriveKey :: "'k \<Rightarrow> string \<Rightarrow> 'k res"
  sn_Encrypt :: "nat \<Rightarrow> 'k \<Rightarrow> string \<Rightarrow> string res"
  sn_Decrypt :: "'k \<Rightarrow> string \<Rightarrow> string res"

section \<open>Errors\<close>

definition ErrStoreLocked :: error where "ErrStoreLocked = Errorf ''store is locked'' []"
definition ErrPasswordRequired :: error where "ErrPasswordRequired = Errorf ''password must not be null'' []"
definition ErrInvalidPassword :: error where "ErrInvalidPassword = Errorf ''password is not valid'' []"
definition ErrRootKeyBucketNotFound :: error where "ErrRootKeyBucketNotFound = Errorf ''root key bucket not found'' []"
definition ErrEncKeyNotFound :: error where "ErrEncKeyNotFound = Errorf ''store encryption key not found'' []"
definition ErrBucketNotFound :: error where "ErrBucketNotFound = External ''bucket not found''"
definition ErrMissingBucketKey :: error where "ErrMissingBucketKey = Errorf ''missing bucket key'' []"
definition ErrForbiddenBucketKey :: error where "ErrForbiddenBucketKey = Errorf ''bucket key is not allowed'' []"
definition ErrMissingDataKey :: error where "ErrMissingDataKey = Errorf ''missing data key'' []"
definition ErrForbiddenDataKey :: error where "ErrForbiddenDataKey = Errorf ''data key is not allowed'' []"
definition ErrMissingData :: error where "ErrMissingData = Errorf ''missing data to add'' []"

section \<open>The bolt store\<close>

definition encryptionKeyID :: string where "encryptionKeyID = ''enckey''"

record ('b, 'k) boltSecureStorage =
  ss_db :: 'b
  ss_encKey :: "'k option"
  ss_rand :: nat

definition bolt_IsLocked :: "('b, 'k) boltSecureStorage \<Rightarrow> bool" where
  "bolt_IsLocked s \<longleftrightarrow> ss_encKey s = None"

definition bolt_Lock :: "('b, 'k) boltSecureStorage \<Rightarrow> ('b, 'k) boltSecureStorage" where
  "bolt_Lock s = (if \<not> bolt_IsLocked s then s\<lparr>ss_encKey := None\<rparr> else s)"

text \<open>Opening the database gives a locked store with the root bucket; the backend is opened by a third-party package.\<close>

definition NewSecureStorage :: "'b res \<Rightarrow> ('b \<Rightarrow> 'b res) \<Rightarrow> ('b, 'k) boltSecureStorage res" where
  "NewSecureStorage kvdb_Create CreateTopLevelBucket = rbind kvdb_Create (\<lambda>db. rbind (CreateTopLevelBucket db) (\<lambda>db.
     Inr \<lparr>ss_db = db, ss_encKey = None, ss_rand = 0\<rparr>))"

text \<open>The key in use, and the number of what was drawn, after a write.\<close>

definition unlocked_with :: "'k \<Rightarrow> 'b \<Rightarrow> ('b, 'k) boltSecureStorage \<Rightarrow> ('b, 'k) boltSecureStorage" where
  "unlocked_with key b s = s\<lparr>ss_db := b, ss_encKey := Some key\<rparr>"

definition drawn :: "('b, 'k) boltSecureStorage \<Rightarrow> ('b, 'k) boltSecureStorage" where
  "drawn s = s\<lparr>ss_rand := ss_rand s + 1\<rparr>"

definition bolt_CreateUnlock :: "'k snacl \<Rightarrow> 'b bolt \<Rightarrow> string option \<Rightarrow> (('b, 'k) boltSecureStorage, unit) call" where
  "bolt_CreateUnlock S B password s =
     (if \<not> bolt_IsLocked s then (s, Inr ())
      else case password of
        None \<Rightarrow> (s, Inl ErrPasswordRequired)
      | Some pw \<Rightarrow>
          if \<not> bt_Root B (ss_db s) then (s, Inl ErrRootKeyBucketNotFound)
          else let dbKey = bt_Get B (ss_db s) [] encryptionKeyID
          in if length dbKey > 0
             then (case sn_Unmarshal S dbKey of
               Inl e \<Rightarrow> (s, Inl e)
             | Inr encKey \<Rightarrow> (case sn_DeriveKey S encKey pw of
                 Inl _ \<Rightarrow> (s, Inl ErrInvalidPassword)
               | Inr encKey \<Rightarrow> (unlocked_with encKey (ss_db s) s, Inr ())))
             else (case sn_NewSecretKey S (ss_rand s) pw of
               Inl e \<Rightarrow> (drawn s, Inl e)
             | Inr encKey \<Rightarrow> (case bt_Put B [] encryptionKeyID (sn_Marshal S encKey) (ss_db s) of
                 Inl e \<Rightarrow> (drawn s, Inl e)
               | Inr b \<Rightarrow> (unlocked_with encKey b (drawn s), Inr ()))))"

text \<open>The bucket of a request: the root bucket or one nested in it.\<close>

definition find_bucket :: "'b bolt \<Rightarrow> string \<Rightarrow> 'b \<Rightarrow> unit res" where
  "find_bucket B bucketKey b =
     (if \<not> bt_Root B b then Inl ErrRootKeyBucketNotFound
      else if length bucketKey > 0 \<and> \<not> bt_Bucket B b bucketKey then Inl ErrBucketNotFound
      else Inr ())"

definition check_bucket_key :: "string \<Rightarrow> unit res" where
  "check_bucket_key key = (if length key \<le> 0 then Inl ErrMissingBucketKey
     else if key = encryptionKeyID then Inl ErrForbiddenBucketKey else Inr ())"

definition check_data_key :: "string \<Rightarrow> unit res" where
  "check_data_key key = (if length key \<le> 0 then Inl ErrMissingDataKey
     else if key = encryptionKeyID then Inl ErrForbiddenDataKey else Inr ())"

text \<open>A write: the database it gives, or the error with the database as it was.\<close>

definition bolt_write :: "('b, 'k) boltSecureStorage \<Rightarrow> 'b res \<Rightarrow> ('b, 'k) boltSecureStorage \<times> unit res" where
  "bolt_write s r = (case r of Inl e \<Rightarrow> (s, Inl e) | Inr b \<Rightarrow> (s\<lparr>ss_db := b\<rparr>, Inr ()))"

definition bolt_CreateBucket :: "'b bolt \<Rightarrow> string \<Rightarrow> (('b, 'k) boltSecureStorage, unit) call" where
  "bolt_CreateBucket B key s =
     (if bolt_IsLocked s then (s, Inl ErrStoreLocked)
      else bolt_write s (rbind (check_bucket_key key) (\<lambda>_. rbind (find_bucket B [] (ss_db s)) (\<lambda>_.
        bt_CreateBucketIfNotExists B key (ss_db s)))))"

definition bolt_AddToBucket :: "'k snacl \<Rightarrow> 'b bolt \<Rightarrow> string \<Rightarrow> string \<Rightarrow> string \<Rightarrow> (('b, 'k) boltSecureStorage, unit) call" where
  "bolt_AddToBucket S B bucketKey key v s = (case ss_encKey s of
     None \<Rightarrow> (s, Inl ErrStoreLocked)
   | Some encKey \<Rightarrow> (case rbind (check_data_key key) (\<lambda>_.
       if length v \<le> 0 then Inl ErrMissingData
       else rbind (find_bucket B bucketKey (ss_db s)) (\<lambda>_.
         rbind (sn_Encrypt S (ss_rand s) encKey v) (\<lambda>encryptedValue. bt_Put B bucketKey key encryptedValue (ss_db s)))) of
       Inl e \<Rightarrow> (s, Inl e)
     | Inr b \<Rightarrow> ((drawn s)\<lparr>ss_db := b\<rparr>, Inr ())))"

definition bolt_GetFromBucket :: "'k snacl \<Rightarrow> 'b bolt \<Rightarrow> string \<Rightarrow> string \<Rightarrow> ('b, 'k) boltSecureStorage \<Rightarrow> string option res" where
  "bolt_GetFromBucket S B bucketKey key s = (case ss_encKey s of
     None \<Rightarrow> Inl ErrStoreLocked
   | Some encKey \<Rightarrow> rbind (check_data_key key) (\<lambda>_. rbind (find_bucket B bucketKey (ss_db s)) (\<lambda>_.
       let encryptedValue = bt_Get B (ss_db s) bucketKey key
       in if length encryptedValue \<le> 0 then Inr None else rbind (sn_Decrypt S encKey encryptedValue) (\<lambda>v. Inr (Some v)))))"

text \<open>The entries of a bucket; nested buckets and the stored key are passed over.\<close>

definition is_data :: "string \<times> string option \<Rightarrow> bool" where
  "is_data kv \<longleftrightarrow> fst kv \<noteq> encryptionKeyID \<and> snd kv \<noteq> None"

definition bolt_GetAllFromBucket :: "'k snacl \<Rightarrow> 'b bolt \<Rightarrow> string \<Rightarrow> ('b, 'k) boltSecureStorage \<Rightarrow> (string, string) gomap res" where
  "bolt_GetAllFromBucket S B bucketKey s = (case ss_encKey s of
     None \<Rightarrow> Inl ErrStoreLocked
   | Some encKey \<Rightarrow> rbind (find_bucket B bucketKey (ss_db s)) (\<lambda>_.
       rmap (\<lambda>(k, v). rbind (sn_Decrypt S encKey (the v)) (\<lambda>v. Inr (k, v))) (filter is_data (bt_ForEach B (ss_db s) bucketKey))))"

definition bolt_ListBuckets :: "'b bolt \<Rightarrow> ('b, 'k) boltSecureStorage \<Rightarrow> string list res" where
  "bolt_ListBuckets B s = rbind (find_bucket B [] (ss_db s)) (\<lambda>_.
     Inr (map fst (filter (\<lambda>(k, v). v = None) (bt_ForEach B (ss_db s) []))))"

definition bolt_RemoveFromBucket :: "'b bolt \<Rightarrow> string \<Rightarrow> string \<Rightarrow> (('b, 'k) boltSecureStorage, unit) call" where
  "bolt_RemoveFromBucket B bucketKey key s =
     (if bolt_IsLocked s then (s, Inl ErrStoreLocked)
      else bolt_write s (rbind (check_data_key key) (\<lambda>_. rbind (find_bucket B bucketKey (ss_db s)) (\<lambda>_.
        bt_Delete B bucketKey key (ss_db s)))))"

definition bolt_RemoveBucket :: "'b bolt \<Rightarrow> string \<Rightarrow> (('b, 'k) boltSecureStorage, unit) call" where
  "bolt_RemoveBucket B key s =
     (if bolt_IsLocked s then (s, Inl ErrStoreLocked)
      else bolt_write s (rbind (check_bucket_key key) (\<lambda>_. rbind (find_bucket B [] (ss_db s)) (\<lambda>_.
        bt_DeleteNestedBucket B key (ss_db s)))))"

definition bolt_Close :: "('b \<Rightarrow> unit res) \<Rightarrow> (('b, 'k) boltSecureStorage, unit) call" where
  "bolt_Close db_Close s = (bolt_Lock s, db_Close (ss_db s))"

section \<open>Changing the password\<close>

text \<open>
  The entries of all buckets, under the name of the bucket, an underscore and the key, in the order
  in which the buckets are received. \<open>None\<close> when one of them comes with an error.
\<close>

fun collect :: "'k snacl \<Rightarrow> 'b bolt \<Rightarrow> ('b, 'k) boltSecureStorage \<Rightarrow> string list \<Rightarrow> (string, string) gomap \<Rightarrow> (string, string) gomap option" where
  "collect S B s [] all = Some all"
| "collect S B s (bucketKey # bs) all = (case bolt_GetAllFromBucket S B bucketKey s of
     Inl _ \<Rightarrow> None
   | Inr data \<Rightarrow> collect S B s bs (fold (\<lambda>(k, v) m. gm_put (bucketKey @ ''_'' @ k) v m) data all))"

text \<open>One entry written with the new key; errors of the cipher and of the database are dropped.\<close>

definition rewrite_entry :: "'k snacl \<Rightarrow> 'b bolt \<Rightarrow> 'k \<Rightarrow> string \<times> string \<Rightarrow> (('b, 'k) boltSecureStorage, unit) call" where
  "rewrite_entry S B newKey kv s =
     (let kk = split_on CHR ''_'' (fst kv); bucketKey = kk ! 0; key = kk ! 1;
          encryptedValue = (case sn_Encrypt S (ss_rand s) newKey (snd kv) of Inr c \<Rightarrow> c | Inl _ \<Rightarrow> [])
      in if \<not> bt_Root B (ss_db s) \<or> (length bucketKey > 0 \<and> \<not> bt_Bucket B (ss_db s) bucketKey) then (s, Inl nil_deref)
         else (case bt_Put B bucketKey key encryptedValue (ss_db s) of
           Inl _ \<Rightarrow> (drawn s, Inr ())
         | Inr b \<Rightarrow> ((drawn s)\<lparr>ss_db := b\<rparr>, Inr ())))"

fun rewrite_all :: "'k snacl \<Rightarrow> 'b bolt \<Rightarrow> 'k \<Rightarrow> (string \<times> string) list \<Rightarrow> (('b, 'k) boltSecureStorage, unit) call" where
  "rewrite_all S B newKey [] = cret ()"
| "rewrite_all S B newKey (kv # kvs) = cbind (rewrite_entry S B newKey kv) (\<lambda>_. rewrite_all S B newKey kvs)"

text \<open>
  \<open>ord1\<close> is the order in which the buckets are received, \<open>ord2\<close> the one in which the entries are
  written. When a bucket comes with an error the function returns the error of the call before, which
  is nil.
\<close>

definition updateEncryptedDb :: "'k snacl \<Rightarrow> 'b bolt \<Rightarrow> (string list \<Rightarrow> string list) \<Rightarrow> ((string \<times> string) list \<Rightarrow> (string \<times> string) list)
    \<Rightarrow> 'k \<Rightarrow> (('b, 'k) boltSecureStorage, unit) call" where
  "updateEncryptedDb S B ord1 ord2 newKey s = (case bolt_ListBuckets B s of
     Inl e \<Rightarrow> (s, Inl e)
   | Inr buckets \<Rightarrow> (case collect S B s (ord1 (buckets @ [[]])) [] of
       None \<Rightarrow> (s, Inr ())
     | Some all \<Rightarrow> rewrite_all S B newKey (ord2 all) s))"

text \<open>The check of the old password.\<close>

definition check_password :: "'k snacl \<Rightarrow> 'b bolt \<Rightarrow> string \<Rightarrow> 'b \<Rightarrow> unit res" where
  "check_password S B oldPw b = rbind (find_bucket B [] b) (\<lambda>_.
     let dbKey = bt_Get B b [] encryptionKeyID
     in if length dbKey \<le> 0 then Inl ErrEncKeyNotFound
        else rbind (sn_Unmarshal S dbKey) (\<lambda>encKeyOld. rbind (sn_DeriveKey S encKeyOld oldPw) (\<lambda>_. Inr ())))"

definition bolt_ChangePassword :: "'k snacl \<Rightarrow> 'b bolt \<Rightarrow> (string list \<Rightarrow> string list) \<Rightarrow> ((string \<times> string) list \<Rightarrow> (string \<times> string) list)
    \<Rightarrow> string option \<Rightarrow> string option \<Rightarrow> (('b, 'k) boltSecureStorage, unit) call" where
  "bolt_ChangePassword S B ord1 ord2 oldPw newPw s = (case (oldPw, newPw) of
     (Some oldPw, Some newPw) \<Rightarrow> (case sn_NewSecretKey S (ss_rand s) newPw of
       Inl e \<Rightarrow> (drawn s, Inl e)
     | Inr encKeyNew \<Rightarrow> (case check_password S B oldPw (ss_db s) of
         Inl e \<Rightarrow> (drawn s, Inl e)
       | Inr _ \<Rightarrow> cbind (updateEncryptedDb S B ord1 ord2 encKeyNew) (\<lambda>_ s.
           case rbind (find_bucket B [] (ss_db s)) (\<lambda>_. bt_Put B [] encryptionKeyID (sn_Marshal S encKeyNew) (ss_db s)) of
             Inl e \<Rightarrow> (s, Inl e)
           | Inr b \<Rightarrow> (unlocked_with encKeyNew b s, Inr ())) (drawn s)))
   | _ \<Rightarrow> (s, Inl ErrPasswordRequired))"

definition bolt_storage :: "'k snacl \<Rightarrow> 'b bolt \<Rightarrow> (string list \<Rightarrow> string list) \<Rightarrow> ((string \<times> string) list \<Rightarrow> (string \<times> string) list)
    \<Rightarrow> ('b, 'k) boltSecureStorage SecureStorage" where
  "bolt_storage S B ord1 ord2 = \<lparr>sec_Lock = bolt_Lock, sec_IsLocked = bolt_IsLocked, sec_CreateUnlock = bolt_CreateUnlock S B,
     sec_ChangePassword = bolt_ChangePassword S B ord1 ord2, sec_CreateBucket = bolt_CreateBucket B,
     sec_AddToBucket = bolt_AddToBucket S B, sec_GetFromBucket = bolt_GetFromBucket S B,
     sec_GetAllFromBucket = bolt_GetAllFromBucket S B, sec_ListBuckets = bolt_ListBuckets B,
     sec_RemoveFromBucket = bolt_RemoveFromBucket B, sec_RemoveBucket = bolt_RemoveBucket B\<rparr>"

end
