(* ===== verification/Json_Values.thy ===== *)
theory Json_Values
  imports Json
begin

text \<open>
  JSON values as \<open>encoding/json\<close> writes and reads them: the text of a value, the parser of the
  grammar, and that a value is read back as it was written. The parser is given as much fuel as the text
  has bytes, and one more: every call it makes has read a byte since. Go's limit of ten thousand levels
  is not modelled.
\<close>

section \<open>Values\<close>

text \<open>A number is its text. The members of an object are in the order of the text.\<close>

datatype json = JNull | JBool bool | JNum string | JStr string | JArr "json list" | JObj "(string \<times> json) list"

definition quote_member :: "string \<times> string \<Rightarrow> string" where
  "quote_member kv = json_quote (fst kv) @ CHR '':'' # snd kv"

primrec json_encode :: "json \<Rightarrow> string" where
  "json_encode JNull = ''null''"
| "json_encode (JBool b) = (if b then ''true'' else ''false'')"
| "json_encode (JNum s) = s"
| "json_encode (JStr s) = json_quote s"
| "json_encode (JArr js) = CHR ''['' # join_with CHR '','' (map json_encode js) @ '']''"
| "json_encode (JObj ms) = CHR ''{'' # join_with CHR '','' (map quote_member (map (map_prod id json_encode) ms)) @ ''}''"

section \<open>The parser\<close>

definition is_digit :: "char \<Rightarrow> bool" where
  "is_digit c \<longleftrightarrow> c \<in> set ''0123456789''"

definition skip_ws :: "string \<Rightarrow> string" where
  "skip_ws s = dropWhile (\<lambda>c. c \<in> {CHR '' '', CHR 0x09, CHR 0x0A, CHR 0x0D}) s"

text \<open>Digits, of which there must be one, after what was read.\<close>

definition scan_digits :: "string \<Rightarrow> string \<Rightarrow> (string \<times> string) option" where
  "scan_digits read s = (if takeWhile is_digit s = [] then None else Some (read @ takeWhile is_digit s, dropWhile is_digit s))"

definition scan_int :: "string \<Rightarrow> string \<Rightarrow> (string \<times> string) option" where
  "scan_int read s = (if take 1 s = ''0'' then Some (read @ ''0'', tl s) else scan_digits read s)"

definition scan_frac :: "string \<Rightarrow> string \<Rightarrow> (string \<times> string) option" where
  "scan_frac read s = (if take 1 s = ''.'' then scan_digits (read @ ''.'') (tl s) else Some (read, s))"

definition scan_exp :: "string \<Rightarrow> string \<Rightarrow> (string \<times> string) option" where
  "scan_exp read s = (case s of
     c # t \<Rightarrow> if c \<in> set ''eE''
       then (case t of d # u \<Rightarrow> if d \<in> set ''+-'' then scan_digits (read @ [c, d]) u else scan_digits (read @ [c]) t | [] \<Rightarrow> None)
       else Some (read, s)
   | [] \<Rightarrow> Some (read, s))"

definition scan_number :: "string \<Rightarrow> (string \<times> string) option" where
  "scan_number s = Option.bind (if take 1 s = ''-'' then scan_int ''-'' (tl s) else scan_int [] s)
     (\<lambda>(read, s). Option.bind (scan_frac read s) (\<lambda>(read, s). scan_exp read s))"

definition parse_literal :: "string \<Rightarrow> (json \<times> string) option" where
  "parse_literal s =
     (if take 4 s = ''null'' then Some (JNull, drop 4 s)
      else if take 4 s = ''true'' then Some (JBool True, drop 4 s)
      else if take 5 s = ''false'' then Some (JBool False, drop 5 s)
      else map_option (apfst JNum) (scan_number s))"

fun parse_value :: "nat \<Rightarrow> string \<Rightarrow> (json \<times> string) option"
  and parse_elems :: "nat \<Rightarrow> string \<Rightarrow> (json list \<times> string) option"
  and parse_members :: "nat \<Rightarrow> string \<Rightarrow> ((string \<times> json) list \<times> string) option" where
  "parse_value 0 s = None"
| "parse_value (Suc n) s = (case skip_ws s of
     [] \<Rightarrow> None
   | c # t \<Rightarrow>
       if c = CHR 0x22 then map_option (apfst JStr) (unquote t)
       else if c = CHR ''['' then (if take 1 (skip_ws t) = '']'' then Some (JArr [], tl (skip_ws t)) else map_option (apfst JArr) (parse_elems n t))
       else if c = CHR ''{'' then (if take 1 (skip_ws t) = ''}'' then Some (JObj [], tl (skip_ws t)) else map_option (apfst JObj) (parse_members n t))
       else parse_literal (c # t))"
| "parse_elems 0 s = None"
| "parse_elems (Suc n) s = Option.bind (parse_value n s) (\<lambda>(j, r). case skip_ws r of
     [] \<Rightarrow> None
   | c # r' \<Rightarrow> if c = CHR '']'' then Some ([j], r')
       else if c = CHR '','' then map_option (apfst (Cons j)) (parse_elems n r') else None)"
| "parse_members 0 s = None"
| "parse_members (Suc n) s = (case skip_ws s of
     [] \<Rightarrow> None
   | q # t \<Rightarrow> if q \<noteq> CHR 0x22 then None else Option.bind (unquote t) (\<lambda>(k, u). case skip_ws u of
       [] \<Rightarrow> None
     | c # v \<Rightarrow> if c \<noteq> CHR '':'' then None else Option.bind (parse_value n v) (\<lambda>(j, r). case skip_ws r of
         [] \<Rightarrow> None
       | c # r' \<Rightarrow> if c = CHR ''}'' then Some ([(k, j)], r')
           else if c = CHR '','' then map_option (apfst (Cons (k, j))) (parse_members n r') else None)))"

definition json_parse :: "string \<Rightarrow> json option" where
  "json_parse s = (case parse_value (Suc (length s)) s of
     Some (j, r) \<Rightarrow> if skip_ws r = [] then Some j else None
   | None \<Rightarrow> None)"

section \<open>Reading back what was written\<close>

text \<open>Values whose strings are UTF-8 and whose numbers are those of an unsigned integer.\<close>

definition uint_text :: "string \<Rightarrow> bool" where
  "uint_text s \<longleftrightarrow> s = ''0'' \<or> s \<noteq> [] \<and> list_all is_digit s \<and> hd s \<noteq> CHR ''0''"

primrec json_ok :: "json \<Rightarrow> bool" where
  "json_ok JNull = True"
| "json_ok (JBool b) = True"
| "json_ok (JNum s) = uint_text s"
| "json_ok (JStr s) = valid_utf8 s"
| "json_ok (JArr js) = list_all id (map json_ok js)"
| "json_ok (JObj ms) = list_all (\<lambda>(k, b). valid_utf8 k \<and> b) (map (map_prod id json_ok) ms)"

text \<open>What can follow a value inside another one.\<close>

definition delim :: "string \<Rightarrow> bool" where
  "delim t \<longleftrightarrow> t = [] \<or> hd t \<in> set '',]}''"

lemma skip_ws_start [simp]: "c \<notin> {CHR '' '', CHR 0x09, CHR 0x0A, CHR 0x0D} \<Longrightarrow> skip_ws (c # s) = c # s"
  by (simp add: skip_ws_def)

lemma skip_ws_Nil [simp]: "skip_ws [] = []"
  by (simp add: skip_ws_def)

lemma delim_stops: "delim t \<Longrightarrow> takeWhile is_digit t = [] \<and> dropWhile is_digit t = t"
  by (cases t) (auto simp: delim_def is_digit_def)

lemma scan_digits_all: "list_all is_digit s \<Longrightarrow> s \<noteq> [] \<Longrightarrow> delim t \<Longrightarrow> scan_digits read (s @ t) = Some (read @ s, t)"
  using delim_stops [of t] by (simp add: scan_digits_def list_all_iff)

lemma digit_plain: "is_digit c \<Longrightarrow> c \<notin> {CHR '' '', CHR 0x09, CHR 0x0A, CHR 0x0D} \<and> c \<notin> set ''],}[{ntf-'' \<and> c \<noteq> CHR 0x22"
  by (auto simp: is_digit_def)

lemma uint_text_start: "uint_text s \<Longrightarrow> \<exists>c u. s = c # u \<and> is_digit c"
  by (cases s) (auto simp: uint_text_def is_digit_def)

lemma scan_number_uint:
  assumes "uint_text s" "delim t"
  shows "scan_number (s @ t) = Some (s, t)"
proof -
  have tail: "scan_frac read t = Some (read, t)" "scan_exp read t = Some (read, t)" for read
    using assms(2) by (cases t; auto simp: scan_frac_def scan_exp_def delim_def)+
  have "scan_int [] (s @ t) = Some (s, t)"
  proof (cases "s = ''0''")
    case False
    then have s: "s \<noteq> []" "list_all is_digit s" "hd s \<noteq> CHR ''0''" using assms(1) by (auto simp: uint_text_def)
    then have "scan_int [] (s @ t) = scan_digits [] (s @ t)"
      unfolding scan_int_def by (cases s) auto
    with s show ?thesis using scan_digits_all [OF s(2,1) assms(2), of "[]"] by simp
  qed (simp add: scan_int_def)
  moreover have "take 1 (s @ t) \<noteq> ''-''"
    using uint_text_start [OF assms(1)] digit_plain by fastforce
  ultimately show ?thesis by (simp add: scan_number_def tail)
qed

lemma parse_value_num:
  assumes "uint_text s" "delim t"
  shows "parse_value (Suc n) (s @ t) = Some (JNum s, t)"
proof -
  obtain c u where s: "s = c # u" "is_digit c" using uint_text_start [OF assms(1)] by blast
  then have "parse_literal (s @ t) = Some (JNum s, t)"
    using scan_number_uint [OF assms] digit_plain [OF s(2)] by (simp add: parse_literal_def)
  with s digit_plain [OF s(2)] show ?thesis by simp
qed

lemma json_quote_start: "json_quote s = CHR 0x22 # tl (json_quote s)"
  by (simp add: json_quote_def)

lemma parse_value_str: "valid_utf8 s \<Longrightarrow> parse_value (Suc n) (json_quote s @ t) = Some (JStr s, t)"
  using unquote_valid [of s t] by (subst json_quote_start) simp

text \<open>A value is not empty and does not start with what closes one.\<close>

lemma json_encode_start: "json_ok j \<Longrightarrow> \<exists>c u. json_encode j = c # u \<and> c \<notin> set ''],}'' \<and> c \<notin> {CHR '' '', CHR 0x09, CHR 0x0A, CHR 0x0D}"
  by (cases j) (auto simp: json_quote_def dest!: uint_text_start dest: digit_plain)

text \<open>That a value is read back from its text, with enough fuel.\<close>

definition reads :: "json \<Rightarrow> bool" where
  "reads j \<longleftrightarrow> (\<forall>n t. length (json_encode j) \<le> n \<longrightarrow> delim t \<longrightarrow> parse_value (Suc n) (json_encode j @ t) = Some (j, t))"

lemma readsD: "reads j \<Longrightarrow> length (json_encode j) < n \<Longrightarrow> delim t \<Longrightarrow> parse_value n (json_encode j @ t) = Some (j, t)"
  by (cases n) (auto simp: reads_def)

lemma join_with_Cons: "ws \<noteq> [] \<Longrightarrow> join_with sep (w # ws) = w @ sep # join_with sep ws"
  by (cases ws) simp_all

lemma parse_elems_ok:
  assumes "js \<noteq> []" "\<And>j. j \<in> set js \<Longrightarrow> json_ok j \<and> reads j"
    and "length (join_with CHR '','' (map json_encode js)) + 2 \<le> n"
  shows "parse_elems n (join_with CHR '','' (map json_encode js) @ CHR '']'' # t) = Some (js, t)"
  using assms
proof (induction js arbitrary: n)
  case (Cons j js)
  obtain m where n: "n = Suc m" using Cons.prems(3) by (cases n) auto
  have j: "reads j" using Cons.prems(2) by simp
  show ?case
  proof (cases "js = []")
    case True
    then have "parse_value m (json_encode j @ CHR '']'' # t) = Some (j, CHR '']'' # t)"
      using Cons.prems(3) n by (intro readsD [OF j]) (auto simp: delim_def)
    with True n show ?thesis by simp
  next
    case False
    let ?r = "join_with CHR '','' (map json_encode js)"
    have split: "join_with CHR '','' (map json_encode (j # js)) = json_encode j @ CHR '','' # ?r"
      using False by (simp add: join_with_Cons)
    have len: "length (json_encode j) < m" "length ?r + 2 \<le> m" using Cons.prems(3) n split json_encode_start [of j] Cons.prems(2) by auto
    have "parse_value m (json_encode j @ CHR '','' # ?r @ CHR '']'' # t) = Some (j, CHR '','' # ?r @ CHR '']'' # t)"
      by (rule readsD [OF j len(1)]) (simp add: delim_def)
    moreover have "parse_elems m (?r @ CHR '']'' # t) = Some (js, t)"
      using Cons.IH [OF False _ len(2)] Cons.prems(2) by simp
    ultimately show ?thesis unfolding split n by simp
  qed
qed simp

definition member_text :: "string \<times> json \<Rightarrow> string" where
  "member_text m = json_quote (fst m) @ CHR '':'' # json_encode (snd m)"

lemma json_encode_members: "json_encode (JObj ms) = CHR ''{'' # join_with CHR '','' (map member_text ms) @ ''}''"
  by (auto simp: member_text_def quote_member_def intro: arg_cong [where f = "join_with CHR '',''"])

lemma parse_members_ok:
  assumes "ms \<noteq> []" "\<And>k j. (k, j) \<in> set ms \<Longrightarrow> valid_utf8 k \<and> reads j"
    and "length (join_with CHR '','' (map member_text ms)) + 2 \<le> n"
  shows "parse_members n (join_with CHR '','' (map member_text ms) @ CHR ''}'' # t) = Some (ms, t)"
  using assms
proof (induction ms arbitrary: n)
  case (Cons m ms)
  obtain k j where m: "m = (k, j)" by (cases m)
  obtain n' where n: "n = Suc n'" using Cons.prems(3) by (cases n) auto
  have k: "valid_utf8 k" and j: "reads j" using Cons.prems(2) m by auto
  have key: "unquote (tl (json_quote k) @ u) = Some (k, u)" for u using unquote_valid [OF k] .
  have pos: "0 < length (json_quote k)" by (simp add: json_quote_def)
  show ?case
  proof (cases "ms = []")
    case True
    have "parse_value n' (json_encode j @ CHR ''}'' # t) = Some (j, CHR ''}'' # t)"
      using Cons.prems(3) n m True pos by (intro readsD [OF j]) (auto simp: delim_def member_text_def)
    with True n m key [of "CHR '':'' # json_encode j @ CHR ''}'' # t"] show ?thesis
      by (simp add: member_text_def) (subst json_quote_start, simp)
  next
    case False
    let ?r = "join_with CHR '','' (map member_text ms)"
    have split: "join_with CHR '','' (map member_text (m # ms)) = json_quote k @ CHR '':'' # json_encode j @ CHR '','' # ?r"
      using False m by (simp add: join_with_Cons member_text_def)
    have len: "length (json_encode j) < n'" "length ?r + 2 \<le> n'" using Cons.prems(3) n split pos by auto
    have "parse_value n' (json_encode j @ CHR '','' # ?r @ CHR ''}'' # t) = Some (j, CHR '','' # ?r @ CHR ''}'' # t)"
      by (rule readsD [OF j len(1)]) (simp add: delim_def)
    moreover have "parse_members n' (?r @ CHR ''}'' # t) = Some (ms, t)"
      by (rule Cons.IH [OF False _ len(2)]) (use Cons.prems(2) in auto)
    ultimately show ?thesis
      using key [of "CHR '':'' # json_encode j @ CHR '','' # ?r @ CHR ''}'' # t"] m unfolding split n
      by (subst json_quote_start) simp
  qed
qed simp

lemma json_ok_reads: "json_ok j \<Longrightarrow> reads j"
proof (induction j)
  case (JArr js)
  have ok: "json_ok j \<and> reads j" if "j \<in> set js" for j using JArr that by (auto simp: list_all_iff)
  show ?case
  proof (cases "js = []")
    case False
    then obtain j js' where js: "js = j # js'" by (cases js) auto
    then obtain c u where "json_encode j = c # u" "c \<notin> set ''],}''" "c \<notin> {CHR '' '', CHR 0x09, CHR 0x0A, CHR 0x0D}"
      using json_encode_start ok by (metis list.set_intros(1))
    then have "\<exists>u. join_with CHR '','' (map json_encode js) = c # u" "c \<noteq> CHR '']''" "skip_ws (c # v) = c # v" for v
      using js by (cases js'; simp)+
    then have "take 1 (skip_ws (join_with CHR '','' (map json_encode js) @ v)) \<noteq> '']''" for v by fastforce
    with False show ?thesis
      using parse_elems_ok [OF False ok] by (auto simp: reads_def)
  qed (simp add: reads_def)
next
  case (JObj ms)
  have ok: "valid_utf8 k \<and> reads j" if "(k, j) \<in> set ms" for k j using JObj that by (fastforce simp: list_all_iff)
  show ?case
  proof (cases "ms = []")
    case False
    then have "\<exists>u. join_with CHR '','' (map member_text ms) = CHR 0x22 # u"
      by (cases ms; cases "tl ms") (auto simp: member_text_def json_quote_def)
    then have "take 1 (skip_ws (join_with CHR '','' (map member_text ms) @ v)) \<noteq> ''}''" for v by fastforce
    with False show ?thesis
      using parse_members_ok [OF False ok] by (auto simp: reads_def json_encode_members simp del: json_encode.simps(6))
  qed (simp add: reads_def)
next
  case (JNum s)
  then show ?case by (simp add: reads_def parse_value_num del: parse_value.simps)
next
  case (JStr s)
  then show ?case by (simp add: reads_def parse_value_str del: parse_value.simps)
qed (simp_all add: reads_def parse_literal_def)

text \<open>A value is read back as it was written.\<close>

lemma json_parse_encode: "json_ok j \<Longrightarrow> json_parse (json_encode j) = Some j"
  using readsD [OF json_ok_reads, of j "Suc (length (json_encode j))" "[]"] by (simp add: json_parse_def delim_def)

text \<open>No text of a value has the byte 255, whatever the strings in it.\<close>

lemma join_with_set: "set (join_with sep ws) \<subseteq> insert sep (\<Union> (set ` set ws))"
  by (induction sep ws rule: join_with.induct) auto

end
