(* ===== verification/Request_Uri.thy ===== *)
theory Request_Uri
  imports Hex
begin

text \<open>
  Whether Go's \<open>url.ParseRequestURI\<close> accepts a text, which is all the daemon asks of it. The functions
  are those of \<open>net/url\<close>, each returning whether it succeeds; a \<open>char\<close> is a byte.
\<close>

definition letter :: "char \<Rightarrow> bool" where
  "letter c \<longleftrightarrow> (65 \<le> (of_char c :: nat) \<and> (of_char c :: nat) \<le> 90) \<or> (97 \<le> (of_char c :: nat) \<and> (of_char c :: nat) \<le> 122)"

definition decimal_digit :: "char \<Rightarrow> bool" where
  "decimal_digit c \<longleftrightarrow> 48 \<le> (of_char c :: nat) \<and> (of_char c :: nat) \<le> 57"

definition control :: "char \<Rightarrow> bool" where
  "control c \<longleftrightarrow> (of_char c :: nat) < 32 \<or> (of_char c :: nat) = 127"

text \<open>The scheme and what follows it: \<open>None\<close> when the text starts with a colon.\<close>

definition scheme_char :: "char \<Rightarrow> bool" where
  "scheme_char c \<longleftrightarrow> letter c \<or> decimal_digit c \<or> c \<in> set ''+-.''"

definition getScheme :: "string \<Rightarrow> (string \<times> string) option" where
  "getScheme raw = (let s = takeWhile scheme_char raw; rest = dropWhile scheme_char raw
     in if take 1 rest \<noteq> '':'' \<or> (s \<noteq> [] \<and> \<not> letter (hd s)) then Some ([], raw)
        else if s = [] then None else Some (s, tl rest))"

text \<open>Where a byte must be escaped in a host.\<close>

definition host_char :: "char \<Rightarrow> bool" where
  "host_char c \<longleftrightarrow> letter c \<or> decimal_digit c \<or> c \<in> set ''!$&'()*+,;=:[]<>-_.~'' \<or> c = CHR 0x22"

datatype part = InPath | InUserinfo | InHost | InZone

text \<open>\<open>unescape\<close> on a part of the text.\<close>

fun unescape_ok :: "part \<Rightarrow> string \<Rightarrow> bool" where
  "unescape_ok m [] \<longleftrightarrow> True"
| "unescape_ok m (c # s) \<longleftrightarrow>
     (if c = CHR ''%'' then (case s of
        a # b # t \<Rightarrow> (case (hex_digit a, hex_digit b) of
          (Some x, Some y) \<Rightarrow>
            (m = InHost \<and> x < 8 \<longrightarrow> [a, b] = ''25'')
            \<and> (m = InZone \<longrightarrow> [a, b] = ''25'' \<or> x * 16 + y = 32 \<or> host_char (char_of (x * 16 + y)))
            \<and> unescape_ok m t
        | _ \<Rightarrow> False)
      | _ \<Rightarrow> False)
      else (m \<in> {InHost, InZone} \<longrightarrow> 128 \<le> (of_char c :: nat) \<or> host_char c) \<and> unescape_ok m s)"

definition validOptionalPort :: "string \<Rightarrow> bool" where
  "validOptionalPort port \<longleftrightarrow> port = [] \<or> take 1 port = '':'' \<and> list_all decimal_digit (tl port)"

text \<open>The text before and from the last, or first, occurrence of a byte; before and from \<open>%25\<close>.\<close>

definition before_last :: "char \<Rightarrow> string \<Rightarrow> string" where
  "before_last c s = rev (tl (dropWhile (\<lambda>d. d \<noteq> c) (rev s)))"

definition after_last :: "char \<Rightarrow> string \<Rightarrow> string" where
  "after_last c s = rev (takeWhile (\<lambda>d. d \<noteq> c) (rev s))"

fun before_zone :: "string \<Rightarrow> (string \<times> string) option" where
  "before_zone [] = None"
| "before_zone (c # s) = (if take 3 (c # s) = ''%25'' then Some ([], c # s) else map_option (apfst (Cons c)) (before_zone s))"

definition parseHost :: "string \<Rightarrow> bool" where
  "parseHost host \<longleftrightarrow>
     (if take 1 host = ''[''
      then CHR '']'' \<in> set host \<and> validOptionalPort (after_last CHR '']'' host)
        \<and> (case before_zone (before_last CHR '']'' host) of
             Some (h, zone) \<Rightarrow> unescape_ok InHost h \<and> unescape_ok InZone zone \<and> unescape_ok InHost (CHR '']'' # after_last CHR '']'' host)
           | None \<Rightarrow> unescape_ok InHost host)
      else (CHR '':'' \<in> set host \<longrightarrow> validOptionalPort (CHR '':'' # after_last CHR '':'' host)) \<and> unescape_ok InHost host)"

definition userinfo_char :: "char \<Rightarrow> bool" where
  "userinfo_char c \<longleftrightarrow> letter c \<or> decimal_digit c \<or> c \<in> set ''-._:~!$&'()*+,;=%@''"

definition parseAuthority :: "string \<Rightarrow> bool" where
  "parseAuthority authority \<longleftrightarrow>
     (if CHR ''@'' \<notin> set authority then parseHost authority
      else parseHost (after_last CHR ''@'' authority) \<and> list_all userinfo_char (before_last CHR ''@'' authority)
        \<and> (let userinfo = before_last CHR ''@'' authority
           in unescape_ok InUserinfo (takeWhile (\<lambda>c. c \<noteq> CHR '':'') userinfo)
            \<and> unescape_ok InUserinfo (tl (dropWhile (\<lambda>c. c \<noteq> CHR '':'') userinfo))))"

definition ParseRequestURI :: "string \<Rightarrow> bool" where
  "ParseRequestURI raw \<longleftrightarrow> \<not> list_ex control raw \<and> raw \<noteq> [] \<and>
     (raw = ''*'' \<or> (case getScheme raw of
        None \<Rightarrow> False
      | Some (scheme, rest) \<Rightarrow>
          let rest = takeWhile (\<lambda>c. c \<noteq> CHR ''?'') rest
          in if take 1 rest \<noteq> ''/'' then scheme \<noteq> []
             else if scheme \<noteq> [] \<and> take 2 rest = ''//''
             then parseAuthority (takeWhile (\<lambda>c. c \<noteq> CHR ''/'') (drop 2 rest)) \<and> unescape_ok InPath (dropWhile (\<lambda>c. c \<noteq> CHR ''/'') (drop 2 rest))
             else unescape_ok InPath rest))"

lemma ParseRequestURI_examples:
  "ParseRequestURI ''http://10.0.0.1:8888/hook?a=b''" "ParseRequestURI ''https://[::1%25eth0]:80/''" "ParseRequestURI ''/path''"
  "\<not> ParseRequestURI ''''" "\<not> ParseRequestURI ''localhost''" "\<not> ParseRequestURI ''http://a b/''" "\<not> ParseRequestURI ''http://h:p/''"
  "\<not> ParseRequestURI ''http://h/%zz''"
  by code_simp+

end
