(* ===== verification/Pubsub.thy ===== *)
theory Pubsub
  imports Secure_Store Json_Values Request_Uri "HOL-Library.List_Lexorder"
begin

text \<open>
  \<open>internal/infrastructure/pubsub\<close>: the subscriptions to the events of the daemon, kept in two buckets of
  an encrypted store, and the requests that publish an event to its subscribers. The store is any
  implementation of the interface \<open>SecureStorage\<close>. The identifiers the \<open>uuid\<close> package makes, the token the
  \<open>jwt\<close> package signs, the circuit breaker and the HTTP client are parameters.
\<close>

section \<open>Subscriptions\<close>

record Subscription =
  sub_ID :: string
  sub_Event :: string
  sub_Endpoint :: string
  sub_Secret :: string

definition AnyTopic :: string where "AnyTopic = ''*''"

definition UnspecifiedTopic :: string where "UnspecifiedTopic = ''''"

definition Subscription_json :: "Subscription \<Rightarrow> json" where
  "Subscription_json h = JObj [(''id'', JStr (sub_ID h)), (''event'', JStr (sub_Event h)),
     (''endpoint'', JStr (sub_Endpoint h)), (''secret'', JStr (sub_Secret h))]"

definition Serialize :: "Subscription \<Rightarrow> string" where
  "Serialize h = json_encode (Subscription_json h)"

definition IsSecured :: "Subscription \<Rightarrow> bool" where
  "IsSecured h \<longleftrightarrow> length (sub_Secret h) > 0"

text \<open>
  The name of a field and the key of a member, compared as \<open>encoding/json\<close> does: without case, the
  long s (bytes C5 BF) being another s.
\<close>

definition ascii_lower :: "char \<Rightarrow> char" where
  "ascii_lower c = (if 65 \<le> (of_char c :: nat) \<and> (of_char c :: nat) \<le> 90 then char_of ((of_char c :: nat) + 32) else c)"

fun fold_eq :: "string \<Rightarrow> string \<Rightarrow> bool" where
  "fold_eq [] k \<longleftrightarrow> k = []"
| "fold_eq (c # n) k \<longleftrightarrow> k \<noteq> [] \<and> (ascii_lower (hd k) = c \<and> fold_eq n (tl k)
     \<or> c = CHR ''s'' \<and> take 2 k = [CHR 0xC5, CHR 0xBF] \<and> fold_eq n (drop 2 k))"

text \<open>One member of the object: another field is ignored, null leaves the field, any other type is an error.\<close>

definition decode_member :: "string \<times> json \<Rightarrow> Subscription \<times> bool \<Rightarrow> Subscription \<times> bool" where
  "decode_member m a = (case (m, a) of ((k, j), (h, bad)) \<Rightarrow>
     if \<not> list_ex (\<lambda>n. fold_eq n k) [''id'', ''event'', ''endpoint'', ''secret''] then (h, bad)
     else (case j of
       JNull \<Rightarrow> (h, bad)
     | JStr v \<Rightarrow> (if fold_eq ''id'' k then h\<lparr>sub_ID := v\<rparr>
         else if fold_eq ''event'' k then h\<lparr>sub_Event := v\<rparr>
         else if fold_eq ''endpoint'' k then h\<lparr>sub_Endpoint := v\<rparr>
         else h\<lparr>sub_Secret := v\<rparr>, bad)
     | _ \<Rightarrow> (h, True)))"

definition NewSubscriptionFromBytes :: "string \<Rightarrow> Subscription res" where
  "NewSubscriptionFromBytes buf = (let zero = \<lparr>sub_ID = '''', sub_Event = '''', sub_Endpoint = '''', sub_Secret = ''''\<rparr>
     in case json_parse buf of
       None \<Rightarrow> Inl (External ''invalid JSON'')
     | Some JNull \<Rightarrow> Inr zero
     | Some (JObj ms) \<Rightarrow> (case fold decode_member ms (zero, False) of (h, bad) \<Rightarrow>
         if bad then Inl (External ''cannot unmarshal'') else Inr h)
     | Some _ \<Rightarrow> Inl (External ''cannot unmarshal''))"

section \<open>The service\<close>

definition subsBucket :: string where "subsBucket = ''subscriptions''"

definition subsByEventBucket :: string where "subsByEventBucket = ''subscriptionsbyevent''"

definition separator :: char where "separator = CHR 0xFF"

record 's pubsub =
  ps_store :: 's
  ps_uuids :: nat

definition pubsub_NewService :: "'s option \<Rightarrow> 's pubsub res" where
  "pubsub_NewService secureStore = (case secureStore of
     None \<Rightarrow> Inl (Errorf ''missing secure store'' [])
   | Some s \<Rightarrow> Inr \<lparr>ps_store = s, ps_uuids = 0\<rparr>)"

text \<open>Calls of the store, which change it or only read.\<close>

definition on_store :: "('s, 'a) call \<Rightarrow> ('s pubsub, 'a) call" where
  "on_store f w = (case f (ps_store w) of (s, r) \<Rightarrow> (w\<lparr>ps_store := s\<rparr>, r))"

definition from_store :: "('s \<Rightarrow> 'a res) \<Rightarrow> ('s pubsub, 'a) call" where
  "from_store f w = (w, f (ps_store w))"

definition check_subscription :: "string \<Rightarrow> string \<Rightarrow> unit res" where
  "check_subscription event endpoint =
     (if length event \<le> 0 then Inl (Errorf ''missing event'' [])
      else if \<not> ParseRequestURI endpoint then Inl (Errorf ''invalid webhook endpoint, must be a vald URI'' [])
      else Inr ())"

definition NewSubscription :: "(nat \<Rightarrow> string) \<Rightarrow> string \<Rightarrow> string \<Rightarrow> string \<Rightarrow> ('s pubsub, Subscription) call" where
  "NewSubscription uuid event endpoint secret w = (case check_subscription event endpoint of
     Inl e \<Rightarrow> (w, Inl e)
   | Inr _ \<Rightarrow> (w\<lparr>ps_uuids := ps_uuids w + 1\<rparr>,
       Inr \<lparr>sub_ID = uuid (ps_uuids w), sub_Event = event, sub_Endpoint = endpoint, sub_Secret = secret\<rparr>))"

text \<open>
  The serialized subscriptions for a topic, errors of the store dropped. \<open>ord\<close> is the order in which the
  map of all topics is visited.
\<close>

definition getSerializedSubscriptions :: "'s SecureStorage \<Rightarrow> ((string, string) gomap \<Rightarrow> (string, string) gomap) \<Rightarrow> string \<Rightarrow> 's \<Rightarrow> string list" where
  "getSerializedSubscriptions ST ord topic s =
     (if topic = UnspecifiedTopic
      then (case sec_GetAllFromBucket ST subsByEventBucket s of
        Inl _ \<Rightarrow> []
      | Inr subsByTopic \<Rightarrow> concat (map (\<lambda>(_, subs). split_on separator subs) (ord subsByTopic)))
      else (case sec_GetFromBucket ST subsByEventBucket topic s of
        Inr (Some subs) \<Rightarrow> if length subs \<le> 0 then [] else split_on separator subs
      | _ \<Rightarrow> []))"

definition addSubscriptionForTopic :: "'s SecureStorage \<Rightarrow> ((string, string) gomap \<Rightarrow> (string, string) gomap) \<Rightarrow> Subscription \<Rightarrow> ('s pubsub, unit) call" where
  "addSubscriptionForTopic ST ord sub w =
     (let subs = getSerializedSubscriptions ST ord (sub_Event sub) (ps_store w)
      in on_store (sec_AddToBucket ST subsByEventBucket (sub_Event sub) (join_with separator (subs @ [Serialize sub]))) w)"

text \<open>The two ways to add differ in what a subscription with the same id gives.\<close>

definition addSubscription :: "'s SecureStorage \<Rightarrow> ((string, string) gomap \<Rightarrow> (string, string) gomap) \<Rightarrow> Subscription \<Rightarrow> ('s pubsub, string) call" where
  "addSubscription ST ord sub =
     cbind (from_store (sec_GetFromBucket ST subsBucket (sub_ID sub))) (\<lambda>ss.
       if ss \<noteq> None then cret (sub_ID sub)
       else cbind (on_store (sec_AddToBucket ST subsBucket (sub_ID sub) (Serialize sub))) (\<lambda>_.
         cbind (addSubscriptionForTopic ST ord sub) (\<lambda>_. cret (sub_ID sub))))"

definition addSubscriptionSafe :: "'s SecureStorage \<Rightarrow> ((string, string) gomap \<Rightarrow> (string, string) gomap) \<Rightarrow> Subscription \<Rightarrow> ('s pubsub, string) call" where
  "addSubscriptionSafe ST ord sub =
     cbind (from_store (sec_GetFromBucket ST subsBucket (sub_ID sub))) (\<lambda>ss.
       if ss \<noteq> None then cfail (Errorf ''subscription with id %s already exist'' [sub_ID sub])
       else cbind (on_store (sec_AddToBucket ST subsBucket (sub_ID sub) (Serialize sub))) (\<lambda>_.
         cbind (addSubscriptionForTopic ST ord sub) (\<lambda>_. cret (sub_ID sub))))"

definition Subscribe :: "'s SecureStorage \<Rightarrow> ((string, string) gomap \<Rightarrow> (string, string) gomap) \<Rightarrow> (nat \<Rightarrow> string)
    \<Rightarrow> string \<Rightarrow> string \<Rightarrow> string \<Rightarrow> ('s pubsub, string) call" where
  "Subscribe ST ord uuid topic endpoint secret = cbind (NewSubscription uuid topic endpoint secret) (addSubscription ST ord)"

definition SubscribeWithID :: "'s SecureStorage \<Rightarrow> ((string, string) gomap \<Rightarrow> (string, string) gomap) \<Rightarrow> (nat \<Rightarrow> string)
    \<Rightarrow> string \<Rightarrow> string \<Rightarrow> string \<Rightarrow> string \<Rightarrow> ('s pubsub, string) call" where
  "SubscribeWithID ST ord uuid subID topic endpoint secret = cbind (NewSubscription uuid topic endpoint secret) (\<lambda>_.
     if length subID \<le> 0 then cfail (Errorf ''missing subscription id'' [])
     else addSubscriptionSafe ST ord \<lparr>sub_ID = subID, sub_Event = topic, sub_Endpoint = endpoint, sub_Secret = secret\<rparr>)"

text \<open>The position of the subscription with an id, the first one when there is none.\<close>

fun find_index :: "string \<Rightarrow> string list \<Rightarrow> nat \<Rightarrow> nat res" where
  "find_index subID [] i = Inr 0"
| "find_index subID (buf # bufs) i = (case NewSubscriptionFromBytes buf of
     Inl _ \<Rightarrow> Inl nil_deref
   | Inr ss \<Rightarrow> if sub_ID ss = subID then Inr i else find_index subID bufs (i + 1))"

definition removeSubscriptionForTopic :: "'s SecureStorage \<Rightarrow> ((string, string) gomap \<Rightarrow> (string, string) gomap) \<Rightarrow> Subscription \<Rightarrow> ('s pubsub, unit) call" where
  "removeSubscriptionForTopic ST ord sub w =
     (let subs = getSerializedSubscriptions ST ord (sub_Event sub) (ps_store w)
      in case find_index (sub_ID sub) subs 0 of
        Inl e \<Rightarrow> (w, Inl e)
      | Inr index \<Rightarrow>
          if \<not> index < length subs then (w, Inl (Panic ''slice bounds out of range''))
          else let subs = take index subs @ drop (index + 1) subs
          in if length subs \<le> 0 then on_store (sec_RemoveFromBucket ST subsByEventBucket (sub_Event sub)) w
             else on_store (sec_AddToBucket ST subsByEventBucket (sub_Event sub) (join_with separator subs)) w)"

definition removeSubscription :: "'s SecureStorage \<Rightarrow> ((string, string) gomap \<Rightarrow> (string, string) gomap) \<Rightarrow> string \<Rightarrow> ('s pubsub, unit) call" where
  "removeSubscription ST ord subID =
     cbind (from_store (sec_GetFromBucket ST subsBucket subID)) (\<lambda>buf. case buf of
       None \<Rightarrow> cfail (Errorf ''webhook not found'' [])
     | Some buf \<Rightarrow> cbind (on_store (sec_RemoveFromBucket ST subsBucket subID)) (\<lambda>_.
         case NewSubscriptionFromBytes buf of
           Inl _ \<Rightarrow> cfail nil_deref
         | Inr sub \<Rightarrow> removeSubscriptionForTopic ST ord sub))"

definition Unsubscribe :: "'s SecureStorage \<Rightarrow> ((string, string) gomap \<Rightarrow> (string, string) gomap) \<Rightarrow> string \<Rightarrow> string \<Rightarrow> ('s pubsub, unit) call" where
  "Unsubscribe ST ord topic subID = removeSubscription ST ord subID"

text \<open>\<open>sort.SliceStable\<close> by the bytes of the id.\<close>

definition sort_by_id :: "Subscription list \<Rightarrow> Subscription list" where
  "sort_by_id = sort_key (\<lambda>h. map of_char (sub_ID h) :: nat list)"

definition getSubscriptionsForTopic :: "'s SecureStorage \<Rightarrow> ((string, string) gomap \<Rightarrow> (string, string) gomap) \<Rightarrow> string \<Rightarrow> 's \<Rightarrow> Subscription list res" where
  "getSubscriptionsForTopic ST ord topic s =
     rbind (rmap (\<lambda>buf. case NewSubscriptionFromBytes buf of Inl _ \<Rightarrow> Inl nil_deref | Inr sub \<Rightarrow> Inr sub)
       (getSerializedSubscriptions ST ord topic s)) (\<lambda>subs. Inr (sort_by_id subs))"

definition listSubscriptionsForTopic :: "'s SecureStorage \<Rightarrow> ((string, string) gomap \<Rightarrow> (string, string) gomap) \<Rightarrow> string \<Rightarrow> 's \<Rightarrow> Subscription list res" where
  "listSubscriptionsForTopic ST ord topic s = rbind (getSubscriptionsForTopic ST ord topic s) (\<lambda>subs.
     if topic \<noteq> AnyTopic \<and> topic \<noteq> UnspecifiedTopic
     then rbind (getSubscriptionsForTopic ST ord AnyTopic s) (\<lambda>subsForAnyTopic. Inr (subs @ subsForAnyTopic))
     else Inr subs)"

section \<open>Publishing\<close>

text \<open>
  The world of the requests, of type \<open>'h\<close>, is changed by the client only. The circuit breaker runs the
  request it is given or refuses it.
\<close>

definition doRequest :: "(string \<Rightarrow> string) \<Rightarrow> (('h, unit) call \<Rightarrow> ('h, unit) call) \<Rightarrow> (string \<Rightarrow> string \<Rightarrow> (string \<times> string) list \<Rightarrow> ('h, int \<times> string) call)
    \<Rightarrow> Subscription \<Rightarrow> string \<Rightarrow> ('h, unit) call" where
  "doRequest jwt cb_Execute post sub payload = cb_Execute (
     let headers = [(''Content-Type'', ''application/json'')]
       @ (if IsSecured sub then [(''Authorization'', ''Bearer '' @ jwt (sub_Secret sub))] else [])
     in cbind (post (sub_Endpoint sub) payload headers) (\<lambda>(status, resp).
          if status \<noteq> 200 then cfail (Errorf resp []) else cret ()))"

text \<open>An \<open>errgroup\<close>: every call is made, and the first error is returned.\<close>

fun run_group :: "('h, unit) call list \<Rightarrow> ('h, unit) call" where
  "run_group [] h = (h, Inr ())"
| "run_group (f # fs) h = (case f h of (h, r) \<Rightarrow> case run_group fs h of (h, r') \<Rightarrow> (h, case r of Inl e \<Rightarrow> Inl e | Inr _ \<Rightarrow> r'))"

text \<open>\<open>sched\<close> is the order in which the requests of the group are made.\<close>

definition publishForTopic :: "'s SecureStorage \<Rightarrow> ((string, string) gomap \<Rightarrow> (string, string) gomap) \<Rightarrow> (Subscription list \<Rightarrow> Subscription list)
    \<Rightarrow> (string \<Rightarrow> string) \<Rightarrow> (('h, unit) call \<Rightarrow> ('h, unit) call) \<Rightarrow> (string \<Rightarrow> string \<Rightarrow> (string \<times> string) list \<Rightarrow> ('h, int \<times> string) call)
    \<Rightarrow> string \<Rightarrow> string \<Rightarrow> 's \<Rightarrow> ('h, unit) call" where
  "publishForTopic ST ord sched jwt cb_Execute post topic message s h = (case listSubscriptionsForTopic ST ord topic s of
     Inl e \<Rightarrow> (h, Inl e)
   | Inr subs \<Rightarrow> run_group (map (\<lambda>sub. doRequest jwt cb_Execute post sub message) (sched subs)) h)"

text \<open>
  When the circuit breaker opens. The ratio of two 32-bit counters is a floating point number; it is at
  least the constant 0.6 exactly when the counters are in that ratio.
\<close>

definition ReadyToTrip :: "u32 \<Rightarrow> u32 \<Rightarrow> bool" where
  "ReadyToTrip requests totalFailures \<longleftrightarrow> uint requests > 10 \<and> 5 * uint totalFailures \<ge> 3 * uint requests"

section \<open>The store\<close>

definition store_IsLocked :: "'s SecureStorage \<Rightarrow> 's pubsub \<Rightarrow> bool" where
  "store_IsLocked ST w = sec_IsLocked ST (ps_store w)"

definition store_Lock :: "'s SecureStorage \<Rightarrow> 's pubsub \<Rightarrow> 's pubsub" where
  "store_Lock ST w = w\<lparr>ps_store := sec_Lock ST (ps_store w)\<rparr>"

definition store_Unlock :: "'s SecureStorage \<Rightarrow> string \<Rightarrow> ('s pubsub, unit) call" where
  "store_Unlock ST password =
     cbind (on_store (sec_CreateUnlock ST (Some password))) (\<lambda>_.
     cbind (from_store (sec_ListBuckets ST)) (\<lambda>buckets.
     cbind (if subsBucket \<notin> set buckets then on_store (sec_CreateBucket ST subsBucket) else cret ()) (\<lambda>_.
       if subsByEventBucket \<notin> set buckets then on_store (sec_CreateBucket ST subsByEventBucket) else cret ())))"

definition store_Init :: "'s SecureStorage \<Rightarrow> string \<Rightarrow> ('s pubsub, unit) call" where
  "store_Init ST password = cbind (store_Unlock ST password) (\<lambda>_ w.
     case cbind (on_store (sec_CreateBucket ST subsBucket)) (\<lambda>_. on_store (sec_CreateBucket ST subsByEventBucket)) w of
       (w, r) \<Rightarrow> (store_Lock ST w, r))"

definition store_ChangePassword :: "'s SecureStorage \<Rightarrow> string \<Rightarrow> string \<Rightarrow> ('s pubsub, unit) call" where
  "store_ChangePassword ST oldPwd newPwd = on_store (sec_ChangePassword ST (Some oldPwd) (Some newPwd))"

end
