(* ===== verification/Webhooks.thy ===== *)
theory Webhooks
  imports Pubsub Operator_Handler
begin

text \<open>
  \<open>internal/core/application/pubsub\<close>, the webhook methods of the operator service, and
  \<open>internal/interfaces/grpc/handler/webhook.go\<close>: webhooks are subscriptions to the topics of the events, and
  the events are published as JSON objects. Go writes the members of a map in the order of their keys.
\<close>

section \<open>Events\<close>

definition eventTradeSettled :: string where "eventTradeSettled = ''TRADE_SETTLED''"
definition eventAccountLowBalance :: string where "eventAccountLowBalance = ''ACCOUNT_LOW_BALANCE''"
definition eventAccountWithdraw :: string where "eventAccountWithdraw = ''ACCOUNT_WITHDRAW''"
definition eventAccountDeposit :: string where "eventAccountDeposit = ''ACCOUNT_DEPOSIT''"

text \<open>What the interface of an event answers, and its two implementations: a number of the RPC interface, a topic.\<close>

record WebhookEvent =
  we_IsUnspecified :: bool
  we_IsTradeSettled :: bool
  we_IsAccountLowBalance :: bool
  we_IsAccountWithdraw :: bool
  we_IsAccountDeposit :: bool
  we_IsAny :: bool

definition proto_webhookEventInfo :: "int \<Rightarrow> WebhookEvent" where
  "proto_webhookEventInfo i = \<lparr>we_IsUnspecified = (i = 0), we_IsTradeSettled = (i = 1), we_IsAccountLowBalance = (i = 2),
     we_IsAccountWithdraw = (i = 3), we_IsAccountDeposit = (i = 4), we_IsAny = (i = 5)\<rparr>"

definition webhookEventInfo :: "string \<Rightarrow> WebhookEvent" where
  "webhookEventInfo i = \<lparr>we_IsUnspecified = (i = UnspecifiedTopic), we_IsTradeSettled = (i = eventTradeSettled),
     we_IsAccountLowBalance = (i = eventAccountLowBalance), we_IsAccountWithdraw = (i = eventAccountWithdraw),
     we_IsAccountDeposit = (i = eventAccountDeposit), we_IsAny = (i = AnyTopic)\<rparr>"

definition topicForEvent :: "WebhookEvent \<Rightarrow> string" where
  "topicForEvent event =
     (if we_IsTradeSettled event then eventTradeSettled
      else if we_IsAccountLowBalance event then eventAccountLowBalance
      else if we_IsAccountWithdraw event then eventAccountWithdraw
      else if we_IsAccountDeposit event then eventAccountDeposit
      else if we_IsAny event then AnyTopic
      else UnspecifiedTopic)"

section \<open>Webhooks\<close>

record Webhook =
  wh_Id :: string
  wh_Event :: WebhookEvent
  wh_Endpoint :: string
  wh_Secret :: string

record WebhookInfo =
  wi_Id :: string
  wi_Event :: WebhookEvent
  wi_Endpoint :: string
  wi_IsSecured :: bool

text \<open>The service the webhooks are kept by: the store, the order of its maps and the identifiers.\<close>

record 's hook_service =
  hs_store :: "'s SecureStorage"
  hs_ord :: "(string, string) gomap \<Rightarrow> (string, string) gomap"
  hs_uuid :: "nat \<Rightarrow> string"

definition AddWebhook :: "'s hook_service \<Rightarrow> Webhook \<Rightarrow> ('s pubsub, string) call" where
  "AddWebhook P webhook =
     (if we_IsUnspecified (wh_Event webhook) then cfail (Errorf ''invalid webhook event type'' [])
      else Subscribe (hs_store P) (hs_ord P) (hs_uuid P) (topicForEvent (wh_Event webhook)) (wh_Endpoint webhook) (wh_Secret webhook))"

definition AddWebhookWithID :: "'s hook_service \<Rightarrow> Webhook \<Rightarrow> ('s pubsub, string) call" where
  "AddWebhookWithID P webhook =
     (if we_IsUnspecified (wh_Event webhook) then cfail (Errorf ''invalid webhook event type'' [])
      else if length (wh_Id webhook) \<le> 0 then cfail (Errorf ''missing webhook id'' [])
      else SubscribeWithID (hs_store P) (hs_ord P) (hs_uuid P) (wh_Id webhook) (topicForEvent (wh_Event webhook)) (wh_Endpoint webhook) (wh_Secret webhook))"

definition RemoveWebhook :: "'s hook_service \<Rightarrow> string \<Rightarrow> ('s pubsub, unit) call" where
  "RemoveWebhook P hookID = Unsubscribe (hs_store P) (hs_ord P) UnspecifiedTopic hookID"

definition webhookInfo :: "Subscription \<Rightarrow> WebhookInfo" where
  "webhookInfo s = \<lparr>wi_Id = sub_ID s, wi_Event = webhookEventInfo (sub_Event s), wi_Endpoint = sub_Endpoint s, wi_IsSecured = IsSecured s\<rparr>"

definition ListWebhooks :: "'s hook_service \<Rightarrow> WebhookEvent \<Rightarrow> ('s pubsub, WebhookInfo list) call" where
  "ListWebhooks P event = cbind (from_store (listSubscriptionsForTopic (hs_store P) (hs_ord P) (topicForEvent event)))
     (\<lambda>subs. cret (map webhookInfo subs))"

text \<open>The operator service passes them on.\<close>

definition op_AddWebhook :: "'s hook_service \<Rightarrow> Webhook \<Rightarrow> ('s pubsub, string) call" where
  "op_AddWebhook = AddWebhook"

definition op_RemoveWebhook :: "'s hook_service \<Rightarrow> string \<Rightarrow> ('s pubsub, unit) call" where
  "op_RemoveWebhook = RemoveWebhook"

definition op_ListWebhooks :: "'s hook_service \<Rightarrow> WebhookEvent \<Rightarrow> ('s pubsub, WebhookInfo list) call" where
  "op_ListWebhooks = ListWebhooks"

section \<open>The handler\<close>

record pb_WebhookInfo =
  pbi_Id :: string
  pbi_Endpoint :: string
  pbi_IsSecured :: bool
  pbi_Event :: int

definition proto_event :: "WebhookEvent \<Rightarrow> int" where
  "proto_event event =
     (if we_IsTradeSettled event then 1 else if we_IsAccountLowBalance event then 2 else if we_IsAccountWithdraw event then 3
      else if we_IsAccountDeposit event then 4 else if we_IsAny event then 5 else 0)"

definition webhooksInfo_toProto :: "WebhookInfo list \<Rightarrow> pb_WebhookInfo list" where
  "webhooksInfo_toProto i = map (\<lambda>info. \<lparr>pbi_Id = wi_Id info, pbi_Endpoint = wi_Endpoint info, pbi_IsSecured = wi_IsSecured info,
     pbi_Event = proto_event (wi_Event info)\<rparr>) i"

definition proto_webhookInfo :: "pb_AddWebhookRequest \<Rightarrow> Webhook" where
  "proto_webhookInfo i = \<lparr>wh_Id = '''', wh_Event = proto_webhookEventInfo (pbw_Event i), wh_Endpoint = pbw_Endpoint i, wh_Secret = pbw_Secret i\<rparr>"

definition addWebhook :: "'s hook_service \<Rightarrow> pb_AddWebhookRequest \<Rightarrow> ('s pubsub, string) rpc" where
  "addWebhook P req = checked (parseWebhook req) (\<lambda>webhook. calling (op_AddWebhook P (proto_webhookInfo webhook)) id)"

definition removeWebhook :: "'s hook_service \<Rightarrow> string \<Rightarrow> ('s pubsub, unit) rpc" where
  "removeWebhook P hookID = calling (op_RemoveWebhook P hookID) no_answer"

definition listWebhooks :: "'s hook_service \<Rightarrow> int \<Rightarrow> ('s pubsub, pb_WebhookInfo list) rpc" where
  "listWebhooks P event = checked (parseWebhookEvent event) (\<lambda>event. calling (op_ListWebhooks P (proto_webhookEventInfo event)) webhooksInfo_toProto)"

section \<open>Messages\<close>

text \<open>A Go map as JSON: its members in the order of the bytes of their keys.\<close>

definition json_map :: "(string \<times> json) list \<Rightarrow> json" where
  "json_map ms = JObj (sort_key (\<lambda>m. map of_char (fst m) :: nat list) ms)"

definition json_uint :: "u64 \<Rightarrow> json" where
  "json_uint n = JNum (itoa (uint n))"

definition getAccountPayload :: "string \<Rightarrow> Market option \<Rightarrow> json res" where
  "getAccountPayload accountName market =
     (if accountName = FeeAccount then Inr (json_map [(''type'', JStr ''fee''), (''name'', JStr FeeAccount)])
      else case market of
        None \<Rightarrow> Inl nil_deref
      | Some m \<Rightarrow> Inr (json_map [(''type'', JStr ''market''), (''base_asset'', JStr (mkt_BaseAsset m)), (''quote_asset'', JStr (mkt_QuoteAsset m))]))"

definition balance_json :: "Balance option \<Rightarrow> json" where
  "balance_json bal = (case bal of
     None \<Rightarrow> json_map [(''unconfirmed'', json_uint 0), (''confirmed'', json_uint 0), (''locked'', json_uint 0)]
   | Some b \<Rightarrow> json_map [(''unconfirmed'', json_uint (bal_UnconfirmedBalance b)), (''confirmed'', json_uint (bal_ConfirmedBalance b)),
       (''locked'', json_uint (bal_LockedBalance b))])"

definition getBalancePayload :: "(string, Balance option) gomap \<Rightarrow> json" where
  "getBalancePayload accountBalance = json_map (map (\<lambda>(asset, bal). (asset, balance_json bal)) accountBalance)"

definition getSwapPayload :: "SwapRequest option \<Rightarrow> json res" where
  "getSwapPayload sr = (case sr of
     None \<Rightarrow> Inl nil_deref
   | Some s \<Rightarrow> Inr (json_map [(''amount_p'', json_uint (sr_AmountP s)), (''asset_p'', JStr (sr_AssetP s)),
       (''amount_r'', json_uint (sr_AmountR s)), (''asset_r'', JStr (sr_AssetR s))]))"

definition getMarketPayload :: "Trade \<Rightarrow> json" where
  "getMarketPayload trade = json_map [(''base_asset'', JStr (trd_MarketBaseAsset trade)), (''quote_asset'', JStr (trd_MarketQuoteAsset trade))]"

definition amounts_json :: "(string, u64) gomap \<Rightarrow> json" where
  "amounts_json m = json_map (map (\<lambda>(asset, n). (asset, json_uint n)) m)"

definition some_balances :: "(string, Balance) gomap \<Rightarrow> (string, Balance option) gomap" where
  "some_balances m = map (\<lambda>(asset, b). (asset, Some b)) m"

text \<open>The payload of an event of the operator service, with the topic it is published for.\<close>

definition account_members :: "string \<Rightarrow> string \<Rightarrow> (string, Balance option) gomap \<Rightarrow> Market option \<Rightarrow> (string \<times> json) list res" where
  "account_members event accountName accountBalance market = rbind (getAccountPayload accountName market) (\<lambda>account.
     Inr [(''event'', JStr event), (''account'', account), (''balance'', getBalancePayload accountBalance)])"

fun event_payload :: "op_event \<Rightarrow> (string \<times> json) res" where
  "event_payload (LowBalanceEvent accountName accountBalance market) =
     rbind (account_members eventAccountLowBalance accountName accountBalance market) (\<lambda>ms. Inr (eventAccountLowBalance, json_map ms))"
| "event_payload (DepositEvent accountName accountBalance deposit market) =
     rbind (account_members eventAccountDeposit accountName (some_balances accountBalance) market) (\<lambda>ms.
       Inr (eventAccountDeposit, json_map (ms @ [(''txid'', JStr (dep_TxID deposit)), (''amount_deposited'', amounts_json (dep_TotAmountPerAsset deposit))])))"
| "event_payload (WithdrawEvent accountName accountBalance withdrawal market) =
     rbind (account_members eventAccountWithdraw accountName (some_balances accountBalance) market) (\<lambda>ms.
       Inr (eventAccountWithdraw, json_map (ms @ [(''txid'', JStr (wd_TxID withdrawal)), (''amount_withdrawn'', amounts_json (wd_TotAmountPerAsset withdrawal))])))"

text \<open>The payload of a settled trade. \<open>date\<close> formats a time in the zone of the host.\<close>

definition settled_payload :: "SwapParser \<Rightarrow> (i64 \<Rightarrow> string) \<Rightarrow> (string, Balance option) gomap \<Rightarrow> Trade \<Rightarrow> (string \<times> json) res" where
  "settled_payload P date accountBalance trade =
     rbind (SwapRequestMessage P trade) (\<lambda>sr. rbind (getSwapPayload sr) (\<lambda>swap.
       Inr (eventTradeSettled, json_map [
         (''event'', JStr eventTradeSettled),
         (''market'', getMarketPayload trade),
         (''balance'', getBalancePayload accountBalance),
         (''swap'', swap),
         (''price'', json_map [(''base_price'', JStr (mp_BasePrice (trd_MarketPrice trade))), (''quote_price'', JStr (mp_QuotePrice (trd_MarketPrice trade)))]),
         (''txid'', JStr (trd_TxId trade)),
         (''settlement_timestamp'', JNum (itoa (trd_SettlementTime trade))),
         (''settlement_date'', JStr (date (trd_SettlementTime trade))),
         (''trading_fees'', json_map [(''asset'', JStr (trd_FeeAsset trade)), (''amount'', json_uint (trd_FeeAmount trade))])])))"

text \<open>Publishing a payload: the message is its text.\<close>

definition publish_payload :: "(string \<Rightarrow> string \<Rightarrow> 'h \<Rightarrow> 'h \<times> unit res) \<Rightarrow> (string \<times> json) res \<Rightarrow> ('h, unit) call" where
  "publish_payload Publish r h = (case r of
     Inl e \<Rightarrow> (h, Inl e)
   | Inr (event, payload) \<Rightarrow> Publish event (json_encode payload) h)"

definition PublisAccountEvent :: "(string \<Rightarrow> string \<Rightarrow> 'h \<Rightarrow> 'h \<times> unit res) \<Rightarrow> op_event \<Rightarrow> ('h, unit) call" where
  "PublisAccountEvent Publish ev = publish_payload Publish (event_payload ev)"

definition PublisAccountLowBalanceEvent :: "(string \<Rightarrow> string \<Rightarrow> 'h \<Rightarrow> 'h \<times> unit res)
    \<Rightarrow> string \<Rightarrow> (string, Balance option) gomap \<Rightarrow> Market option \<Rightarrow> ('h, unit) call" where
  "PublisAccountLowBalanceEvent Publish accountName accountBalance market = PublisAccountEvent Publish (LowBalanceEvent accountName accountBalance market)"

definition PublisAccountDepositEvent :: "(string \<Rightarrow> string \<Rightarrow> 'h \<Rightarrow> 'h \<times> unit res)
    \<Rightarrow> string \<Rightarrow> (string, Balance) gomap \<Rightarrow> Deposit \<Rightarrow> Market option \<Rightarrow> ('h, unit) call" where
  "PublisAccountDepositEvent Publish accountName accountBalance deposit market = PublisAccountEvent Publish (DepositEvent accountName accountBalance deposit market)"

definition PublisAccountWithdrawEvent :: "(string \<Rightarrow> string \<Rightarrow> 'h \<Rightarrow> 'h \<times> unit res)
    \<Rightarrow> string \<Rightarrow> (string, Balance) gomap \<Rightarrow> Withdrawal \<Rightarrow> Market option \<Rightarrow> ('h, unit) call" where
  "PublisAccountWithdrawEvent Publish accountName accountBalance withdrawal market = PublisAccountEvent Publish (WithdrawEvent accountName accountBalance withdrawal market)"

definition PublishTradeSettledEvent :: "SwapParser \<Rightarrow> (i64 \<Rightarrow> string) \<Rightarrow> (string \<Rightarrow> string \<Rightarrow> 'h \<Rightarrow> 'h \<times> unit res)
    \<Rightarrow> (string, Balance option) gomap \<Rightarrow> Trade \<Rightarrow> ('h, unit) call" where
  "PublishTradeSettledEvent P date Publish accountBalance trade = publish_payload Publish (settled_payload P date accountBalance trade)"

end
