(* ===== verification/Secure_Store_Props.thy ===== *)
theory Secure_Store_Props
  imports Secure_Store
begin

text \<open>
  The encrypted store refines a map from buckets and keys to values: what its operations return and
  keep is stated of the decrypted contents. The database and the cipher are used through their laws;
  the locales are interpreted on a database and a cipher in memory. Sizes are within the limits of the
  database and the disk does not fail.
\<close>

section \<open>Laws of the packages\<close>

locale bolt_db =
  fixes B :: "'b bolt"
    and kv :: "'b \<Rightarrow> string \<Rightarrow> string \<Rightarrow> string option"
    and nested :: "'b \<Rightarrow> string set"
    and valid :: "'b \<Rightarrow> bool"
  assumes root: "valid b \<Longrightarrow> bt_Root B b"
    and bucket: "valid b \<Longrightarrow> bt_Bucket B b p \<longleftrightarrow> p \<in> nested b"
    and named: "valid b \<Longrightarrow> p \<in> nested b \<Longrightarrow> p \<noteq> [] \<and> kv b [] p = None"
    and absent: "valid b \<Longrightarrow> p \<noteq> [] \<Longrightarrow> p \<notin> nested b \<Longrightarrow> kv b p k = None"
    and get: "valid b \<Longrightarrow> p = [] \<or> p \<in> nested b \<Longrightarrow> bt_Get B b p k = (case kv b p k of Some v \<Rightarrow> v | None \<Rightarrow> [])"
    and each_distinct: "valid b \<Longrightarrow> distinct (map fst (bt_ForEach B b p))"
    and each_root: "valid b \<Longrightarrow> (k, w) \<in> set (bt_ForEach B b []) \<longleftrightarrow> (case w of Some v \<Rightarrow> kv b [] k = Some v | None \<Rightarrow> k \<in> nested b)"
    and each_nested: "valid b \<Longrightarrow> p \<in> nested b \<Longrightarrow> (k, w) \<in> set (bt_ForEach B b p) \<longleftrightarrow> w \<noteq> None \<and> kv b p k = w"
    and put: "valid b \<Longrightarrow> p = [] \<or> p \<in> nested b \<Longrightarrow> k \<noteq> [] \<Longrightarrow> (p = [] \<Longrightarrow> k \<notin> nested b) \<Longrightarrow>
      \<exists>b'. bt_Put B p k v b = Inr b' \<and> valid b' \<and> nested b' = nested b \<and> kv b' = (kv b)(p := (kv b p)(k \<mapsto> v))"
    and create: "valid b \<Longrightarrow> p \<noteq> [] \<Longrightarrow> kv b [] p = None \<Longrightarrow>
      \<exists>b'. bt_CreateBucketIfNotExists B p b = Inr b' \<and> valid b' \<and> nested b' = insert p (nested b) \<and> kv b' = kv b"
    and delete: "valid b \<Longrightarrow> p = [] \<or> p \<in> nested b \<Longrightarrow> (p = [] \<Longrightarrow> k \<notin> nested b) \<Longrightarrow>
      \<exists>b'. bt_Delete B p k b = Inr b' \<and> valid b' \<and> nested b' = nested b \<and> kv b' = (kv b)(p := (kv b p)(k := None))"
    and delete_bucket: "valid b \<Longrightarrow> p \<in> nested b \<Longrightarrow>
      \<exists>b'. bt_DeleteNestedBucket B p b = Inr b' \<and> valid b' \<and> nested b' = nested b - {p} \<and> kv b' = (kv b)(p := Map.empty)"

locale snacl_lib =
  fixes S :: "'k snacl"
  assumes new_key: "\<exists>k. sn_NewSecretKey S r pw = Inr k"
    and derive: "sn_NewSecretKey S r pw = Inr k \<Longrightarrow> \<exists>p. sn_Unmarshal S (sn_Marshal S k) = Inr p \<and> sn_DeriveKey S p pw = Inr k
      \<and> (\<forall>pw'. pw' \<noteq> pw \<longrightarrow> (\<exists>e. sn_DeriveKey S p pw' = Inl e))"
    and marshal: "sn_Marshal S k \<noteq> []"
    and encrypt: "\<exists>c. sn_Encrypt S r k v = Inr c \<and> c \<noteq> [] \<and> sn_Decrypt S k c = Inr v"

section \<open>Contents\<close>

text \<open>What the store holds: the decrypted values, and that each can be decrypted.\<close>

definition contents :: "'k snacl \<Rightarrow> ('b \<Rightarrow> string \<Rightarrow> string \<Rightarrow> string option) \<Rightarrow> 'k \<Rightarrow> 'b \<Rightarrow> string \<Rightarrow> string \<Rightarrow> string option" where
  "contents S kv key b p k = (if k = encryptionKeyID then None else case kv b p k of
     None \<Rightarrow> None | Some c \<Rightarrow> (case sn_Decrypt S key c of Inr v \<Rightarrow> Some v | Inl _ \<Rightarrow> None))"

definition sealed :: "'k snacl \<Rightarrow> ('b \<Rightarrow> string \<Rightarrow> string \<Rightarrow> string option) \<Rightarrow> 'k \<Rightarrow> 'b \<Rightarrow> bool" where
  "sealed S kv key b \<longleftrightarrow> (\<forall>p k c. kv b p k = Some c \<longrightarrow> k \<noteq> encryptionKeyID \<longrightarrow> k \<noteq> [] \<and> c \<noteq> [] \<and> (\<exists>v. sn_Decrypt S key c = Inr v))"

text \<open>A store in good order with a password: its key is the one made from it, in memory when unlocked.\<close>

definition store_ok :: "'k snacl \<Rightarrow> ('b \<Rightarrow> string \<Rightarrow> string \<Rightarrow> string option) \<Rightarrow> ('b \<Rightarrow> string set) \<Rightarrow> ('b \<Rightarrow> bool) \<Rightarrow> string \<Rightarrow> 'k
    \<Rightarrow> ('b, 'k) boltSecureStorage \<Rightarrow> bool" where
  "store_ok S kv nested valid pw key s \<longleftrightarrow> valid (ss_db s) \<and> encryptionKeyID \<notin> nested (ss_db s) \<and> (\<exists>r. sn_NewSecretKey S r pw = Inr key)
     \<and> kv (ss_db s) [] encryptionKeyID = Some (sn_Marshal S key) \<and> (\<forall>p. p \<noteq> [] \<longrightarrow> kv (ss_db s) p encryptionKeyID = None)
     \<and> sealed S kv key (ss_db s) \<and> ss_encKey s \<in> {None, Some key}"

lemma rmap_all: "(\<And>x. x \<in> set xs \<Longrightarrow> f x = Inr (g x)) \<Longrightarrow> rmap f xs = Inr (map g xs)"
  by (induction xs) auto

locale secure_db = bolt_db B kv nested valid + snacl_lib S
  for B :: "'b bolt" and kv nested valid and S :: "'k snacl"
begin

abbreviation Ok :: "string \<Rightarrow> 'k \<Rightarrow> ('b, 'k) boltSecureStorage \<Rightarrow> bool" where "Ok \<equiv> store_ok S kv nested valid"

abbreviation val :: "'k \<Rightarrow> ('b, 'k) boltSecureStorage \<Rightarrow> string \<Rightarrow> string \<Rightarrow> string option" where
  "val key s \<equiv> contents S kv key (ss_db s)"

lemma find_ok: "valid b \<Longrightarrow> p = [] \<or> p \<in> nested b \<Longrightarrow> find_bucket B p b = Inr ()"
  by (auto simp: find_bucket_def root bucket)

lemma find_none: "valid b \<Longrightarrow> p \<noteq> [] \<Longrightarrow> p \<notin> nested b \<Longrightarrow> find_bucket B p b = Inl ErrBucketNotFound"
  by (auto simp: find_bucket_def root bucket)

lemma check_data_ok: "k \<noteq> [] \<Longrightarrow> k \<noteq> encryptionKeyID \<Longrightarrow> check_data_key k = Inr ()"
  by (simp add: check_data_key_def)

lemma Get_ok:
  assumes "Ok pw key s" "ss_encKey s = Some key" "p = [] \<or> p \<in> nested (ss_db s)" "k \<noteq> []" "k \<noteq> encryptionKeyID"
  shows "bolt_GetFromBucket S B p k s = Inr (val key s p k)"
proof (cases "kv (ss_db s) p k")
  case None
  with assms show ?thesis
    by (simp add: bolt_GetFromBucket_def check_data_ok find_ok store_ok_def get contents_def)
next
  case (Some c)
  with assms obtain v where "c \<noteq> []" "sn_Decrypt S key c = Inr v" unfolding store_ok_def sealed_def by blast
  with Some assms show ?thesis
    by (simp add: bolt_GetFromBucket_def check_data_ok find_ok store_ok_def get contents_def)
qed

lemma Add_ok:
  assumes "Ok pw key s" "ss_encKey s = Some key" "p = [] \<or> p \<in> nested (ss_db s)" "k \<noteq> []" "k \<noteq> encryptionKeyID"
    and "p = [] \<Longrightarrow> k \<notin> nested (ss_db s)" "v \<noteq> []"
  obtains s' where "bolt_AddToBucket S B p k v s = (s', Inr ())" "Ok pw key s'" "ss_encKey s' = Some key"
    "nested (ss_db s') = nested (ss_db s)" "val key s' = (val key s)(p := (val key s p)(k \<mapsto> v))"
proof -
  obtain c where c: "sn_Encrypt S (ss_rand s) key v = Inr c" "c \<noteq> []" "sn_Decrypt S key c = Inr v" using encrypt by blast
  have va: "valid (ss_db s)" using assms(1) by (simp add: store_ok_def)
  obtain b where b: "bt_Put B p k c (ss_db s) = Inr b" "valid b" "nested b = nested (ss_db s)"
    "kv b = (kv (ss_db s))(p := (kv (ss_db s) p)(k \<mapsto> c))"
    using put [OF va assms(3,4,6)] by blast
  have "bolt_AddToBucket S B p k v s = ((drawn s)\<lparr>ss_db := b\<rparr>, Inr ())"
    using assms va by (simp add: bolt_AddToBucket_def check_data_ok find_ok c(1) b(1))
  moreover have "Ok pw key ((drawn s)\<lparr>ss_db := b\<rparr>)"
    using assms(1,4,5) b c by (auto simp: store_ok_def sealed_def drawn_def)
  moreover have "val key ((drawn s)\<lparr>ss_db := b\<rparr>) = (val key s)(p := (val key s p)(k \<mapsto> v))"
    using b(4) c(3) assms(5) by (auto simp: contents_def fun_eq_iff)
  ultimately show ?thesis using that assms(2) b(3) by (simp add: drawn_def)
qed

lemma Remove_ok:
  assumes "Ok pw key s" "ss_encKey s = Some key" "p = [] \<or> p \<in> nested (ss_db s)" "k \<noteq> []" "k \<noteq> encryptionKeyID"
    and "p = [] \<Longrightarrow> k \<notin> nested (ss_db s)"
  obtains s' where "bolt_RemoveFromBucket B p k s = (s', Inr ())" "Ok pw key s'" "ss_encKey s' = Some key"
    "nested (ss_db s') = nested (ss_db s)" "val key s' = (val key s)(p := (val key s p)(k := None))"
proof -
  have va: "valid (ss_db s)" using assms(1) by (simp add: store_ok_def)
  obtain b where b: "bt_Delete B p k (ss_db s) = Inr b" "valid b" "nested b = nested (ss_db s)"
    "kv b = (kv (ss_db s))(p := (kv (ss_db s) p)(k := None))"
    using delete [OF va assms(3,6)] by blast
  have "bolt_RemoveFromBucket B p k s = (s\<lparr>ss_db := b\<rparr>, Inr ())"
    using assms va by (simp add: bolt_RemoveFromBucket_def bolt_IsLocked_def bolt_write_def check_data_ok find_ok b(1))
  moreover have "Ok pw key (s\<lparr>ss_db := b\<rparr>)"
    using assms(1,5) b by (auto simp: store_ok_def sealed_def)
  moreover have "val key (s\<lparr>ss_db := b\<rparr>) = (val key s)(p := (val key s p)(k := None))"
    using b(4) by (auto simp: contents_def fun_eq_iff)
  ultimately show ?thesis using that assms(2) b(3) by simp
qed

lemma CreateBucket_ok:
  assumes "Ok pw key s" "ss_encKey s = Some key" "p \<noteq> []" "p \<noteq> encryptionKeyID" "kv (ss_db s) [] p = None"
  obtains s' where "bolt_CreateBucket B p s = (s', Inr ())" "Ok pw key s'" "ss_encKey s' = Some key"
    "nested (ss_db s') = insert p (nested (ss_db s))" "val key s' = val key s"
proof -
  have va: "valid (ss_db s)" using assms(1) by (simp add: store_ok_def)
  obtain b where b: "bt_CreateBucketIfNotExists B p (ss_db s) = Inr b" "valid b" "nested b = insert p (nested (ss_db s))" "kv b = kv (ss_db s)"
    using create [OF va assms(3,5)] by blast
  have "bolt_CreateBucket B p s = (s\<lparr>ss_db := b\<rparr>, Inr ())"
    using assms va by (simp add: bolt_CreateBucket_def bolt_IsLocked_def bolt_write_def check_bucket_key_def find_ok b(1))
  moreover have "Ok pw key (s\<lparr>ss_db := b\<rparr>)" using assms(1,4) b by (auto simp: store_ok_def sealed_def)
  moreover have "val key (s\<lparr>ss_db := b\<rparr>) = val key s" using b(4) by (auto simp: contents_def fun_eq_iff)
  ultimately show ?thesis using that assms(2) b(3) by simp
qed

text \<open>All entries of a bucket, each once.\<close>

lemma each_data:
  assumes "Ok pw key s" "p = [] \<or> p \<in> nested (ss_db s)"
  shows "(k, w) \<in> set (filter is_data (bt_ForEach B (ss_db s) p)) \<longleftrightarrow> (\<exists>c. w = Some c \<and> kv (ss_db s) p k = Some c \<and> k \<noteq> encryptionKeyID)"
proof -
  have va: "valid (ss_db s)" using assms(1) by (simp add: store_ok_def)
  show ?thesis
    using assms(2) each_root [OF va, of k w] each_nested [OF va, of p k w] by (auto simp: is_data_def)
qed

lemma GetAll_ok:
  assumes "Ok pw key s" "ss_encKey s = Some key" "p = [] \<or> p \<in> nested (ss_db s)"
  obtains m where "bolt_GetAllFromBucket S B p s = Inr m" "gm_ok m" "gm_get m = val key s p"
proof -
  let ?es = "filter is_data (bt_ForEach B (ss_db s) p)"
  let ?dec = "\<lambda>c. case sn_Decrypt S key c of Inr v \<Rightarrow> v | Inl _ \<Rightarrow> []"
  let ?m = "map (\<lambda>(k, w). (k, ?dec (the w))) ?es"
  note each = each_data [OF assms(1,3)]
  have dec: "\<exists>v. sn_Decrypt S key c = Inr v" if "kv (ss_db s) p k = Some c" "k \<noteq> encryptionKeyID" for k c
    using assms(1) that unfolding store_ok_def sealed_def by blast
  have va: "valid (ss_db s)" using assms(1) by (simp add: store_ok_def)
  have "rmap (\<lambda>(k, w). rbind (sn_Decrypt S key (the w)) (\<lambda>v. Inr (k, v))) ?es = Inr ?m"
    by (rule rmap_all) (use each dec in fastforce)
  then have run: "bolt_GetAllFromBucket S B p s = Inr ?m"
    using assms(2) find_ok [OF va assms(3)] by (simp add: bolt_GetAllFromBucket_def)
  have "distinct (map fst ?es)" using each_distinct [OF va, of p] by (simp add: distinct_map_filter)
  then have ok: "gm_ok ?m" by (simp add: gm_ok_def comp_def case_prod_unfold)
  have "gm_get ?m k = val key s p k" for k
  proof (cases "\<exists>c. kv (ss_db s) p k = Some c \<and> k \<noteq> encryptionKeyID")
    case True
    then obtain c v where c: "kv (ss_db s) p k = Some c" "k \<noteq> encryptionKeyID" "sn_Decrypt S key c = Inr v" using dec by blast
    then have "(k, Some c) \<in> set ?es" using each by blast
    then have "(k, v) \<in> set ?m" using c(3) by force
    with ok c show ?thesis by (simp add: gm_get_Some_iff contents_def)
  next
    case False
    then have "k \<notin> fst ` set ?es" using each by fastforce
    then have "gm_get ?m k = None" by (force simp: gm_get_None_iff gm_keys_def)
    with False show ?thesis by (auto simp: contents_def split: option.splits)
  qed
  with run ok that show ?thesis by blast
qed

end

section \<open>Unlocking\<close>

context secure_db
begin

lemma Unlock_ok:
  assumes "Ok pw key s" "ss_encKey s = None"
  shows "bolt_CreateUnlock S B (Some pw') s =
    (if pw' = pw then (unlocked_with key (ss_db s) s, Inr ()) else (s, Inl ErrInvalidPassword))"
proof -
  obtain p where p: "sn_Unmarshal S (sn_Marshal S key) = Inr p" "sn_DeriveKey S p pw = Inr key"
    "\<And>pw'. pw' \<noteq> pw \<Longrightarrow> \<exists>e. sn_DeriveKey S p pw' = Inl e"
    using assms(1) derive unfolding store_ok_def by blast
  have "bt_Get B (ss_db s) [] encryptionKeyID = sn_Marshal S key" "bt_Root B (ss_db s)"
    using assms(1) by (simp_all add: store_ok_def get root)
  then show ?thesis
    using assms(2) p(1,2) p(3) [of pw'] marshal [of key] by (auto simp: bolt_CreateUnlock_def bolt_IsLocked_def)
qed

lemma unlocked_ok: "Ok pw key s \<Longrightarrow> Ok pw key (unlocked_with key (ss_db s) s)"
  by (simp add: store_ok_def unlocked_with_def)

lemma Lock_ok: "Ok pw key s \<Longrightarrow> Ok pw key (bolt_Lock s) \<and> ss_encKey (bolt_Lock s) = None \<and> ss_db (bolt_Lock s) = ss_db s"
  by (auto simp: store_ok_def bolt_Lock_def bolt_IsLocked_def)

text \<open>A store that is new gets the password it is first unlocked with.\<close>

lemma Create_ok:
  assumes "valid (ss_db s)" "\<And>p. kv (ss_db s) p = Map.empty" "ss_encKey s = None" "encryptionKeyID \<notin> nested (ss_db s)"
  obtains key s' where "bolt_CreateUnlock S B (Some pw) s = (s', Inr ())" "Ok pw key s'" "ss_encKey s' = Some key"
    "nested (ss_db s') = nested (ss_db s)" "\<And>p k. val key s' p k = None"
proof -
  obtain key where key: "sn_NewSecretKey S (ss_rand s) pw = Inr key" using new_key by blast
  have "encryptionKeyID \<noteq> []" by (simp add: encryptionKeyID_def)
  with put [OF assms(1), of "[]" encryptionKeyID "sn_Marshal S key"] assms(4) obtain b where
    b: "bt_Put B [] encryptionKeyID (sn_Marshal S key) (ss_db s) = Inr b" "valid b" "nested b = nested (ss_db s)"
      "kv b = (kv (ss_db s))([] := (kv (ss_db s) [])(encryptionKeyID \<mapsto> sn_Marshal S key))"
    by blast
  have "bolt_CreateUnlock S B (Some pw) s = (unlocked_with key b (drawn s), Inr ())"
    using assms key b(1) by (simp add: bolt_CreateUnlock_def bolt_IsLocked_def root get)
  moreover have "Ok pw key (unlocked_with key b (drawn s))"
    using key b assms(2,4) by (auto simp: store_ok_def unlocked_with_def sealed_def drawn_def split: if_splits)
  moreover have "val key (unlocked_with key b (drawn s)) p k = None" for p k
    using b(4) assms(2) by (auto simp: contents_def unlocked_with_def)
  ultimately show ?thesis using that b(3) by (simp add: unlocked_with_def)
qed

end

section \<open>Changing the password\<close>

lemma gm_put_fresh: "k \<notin> fst ` set m \<Longrightarrow> gm_put k v m = m @ [(k, v)]"
  by (induction m) auto

lemma fold_put_fresh:
  assumes "distinct (map fst data)" "inj g" "\<And>k v. (k, v) \<in> set data \<Longrightarrow> g k \<notin> fst ` set acc"
  shows "fold (\<lambda>(k, v) m. gm_put (g k) v m) data acc = acc @ map (\<lambda>(k, v). (g k, v)) data"
  using assms
proof (induction data arbitrary: acc)
  case (Cons kv data)
  obtain k v where kv: "kv = (k, v)" by (cases kv)
  have "fold (\<lambda>(k, v) m. gm_put (g k) v m) data (acc @ [(g k, v)]) = (acc @ [(g k, v)]) @ map (\<lambda>(k, v). (g k, v)) data"
    by (rule Cons.IH) (use Cons.prems kv in \<open>auto simp: inj_eq image_iff\<close>)
  with Cons.prems(3) [of k v] kv show ?case by (simp add: gm_put_fresh)
qed simp

abbreviation entry :: "string \<Rightarrow> string \<Rightarrow> string" where
  "entry p k \<equiv> p @ ''_'' @ k"

lemma entry_split: "CHR ''_'' \<notin> set p \<Longrightarrow> split_on CHR ''_'' (entry p k) = p # split_on CHR ''_'' k"
  by (simp add: split_on_append)

lemma entry_bucket: "entry p k = entry p' k' \<Longrightarrow> CHR ''_'' \<notin> set p \<Longrightarrow> CHR ''_'' \<notin> set p' \<Longrightarrow> p = p' \<and> k = k'"
proof -
  assume e: "entry p k = entry p' k'" and "CHR ''_'' \<notin> set p" "CHR ''_'' \<notin> set p'"
  then have "p # split_on CHR ''_'' k = p' # split_on CHR ''_'' k'" by (metis entry_split)
  with e show ?thesis by simp
qed

context secure_db
begin

lemma ListBuckets_ok:
  assumes "Ok pw key s"
  obtains bs where "bolt_ListBuckets B s = Inr bs" "distinct bs" "set bs = nested (ss_db s)"
proof -
  have va: "valid (ss_db s)" using assms by (simp add: store_ok_def)
  let ?bs = "map fst (filter (\<lambda>(k, v). v = None) (bt_ForEach B (ss_db s) []))"
  have "bolt_ListBuckets B s = Inr ?bs" using find_ok [OF va, of "[]"] by (simp add: bolt_ListBuckets_def)
  moreover have "distinct ?bs" using each_distinct [OF va, of "[]"] by (simp add: distinct_map_filter)
  moreover have "set ?bs = nested (ss_db s)" using each_root [OF va, of _ None] by force
  ultimately show ?thesis using that by blast
qed

lemma collect_ok:
  assumes "Ok pw key s" "ss_encKey s = Some key" "distinct bs"
    and "\<And>p. p \<in> set bs \<Longrightarrow> (p = [] \<or> p \<in> nested (ss_db s)) \<and> CHR ''_'' \<notin> set p"
    and "\<And>x. x \<in> fst ` set acc \<Longrightarrow> \<exists>p k. x = entry p k \<and> p \<notin> set bs \<and> CHR ''_'' \<notin> set p"
    and "distinct (map fst acc)"
  shows "\<exists>es. collect S B s bs acc = Some (acc @ es) \<and> distinct (map fst (acc @ es))
    \<and> set es = {(entry p k, v) |p k v. p \<in> set bs \<and> val key s p k = Some v}"
  using assms(3-)
proof (induction bs arbitrary: acc)
  case (Cons p bs)
  have p: "p = [] \<or> p \<in> nested (ss_db s)" "CHR ''_'' \<notin> set p" "p \<notin> set bs" using Cons.prems(1,2) by auto
  obtain m where m: "bolt_GetAllFromBucket S B p s = Inr m" "gm_ok m" "gm_get m = val key s p"
    using GetAll_ok [OF assms(1,2) p(1)] by blast
  let ?new = "map (\<lambda>(k, v). (entry p k, v)) m"
  have inj: "inj (entry p)" by (simp add: inj_on_def)
  have dm: "distinct (map fst m)" using m(2) by (simp add: gm_ok_def)
  have fresh: "entry p k \<notin> fst ` set acc" for k
  proof
    assume "entry p k \<in> fst ` set acc"
    from Cons.prems(3) [OF this] obtain q j where q: "entry p k = entry q j" "q \<notin> set (p # bs)" "CHR ''_'' \<notin> set q" by blast
    from entry_bucket [OF q(1) p(2) q(3)] q(2) show False by simp
  qed
  have new_keys: "map fst ?new = map (entry p) (map fst m)" by (simp add: comp_def case_prod_unfold)
  have "collect S B s (p # bs) acc = collect S B s bs (acc @ ?new)"
    using m(1) fold_put_fresh [OF dm inj fresh] by simp
  moreover have "\<exists>es. collect S B s bs (acc @ ?new) = Some ((acc @ ?new) @ es) \<and> distinct (map fst ((acc @ ?new) @ es))
      \<and> set es = {(entry p k, v) |p k v. p \<in> set bs \<and> val key s p k = Some v}"
  proof (rule Cons.IH)
    show "distinct bs" using Cons.prems(1) by simp
    show "(q = [] \<or> q \<in> nested (ss_db s)) \<and> CHR ''_'' \<notin> set q" if "q \<in> set bs" for q using Cons.prems(2) that by simp
    show "\<exists>q k. x = entry q k \<and> q \<notin> set bs \<and> CHR ''_'' \<notin> set q" if "x \<in> fst ` set (acc @ ?new)" for x
    proof (cases "x \<in> fst ` set acc")
      case True
      from Cons.prems(3) [OF this] show ?thesis by auto
    next
      case False
      with that have "x \<in> set (map fst ?new)" by (simp only: set_append image_Un Un_iff set_map simp_thms)
      then show ?thesis unfolding new_keys using p by auto
    qed
    have "distinct (map fst ?new)" unfolding new_keys using dm inj by (simp add: distinct_map inj_on_def)
    moreover have "set (map fst acc) \<inter> set (map fst ?new) = {}" unfolding new_keys using fresh by force
    ultimately show "distinct (map fst (acc @ ?new))" using Cons.prems(4) by simp
  qed
  ultimately obtain es where es: "collect S B s (p # bs) acc = Some (acc @ (?new @ es))" "distinct (map fst (acc @ (?new @ es)))"
    "set es = {(entry p k, v) |p k v. p \<in> set bs \<and> val key s p k = Some v}"
    by auto
  have "set ?new = {(entry p k, v) |k v. val key s p k = Some v}"
    using gm_get_Some_iff [OF m(2)] m(3) by (auto simp: image_iff)
  with es(3) have "set (?new @ es) = {(entry q k, v) |q k v. q \<in> set (p # bs) \<and> val key s q k = Some v}" by auto
  with es(1,2) show ?case by blast
qed simp

text \<open>An entry whose bucket and key have no underscore is written where it was.\<close>

lemma rewrite_entry_ok:
  assumes "valid (ss_db s)" "p = [] \<or> p \<in> nested (ss_db s)" "k \<noteq> []" "p = [] \<Longrightarrow> k \<notin> nested (ss_db s)"
    and "CHR ''_'' \<notin> set p" "CHR ''_'' \<notin> set k"
  obtains b c where "rewrite_entry S B newKey (entry p k, v) s = ((drawn s)\<lparr>ss_db := b\<rparr>, Inr ())" "valid b" "nested b = nested (ss_db s)"
    "kv b = (kv (ss_db s))(p := (kv (ss_db s) p)(k \<mapsto> c))" "c \<noteq> []" "sn_Decrypt S newKey c = Inr v"
proof -
  obtain c where c: "sn_Encrypt S (ss_rand s) newKey v = Inr c" "c \<noteq> []" "sn_Decrypt S newKey c = Inr v" using encrypt by blast
  obtain b where b: "bt_Put B p k c (ss_db s) = Inr b" "valid b" "nested b = nested (ss_db s)"
    "kv b = (kv (ss_db s))(p := (kv (ss_db s) p)(k \<mapsto> c))"
    using put [OF assms(1-4)] by blast
  have sp: "split_on CHR ''_'' (entry p k) = [p, k]" using entry_split [OF assms(5), of k] assms(6) by (simp add: split_on_word)
  have "rewrite_entry S B newKey (entry p k, v) s = ((drawn s)\<lparr>ss_db := b\<rparr>, Inr ())"
    unfolding rewrite_entry_def fst_conv snd_conv sp
    using assms(1,2) c(1) b(1) by (auto simp: root bucket Let_def)
  with b c that show ?thesis by blast
qed

lemma rewrite_all_ok:
  assumes "valid (ss_db s)" "distinct (map fst es)"
    and "\<And>x. x \<in> fst ` set es \<Longrightarrow> \<exists>p k. x = entry p k \<and> (p = [] \<or> p \<in> nested (ss_db s)) \<and> k \<noteq> [] \<and> (p = [] \<longrightarrow> k \<notin> nested (ss_db s))
      \<and> CHR ''_'' \<notin> set p \<and> CHR ''_'' \<notin> set k"
  shows "\<exists>s'. rewrite_all S B newKey es s = (s', Inr ()) \<and> valid (ss_db s') \<and> nested (ss_db s') = nested (ss_db s) \<and> ss_encKey s' = ss_encKey s
    \<and> (\<forall>p k. entry p k \<notin> fst ` set es \<longrightarrow> kv (ss_db s') p k = kv (ss_db s) p k)
    \<and> (\<forall>p k v. (entry p k, v) \<in> set es \<longrightarrow> CHR ''_'' \<notin> set p \<longrightarrow> CHR ''_'' \<notin> set k \<longrightarrow>
         (\<exists>c. kv (ss_db s') p k = Some c \<and> c \<noteq> [] \<and> sn_Decrypt S newKey c = Inr v))"
  using assms
proof (induction es arbitrary: s)
  case (Cons e es)
  obtain x v where e: "e = (x, v)" by (cases e)
  then obtain p k where pk: "x = entry p k" "p = [] \<or> p \<in> nested (ss_db s)" "k \<noteq> []" "p = [] \<Longrightarrow> k \<notin> nested (ss_db s)"
    "CHR ''_'' \<notin> set p" "CHR ''_'' \<notin> set k"
    using Cons.prems(3) [of x] by auto
  obtain b c where b: "rewrite_entry S B newKey (entry p k, v) s = ((drawn s)\<lparr>ss_db := b\<rparr>, Inr ())" "valid b" "nested b = nested (ss_db s)"
    "kv b = (kv (ss_db s))(p := (kv (ss_db s) p)(k \<mapsto> c))" "c \<noteq> []" "sn_Decrypt S newKey c = Inr v"
    by (rule rewrite_entry_ok [OF Cons.prems(1) pk(2-6)])
  let ?s = "(drawn s)\<lparr>ss_db := b\<rparr>"
  have "\<exists>p k. x = entry p k \<and> (p = [] \<or> p \<in> nested (ss_db ?s)) \<and> k \<noteq> [] \<and> (p = [] \<longrightarrow> k \<notin> nested (ss_db ?s))
      \<and> CHR ''_'' \<notin> set p \<and> CHR ''_'' \<notin> set k" if "x \<in> fst ` set es" for x
    using Cons.prems(3) [of x] that b(3) by simp
  moreover have "valid (ss_db ?s)" "distinct (map fst es)" using b(2) Cons.prems(2) by simp_all
  ultimately have IH: "\<exists>s'. rewrite_all S B newKey es ?s = (s', Inr ()) \<and> valid (ss_db s') \<and> nested (ss_db s') = nested (ss_db ?s) \<and> ss_encKey s' = ss_encKey ?s
    \<and> (\<forall>p k. entry p k \<notin> fst ` set es \<longrightarrow> kv (ss_db s') p k = kv (ss_db ?s) p k)
    \<and> (\<forall>p k v. (entry p k, v) \<in> set es \<longrightarrow> CHR ''_'' \<notin> set p \<longrightarrow> CHR ''_'' \<notin> set k \<longrightarrow>
         (\<exists>c. kv (ss_db s') p k = Some c \<and> c \<noteq> [] \<and> sn_Decrypt S newKey c = Inr v))"
    by (rule_tac Cons.IH) blast+
  obtain s' where s': "rewrite_all S B newKey es ?s = (s', Inr ())" "valid (ss_db s')" "nested (ss_db s') = nested (ss_db ?s)" "ss_encKey s' = ss_encKey ?s"
    and frame: "\<And>p k. entry p k \<notin> fst ` set es \<Longrightarrow> kv (ss_db s') p k = kv (ss_db ?s) p k"
    and done': "\<And>p k v. (entry p k, v) \<in> set es \<Longrightarrow> CHR ''_'' \<notin> set p \<Longrightarrow> CHR ''_'' \<notin> set k \<Longrightarrow>
         \<exists>c. kv (ss_db s') p k = Some c \<and> c \<noteq> [] \<and> sn_Decrypt S newKey c = Inr v"
    using IH by blast
  have xs: "x \<notin> fst ` set es" using Cons.prems(2) e by simp
  have run: "rewrite_all S B newKey (e # es) s = (s', Inr ())"
    using b(1) s'(1) pk(1) e by (simp add: cbind_def)
  have "kv (ss_db s') q j = kv (ss_db s) q j" if "entry q j \<notin> fst ` set (e # es)" for q j
    using that frame [of q j] b(4) e pk(1) by auto
  moreover have "\<exists>c. kv (ss_db s') q j = Some c \<and> c \<noteq> [] \<and> sn_Decrypt S newKey c = Inr w"
    if "(entry q j, w) \<in> set (e # es)" "CHR ''_'' \<notin> set q" "CHR ''_'' \<notin> set j" for q j w
  proof (cases "(entry q j, w) \<in> set es")
    case True
    then show ?thesis using done' that by blast
  next
    case False
    with that(1) e pk(1) have "entry q j = entry p k" "w = v" by auto
    with entry_bucket [OF this(1) that(2) pk(5)] frame [of p k] xs pk(1) b show ?thesis by simp
  qed
  ultimately show ?case using run s' b(3) by (simp add: drawn_def)
qed (simp add: cret_def)

end

text \<open>Names without the underscore that separates them.\<close>

definition plain_names :: "string set \<Rightarrow> (string \<Rightarrow> string \<Rightarrow> string option) \<Rightarrow> bool" where
  "plain_names buckets m \<longleftrightarrow> (\<forall>p \<in> buckets. CHR ''_'' \<notin> set p) \<and> (\<forall>p k v. m p k = Some v \<longrightarrow> CHR ''_'' \<notin> set k)"

context secure_db
begin

lemma val_here: "Ok pw key s \<Longrightarrow> val key s p k = Some v \<Longrightarrow> (p = [] \<or> p \<in> nested (ss_db s)) \<and> k \<noteq> [] \<and> k \<noteq> encryptionKeyID
    \<and> (p = [] \<longrightarrow> k \<notin> nested (ss_db s)) \<and> (\<exists>c. kv (ss_db s) p k = Some c \<and> sn_Decrypt S key c = Inr v)"
  using absent [of "ss_db s" p k] named [of "ss_db s" k]
  by (auto simp: contents_def store_ok_def sealed_def split: option.splits if_splits sum.splits)

lemma val_None: "Ok pw key s \<Longrightarrow> k \<noteq> encryptionKeyID \<Longrightarrow> val key s p k = None \<longleftrightarrow> kv (ss_db s) p k = None"
  by (fastforce simp: contents_def store_ok_def sealed_def split: option.splits sum.splits)

text \<open>The entries after they were all written with the new key.\<close>

lemma update_ok:
  assumes "Ok pw key s" "ss_encKey s = Some key" "plain_names (nested (ss_db s)) (val key s)"
    and "\<And>m. mset (ord1 m) = mset m" "\<And>m. mset (ord2 m) = mset m"
  obtains s' where "updateEncryptedDb S B ord1 ord2 newKey s = (s', Inr ())" "valid (ss_db s')" "nested (ss_db s') = nested (ss_db s)"
    "\<And>p. kv (ss_db s') p encryptionKeyID = kv (ss_db s) p encryptionKeyID" "sealed S kv newKey (ss_db s')" "val newKey s' = val key s"
proof -
  have va: "valid (ss_db s)" using assms(1) by (simp add: store_ok_def)
  have plain: "\<And>p. p = [] \<or> p \<in> nested (ss_db s) \<Longrightarrow> CHR ''_'' \<notin> set p" "\<And>p k v. val key s p k = Some v \<Longrightarrow> CHR ''_'' \<notin> set k"
    using assms(3) unfolding plain_names_def by auto
  obtain bs where bs: "bolt_ListBuckets B s = Inr bs" "distinct bs" "set bs = nested (ss_db s)"
    using ListBuckets_ok [OF assms(1)] by blast
  let ?bs = "ord1 (bs @ [[]])"
  have "mset ?bs = mset (bs @ [[]])" by (rule assms(4))
  then have bs': "distinct ?bs" "set ?bs = insert [] (nested (ss_db s))"
    using bs(2,3) named [OF va] mset_eq_imp_distinct_iff [of ?bs "bs @ [[]]"] mset_eq_setD [of ?bs "bs @ [[]]"] by auto
  obtain es where es: "collect S B s ?bs [] = Some es" "distinct (map fst es)"
    "set es = {(entry p k, v) |p k v. p \<in> set ?bs \<and> val key s p k = Some v}"
    using collect_ok [OF assms(1,2) bs'(1), of "[]"] bs'(2) plain(1) by auto
  have perm: "set (ord2 es) = set es" "distinct (map fst (ord2 es))"
    using assms(5) [of es] es(2) by (metis mset_eq_setD, metis mset_eq_imp_distinct_iff mset_map)
  have mem: "(entry p k, v) \<in> set (ord2 es) \<longleftrightarrow> val key s p k = Some v" if "CHR ''_'' \<notin> set p" for p k v
  proof
    assume "(entry p k, v) \<in> set (ord2 es)"
    then obtain q j where q: "entry p k = entry q j" "q = [] \<or> q \<in> nested (ss_db s)" "val key s q j = Some v"
      unfolding perm es(3) bs'(2) by auto
    with entry_bucket [OF q(1) that plain(1) [OF q(2)]] show "val key s p k = Some v" by simp
  next
    assume v: "val key s p k = Some v"
    then have "p \<in> insert [] (nested (ss_db s))" using val_here [OF assms(1) v] by simp
    with v show "(entry p k, v) \<in> set (ord2 es)" unfolding perm es(3) bs'(2) by blast
  qed
  have "\<exists>p k. x = entry p k \<and> (p = [] \<or> p \<in> nested (ss_db s)) \<and> k \<noteq> [] \<and> (p = [] \<longrightarrow> k \<notin> nested (ss_db s))
      \<and> CHR ''_'' \<notin> set p \<and> CHR ''_'' \<notin> set k" if "x \<in> fst ` set (ord2 es)" for x
  proof -
    from that obtain v where "(x, v) \<in> set (ord2 es)" by auto
    then obtain p k where pk: "x = entry p k" "val key s p k = Some v" unfolding perm es(3) by blast
    show ?thesis using val_here [OF assms(1) pk(2)] plain(1) [of p] plain(2) [OF pk(2)] pk(1) by blast
  qed
  from rewrite_all_ok [where newKey = newKey, OF va perm(2) this] obtain s' where
    s': "rewrite_all S B newKey (ord2 es) s = (s', Inr ())" "valid (ss_db s')" "nested (ss_db s') = nested (ss_db s)"
    and frame: "\<And>p k. entry p k \<notin> fst ` set (ord2 es) \<Longrightarrow> kv (ss_db s') p k = kv (ss_db s) p k"
    and new: "\<And>p k v. (entry p k, v) \<in> set (ord2 es) \<Longrightarrow> CHR ''_'' \<notin> set p \<Longrightarrow> CHR ''_'' \<notin> set k \<Longrightarrow>
      \<exists>c. kv (ss_db s') p k = Some c \<and> c \<noteq> [] \<and> sn_Decrypt S newKey c = Inr v"
    by blast
  have after: "case val key s p k of Some v \<Rightarrow> k \<noteq> [] \<and> (\<exists>c. kv (ss_db s') p k = Some c \<and> c \<noteq> [] \<and> sn_Decrypt S newKey c = Inr v)
      | None \<Rightarrow> kv (ss_db s') p k = kv (ss_db s) p k" for p k
  proof (cases "CHR ''_'' \<in> set p")
    case True
    then have p: "p \<noteq> [] \<and> p \<notin> nested (ss_db s)" using plain(1) by blast
    then have "kv (ss_db s') p k = None" "kv (ss_db s) p k = None" using absent va s'(2,3) by auto
    moreover have "val key s p k = None" using val_here [OF assms(1), of p k] p by (cases "val key s p k") auto
    ultimately show ?thesis by simp
  next
    case False
    show ?thesis
    proof (cases "val key s p k")
      case None
      then have "entry p k \<notin> fst ` set (ord2 es)" using mem [OF False, of k] by auto
      with None frame show ?thesis by simp
    next
      case (Some v)
      with new [OF _ False] mem [OF False] plain(2) val_here [OF assms(1) Some] show ?thesis by simp
    qed
  qed
  have "val newKey s' p k = val key s p k" for p k
    using after [of p k] val_None [OF assms(1), of k p] by (auto simp: contents_def split: option.splits if_splits)
  moreover have "sealed S kv newKey (ss_db s')"
    unfolding sealed_def
  proof (intro allI impI)
    fix p k c
    assume c: "kv (ss_db s') p k = Some c" "k \<noteq> encryptionKeyID"
    then have "val key s p k \<noteq> None" using after [of p k] val_None [OF assms(1) c(2), of p] by (auto split: option.splits)
    with c(1) after [of p k] show "k \<noteq> [] \<and> c \<noteq> [] \<and> (\<exists>v. sn_Decrypt S newKey c = Inr v)" by (auto split: option.splits)
  qed
  moreover have "kv (ss_db s') p encryptionKeyID = kv (ss_db s) p encryptionKeyID" for p
    using after [of p encryptionKeyID] by (simp add: contents_def)
  ultimately show ?thesis
    using that [of s'] s' bs(1) es(1) by (simp add: updateEncryptedDb_def fun_eq_iff)
qed

lemma ChangePassword_ok:
  assumes "Ok old key s" "ss_encKey s = Some key" "plain_names (nested (ss_db s)) (val key s)"
    and "\<And>m. mset (ord1 m) = mset m" "\<And>m. mset (ord2 m) = mset m"
  obtains key' s' where "bolt_ChangePassword S B ord1 ord2 (Some old) (Some new) s = (s', Inr ())" "Ok new key' s'" "ss_encKey s' = Some key'"
    "nested (ss_db s') = nested (ss_db s)" "val key' s' = val key s"
proof -
  obtain key' where key': "sn_NewSecretKey S (ss_rand s) new = Inr key'" using new_key by blast
  have d: "ss_db (drawn s) = ss_db s" "ss_encKey (drawn s) = ss_encKey s" by (simp_all add: drawn_def)
  have ok: "Ok old key (drawn s)" using assms(1) d by (simp add: store_ok_def)
  obtain s1 where s1: "updateEncryptedDb S B ord1 ord2 key' (drawn s) = (s1, Inr ())" "valid (ss_db s1)" "nested (ss_db s1) = nested (ss_db s)"
    "\<And>p. kv (ss_db s1) p encryptionKeyID = kv (ss_db s) p encryptionKeyID" "sealed S kv key' (ss_db s1)" "val key' s1 = val key s"
    using update_ok [OF ok _ _ assms(4,5), of key'] assms(2,3) d by auto
  have e: "encryptionKeyID \<noteq> []" by (simp add: encryptionKeyID_def)
  have "encryptionKeyID \<notin> nested (ss_db s1)" using assms(1) s1(3) by (simp add: store_ok_def)
  then obtain b where b: "bt_Put B [] encryptionKeyID (sn_Marshal S key') (ss_db s1) = Inr b" "valid b" "nested b = nested (ss_db s1)"
    "kv b = (kv (ss_db s1))([] := (kv (ss_db s1) [])(encryptionKeyID \<mapsto> sn_Marshal S key'))"
    using put [OF s1(2) _ e, of "[]" "sn_Marshal S key'"] by blast
  have "check_password S B old (ss_db s) = Inr ()"
  proof -
    obtain p where "sn_Unmarshal S (sn_Marshal S key) = Inr p" "sn_DeriveKey S p old = Inr key"
      using assms(1) derive unfolding store_ok_def by blast
    then show ?thesis
      using assms(1) marshal [of key] find_ok [of "ss_db s" "[]"] by (simp add: check_password_def store_ok_def get)
  qed
  then have run: "bolt_ChangePassword S B ord1 ord2 (Some old) (Some new) s = (unlocked_with key' b s1, Inr ())"
    using key' s1(1) find_ok [OF s1(2), of "[]"] b(1) by (simp add: bolt_ChangePassword_def cbind_def)
  have "sealed S kv key' b" using s1(5) b(4) by (auto simp: sealed_def split: if_splits)
  then have "Ok new key' (unlocked_with key' b s1)"
    using key' b s1 assms(1) by (auto simp: store_ok_def unlocked_with_def)
  moreover have "val key' (unlocked_with key' b s1) = val key' s1"
    by (auto simp: contents_def unlocked_with_def fun_eq_iff b(4))
  ultimately show ?thesis using that [OF run] b(3) s1(3,6) by (simp add: unlocked_with_def)
qed

end

section \<open>A database and a cipher in memory\<close>

type_synonym mem_db = "(string, (string, string) gomap) gomap"

definition mem_kv :: "mem_db \<Rightarrow> string \<Rightarrow> string \<Rightarrow> string option" where
  "mem_kv m p k = (case gm_get m p of None \<Rightarrow> None | Some es \<Rightarrow> gm_get es k)"

definition mem_nested :: "mem_db \<Rightarrow> string set" where
  "mem_nested m = {p. p \<noteq> [] \<and> gm_get m p \<noteq> None}"

definition mem_valid :: "mem_db \<Rightarrow> bool" where
  "mem_valid m \<longleftrightarrow> gm_ok m \<and> gm_get m [] \<noteq> None \<and> (\<forall>p es. gm_get m p = Some es \<longrightarrow> gm_ok es)
     \<and> (\<forall>p. p \<in> mem_nested m \<longrightarrow> mem_kv m [] p = None)"

definition mem_bolt :: "mem_db bolt" where
  "mem_bolt = \<lparr>bt_Root = (\<lambda>m. gm_get m [] \<noteq> None), bt_Bucket = (\<lambda>m p. p \<noteq> [] \<and> gm_get m p \<noteq> None),
     bt_Get = (\<lambda>m p k. case mem_kv m p k of None \<Rightarrow> [] | Some v \<Rightarrow> v),
     bt_ForEach = (\<lambda>m p. (case gm_get m p of None \<Rightarrow> [] | Some es \<Rightarrow> map (\<lambda>(k, v). (k, Some v)) es)
       @ (if p = [] then map (\<lambda>k. (k, None)) (filter (\<lambda>k. k \<noteq> []) (gm_keys m)) else [])),
     bt_CreateBucketIfNotExists = (\<lambda>p m. if p = [] \<or> mem_kv m [] p \<noteq> None then Inl (External ''incompatible value'')
       else Inr (case gm_get m p of None \<Rightarrow> gm_put p [] m | Some _ \<Rightarrow> m)),
     bt_Put = (\<lambda>p k v m. if k = [] then Inl (External ''key required'')
       else if p = [] \<and> gm_get m k \<noteq> None then Inl (External ''incompatible value'')
       else Inr (gm_put p (gm_put k v (case gm_get m p of None \<Rightarrow> [] | Some es \<Rightarrow> es)) m)),
     bt_Delete = (\<lambda>p k m. if p = [] \<and> k \<noteq> [] \<and> gm_get m k \<noteq> None then Inl (External ''incompatible value'')
       else Inr (case gm_get m p of None \<Rightarrow> m | Some es \<Rightarrow> gm_put p (gm_del k es) m)),
     bt_DeleteNestedBucket = (\<lambda>p m. if p = [] \<or> gm_get m p = None then Inl (External ''bucket not found'') else Inr (gm_del p m))\<rparr>"

lemma mem_kv_put: "mem_kv (gm_put p es m) q = (if q = p then gm_get es else mem_kv m q)"
  by (auto simp: mem_kv_def)

lemma mem_nested_put: "gm_get m p \<noteq> None \<Longrightarrow> mem_nested (gm_put p es m) = mem_nested m"
  by (auto simp: mem_nested_def)

lemma mem_valid_put:
  assumes "mem_valid m" "gm_get m p \<noteq> None" "gm_ok es" "p = [] \<Longrightarrow> \<forall>q \<in> mem_nested m. gm_get es q = None"
  shows "mem_valid (gm_put p es m)"
  using assms by (auto simp: mem_valid_def mem_nested_put mem_kv_put split: if_splits)

lemma mem_each:
  assumes "mem_valid m"
  shows "distinct (map fst (bt_ForEach mem_bolt m p))"
    "(k, w) \<in> set (bt_ForEach mem_bolt m []) \<longleftrightarrow> (case w of Some v \<Rightarrow> mem_kv m [] k = Some v | None \<Rightarrow> k \<in> mem_nested m)"
    "p \<in> mem_nested m \<Longrightarrow> (k, w) \<in> set (bt_ForEach mem_bolt m p) \<longleftrightarrow> w \<noteq> None \<and> mem_kv m p k = w"
proof -
  have ok: "gm_get m p = Some es \<Longrightarrow> gm_ok es" for p es using assms by (auto simp: mem_valid_def)
  have keys: "k \<in> set (gm_keys m) \<longleftrightarrow> gm_get m k \<noteq> None" for k by (auto simp: gm_get_None_iff)
  obtain es where es: "gm_get m [] = Some es" using assms by (auto simp: mem_valid_def)
  have "set (map fst es) \<inter> {k. k \<noteq> [] \<and> gm_get m k \<noteq> None} = {}"
    using assms es by (auto simp: mem_valid_def mem_nested_def mem_kv_def gm_get_None_iff gm_keys_def)
  moreover have "distinct (gm_keys m)" using assms by (simp add: mem_valid_def gm_ok_def gm_keys_def)
  ultimately show "distinct (map fst (bt_ForEach mem_bolt m p))"
    using ok es keys by (auto simp: mem_bolt_def gm_ok_def comp_def case_prod_unfold split: option.splits)
  show "(k, w) \<in> set (bt_ForEach mem_bolt m []) \<longleftrightarrow> (case w of Some v \<Rightarrow> mem_kv m [] k = Some v | None \<Rightarrow> k \<in> mem_nested m)"
    using es gm_get_Some_iff [OF ok [OF es]] keys by (cases w) (auto simp: mem_bolt_def mem_kv_def mem_nested_def)
  show "(k, w) \<in> set (bt_ForEach mem_bolt m p) \<longleftrightarrow> w \<noteq> None \<and> mem_kv m p k = w" if "p \<in> mem_nested m"
    using that gm_get_Some_iff [OF ok] by (cases w) (auto simp: mem_bolt_def mem_kv_def mem_nested_def split: option.splits)
qed

lemma mem_put:
  assumes "mem_valid m" "p = [] \<or> p \<in> mem_nested m" "k \<noteq> []" "p = [] \<Longrightarrow> k \<notin> mem_nested m"
  shows "\<exists>m'. bt_Put mem_bolt p k v m = Inr m' \<and> mem_valid m' \<and> mem_nested m' = mem_nested m \<and> mem_kv m' = (mem_kv m)(p := (mem_kv m p)(k \<mapsto> v))"
proof -
  obtain es where es: "gm_get m p = Some es" using assms(1,2) by (auto simp: mem_valid_def mem_nested_def)
  then have "gm_ok es" using assms(1) by (auto simp: mem_valid_def)
  moreover have "gm_get es q = None" if "p = []" "q \<in> mem_nested m" for q
    using assms(1) es that by (auto simp: mem_valid_def mem_kv_def)
  ultimately have "mem_valid (gm_put p (gm_put k v es) m)" using assms es by (intro mem_valid_put) auto
  moreover have "bt_Put mem_bolt p k v m = Inr (gm_put p (gm_put k v es) m)"
    using assms es by (auto simp: mem_bolt_def mem_nested_def)
  ultimately show ?thesis using es by (auto simp: mem_nested_put mem_kv_put fun_eq_iff mem_kv_def)
qed

lemma mem_delete:
  assumes "mem_valid m" "p = [] \<or> p \<in> mem_nested m" "p = [] \<Longrightarrow> k \<notin> mem_nested m"
  shows "\<exists>m'. bt_Delete mem_bolt p k m = Inr m' \<and> mem_valid m' \<and> mem_nested m' = mem_nested m \<and> mem_kv m' = (mem_kv m)(p := (mem_kv m p)(k := None))"
proof -
  obtain es where es: "gm_get m p = Some es" using assms(1,2) by (auto simp: mem_valid_def mem_nested_def)
  then have "gm_ok es" using assms(1) by (auto simp: mem_valid_def)
  moreover have "gm_get es q = None" if "p = []" "q \<in> mem_nested m" for q
    using assms(1) es that by (auto simp: mem_valid_def mem_kv_def)
  ultimately have "mem_valid (gm_put p (gm_del k es) m)" using assms es by (intro mem_valid_put) auto
  moreover have "bt_Delete mem_bolt p k m = Inr (gm_put p (gm_del k es) m)"
    using assms es by (auto simp: mem_bolt_def mem_nested_def)
  ultimately show ?thesis using es by (auto simp: mem_nested_put mem_kv_put fun_eq_iff mem_kv_def)
qed

lemma mem_create:
  assumes "mem_valid m" "p \<noteq> []" "mem_kv m [] p = None"
  shows "\<exists>m'. bt_CreateBucketIfNotExists mem_bolt p m = Inr m' \<and> mem_valid m' \<and> mem_nested m' = insert p (mem_nested m) \<and> mem_kv m' = mem_kv m"
proof (cases "gm_get m p")
  case None
  have n: "mem_nested (gm_put p [] m) = insert p (mem_nested m)" using assms(2) by (auto simp: mem_nested_def)
  have k: "mem_kv (gm_put p [] m) = mem_kv m" using None by (auto simp: mem_kv_def fun_eq_iff)
  have "mem_valid (gm_put p [] m)"
    using assms n k unfolding mem_valid_def by (auto split: if_splits)
  with None assms n k show ?thesis by (simp add: mem_bolt_def)
next
  case (Some es)
  then have "p \<in> mem_nested m" using assms(2) by (simp add: mem_nested_def)
  with Some assms show ?thesis by (auto simp: mem_bolt_def insert_absorb)
qed

lemma mem_delete_bucket:
  assumes "mem_valid m" "p \<in> mem_nested m"
  shows "\<exists>m'. bt_DeleteNestedBucket mem_bolt p m = Inr m' \<and> mem_valid m' \<and> mem_nested m' = mem_nested m - {p} \<and> mem_kv m' = (mem_kv m)(p := Map.empty)"
  using assms by (auto simp: mem_bolt_def mem_valid_def mem_nested_def mem_kv_def fun_eq_iff split: if_splits)

text \<open>A cipher that writes the password before the text.\<close>

definition mem_snacl :: "string snacl" where
  "mem_snacl = \<lparr>sn_NewSecretKey = (\<lambda>_ pw. Inr pw), sn_Marshal = (\<lambda>k. CHR ''k'' # k),
     sn_Unmarshal = (\<lambda>b. case b of [] \<Rightarrow> Inl (External ''malformed'') | _ # k \<Rightarrow> Inr k),
     sn_DeriveKey = (\<lambda>k pw. if pw = k then Inr k else Inl (External ''invalid password'')),
     sn_Encrypt = (\<lambda>_ k v. Inr (CHR ''c'' # k @ CHR '':'' # v)),
     sn_Decrypt = (\<lambda>k c. if take (length k + 2) c = CHR ''c'' # k @ '':'' then Inr (drop (length k + 2) c) else Inl (External ''unable to decrypt''))\<rparr>"

interpretation mem_store: secure_db mem_bolt mem_kv mem_nested mem_valid mem_snacl
proof (unfold_locales, goal_cases)
  case (1 b) then show ?case by (simp add: mem_bolt_def mem_valid_def)
next
  case (2 b p) then show ?case by (simp add: mem_bolt_def mem_nested_def)
next
  case (3 b p) then show ?case by (simp add: mem_valid_def) (simp add: mem_nested_def)
next
  case (4 b p k) then show ?case by (simp add: mem_nested_def mem_kv_def)
next
  case (5 b p k) then show ?case by (simp add: mem_bolt_def split: option.splits)
qed (blast intro: mem_each mem_put mem_create mem_delete mem_delete_bucket | simp add: mem_each mem_snacl_def)+

section \<open>The store as a map\<close>

datatype store_cmd =
    CmdLock | CmdUnlock string | CmdCreate string | CmdAdd string string string | CmdRemove string string
  | CmdGet string string | CmdGetAll string | CmdListBuckets

datatype store_answer = Done | Value "string option" | Entries "string \<Rightarrow> string option" | Buckets "string set"

fun exec :: "'k snacl \<Rightarrow> 'b bolt \<Rightarrow> store_cmd \<Rightarrow> (('b, 'k) boltSecureStorage, store_answer) call" where
  "exec S B CmdLock s = (bolt_Lock s, Inr Done)"
| "exec S B (CmdUnlock pw) s = (case bolt_CreateUnlock S B (Some pw) s of (s, r) \<Rightarrow> (s, rbind r (\<lambda>_. Inr Done)))"
| "exec S B (CmdCreate p) s = (case bolt_CreateBucket B p s of (s, r) \<Rightarrow> (s, rbind r (\<lambda>_. Inr Done)))"
| "exec S B (CmdAdd p k v) s = (case bolt_AddToBucket S B p k v s of (s, r) \<Rightarrow> (s, rbind r (\<lambda>_. Inr Done)))"
| "exec S B (CmdRemove p k) s = (case bolt_RemoveFromBucket B p k s of (s, r) \<Rightarrow> (s, rbind r (\<lambda>_. Inr Done)))"
| "exec S B (CmdGet p k) s = (s, rbind (bolt_GetFromBucket S B p k s) (\<lambda>v. Inr (Value v)))"
| "exec S B (CmdGetAll p) s = (s, rbind (bolt_GetAllFromBucket S B p s) (\<lambda>m. Inr (Entries (gm_get m))))"
| "exec S B CmdListBuckets s = (s, rbind (bolt_ListBuckets B s) (\<lambda>bs. Inr (Buckets (set bs))))"

text \<open>The specification: a lock with a password before a map of buckets.\<close>

record spec_store =
  sp_locked :: bool
  sp_buckets :: "string set"
  sp_map :: "string \<Rightarrow> string \<Rightarrow> string option"

definition guarded :: "spec_store \<Rightarrow> unit res \<Rightarrow> spec_store \<times> store_answer \<Rightarrow> spec_store \<times> store_answer res" where
  "guarded a checks ok = (if sp_locked a then (a, Inl ErrStoreLocked)
     else case checks of Inl e \<Rightarrow> (a, Inl e) | Inr _ \<Rightarrow> (fst ok, Inr (snd ok)))"

definition has_bucket :: "string \<Rightarrow> spec_store \<Rightarrow> unit res" where
  "has_bucket p a = (if p \<in> sp_buckets a then Inr () else Inl ErrBucketNotFound)"

fun spec :: "string \<Rightarrow> store_cmd \<Rightarrow> spec_store \<Rightarrow> spec_store \<times> store_answer res" where
  "spec pw CmdLock a = (a\<lparr>sp_locked := True\<rparr>, Inr Done)"
| "spec pw (CmdUnlock pw') a = (if \<not> sp_locked a then (a, Inr Done) else if pw' = pw then (a\<lparr>sp_locked := False\<rparr>, Inr Done)
     else (a, Inl ErrInvalidPassword))"
| "spec pw (CmdCreate p) a = guarded a (check_bucket_key p) (a\<lparr>sp_buckets := insert p (sp_buckets a)\<rparr>, Done)"
| "spec pw (CmdAdd p k v) a = guarded a (rbind (check_data_key k) (\<lambda>_. if v = [] then Inl ErrMissingData else has_bucket p a))
     (a\<lparr>sp_map := (sp_map a)(p := (sp_map a p)(k \<mapsto> v))\<rparr>, Done)"
| "spec pw (CmdRemove p k) a = guarded a (rbind (check_data_key k) (\<lambda>_. has_bucket p a))
     (a\<lparr>sp_map := (sp_map a)(p := (sp_map a p)(k := None))\<rparr>, Done)"
| "spec pw (CmdGet p k) a = guarded a (rbind (check_data_key k) (\<lambda>_. has_bucket p a)) (a, Value (sp_map a p k))"
| "spec pw (CmdGetAll p) a = guarded a (has_bucket p a) (a, Entries (sp_map a p))"
| "spec pw CmdListBuckets a = (a, Inr (Buckets (sp_buckets a)))"

definition abs_store :: "'k snacl \<Rightarrow> ('b \<Rightarrow> string \<Rightarrow> string \<Rightarrow> string option) \<Rightarrow> ('b \<Rightarrow> string set) \<Rightarrow> 'k \<Rightarrow> ('b, 'k) boltSecureStorage \<Rightarrow> spec_store" where
  "abs_store S kv nested key s = \<lparr>sp_locked = (ss_encKey s = None), sp_buckets = nested (ss_db s), sp_map = contents S kv key (ss_db s)\<rparr>"

text \<open>The commands of the daemon name a bucket; nothing is stored beside the key in the root bucket.\<close>

fun names_bucket :: "store_cmd \<Rightarrow> bool" where
  "names_bucket (CmdAdd p k v) \<longleftrightarrow> p \<noteq> []"
| "names_bucket (CmdRemove p k) \<longleftrightarrow> p \<noteq> []"
| "names_bucket (CmdGet p k) \<longleftrightarrow> p \<noteq> []"
| "names_bucket (CmdGetAll p) \<longleftrightarrow> p \<noteq> []"
| "names_bucket _ \<longleftrightarrow> True"

context secure_db
begin

abbreviation Abs :: "'k \<Rightarrow> ('b, 'k) boltSecureStorage \<Rightarrow> spec_store" where "Abs \<equiv> abs_store S kv nested"

definition Good :: "string \<Rightarrow> 'k \<Rightarrow> ('b, 'k) boltSecureStorage \<Rightarrow> bool" where
  "Good pw key s \<longleftrightarrow> Ok pw key s \<and> (\<forall>k. val key s [] k = None)"

lemma Good_key: "Good pw key s \<Longrightarrow> ss_encKey s = None \<or> ss_encKey s = Some key"
  by (auto simp: Good_def store_ok_def)

lemma Abs_locked: "sp_locked (Abs key s) \<longleftrightarrow> ss_encKey s = None"
  by (simp add: abs_store_def)

lemma has_bucket_find: "Ok pw key s \<Longrightarrow> p \<noteq> [] \<Longrightarrow> find_bucket B p (ss_db s) = has_bucket p (Abs key s)"
  by (auto simp: has_bucket_def abs_store_def find_ok find_none store_ok_def)

lemma locked_refuses:
  assumes "Ok pw key s" "ss_encKey s = None"
  shows "exec S B (CmdCreate p) s = (s, Inl ErrStoreLocked)" "exec S B (CmdAdd p k v) s = (s, Inl ErrStoreLocked)"
    "exec S B (CmdRemove p k) s = (s, Inl ErrStoreLocked)" "exec S B (CmdGet p k) s = (s, Inl ErrStoreLocked)"
    "exec S B (CmdGetAll p) s = (s, Inl ErrStoreLocked)"
  using assms by (simp_all add: bolt_IsLocked_def bolt_CreateBucket_def bolt_AddToBucket_def bolt_RemoveFromBucket_def
      bolt_GetFromBucket_def bolt_GetAllFromBucket_def)

lemma exec_Add:
  assumes "Good pw key s" "ss_encKey s = Some key" "p \<noteq> []"
  shows "\<exists>s'. exec S B (CmdAdd p k v) s = (s', snd (spec pw (CmdAdd p k v) (Abs key s)))
    \<and> Abs key s' = fst (spec pw (CmdAdd p k v) (Abs key s)) \<and> Good pw key s'"
proof (cases "rbind (check_data_key k) (\<lambda>_. if v = [] then Inl ErrMissingData else has_bucket p (Abs key s))")
  case (Inl e)
  have ok: "Ok pw key s" using assms(1) by (simp add: Good_def)
  from Inl have "exec S B (CmdAdd p k v) s = (s, Inl e)"
    using assms(2) has_bucket_find [OF ok assms(3)]
    by (cases "check_data_key k"; cases "has_bucket p (Abs key s)") (auto simp: bolt_AddToBucket_def split: if_splits)
  with Inl assms show ?thesis by (simp add: guarded_def Abs_locked)
next
  case (Inr u)
  then have c: "k \<noteq> []" "k \<noteq> encryptionKeyID" "v \<noteq> []" "p \<in> nested (ss_db s)"
    by (auto simp: rbind_eq_Inr check_data_key_def has_bucket_def abs_store_def split: if_splits)
  have ok: "Ok pw key s" using assms(1) by (simp add: Good_def)
  obtain s' where s': "bolt_AddToBucket S B p k v s = (s', Inr ())" "Ok pw key s'" "ss_encKey s' = Some key"
    "nested (ss_db s') = nested (ss_db s)" "val key s' = (val key s)(p := (val key s p)(k \<mapsto> v))"
    using Add_ok [OF ok assms(2) _ c(1,2) _ c(3), of p] c(4) assms(3) by blast
  have "Good pw key s'" using assms(1,3) s'(2,5) by (simp add: Good_def)
  with s' Inr assms(2) show ?thesis by (simp add: guarded_def Abs_locked) (simp add: abs_store_def)
qed

lemma exec_Remove:
  assumes "Good pw key s" "ss_encKey s = Some key" "p \<noteq> []"
  shows "\<exists>s'. exec S B (CmdRemove p k) s = (s', snd (spec pw (CmdRemove p k) (Abs key s)))
    \<and> Abs key s' = fst (spec pw (CmdRemove p k) (Abs key s)) \<and> Good pw key s'"
proof (cases "rbind (check_data_key k) (\<lambda>_. has_bucket p (Abs key s))")
  case (Inl e)
  have ok: "Ok pw key s" using assms(1) by (simp add: Good_def)
  from Inl have "exec S B (CmdRemove p k) s = (s, Inl e)"
    using assms(2) has_bucket_find [OF ok assms(3)]
    by (cases "check_data_key k") (auto simp: bolt_RemoveFromBucket_def bolt_IsLocked_def bolt_write_def)
  with Inl assms show ?thesis by (simp add: guarded_def Abs_locked)
next
  case (Inr u)
  then have c: "k \<noteq> []" "k \<noteq> encryptionKeyID" "p \<in> nested (ss_db s)"
    by (auto simp: rbind_eq_Inr check_data_key_def has_bucket_def abs_store_def split: if_splits)
  have ok: "Ok pw key s" using assms(1) by (simp add: Good_def)
  obtain s' where s': "bolt_RemoveFromBucket B p k s = (s', Inr ())" "Ok pw key s'" "ss_encKey s' = Some key"
    "nested (ss_db s') = nested (ss_db s)" "val key s' = (val key s)(p := (val key s p)(k := None))"
    using Remove_ok [OF ok assms(2) _ c(1,2), of p] c(3) assms(3) by blast
  have "Good pw key s'" using assms(1,3) s'(2,5) by (simp add: Good_def)
  with s' Inr assms(2) show ?thesis by (simp add: guarded_def Abs_locked) (simp add: abs_store_def)
qed

lemma exec_Create:
  assumes "Good pw key s" "ss_encKey s = Some key"
  shows "\<exists>s'. exec S B (CmdCreate p) s = (s', snd (spec pw (CmdCreate p) (Abs key s)))
    \<and> Abs key s' = fst (spec pw (CmdCreate p) (Abs key s)) \<and> Good pw key s'"
proof (cases "check_bucket_key p")
  case (Inl e)
  then have "exec S B (CmdCreate p) s = (s, Inl e)"
    using assms(2) by (simp add: bolt_CreateBucket_def bolt_IsLocked_def bolt_write_def)
  with Inl assms show ?thesis by (simp add: guarded_def Abs_locked)
next
  case (Inr u)
  then have c: "p \<noteq> []" "p \<noteq> encryptionKeyID" by (auto simp: check_bucket_key_def split: if_splits)
  have ok: "Ok pw key s" using assms(1) by (simp add: Good_def)
  have "kv (ss_db s) [] p = None" using assms(1) val_None [OF ok c(2), of "[]"] by (auto simp: Good_def)
  then obtain s' where s': "bolt_CreateBucket B p s = (s', Inr ())" "Ok pw key s'" "ss_encKey s' = Some key"
    "nested (ss_db s') = insert p (nested (ss_db s))" "val key s' = val key s"
    using CreateBucket_ok [OF ok assms(2) c] by blast
  with Inr assms show ?thesis by (simp add: guarded_def Abs_locked Good_def) (simp add: abs_store_def)
qed

lemma exec_reads:
  assumes "Good pw key s" "ss_encKey s = Some key" "p \<noteq> []"
  shows "exec S B (CmdGet p k) s = (s, snd (spec pw (CmdGet p k) (Abs key s)))"
    "exec S B (CmdGetAll p) s = (s, snd (spec pw (CmdGetAll p) (Abs key s)))"
proof -
  have ok: "Ok pw key s" using assms(1) by (simp add: Good_def)
  note find = has_bucket_find [OF ok assms(3)]
  show "exec S B (CmdGet p k) s = (s, snd (spec pw (CmdGet p k) (Abs key s)))"
  proof (cases "rbind (check_data_key k) (\<lambda>_. has_bucket p (Abs key s))")
    case (Inl e)
    then show ?thesis
      using assms(2) find by (cases "check_data_key k") (auto simp: bolt_GetFromBucket_def guarded_def Abs_locked)
  next
    case (Inr u)
    then have "k \<noteq> []" "k \<noteq> encryptionKeyID" "p \<in> nested (ss_db s)"
      by (auto simp: rbind_eq_Inr check_data_key_def has_bucket_def abs_store_def split: if_splits)
    with Inr Get_ok [OF ok assms(2), of p k] assms(2) show ?thesis by (simp add: guarded_def Abs_locked) (simp add: abs_store_def)
  qed
  show "exec S B (CmdGetAll p) s = (s, snd (spec pw (CmdGetAll p) (Abs key s)))"
  proof (cases "p \<in> nested (ss_db s)")
    case True
    then obtain m where "bolt_GetAllFromBucket S B p s = Inr m" "gm_get m = val key s p"
      using GetAll_ok [OF ok assms(2), of p] by blast
    with True assms(2) show ?thesis by (simp add: guarded_def abs_store_def has_bucket_def)
  next
    case False
    then show ?thesis using assms(2) find by (simp add: bolt_GetAllFromBucket_def guarded_def abs_store_def has_bucket_def)
  qed
qed

lemma exec_refines:
  assumes "Good pw key s" "names_bucket c"
  shows "\<exists>s'. exec S B c s = (s', snd (spec pw c (Abs key s))) \<and> Abs key s' = fst (spec pw c (Abs key s)) \<and> Good pw key s'"
proof -
  have ok: "Ok pw key s" using assms(1) by (simp add: Good_def)
  note lk = disjE [OF Good_key [OF assms(1)]]
  show ?thesis
  proof (cases c)
    case CmdLock
    have "Good pw key (bolt_Lock s)" using Lock_ok [OF ok] assms(1) by (simp add: Good_def)
    moreover have "Abs key (bolt_Lock s) = (Abs key s)\<lparr>sp_locked := True\<rparr>" using Lock_ok [OF ok] by (simp add: abs_store_def)
    ultimately show ?thesis unfolding CmdLock by simp
  next
    case (CmdUnlock pw')
    show ?thesis unfolding CmdUnlock
    proof (rule lk)
      assume 1: "ss_encKey s = None"
      let ?s = "unlocked_with key (ss_db s) s"
      have "Good pw key ?s" using unlocked_ok [OF ok] assms(1) by (simp add: Good_def unlocked_with_def)
      moreover have "Abs key ?s = (Abs key s)\<lparr>sp_locked := False\<rparr>" by (simp add: abs_store_def unlocked_with_def)
      ultimately show "\<exists>s'. exec S B (CmdUnlock pw') s = (s', snd (spec pw (CmdUnlock pw') (Abs key s))) \<and> Abs key s' = fst (spec pw (CmdUnlock pw') (Abs key s)) \<and> Good pw key s'"
        using Unlock_ok [OF ok 1, of pw'] 1 assms(1) by (cases "pw' = pw") (simp_all add: Abs_locked)
    next
      assume 2: "ss_encKey s = Some key"
      show "\<exists>s'. exec S B (CmdUnlock pw') s = (s', snd (spec pw (CmdUnlock pw') (Abs key s))) \<and> Abs key s' = fst (spec pw (CmdUnlock pw') (Abs key s)) \<and> Good pw key s'"
        using assms(1) 2 by (simp add: bolt_CreateUnlock_def bolt_IsLocked_def Abs_locked)
    qed
  next
    case CmdListBuckets
    obtain bs where bs: "bolt_ListBuckets B s = Inr bs" "distinct bs" "set bs = nested (ss_db s)" by (rule ListBuckets_ok [OF ok])
    have "sp_buckets (Abs key s) = set bs" using bs(3) by (simp add: abs_store_def)
    with bs(1) assms(1) show ?thesis unfolding CmdListBuckets by simp
  next
    case (CmdCreate p)
    show ?thesis unfolding CmdCreate
    proof (rule lk)
      assume 1: "ss_encKey s = None"
      show "\<exists>s'. exec S B (CmdCreate p) s = (s', snd (spec pw (CmdCreate p) (Abs key s))) \<and> Abs key s' = fst (spec pw (CmdCreate p) (Abs key s)) \<and> Good pw key s'"
        using assms(1) by (simp add: guarded_def Abs_locked 1 locked_refuses [OF ok 1] del: exec.simps)
    next
      assume 2: "ss_encKey s = Some key"
      show "\<exists>s'. exec S B (CmdCreate p) s = (s', snd (spec pw (CmdCreate p) (Abs key s))) \<and> Abs key s' = fst (spec pw (CmdCreate p) (Abs key s)) \<and> Good pw key s'" by (rule exec_Create [OF assms(1) 2])
    qed
  next
    case (CmdAdd p k v)
    show ?thesis unfolding CmdAdd
    proof (rule lk)
      assume 1: "ss_encKey s = None"
      show "\<exists>s'. exec S B (CmdAdd p k v) s = (s', snd (spec pw (CmdAdd p k v) (Abs key s))) \<and> Abs key s' = fst (spec pw (CmdAdd p k v) (Abs key s)) \<and> Good pw key s'"
        using assms(1) by (simp add: guarded_def Abs_locked 1 locked_refuses [OF ok 1] del: exec.simps)
    next
      assume 2: "ss_encKey s = Some key"
      show "\<exists>s'. exec S B (CmdAdd p k v) s = (s', snd (spec pw (CmdAdd p k v) (Abs key s))) \<and> Abs key s' = fst (spec pw (CmdAdd p k v) (Abs key s)) \<and> Good pw key s'" by (rule exec_Add [OF assms(1) 2]) (use assms(2) CmdAdd in simp)
    qed
  next
    case (CmdRemove p k)
    show ?thesis unfolding CmdRemove
    proof (rule lk)
      assume 1: "ss_encKey s = None"
      show "\<exists>s'. exec S B (CmdRemove p k) s = (s', snd (spec pw (CmdRemove p k) (Abs key s))) \<and> Abs key s' = fst (spec pw (CmdRemove p k) (Abs key s)) \<and> Good pw key s'"
        using assms(1) by (simp add: guarded_def Abs_locked 1 locked_refuses [OF ok 1] del: exec.simps)
    next
      assume 2: "ss_encKey s = Some key"
      show "\<exists>s'. exec S B (CmdRemove p k) s = (s', snd (spec pw (CmdRemove p k) (Abs key s))) \<and> Abs key s' = fst (spec pw (CmdRemove p k) (Abs key s)) \<and> Good pw key s'" by (rule exec_Remove [OF assms(1) 2]) (use assms(2) CmdRemove in simp)
    qed
  next
    case (CmdGet p k)
    show ?thesis unfolding CmdGet
    proof (rule lk)
      assume 1: "ss_encKey s = None"
      show "\<exists>s'. exec S B (CmdGet p k) s = (s', snd (spec pw (CmdGet p k) (Abs key s))) \<and> Abs key s' = fst (spec pw (CmdGet p k) (Abs key s)) \<and> Good pw key s'"
        using assms(1) by (simp add: guarded_def Abs_locked 1 locked_refuses [OF ok 1] del: exec.simps)
    next
      assume 2: "ss_encKey s = Some key"
      have "fst (spec pw (CmdGet p k) (Abs key s)) = Abs key s" by (simp add: guarded_def split: sum.splits)
      with exec_reads(1) [OF assms(1) 2, of p] assms show "\<exists>s'. exec S B (CmdGet p k) s = (s', snd (spec pw (CmdGet p k) (Abs key s))) \<and> Abs key s' = fst (spec pw (CmdGet p k) (Abs key s)) \<and> Good pw key s'" by (simp add: CmdGet del: exec.simps spec.simps)
    qed
  next
    case (CmdGetAll p)
    show ?thesis unfolding CmdGetAll
    proof (rule lk)
      assume 1: "ss_encKey s = None"
      show "\<exists>s'. exec S B (CmdGetAll p) s = (s', snd (spec pw (CmdGetAll p) (Abs key s))) \<and> Abs key s' = fst (spec pw (CmdGetAll p) (Abs key s)) \<and> Good pw key s'"
        using assms(1) by (simp add: guarded_def Abs_locked 1 locked_refuses [OF ok 1] del: exec.simps)
    next
      assume 2: "ss_encKey s = Some key"
      have "fst (spec pw (CmdGetAll p) (Abs key s)) = Abs key s" by (simp add: guarded_def split: sum.splits)
      with exec_reads(2) [OF assms(1) 2, of p] assms show "\<exists>s'. exec S B (CmdGetAll p) s = (s', snd (spec pw (CmdGetAll p) (Abs key s))) \<and> Abs key s' = fst (spec pw (CmdGetAll p) (Abs key s)) \<and> Good pw key s'" by (simp add: CmdGetAll del: exec.simps spec.simps)
    qed
  qed
qed

end

section \<open>Properties\<close>

fun exec_all :: "'k snacl \<Rightarrow> 'b bolt \<Rightarrow> store_cmd list \<Rightarrow> ('b, 'k) boltSecureStorage \<Rightarrow> ('b, 'k) boltSecureStorage \<times> store_answer res list" where
  "exec_all S B [] s = (s, [])"
| "exec_all S B (c # cs) s = (case exec S B c s of (s, r) \<Rightarrow> (case exec_all S B cs s of (s, rs) \<Rightarrow> (s, r # rs)))"

fun spec_all :: "string \<Rightarrow> store_cmd list \<Rightarrow> spec_store \<Rightarrow> spec_store \<times> store_answer res list" where
  "spec_all pw [] a = (a, [])"
| "spec_all pw (c # cs) a = (case spec pw c a of (a, r) \<Rightarrow> (case spec_all pw cs a of (a, rs) \<Rightarrow> (a, r # rs)))"

lemma exec_all_refines:
  assumes "secure_db B kv nested valid S" "secure_db.Good kv nested valid S pw key s" "list_all names_bucket cs" "exec_all S B cs s = (s', answers)"
  shows "spec_all pw cs (abs_store S kv nested key s) = (abs_store S kv nested key s', answers)"
  using assms(2-)
proof (induction cs arbitrary: s answers)
  case (Cons c cs)
  from Cons.prems(1,2) obtain s1 where s1: "exec S B c s = (s1, snd (spec pw c (abs_store S kv nested key s)))"
    "abs_store S kv nested key s1 = fst (spec pw c (abs_store S kv nested key s))" "secure_db.Good kv nested valid S pw key s1"
    using secure_db.exec_refines [OF assms(1), of pw key s c] by auto
  obtain rs where rs: "exec_all S B cs s1 = (s', rs)" "answers = snd (spec pw c (abs_store S kv nested key s)) # rs"
    using Cons.prems(3) s1(1) by (auto split: prod.splits)
  from Cons.IH [OF s1(3) _ rs(1)] Cons.prems(2) s1(2) rs(2) show ?case
    by (cases "spec pw c (abs_store S kv nested key s)") simp
qed simp


text \<open>
  C12. Changing the password, when no name of a bucket or key has an underscore and the store is
  unlocked: in whatever order buckets are read and entries written, all the contents are kept, the new
  password is the one that unlocks the store afterwards, and no other does.
\<close>

theorem ChangePassword_keeps_contents:
  assumes "secure_db B kv nested valid S" "store_ok S kv nested valid old key s" "ss_encKey s = Some key"
    and "plain_names (nested (ss_db s)) (contents S kv key (ss_db s))"
    and "\<And>m. mset (ord1 m) = mset m" "\<And>m. mset (ord2 m) = mset m"
  shows "\<exists>key' s'. bolt_ChangePassword S B ord1 ord2 (Some old) (Some new) s = (s', Inr ()) \<and> ss_encKey s' = Some key'
    \<and> nested (ss_db s') = nested (ss_db s) \<and> contents S kv key' (ss_db s') = contents S kv key (ss_db s)
    \<and> (\<forall>pw. bolt_CreateUnlock S B (Some pw) (bolt_Lock s') =
         (if pw = new then (unlocked_with key' (ss_db s') (bolt_Lock s'), Inr ()) else (bolt_Lock s', Inl ErrInvalidPassword)))"
proof -
  obtain key' s' where s': "bolt_ChangePassword S B ord1 ord2 (Some old) (Some new) s = (s', Inr ())" "store_ok S kv nested valid new key' s'"
    "ss_encKey s' = Some key'" "nested (ss_db s') = nested (ss_db s)" "contents S kv key' (ss_db s') = contents S kv key (ss_db s)"
    by (rule secure_db.ChangePassword_ok [OF assms])
  note lock = secure_db.Lock_ok [OF assms(1) s'(2)]
  have "bolt_CreateUnlock S B (Some pw) (bolt_Lock s') =
      (if pw = new then (unlocked_with key' (ss_db s') (bolt_Lock s'), Inr ()) else (bolt_Lock s', Inl ErrInvalidPassword))" for pw
    using secure_db.Unlock_ok [OF assms(1), of new key' "bolt_Lock s'" pw] lock by simp
  with s' show ?thesis by blast
qed

section \<open>Examples\<close>

text \<open>A new store, unlocked with a password, with one bucket and one entry.\<close>

definition ex_store :: "string \<Rightarrow> string \<Rightarrow> (mem_db, string) boltSecureStorage" where
  "ex_store p k = fst (exec_all mem_snacl mem_bolt [CmdUnlock ''pw'', CmdCreate p, CmdAdd p k ''v'']
     \<lparr>ss_db = [([], [])], ss_encKey = None, ss_rand = 0\<rparr>)"

lemma ex_empty: "mem_valid [([], [])]" "mem_kv [([], [])] p = Map.empty" "mem_nested [([], [])] = {}"
  by (auto simp: mem_valid_def mem_kv_def mem_nested_def gm_ok_def fun_eq_iff)

lemma ex_opened: "bolt_CreateUnlock mem_snacl mem_bolt (Some ''pw'') \<lparr>ss_db = [([], [])], ss_encKey = None, ss_rand = 0\<rparr>
    = (\<lparr>ss_db = [([], [(''enckey'', ''kpw'')])], ss_encKey = Some ''pw'', ss_rand = 1\<rparr>, Inr ())"
  by code_simp

lemma ex_opened_ok: "store_ok mem_snacl mem_kv mem_nested mem_valid ''pw'' ''pw'' \<lparr>ss_db = [([], [(''enckey'', ''kpw'')])], ss_encKey = Some ''pw'', ss_rand = 1\<rparr>"
  by (auto simp: store_ok_def sealed_def mem_valid_def mem_kv_def mem_nested_def gm_ok_def mem_snacl_def encryptionKeyID_def split: if_splits)


lemma ex_store_eq: "ex_store ''b'' ''k'' = \<lparr>ss_db = [([], [(''enckey'', ''kpw'')]), (''b'', [(''k'', ''cpw:v'')])], ss_encKey = Some ''pw'', ss_rand = 2\<rparr>"
  by code_simp

lemma ex_store_ok: "store_ok mem_snacl mem_kv mem_nested mem_valid ''pw'' ''pw'' (ex_store ''b'' ''k'')"
  unfolding ex_store_eq
  by (auto simp: store_ok_def sealed_def mem_valid_def mem_kv_def mem_nested_def gm_ok_def mem_snacl_def encryptionKeyID_def split: if_splits)

theorem ChangePassword_keeps_contents_witness:
  "\<exists>key' s'. bolt_ChangePassword mem_snacl mem_bolt rev rev (Some ''pw'') (Some ''new'') (ex_store ''b'' ''k'') = (s', Inr ())
     \<and> contents mem_snacl mem_kv key' (ss_db s') ''b'' ''k'' = Some ''v''
     \<and> snd (bolt_CreateUnlock mem_snacl mem_bolt (Some ''pw'') (bolt_Lock s')) = Inl ErrInvalidPassword"
proof -
  have val: "contents mem_snacl mem_kv ''pw'' (ss_db (ex_store ''b'' ''k'')) ''b'' ''k'' = Some ''v''" by code_simp
  have names: "plain_names (mem_nested (ss_db (ex_store ''b'' ''k''))) (contents mem_snacl mem_kv ''pw'' (ss_db (ex_store ''b'' ''k'')))"
    unfolding ex_store_eq
    by (auto simp: plain_names_def mem_nested_def contents_def mem_kv_def mem_snacl_def split: if_splits option.splits)
  have key: "ss_encKey (ex_store ''b'' ''k'') = Some ''pw''" by (simp add: ex_store_eq)
  obtain key' s' where s': "bolt_ChangePassword mem_snacl mem_bolt rev rev (Some ''pw'') (Some ''new'') (ex_store ''b'' ''k'') = (s', Inr ())"
    "contents mem_snacl mem_kv key' (ss_db s') = contents mem_snacl mem_kv ''pw'' (ss_db (ex_store ''b'' ''k''))"
    "\<forall>pw. bolt_CreateUnlock mem_snacl mem_bolt (Some pw) (bolt_Lock s') = (if pw = ''new''
       then (unlocked_with key' (ss_db s') (bolt_Lock s'), Inr ()) else (bolt_Lock s', Inl ErrInvalidPassword))"
    using ChangePassword_keeps_contents [OF mem_store.secure_db_axioms ex_store_ok key names, of rev rev "''new''"] by auto
  show ?thesis
    by (rule exI [of _ key'], rule exI [of _ s']) (simp add: s' val)
qed

text \<open>
  A key with an underscore, as the topics of the webhooks have, is cut at it: its value is written
  under another key, and the entry itself stays with the old password. The store reports success.
\<close>

lemma underscore_key_lost:
  "case bolt_ChangePassword mem_snacl mem_bolt id id (Some ''pw'') (Some ''new'') (ex_store ''subscriptionsbyevent'' ''TRADE_SETTLED'') of
     (s, r) \<Rightarrow> r = Inr () \<and> bolt_GetFromBucket mem_snacl mem_bolt ''subscriptionsbyevent'' ''TRADE_SETTLED'' s = Inl (External ''unable to decrypt'')
       \<and> bolt_GetFromBucket mem_snacl mem_bolt ''subscriptionsbyevent'' ''TRADE'' s = Inr (Some ''v'')"
  by code_simp

text \<open>A store that is locked is given the new password although nothing could be read to be written again.\<close>

lemma locked_change_loses:
  "case bolt_ChangePassword mem_snacl mem_bolt id id (Some ''pw'') (Some ''new'') (bolt_Lock (ex_store ''b'' ''k'')) of
     (s, r) \<Rightarrow> r = Inr () \<and> bolt_GetFromBucket mem_snacl mem_bolt ''b'' ''k'' s = Inl (External ''unable to decrypt'')"
  by code_simp

end
