(* ===== verification/Pubsub_Props.thy ===== *)
theory Pubsub_Props
  imports Pubsub Secure_Store_Props
begin

text \<open>
  What the subscriptions promise: the two buckets of the store hold the same subscriptions, whatever is
  subscribed and unsubscribed, and an event reaches its subscribers. The locale \<open>secret_store\<close> is what the
  service relies on in the encrypted store; the bolt store provides it.
\<close>

section \<open>Serialized subscriptions\<close>

definition sub_utf8 :: "Subscription \<Rightarrow> bool" where
  "sub_utf8 h \<longleftrightarrow> valid_utf8 (sub_ID h) \<and> valid_utf8 (sub_Event h) \<and> valid_utf8 (sub_Endpoint h) \<and> valid_utf8 (sub_Secret h)"

lemma field_names: "valid_utf8 ''id''" "valid_utf8 ''event''" "valid_utf8 ''endpoint''" "valid_utf8 ''secret''"
  by code_simp+

lemma fold_eq_fields:
  "fold_eq ''id'' ''id''" "\<not> fold_eq ''id'' ''event''" "\<not> fold_eq ''id'' ''endpoint''" "\<not> fold_eq ''id'' ''secret''"
  "fold_eq ''event'' ''event''" "\<not> fold_eq ''event'' ''endpoint''" "\<not> fold_eq ''event'' ''secret''"
  "fold_eq ''endpoint'' ''endpoint''" "\<not> fold_eq ''endpoint'' ''secret''" "fold_eq ''secret'' ''secret''"
  by code_simp+

lemma NewSubscriptionFromBytes_Serialize:
  assumes "sub_utf8 h"
  shows "NewSubscriptionFromBytes (Serialize h) = Inr h"
proof -
  have "json_parse (Serialize h) = Some (Subscription_json h)"
    unfolding Serialize_def using assms field_names by (intro json_parse_encode) (simp add: Subscription_json_def sub_utf8_def)
  then show ?thesis
    by (simp add: NewSubscriptionFromBytes_def Subscription_json_def decode_member_def fold_eq_fields del: fold_eq.simps)
qed

lemma Serialize_no_separator: "separator \<notin> set (Serialize h)"
proof -
  have "separator \<notin> set (member_text (k, JStr v))" for k v
    using json_quote_no_ff by (simp add: member_text_def separator_def)
  then show ?thesis
    unfolding Serialize_def Subscription_json_def json_encode_members
    using json_quote_no_ff by (auto simp: separator_def dest!: join_with_set [THEN subsetD])
qed

lemma Serialize_ne: "Serialize h \<noteq> []"
  by (simp add: Serialize_def Subscription_json_def)

lemma split_serialized: "l \<noteq> [] \<Longrightarrow> split_on separator (join_with separator (map Serialize l)) = map Serialize l"
  by (rule split_join) (auto simp: Serialize_no_separator)

lemma joined_ne: "l \<noteq> [] \<Longrightarrow> join_with separator (map Serialize l) \<noteq> []"
  using Serialize_ne by (intro join_with_ne) (auto dest: sym)

lemma decode_all:
  "(\<And>h. h \<in> set l \<Longrightarrow> sub_utf8 h) \<Longrightarrow>
   rmap (\<lambda>buf. case NewSubscriptionFromBytes buf of Inl _ \<Rightarrow> Inl nil_deref | Inr sub \<Rightarrow> Inr sub) (map Serialize l) = Inr l"
  by (induction l) (simp_all add: NewSubscriptionFromBytes_Serialize)

text \<open>The subscription with an id is found at its position.\<close>

lemma find_index_ok:
  assumes "distinct (map sub_ID l)" "\<And>h. h \<in> set l \<Longrightarrow> sub_utf8 h" "h \<in> set l"
  shows "\<exists>n < length l. find_index (sub_ID h) (map Serialize l) i = Inr (i + n) \<and> take n l @ drop (n + 1) l = filter (\<lambda>x. sub_ID x \<noteq> sub_ID h) l"
  using assms
proof (induction l arbitrary: i)
  case (Cons x l)
  show ?case
  proof (cases "sub_ID x = sub_ID h")
    case True
    with Cons.prems(1) have "filter (\<lambda>y. sub_ID y \<noteq> sub_ID h) l = l" by (intro filter_True) (metis distinct.simps(2) image_eqI list.simps(9) set_map)
    with True Cons.prems(2) show ?thesis by (intro exI [of _ 0]) (simp add: NewSubscriptionFromBytes_Serialize)
  next
    case False
    with Cons.prems have "h \<in> set l" by auto
    with Cons.IH [of "i + 1"] Cons.prems(1,2) obtain n where "n < length l" "find_index (sub_ID h) (map Serialize l) (i + 1) = Inr (i + 1 + n)"
      "take n l @ drop (n + 1) l = filter (\<lambda>x. sub_ID x \<noteq> sub_ID h) l" by auto
    with False Cons.prems(2) show ?thesis by (intro exI [of _ "Suc n"]) (simp add: NewSubscriptionFromBytes_Serialize)
  qed
qed simp

text \<open>Lists by topic, put together over the topics, are the whole.\<close>

lemma mset_by_topic:
  "distinct ts \<Longrightarrow> (\<And>h. h \<in> set l \<Longrightarrow> sub_Event h \<in> set ts) \<Longrightarrow> mset (concat (map (\<lambda>t. filter (\<lambda>h. sub_Event h = t) l) ts)) = mset l"
proof (induction ts arbitrary: l)
  case Nil
  then have "l = []" by (cases l) auto
  then show ?case by simp
next
  case (Cons t ts)
  let ?l = "filter (\<lambda>h. sub_Event h \<noteq> t) l"
  have same: "map (\<lambda>t. filter (\<lambda>h. sub_Event h = t) l) ts = map (\<lambda>t. filter (\<lambda>h. sub_Event h = t) ?l) ts"
    using Cons.prems(1) by (auto simp: filter_filter intro!: filter_cong)
  have "mset (concat (map (\<lambda>t. filter (\<lambda>h. sub_Event h = t) ?l) ts)) = mset ?l"
    using Cons.prems by (intro Cons.IH) auto
  then have "mset (concat (map (\<lambda>t. filter (\<lambda>h. sub_Event h = t) l) (t # ts))) = filter_mset (\<lambda>h. sub_Event h = t) (mset l) + filter_mset (\<lambda>h. sub_Event h \<noteq> t) (mset l)"
    unfolding list.map concat.simps mset_append same by simp
  then show ?case by (simp only: multiset_partition [symmetric])
qed

lemma sort_by_id_unique:
  assumes "mset xs = mset ys" "distinct (map sub_ID xs)"
  shows "sort_by_id xs = sort_by_id ys"
proof -
  have "inj_on (\<lambda>h. map of_char (sub_ID h) :: nat list) (set xs)"
    using assms(2) by (auto simp: inj_on_def distinct_map dest!: map_injective)
  then show ?thesis
    unfolding sort_by_id_def using assms(1) by (intro sort_key_inj_key_eq) simp_all
qed

section \<open>What the service relies on in the store\<close>

abbreviation hook_buckets :: "string set" where "hook_buckets \<equiv> {subsBucket, subsByEventBucket}"

locale secret_store =
  fixes ST :: "'s SecureStorage" and held :: "'s \<Rightarrow> string \<Rightarrow> string \<Rightarrow> string option" and ready :: "'s \<Rightarrow> bool"
  assumes get: "ready s \<Longrightarrow> p \<in> hook_buckets \<Longrightarrow> sec_GetFromBucket ST p k s = rbind (check_data_key k) (\<lambda>_. Inr (held s p k))"
    and get_all: "ready s \<Longrightarrow> p \<in> hook_buckets \<Longrightarrow> \<exists>m. sec_GetAllFromBucket ST p s = Inr m \<and> gm_ok m \<and> gm_get m = held s p"
    and add: "ready s \<Longrightarrow> p \<in> hook_buckets \<Longrightarrow> check_data_key k = Inr () \<Longrightarrow> v \<noteq> [] \<Longrightarrow>
      \<exists>s'. sec_AddToBucket ST p k v s = (s', Inr ()) \<and> ready s' \<and> held s' = (held s)(p := (held s p)(k \<mapsto> v))"
    and remove: "ready s \<Longrightarrow> p \<in> hook_buckets \<Longrightarrow> check_data_key k = Inr () \<Longrightarrow>
      \<exists>s'. sec_RemoveFromBucket ST p k s = (s', Inr ()) \<and> ready s' \<and> held s' = (held s)(p := (held s p)(k := None))"

text \<open>The subscriptions that a store holds, in the order in which they were added.\<close>

definition sub_ok :: "Subscription \<Rightarrow> bool" where
  "sub_ok h \<longleftrightarrow> sub_utf8 h \<and> check_data_key (sub_ID h) = Inr () \<and> check_data_key (sub_Event h) = Inr ()"

definition by_topic :: "string \<Rightarrow> Subscription list \<Rightarrow> Subscription list" where
  "by_topic topic subs = filter (\<lambda>h. sub_Event h = topic) subs"

definition holds_subs :: "Subscription list \<Rightarrow> (string \<Rightarrow> string \<Rightarrow> string option) \<Rightarrow> bool" where
  "holds_subs subs m \<longleftrightarrow> (\<forall>h \<in> set subs. sub_ok h) \<and> distinct (map sub_ID subs)
     \<and> m subsBucket = map_of (map (\<lambda>h. (sub_ID h, Serialize h)) subs)
     \<and> m subsByEventBucket = (\<lambda>topic. if by_topic topic subs = [] then None else Some (join_with separator (map Serialize (by_topic topic subs))))"

lemma buckets_distinct [simp]: "subsBucket \<noteq> subsByEventBucket" "subsByEventBucket \<noteq> subsBucket"
  by (simp_all add: subsBucket_def subsByEventBucket_def)

lemma check_data_key_Inr [simp]: "check_data_key k = Inr () \<longleftrightarrow> k \<noteq> [] \<and> k \<noteq> encryptionKeyID"
  by (auto simp: check_data_key_def)

lemma holds_subs_None: "holds_subs subs m \<Longrightarrow> m subsBucket k = None \<longleftrightarrow> k \<notin> set (map sub_ID subs)"
  by (auto simp: holds_subs_def map_of_eq_None_iff image_image)

lemma holds_subs_Some: "holds_subs subs m \<Longrightarrow> h \<in> set subs \<Longrightarrow> m subsBucket (sub_ID h) = Some (Serialize h)"
  by (auto simp: holds_subs_def comp_def intro!: map_of_is_SomeI)

lemma holds_subs_add:
  assumes "holds_subs subs m" "sub_ok h" "sub_ID h \<notin> set (map sub_ID subs)"
    and "m' = m(subsBucket := (m subsBucket)(sub_ID h \<mapsto> Serialize h))"
  shows "holds_subs (subs @ [h]) (m'(subsByEventBucket := (m' subsByEventBucket)(sub_Event h \<mapsto> join_with separator (map Serialize (by_topic (sub_Event h) subs) @ [Serialize h]))))"
proof -
  have "map_of (map (\<lambda>h. (sub_ID h, Serialize h)) subs) (sub_ID h) = None" using assms(3) by (auto simp: map_of_eq_None_iff)
  with assms show ?thesis by (auto simp: holds_subs_def by_topic_def fun_eq_iff map_add_def split: option.splits)
qed

lemma by_topic_remove: "by_topic t (filter (\<lambda>x. sub_ID x \<noteq> k) subs) = filter (\<lambda>x. sub_ID x \<noteq> k) (by_topic t subs)"
  by (auto simp: by_topic_def intro: filter_cong)

text \<open>Another topic keeps its list when a subscription is removed.\<close>

lemma by_topic_other:
  assumes "distinct (map sub_ID subs)" "h \<in> set subs" "t \<noteq> sub_Event h"
  shows "by_topic t (filter (\<lambda>x. sub_ID x \<noteq> sub_ID h) subs) = by_topic t subs"
proof -
  have "sub_ID x \<noteq> sub_ID h" if "x \<in> set (by_topic t subs)" for x
    using that assms by (auto simp: by_topic_def distinct_map dest: inj_onD)
  then show ?thesis by (simp add: by_topic_remove)
qed

lemma map_of_remove:
  "(map_of (map (\<lambda>h. (sub_ID h, Serialize h)) subs))(k := None) = map_of (map (\<lambda>h. (sub_ID h, Serialize h)) (filter (\<lambda>x. sub_ID x \<noteq> k) subs))"
proof
  show "((map_of (map (\<lambda>h. (sub_ID h, Serialize h)) subs))(k := None)) x = map_of (map (\<lambda>h. (sub_ID h, Serialize h)) (filter (\<lambda>x. sub_ID x \<noteq> k) subs)) x" for x
    by (induction subs) auto
qed

lemma holds_subs_remove:
  assumes "holds_subs subs m" "h \<in> set subs" "m' = m(subsBucket := (m subsBucket)(sub_ID h := None))"
    and l: "l = filter (\<lambda>x. sub_ID x \<noteq> sub_ID h) (by_topic (sub_Event h) subs)"
  shows "holds_subs (filter (\<lambda>x. sub_ID x \<noteq> sub_ID h) subs) (m'(subsByEventBucket := (m' subsByEventBucket)(sub_Event h :=
    (if l = [] then None else Some (join_with separator (map Serialize l))))))"
proof -
  have other: "by_topic t (filter (\<lambda>x. sub_ID x \<noteq> sub_ID h) subs) = by_topic t subs" if "t \<noteq> sub_Event h" for t
    using by_topic_other [OF _ assms(2) that] assms(1) by (simp add: holds_subs_def)
  have same: "by_topic (sub_Event h) (filter (\<lambda>x. sub_ID x \<noteq> sub_ID h) subs) = l" using l by (simp add: by_topic_remove)
  show ?thesis
    using assms(1,3) other same map_of_remove [of subs "sub_ID h", symmetric] unfolding holds_subs_def
    by (auto simp: fun_eq_iff distinct_map_filter)
qed

text \<open>What a listing answers: by id, those for any event after those of the topic.\<close>

definition listed :: "string \<Rightarrow> Subscription list \<Rightarrow> Subscription list" where
  "listed topic subs = (if topic = UnspecifiedTopic then sort_by_id subs
     else sort_by_id (by_topic topic subs) @ (if topic \<noteq> AnyTopic then sort_by_id (by_topic AnyTopic subs) else []))"

context secret_store
begin

lemma serialized_topic:
  assumes "ready s" "holds_subs subs (held s)" "topic \<noteq> UnspecifiedTopic"
  shows "getSerializedSubscriptions ST ord topic s = map Serialize (by_topic topic subs)"
proof (cases "topic = encryptionKeyID")
  case True
  then have "by_topic topic subs = []" using assms(2) by (auto simp: holds_subs_def sub_ok_def by_topic_def filter_empty_conv)
  with True assms show ?thesis
    by (simp add: getSerializedSubscriptions_def get check_data_key_def encryptionKeyID_def)
next
  case False
  then have "sec_GetFromBucket ST subsByEventBucket topic s = Inr (held s subsByEventBucket topic)"
    using assms(1,3) by (simp add: get check_data_key_def UnspecifiedTopic_def)
  with assms show ?thesis
    by (simp add: getSerializedSubscriptions_def holds_subs_def split_serialized joined_ne)
qed

lemma serialized_all:
  assumes "ready s" "holds_subs subs (held s)" "\<And>m. mset (ord m) = mset m"
  obtains l where "getSerializedSubscriptions ST ord UnspecifiedTopic s = map Serialize l" "mset l = mset subs"
proof -
  obtain m where m: "sec_GetAllFromBucket ST subsByEventBucket s = Inr m" "gm_ok m" "gm_get m = held s subsByEventBucket"
    using get_all [OF assms(1), of subsByEventBucket] by auto
  have set: "set (ord m) = set m" using assms(3) by (metis set_mset_mset)
  have dist: "distinct (map fst (ord m))"
    using m(2) assms(3) [of m] mset_eq_imp_distinct_iff [of "map fst (ord m)" "map fst m"] by (simp add: gm_ok_def)
  have ev: "held s subsByEventBucket = (\<lambda>t. if by_topic t subs = [] then None else Some (join_with separator (map Serialize (by_topic t subs))))"
    using assms(2) by (simp add: holds_subs_def)
  have entry: "(t, b) \<in> set m \<longleftrightarrow> by_topic t subs \<noteq> [] \<and> b = join_with separator (map Serialize (by_topic t subs))" for t b
    unfolding gm_get_Some_iff [OF m(2), symmetric] m(3) ev by auto
  let ?l = "concat (map (\<lambda>t. by_topic t subs) (map fst (ord m)))"
  have "split_on separator b = map Serialize (by_topic t subs)" if "(t, b) \<in> set (ord m)" for t b
    using that unfolding set entry by (simp add: split_serialized)
  then have "map (\<lambda>(_, b). split_on separator b) (ord m) = map (\<lambda>t. map Serialize (by_topic t subs)) (map fst (ord m))"
    by auto
  then have "concat (map (\<lambda>(_, b). split_on separator b) (ord m)) = map Serialize ?l"
    by (simp only: map_concat map_map comp_def)
  moreover have "sub_Event h \<in> set (map fst (ord m))" if "h \<in> set subs" for h
  proof -
    have "by_topic (sub_Event h) subs \<noteq> []" using that by (auto simp: by_topic_def filter_empty_conv)
    then have "(sub_Event h, join_with separator (map Serialize (by_topic (sub_Event h) subs))) \<in> set (ord m)" by (simp add: set entry)
    then show ?thesis by force
  qed
  then have "mset ?l = mset subs" unfolding by_topic_def by (intro mset_by_topic [OF dist])
  ultimately show ?thesis using that m(1) by (simp add: getSerializedSubscriptions_def)
qed

lemma subs_for_topic:
  assumes "ready s" "holds_subs subs (held s)" "\<And>m. mset (ord m) = mset m"
  shows "getSubscriptionsForTopic ST ord topic s = Inr (sort_by_id (if topic = UnspecifiedTopic then subs else by_topic topic subs))"
proof -
  have ok: "sub_utf8 h" if "h \<in> set subs" for h using assms(2) that by (auto simp: holds_subs_def sub_ok_def)
  show ?thesis
  proof (cases "topic = UnspecifiedTopic")
    case True
    obtain l where l: "getSerializedSubscriptions ST ord UnspecifiedTopic s = map Serialize l" "mset l = mset subs"
      by (rule serialized_all [OF assms])
    have "set l = set subs" using l(2) by (metis set_mset_mset)
    then have "rmap (\<lambda>buf. case NewSubscriptionFromBytes buf of Inl _ \<Rightarrow> Inl nil_deref | Inr sub \<Rightarrow> Inr sub) (map Serialize l) = Inr l"
      using ok by (intro decode_all) auto
    moreover have "sort_by_id l = sort_by_id subs"
      using sort_by_id_unique [OF l(2) [symmetric]] assms(2) by (simp add: holds_subs_def)
    ultimately show ?thesis using True l(1) by (simp add: getSubscriptionsForTopic_def)
  next
    case False
    have "rmap (\<lambda>buf. case NewSubscriptionFromBytes buf of Inl _ \<Rightarrow> Inl nil_deref | Inr sub \<Rightarrow> Inr sub) (map Serialize (by_topic topic subs)) = Inr (by_topic topic subs)"
      using ok by (intro decode_all) (auto simp: by_topic_def)
    with False show ?thesis
      using serialized_topic [OF assms(1,2) False, of ord] by (simp add: getSubscriptionsForTopic_def)
  qed
qed

lemma list_subs:
  assumes "ready s" "holds_subs subs (held s)" "\<And>m. mset (ord m) = mset m"
  shows "listSubscriptionsForTopic ST ord topic s = Inr (listed topic subs)"
  using subs_for_topic [OF assms] by (simp add: listSubscriptionsForTopic_def listed_def AnyTopic_def UnspecifiedTopic_def)

text \<open>A subscription is added to both buckets, and removed from both.\<close>

lemma add_subs:
  assumes "ready (ps_store w)" "holds_subs subs (held (ps_store w))" "sub_ok h" "sub_ID h \<notin> set (map sub_ID subs)"
  obtains w' where "cbind (on_store (sec_AddToBucket ST subsBucket (sub_ID h) (Serialize h))) (\<lambda>_.
      cbind (addSubscriptionForTopic ST ord h) (\<lambda>_. cret (sub_ID h))) w = (w', Inr (sub_ID h))"
    "ready (ps_store w')" "holds_subs (subs @ [h]) (held (ps_store w'))" "ps_uuids w' = ps_uuids w"
proof -
  have keys: "check_data_key (sub_ID h) = Inr ()" "check_data_key (sub_Event h) = Inr ()" using assms(3) by (simp_all add: sub_ok_def)
  obtain s1 where s1: "sec_AddToBucket ST subsBucket (sub_ID h) (Serialize h) (ps_store w) = (s1, Inr ())" "ready s1"
    "held s1 = (held (ps_store w))(subsBucket := (held (ps_store w) subsBucket)(sub_ID h \<mapsto> Serialize h))"
    using add [OF assms(1) _ keys(1) Serialize_ne [of h], of subsBucket] by auto
  let ?l = "join_with separator (map Serialize (by_topic (sub_Event h) subs @ [h]))"
  have ne: "sub_Event h \<noteq> UnspecifiedTopic" using keys(2) by (auto simp: UnspecifiedTopic_def)
  have ev: "held s1 subsByEventBucket = held (ps_store w) subsByEventBucket" using s1(3) by simp
  have ser: "getSerializedSubscriptions ST ord (sub_Event h) s1 = map Serialize (by_topic (sub_Event h) subs)"
    using serialized_topic [OF assms(1,2) ne, of ord] ne by (simp add: getSerializedSubscriptions_def get [OF s1(2)] get [OF assms(1)] ev)
  obtain s2 where s2: "sec_AddToBucket ST subsByEventBucket (sub_Event h) ?l s1 = (s2, Inr ())" "ready s2"
    "held s2 = (held s1)(subsByEventBucket := (held s1 subsByEventBucket)(sub_Event h \<mapsto> ?l))"
    using add [OF s1(2) _ keys(2) joined_ne, of subsByEventBucket "by_topic (sub_Event h) subs @ [h]"] by auto
  have "holds_subs (subs @ [h]) (held s2)"
    using holds_subs_add [OF assms(2,3,4) s1(3)] s2(3) by simp
  with s1 s2 ser show ?thesis
    by (intro that [of "w\<lparr>ps_store := s2\<rparr>"]) (simp_all add: cbind_def on_store_def addSubscriptionForTopic_def cret_def)
qed

lemma remove_subs:
  assumes "ready (ps_store w)" "holds_subs subs (held (ps_store w))" "h \<in> set subs"
  obtains w' where "removeSubscription ST ord (sub_ID h) w = (w', Inr ())" "ready (ps_store w')"
    "holds_subs (filter (\<lambda>x. sub_ID x \<noteq> sub_ID h) subs) (held (ps_store w'))" "ps_uuids w' = ps_uuids w"
proof -
  have h: "sub_ok h" "sub_utf8 h" "distinct (map sub_ID (by_topic (sub_Event h) subs))" "\<And>x. x \<in> set (by_topic (sub_Event h) subs) \<Longrightarrow> sub_utf8 x"
    using assms(2,3) by (auto simp: holds_subs_def sub_ok_def by_topic_def distinct_map_filter)
  have keys: "check_data_key (sub_ID h) = Inr ()" "check_data_key (sub_Event h) = Inr ()" using h(1) by (simp_all add: sub_ok_def)
  obtain s1 where s1: "sec_RemoveFromBucket ST subsBucket (sub_ID h) (ps_store w) = (s1, Inr ())" "ready s1"
    "held s1 = (held (ps_store w))(subsBucket := (held (ps_store w) subsBucket)(sub_ID h := None))"
    using remove [OF assms(1) _ keys(1), of subsBucket] by auto
  have ne: "sub_Event h \<noteq> UnspecifiedTopic" using keys(2) by (auto simp: UnspecifiedTopic_def)
  have ev: "held s1 subsByEventBucket = held (ps_store w) subsByEventBucket" using s1(3) by simp
  have ser: "getSerializedSubscriptions ST ord (sub_Event h) s1 = map Serialize (by_topic (sub_Event h) subs)"
    using serialized_topic [OF assms(1,2) ne, of ord] ne by (simp add: getSerializedSubscriptions_def get [OF s1(2)] get [OF assms(1)] ev)
  have got: "sec_GetFromBucket ST subsBucket (sub_ID h) (ps_store w) = Inr (Some (Serialize h))"
    using keys holds_subs_Some [OF assms(2,3)] by (simp add: get [OF assms(1)] check_data_key_def)
  obtain n where n: "n < length (by_topic (sub_Event h) subs)" "find_index (sub_ID h) (map Serialize (by_topic (sub_Event h) subs)) 0 = Inr n"
    "take n (by_topic (sub_Event h) subs) @ drop (n + 1) (by_topic (sub_Event h) subs) = filter (\<lambda>x. sub_ID x \<noteq> sub_ID h) (by_topic (sub_Event h) subs)"
    using find_index_ok [OF h(3,4), of h 0] assms(3) by (auto simp: by_topic_def)
  define l where "l = filter (\<lambda>x. sub_ID x \<noteq> sub_ID h) (by_topic (sub_Event h) subs)"
  have cut: "take n (map Serialize (by_topic (sub_Event h) subs)) @ drop (n + 1) (map Serialize (by_topic (sub_Event h) subs)) = map Serialize l"
    using n(3) by (simp only: l_def take_map drop_map map_append [symmetric])
  obtain s2 where s2: "(if l = [] then sec_RemoveFromBucket ST subsByEventBucket (sub_Event h) s1
      else sec_AddToBucket ST subsByEventBucket (sub_Event h) (join_with separator (map Serialize l)) s1) = (s2, Inr ())" "ready s2"
    "held s2 = (held s1)(subsByEventBucket := (held s1 subsByEventBucket)(sub_Event h := (if l = [] then None else Some (join_with separator (map Serialize l)))))"
    using remove [OF s1(2) _ keys(2), of subsByEventBucket] add [OF s1(2) _ keys(2) joined_ne [of l], of subsByEventBucket] by (cases "l = []") auto
  have "removeSubscriptionForTopic ST ord h (w\<lparr>ps_store := s1\<rparr>) = (w\<lparr>ps_store := s2\<rparr>, Inr ())"
    using s2(1) n(1,2) by (simp add: removeSubscriptionForTopic_def ser cut [simplified] on_store_def Let_def split: if_splits)
  then have "removeSubscription ST ord (sub_ID h) w = (w\<lparr>ps_store := s2\<rparr>, Inr ())"
    by (simp add: removeSubscription_def cbind_def from_store_def got on_store_def s1(1) NewSubscriptionFromBytes_Serialize [OF h(2)])
  moreover have "holds_subs (filter (\<lambda>x. sub_ID x \<noteq> sub_ID h) subs) (held s2)"
    using holds_subs_remove [OF assms(2,3) s1(3) l_def] s2(3) by simp
  ultimately show ?thesis using s2(2) by (intro that [of "w\<lparr>ps_store := s2\<rparr>"]) simp_all
qed

end

section \<open>Sequences of requests\<close>

datatype hook_cmd = HSubscribe string string string | HSubscribeWithID string string string string | HUnsubscribe string | HList string

datatype hook_answer = AId string | ADone | ASubs "Subscription list"

fun hook_exec :: "'s SecureStorage \<Rightarrow> ((string, string) gomap \<Rightarrow> (string, string) gomap) \<Rightarrow> (nat \<Rightarrow> string) \<Rightarrow> hook_cmd \<Rightarrow> ('s pubsub, hook_answer) call" where
  "hook_exec ST ord uuid (HSubscribe topic endpoint secret) = cbind (Subscribe ST ord uuid topic endpoint secret) (\<lambda>k. cret (AId k))"
| "hook_exec ST ord uuid (HSubscribeWithID k topic endpoint secret) = cbind (SubscribeWithID ST ord uuid k topic endpoint secret) (\<lambda>k. cret (AId k))"
| "hook_exec ST ord uuid (HUnsubscribe k) = cbind (Unsubscribe ST ord UnspecifiedTopic k) (\<lambda>_. cret ADone)"
| "hook_exec ST ord uuid (HList topic) = cbind (from_store (listSubscriptionsForTopic ST ord topic)) (\<lambda>subs. cret (ASubs subs))"

text \<open>The contract: a list of subscriptions with distinct ids, and the number of identifiers made so far.\<close>

fun hook_spec :: "(nat \<Rightarrow> string) \<Rightarrow> hook_cmd \<Rightarrow> (Subscription list \<times> nat, hook_answer) call" where
  "hook_spec uuid (HSubscribe topic endpoint secret) (subs, n) = (case check_subscription topic endpoint of
     Inl e \<Rightarrow> ((subs, n), Inl e)
   | Inr _ \<Rightarrow> if uuid n \<in> set (map sub_ID subs) then ((subs, n + 1), Inr (AId (uuid n)))
       else ((subs @ [\<lparr>sub_ID = uuid n, sub_Event = topic, sub_Endpoint = endpoint, sub_Secret = secret\<rparr>], n + 1), Inr (AId (uuid n))))"
| "hook_spec uuid (HSubscribeWithID k topic endpoint secret) (subs, n) = (case check_subscription topic endpoint of
     Inl e \<Rightarrow> ((subs, n), Inl e)
   | Inr _ \<Rightarrow> if k = [] then ((subs, n + 1), Inl (Errorf ''missing subscription id'' []))
       else (case check_data_key k of
         Inl e \<Rightarrow> ((subs, n + 1), Inl e)
       | Inr _ \<Rightarrow> if k \<in> set (map sub_ID subs) then ((subs, n + 1), Inl (Errorf ''subscription with id %s already exist'' [k]))
           else ((subs @ [\<lparr>sub_ID = k, sub_Event = topic, sub_Endpoint = endpoint, sub_Secret = secret\<rparr>], n + 1), Inr (AId k))))"
| "hook_spec uuid (HUnsubscribe k) (subs, n) = (case check_data_key k of
     Inl e \<Rightarrow> ((subs, n), Inl e)
   | Inr _ \<Rightarrow> if k \<in> set (map sub_ID subs) then ((filter (\<lambda>h. sub_ID h \<noteq> k) subs, n), Inr ADone)
       else ((subs, n), Inl (Errorf ''webhook not found'' [])))"
| "hook_spec uuid (HList topic) (subs, n) = ((subs, n), Inr (ASubs (listed topic subs)))"

text \<open>The texts of a request are UTF-8, as those of the RPC interface are, and the topic is one a store takes.\<close>

fun hook_cmd_ok :: "hook_cmd \<Rightarrow> bool" where
  "hook_cmd_ok (HSubscribe topic endpoint secret) \<longleftrightarrow> valid_utf8 topic \<and> valid_utf8 endpoint \<and> valid_utf8 secret \<and> topic \<noteq> encryptionKeyID"
| "hook_cmd_ok (HSubscribeWithID k topic endpoint secret) \<longleftrightarrow>
     valid_utf8 k \<and> valid_utf8 topic \<and> valid_utf8 endpoint \<and> valid_utf8 secret \<and> topic \<noteq> encryptionKeyID"
| "hook_cmd_ok _ \<longleftrightarrow> True"

fun run_all :: "('c \<Rightarrow> ('w, 'a) call) \<Rightarrow> 'c list \<Rightarrow> 'w \<Rightarrow> 'w \<times> 'a res list" where
  "run_all f [] w = (w, [])"
| "run_all f (c # cs) w = (case f c w of (w, r) \<Rightarrow> case run_all f cs w of (w, rs) \<Rightarrow> (w, r # rs))"

text \<open>A simulation of single requests gives one of sequences.\<close>

lemma run_all_sim:
  assumes "\<And>c w a w' r. c \<in> set cs \<Longrightarrow> R a w \<Longrightarrow> f c w = (w', r) \<Longrightarrow> R (fst (g c a)) w' \<and> r = snd (g c a)"
    and "R a w"
  shows "R (fst (run_all g cs a)) (fst (run_all f cs w)) \<and> snd (run_all f cs w) = snd (run_all g cs a)"
  using assms
proof (induction cs arbitrary: a w)
  case (Cons c cs)
  obtain w1 r where w1: "f c w = (w1, r)" by (cases "f c w")
  obtain a1 r' where a1: "g c a = (a1, r')" by (cases "g c a")
  have "R a1 w1" "r = r'" using Cons.prems(1) [OF _ Cons.prems(2) w1] a1 by auto
  with Cons.IH [of a1 w1] Cons.prems(1) w1 a1 show ?case by (auto split: prod.splits)
qed simp

context secret_store
begin

definition tracks :: "Subscription list \<times> nat \<Rightarrow> 's pubsub \<Rightarrow> bool" where
  "tracks a w \<longleftrightarrow> ready (ps_store w) \<and> holds_subs (fst a) (held (ps_store w)) \<and> snd a = ps_uuids w"

text \<open>The part that the two ways to add share.\<close>

lemma look_up:
  assumes "tracks (subs, n) w" "k \<noteq> []" "k \<noteq> encryptionKeyID"
  shows "\<exists>r. from_store (sec_GetFromBucket ST subsBucket k) w = (w, Inr r) \<and> (r = None \<longleftrightarrow> k \<notin> set (map sub_ID subs))"
  using assms holds_subs_None [of subs "held (ps_store w)" k]
  by (auto simp: tracks_def from_store_def get check_data_key_def)

end

context secret_store
begin

lemma add_ok:
  assumes "tracks (subs, n) w" "sub_ok h"
  shows "\<exists>w'. addSubscription ST ord h w = (w', Inr (sub_ID h)) \<and> tracks (if sub_ID h \<in> set (map sub_ID subs) then subs else subs @ [h], n) w'"
    and "\<exists>w'. addSubscriptionSafe ST ord h w = (w', if sub_ID h \<in> set (map sub_ID subs)
        then Inl (Errorf ''subscription with id %s already exist'' [sub_ID h]) else Inr (sub_ID h))
      \<and> tracks (if sub_ID h \<in> set (map sub_ID subs) then subs else subs @ [h], n) w'"
proof -
  have k: "sub_ID h \<noteq> []" "sub_ID h \<noteq> encryptionKeyID" using assms(2) by (simp_all add: sub_ok_def)
  obtain r where r: "from_store (sec_GetFromBucket ST subsBucket (sub_ID h)) w = (w, Inr r)" "r = None \<longleftrightarrow> sub_ID h \<notin> set (map sub_ID subs)"
    using look_up [OF assms(1) k] by blast
  have new: "\<exists>w'. cbind (on_store (sec_AddToBucket ST subsBucket (sub_ID h) (Serialize h))) (\<lambda>_.
      cbind (addSubscriptionForTopic ST ord h) (\<lambda>_. cret (sub_ID h))) w = (w', Inr (sub_ID h)) \<and> tracks (subs @ [h], n) w'"
    if "sub_ID h \<notin> set (map sub_ID subs)"
    using assms that by (auto simp: tracks_def intro: add_subs [of w subs h ord])
  show "\<exists>w'. addSubscription ST ord h w = (w', Inr (sub_ID h)) \<and> tracks (if sub_ID h \<in> set (map sub_ID subs) then subs else subs @ [h], n) w'"
    using r new assms(1) by (cases "r = None") (simp_all add: addSubscription_def cbind_def [of "from_store _"] cret_def)
  show "\<exists>w'. addSubscriptionSafe ST ord h w = (w', if sub_ID h \<in> set (map sub_ID subs)
        then Inl (Errorf ''subscription with id %s already exist'' [sub_ID h]) else Inr (sub_ID h))
      \<and> tracks (if sub_ID h \<in> set (map sub_ID subs) then subs else subs @ [h], n) w'"
    using r new assms(1) by (cases "r = None") (simp_all add: addSubscriptionSafe_def cbind_def [of "from_store _"] cfail_def)
qed

lemma unsubscribe_ok:
  assumes "tracks (subs, n) w" "k \<noteq> []" "k \<noteq> encryptionKeyID"
  shows "\<exists>w'. removeSubscription ST ord k w = (w', if k \<in> set (map sub_ID subs) then Inr () else Inl (Errorf ''webhook not found'' []))
    \<and> tracks (filter (\<lambda>h. sub_ID h \<noteq> k) subs, n) w'"
proof (cases "k \<in> set (map sub_ID subs)")
  case True
  then obtain h where h: "h \<in> set subs" "k = sub_ID h" by auto
  with assms(1) True show ?thesis by (auto simp: tracks_def intro: remove_subs [of w subs h ord])
next
  case False
  then have "filter (\<lambda>h. sub_ID h \<noteq> k) subs = subs" by (intro filter_True) auto
  with False look_up [OF assms] assms(1) show ?thesis by (auto simp: removeSubscription_def cbind_def cfail_def)
qed

lemma subscribe_refines:
  assumes "tracks (subs, n) w" "hook_cmd_ok (HSubscribe topic endpoint secret)" "\<And>n. valid_utf8 (uuid n) \<and> check_data_key (uuid n) = Inr ()"
    and "hook_exec ST ord uuid (HSubscribe topic endpoint secret) w = (w', r)"
  shows "tracks (fst (hook_spec uuid (HSubscribe topic endpoint secret) (subs, n))) w' \<and> r = snd (hook_spec uuid (HSubscribe topic endpoint secret) (subs, n))"
proof (cases "check_subscription topic endpoint")
  case (Inl e)
  with assms(1,4) show ?thesis by (simp add: Subscribe_def NewSubscription_def cbind_def)
next
  case (Inr u)
  let ?h = "\<lparr>sub_ID = uuid n, sub_Event = topic, sub_Endpoint = endpoint, sub_Secret = secret\<rparr>"
  have n: "ps_uuids w = n" and up: "tracks (subs, n + 1) (w\<lparr>ps_uuids := n + 1\<rparr>)" using assms(1) by (auto simp: tracks_def)
  have "sub_ok ?h" using Inr assms(2,3) by (auto simp: sub_ok_def sub_utf8_def check_subscription_def split: if_splits)
  with add_ok(1) [OF up, of ?h ord] Inr assms(4) n show ?thesis
    by (auto simp: Subscribe_def NewSubscription_def cbind_def cret_def)
qed

lemma subscribe_id_refines:
  assumes "tracks (subs, n) w" "hook_cmd_ok (HSubscribeWithID k topic endpoint secret)"
    and "hook_exec ST ord uuid (HSubscribeWithID k topic endpoint secret) w = (w', r)"
  shows "tracks (fst (hook_spec uuid (HSubscribeWithID k topic endpoint secret) (subs, n))) w'
    \<and> r = snd (hook_spec uuid (HSubscribeWithID k topic endpoint secret) (subs, n))"
proof (cases "check_subscription topic endpoint")
  case (Inl e)
  with assms(1,3) show ?thesis by (simp add: SubscribeWithID_def NewSubscription_def cbind_def)
next
  case (Inr u)
  let ?h = "\<lparr>sub_ID = k, sub_Event = topic, sub_Endpoint = endpoint, sub_Secret = secret\<rparr>"
  have n: "ps_uuids w = n" and up: "tracks (subs, n + 1) (w\<lparr>ps_uuids := n + 1\<rparr>)" using assms(1) by (auto simp: tracks_def)
  have rd: "ready (ps_store w)" using assms(1) by (simp add: tracks_def)
  consider "k = []" | "k \<noteq> []" "k = encryptionKeyID" | "sub_ok ?h"
    using Inr assms(2) by (auto simp: sub_ok_def sub_utf8_def check_subscription_def split: if_splits)
  then show ?thesis
  proof cases
    case 1
    with Inr assms(3) n up show ?thesis by (auto simp: SubscribeWithID_def NewSubscription_def cbind_def cfail_def)
  next
    case 2
    with Inr assms(3) n up rd show ?thesis
      by (auto simp: SubscribeWithID_def NewSubscription_def cbind_def addSubscriptionSafe_def from_store_def get check_data_key_def)
  next
    case 3
    then have "k \<noteq> []" "k \<noteq> encryptionKeyID" by (auto simp: sub_ok_def)
    with add_ok(2) [OF up 3, of ord] Inr assms(3) n show ?thesis
      by (auto simp: SubscribeWithID_def NewSubscription_def cbind_def cret_def check_data_key_def)
  qed
qed

lemma unsubscribe_refines:
  assumes "tracks (subs, n) w" "hook_exec ST ord uuid (HUnsubscribe k) w = (w', r)"
  shows "tracks (fst (hook_spec uuid (HUnsubscribe k) (subs, n))) w' \<and> r = snd (hook_spec uuid (HUnsubscribe k) (subs, n))"
proof (cases "check_data_key k")
  case (Inl e)
  with assms show ?thesis
    by (auto simp: Unsubscribe_def removeSubscription_def cbind_def from_store_def tracks_def get)
next
  case (Inr u)
  then have k: "k \<noteq> []" "k \<noteq> encryptionKeyID" "check_data_key k = Inr ()" using check_data_key_Inr [of k] by auto
  have "filter (\<lambda>h. sub_ID h \<noteq> k) subs = subs" if "k \<notin> set (map sub_ID subs)" using that by (intro filter_True) auto
  with unsubscribe_ok [OF assms(1) k(1,2), of ord] k assms(2) show ?thesis
    by (auto simp: Unsubscribe_def cbind_def cret_def check_data_key_def split: if_splits)
qed

lemma hook_exec_refines:
  assumes "tracks a w" "hook_cmd_ok c" "\<And>n. valid_utf8 (uuid n) \<and> check_data_key (uuid n) = Inr ()" "\<And>m. mset (ord m) = mset m"
    and "hook_exec ST ord uuid c w = (w', r)"
  shows "tracks (fst (hook_spec uuid c a)) w' \<and> r = snd (hook_spec uuid c a)"
proof -
  obtain subs n where a: "a = (subs, n)" by (cases a)
  show ?thesis
  proof (cases c)
    case (HSubscribe topic endpoint secret)
    with assms show ?thesis unfolding a by (simp only: subscribe_refines)
  next
    case (HSubscribeWithID k topic endpoint secret)
    with assms show ?thesis unfolding a by (simp only: subscribe_id_refines)
  next
    case (HUnsubscribe k)
    with assms show ?thesis unfolding a by (simp only: unsubscribe_refines)
  next
    case (HList topic)
    with assms(1,5) a list_subs [OF _ _ assms(4), of "ps_store w" subs topic] show ?thesis
      by (auto simp: tracks_def cbind_def from_store_def cret_def)
  qed
qed

end

section \<open>Publishing\<close>

text \<open>A client that notes the requests it makes and answers by endpoint.\<close>

type_synonym request = "string \<times> string \<times> (string \<times> string) list"

definition recorder :: "(string \<Rightarrow> (int \<times> string) res) \<Rightarrow> string \<Rightarrow> string \<Rightarrow> (string \<times> string) list \<Rightarrow> (request list, int \<times> string) call" where
  "recorder answer url payload headers log = (log @ [(url, payload, headers)], answer url)"

definition request_of :: "(string \<Rightarrow> string) \<Rightarrow> string \<Rightarrow> Subscription \<Rightarrow> request" where
  "request_of jwt message h = (sub_Endpoint h, message, [(''Content-Type'', ''application/json'')]
     @ (if sub_Secret h \<noteq> [] then [(''Authorization'', ''Bearer '' @ jwt (sub_Secret h))] else []))"

definition accepts :: "(string \<Rightarrow> (int \<times> string) res) \<Rightarrow> Subscription \<Rightarrow> bool" where
  "accepts answer h = (case answer (sub_Endpoint h) of Inr (status, _) \<Rightarrow> status = 200 | Inl _ \<Rightarrow> False)"

text \<open>A circuit breaker runs what it is given or refuses it.\<close>

definition breaker :: "(('h, unit) call \<Rightarrow> ('h, unit) call) \<Rightarrow> bool" where
  "breaker cb_Execute \<longleftrightarrow> (\<forall>f h. cb_Execute f h = f h \<or> (\<exists>e. cb_Execute f h = (h, Inl e)))"

lemma doRequest_record:
  "doRequest jwt id (recorder answer) h message log =
     (log @ [request_of jwt message h], if accepts answer h then Inr ()
       else snd (cbind (recorder answer (sub_Endpoint h) message []) (\<lambda>(status, resp). if status \<noteq> 200 then cfail (Errorf resp []) else cret ()) log))"
  by (auto simp: doRequest_def recorder_def request_of_def accepts_def IsSecured_def cbind_def cret_def cfail_def split: sum.splits)

lemma doRequest_cases:
  assumes "breaker cb_Execute" "doRequest jwt cb_Execute (recorder answer) h message log = (log', r)"
  shows "(log' = log @ [request_of jwt message h] \<and> (r = Inr () \<longleftrightarrow> accepts answer h)) \<or> (log' = log \<and> (\<exists>e. r = Inl e))"
proof -
  define f where "f = doRequest jwt id (recorder answer) h message"
  have "doRequest jwt cb_Execute (recorder answer) h message = cb_Execute f" by (simp add: doRequest_def f_def)
  then consider "cb_Execute f log = f log" | e where "cb_Execute f log = (log, Inl e)" using assms(1) by (auto simp: breaker_def)
  then show ?thesis
  proof cases
    case 1
    have "snd (f log) = Inr () \<longleftrightarrow> accepts answer h"
      by (auto simp: f_def doRequest_record recorder_def cbind_def cret_def cfail_def accepts_def split: sum.splits if_splits)
    with 1 assms(2) \<open>doRequest jwt cb_Execute _ _ _ = _\<close> show ?thesis by (simp add: f_def doRequest_record)
  qed (use assms(2) \<open>doRequest jwt cb_Execute _ _ _ = _\<close> in auto)
qed

lemma doRequest_closed:
  "doRequest jwt (\<lambda>f. f) (recorder answer) h message log = (log', r) \<Longrightarrow> log' = log @ [request_of jwt message h]"
  using doRequest_record [of jwt answer h message log] by (simp add: id_def)

lemma run_group_requests:
  assumes "breaker cb_Execute" "run_group (map (\<lambda>h. doRequest jwt cb_Execute (recorder answer) h message) l) log = (log', r)"
  shows "\<exists>l'. log' = log @ map (request_of jwt message) l' \<and> mset l' \<subseteq># mset l \<and> (r = Inr () \<longrightarrow> l' = l \<and> list_all (accepts answer) l)"
  using assms(2)
proof (induction l arbitrary: log log' r)
  case (Cons h l)
  obtain log1 r1 where one: "doRequest jwt cb_Execute (recorder answer) h message log = (log1, r1)" by fastforce
  obtain r2 where two: "run_group (map (\<lambda>h. doRequest jwt cb_Execute (recorder answer) h message) l) log1 = (log', r2)"
    "r = (case r1 of Inl e \<Rightarrow> Inl e | Inr _ \<Rightarrow> r2)" using Cons.prems one by (auto split: prod.splits)
  obtain l' where l': "log' = log1 @ map (request_of jwt message) l'" "mset l' \<subseteq># mset l" "r2 = Inr () \<longrightarrow> l' = l \<and> list_all (accepts answer) l"
    using Cons.IH [OF two(1)] by blast
  from doRequest_cases [OF assms(1) one] show ?case
  proof
    assume "log1 = log @ [request_of jwt message h] \<and> (r1 = Inr () \<longleftrightarrow> accepts answer h)"
    with l' two(2) show ?thesis by (intro exI [of _ "h # l'"]) (auto split: sum.splits)
  next
    assume "log1 = log \<and> (\<exists>e. r1 = Inl e)"
    with l' two(2) show ?thesis by (intro exI [of _ l']) (auto intro: subset_mset.order_trans)
  qed
qed simp

lemma run_group_closed:
  "run_group (map (\<lambda>h. doRequest jwt (\<lambda>f. f) (recorder answer) h message) l) log = (log', r) \<Longrightarrow> log' = log @ map (request_of jwt message) l"
  by (induction l arbitrary: log log' r) (auto split: prod.splits dest!: doRequest_closed, fastforce)

text \<open>Who gets an event: the subscribers of its topic and those of any.\<close>

definition interested :: "string \<Rightarrow> Subscription list \<Rightarrow> Subscription list" where
  "interested topic subs = filter (\<lambda>h. sub_Event h = topic \<or> sub_Event h = AnyTopic) subs"

lemma mset_listed: "topic \<noteq> UnspecifiedTopic \<Longrightarrow> mset (listed topic subs) = mset (interested topic subs)"
  by (induction subs) (auto simp: listed_def sort_by_id_def by_topic_def interested_def)

context secret_store
begin

lemma publish_reaches:
  assumes "ready s" "holds_subs subs (held s)" "topic \<noteq> UnspecifiedTopic" "\<And>m. mset (ord m) = mset m" "\<And>l. mset (sched l) = mset l" "breaker cb_Execute"
  obtains l r where "publishForTopic ST ord sched jwt cb_Execute (recorder answer) topic message s log = (log @ map (request_of jwt message) l, r)"
    "mset l \<subseteq># mset (interested topic subs)"
    "r = Inr () \<longrightarrow> mset l = mset (interested topic subs) \<and> (\<forall>h \<in> set l. accepts answer h)"
    "cb_Execute = (\<lambda>f. f) \<longrightarrow> mset l = mset (interested topic subs)"
proof -
  let ?l = "sched (listed topic subs)"
  have m: "mset ?l = mset (interested topic subs)" using assms(3,5) by (simp add: mset_listed)
  obtain log' r where run: "run_group (map (\<lambda>h. doRequest jwt cb_Execute (recorder answer) h message) ?l) log = (log', r)" by fastforce
  then have pub: "publishForTopic ST ord sched jwt cb_Execute (recorder answer) topic message s log = (log', r)"
    using list_subs [OF assms(1,2,4)] by (simp add: publishForTopic_def)
  obtain l where l: "log' = log @ map (request_of jwt message) l" "mset l \<subseteq># mset ?l" "r = Inr () \<longrightarrow> l = ?l \<and> list_all (accepts answer) ?l"
    using run_group_requests [OF assms(6) run] by blast
  show ?thesis
  proof (cases "cb_Execute = (\<lambda>f. f)")
    case True
    have log': "log' = log @ map (request_of jwt message) ?l" using run_group_closed [of jwt answer message ?l log log' r] run True by simp
    show ?thesis by (rule that [of ?l r]) (use pub log' m l(3) in \<open>auto simp: list_all_iff\<close>)
  next
    case False
    show ?thesis by (rule that [of l r]) (use pub l m False in \<open>auto simp: list_all_iff\<close>)
  qed
qed

end

section \<open>The bolt store provides it\<close>

definition bolt_held :: "'k snacl \<Rightarrow> ('b \<Rightarrow> string \<Rightarrow> string \<Rightarrow> string option) \<Rightarrow> ('b, 'k) boltSecureStorage \<Rightarrow> string \<Rightarrow> string \<Rightarrow> string option" where
  "bolt_held S kv s p k = (case ss_encKey s of None \<Rightarrow> None | Some key \<Rightarrow> contents S kv key (ss_db s) p k)"

definition bolt_ready :: "'k snacl \<Rightarrow> ('b \<Rightarrow> string \<Rightarrow> string \<Rightarrow> string option) \<Rightarrow> ('b \<Rightarrow> string set) \<Rightarrow> ('b \<Rightarrow> bool) \<Rightarrow> string
    \<Rightarrow> ('b, 'k) boltSecureStorage \<Rightarrow> bool" where
  "bolt_ready S kv nested valid pw s \<longleftrightarrow> (\<exists>key. store_ok S kv nested valid pw key s \<and> ss_encKey s = Some key \<and> hook_buckets \<subseteq> nested (ss_db s))"

lemma hook_buckets_ne: "p \<in> hook_buckets \<Longrightarrow> p \<noteq> [] \<and> p \<noteq> encryptionKeyID"
  by (auto simp: subsBucket_def subsByEventBucket_def encryptionKeyID_def)

context secure_db
begin

lemma held_val: "ss_encKey s = Some key \<Longrightarrow> bolt_held S kv s = val key s"
  by (simp add: bolt_held_def fun_eq_iff)

lemma bolt_provides: "secret_store (bolt_storage S B ord1 ord2) (bolt_held S kv) (bolt_ready S kv nested valid pw)"
proof
  fix s p k and v :: string assume r: "bolt_ready S kv nested valid pw s" and p: "p \<in> hook_buckets"
  obtain key where key: "Ok pw key s" "ss_encKey s = Some key" "hook_buckets \<subseteq> nested (ss_db s)" using r by (auto simp: bolt_ready_def)
  then have b: "p = [] \<or> p \<in> nested (ss_db s)" and p': "p \<noteq> []" using p hook_buckets_ne [OF p] by auto
  show "sec_GetFromBucket (bolt_storage S B ord1 ord2) p k s = rbind (check_data_key k) (\<lambda>_. Inr (bolt_held S kv s p k))"
  proof (cases "check_data_key k = Inr ()")
    case True
    then have "k \<noteq> []" "k \<noteq> encryptionKeyID" by simp_all
    then show ?thesis using Get_ok [OF key(1,2) b, of k] held_val [OF key(2)] by (simp add: bolt_storage_def check_data_key_def)
  next
    case False
    then obtain e where "check_data_key k = Inl e" by (cases "check_data_key k") auto
    then show ?thesis using key(2) by (simp add: bolt_storage_def bolt_GetFromBucket_def)
  qed
  show "\<exists>m. sec_GetAllFromBucket (bolt_storage S B ord1 ord2) p s = Inr m \<and> gm_ok m \<and> gm_get m = bolt_held S kv s p"
    using GetAll_ok [OF key(1,2) b] held_val [OF key(2)] by (metis bolt_storage_def SecureStorage.select_convs(8))
  assume k: "check_data_key k = Inr ()"
  then have k': "k \<noteq> []" "k \<noteq> encryptionKeyID" by simp_all
  obtain s' where s': "bolt_RemoveFromBucket B p k s = (s', Inr ())" "Ok pw key s'" "ss_encKey s' = Some key"
    "nested (ss_db s') = nested (ss_db s)" "val key s' = (val key s)(p := (val key s p)(k := None))"
    by (rule Remove_ok [OF key(1,2) b k']) (use p' in simp_all)
  then show "\<exists>s'. sec_RemoveFromBucket (bolt_storage S B ord1 ord2) p k s = (s', Inr ()) \<and> bolt_ready S kv nested valid pw s'
      \<and> bolt_held S kv s' = (bolt_held S kv s)(p := (bolt_held S kv s p)(k := None))"
    using key held_val by (intro exI [of _ s']) (auto simp: bolt_storage_def bolt_ready_def)
  assume v: "v \<noteq> []"
  obtain s' where s': "bolt_AddToBucket S B p k v s = (s', Inr ())" "Ok pw key s'" "ss_encKey s' = Some key"
    "nested (ss_db s') = nested (ss_db s)" "val key s' = (val key s)(p := (val key s p)(k \<mapsto> v))"
    by (rule Add_ok [OF key(1,2) b k' _ v]) (use p' in simp_all)
  then show "\<exists>s'. sec_AddToBucket (bolt_storage S B ord1 ord2) p k v s = (s', Inr ()) \<and> bolt_ready S kv nested valid pw s'
      \<and> bolt_held S kv s' = (bolt_held S kv s)(p := (bolt_held S kv s p)(k \<mapsto> v))"
    using key held_val by (intro exI [of _ s']) (auto simp: bolt_storage_def bolt_ready_def)
qed

end

interpretation mem_hooks: secret_store "bolt_storage mem_snacl mem_bolt rev rev" "bolt_held mem_snacl mem_kv" "bolt_ready mem_snacl mem_kv mem_nested mem_valid pw" for pw
  by (rule mem_store.bolt_provides)

context secure_db
begin

lemma ensure_bucket:
  assumes "Good pw key (ps_store w)" "ss_encKey (ps_store w) = Some key" "p \<in> hook_buckets" "p \<notin> set bs \<or> p \<in> nested (ss_db (ps_store w))"
  obtains w' where "(if p \<notin> set bs then on_store (sec_CreateBucket (bolt_storage S B ord1 ord2) p) else cret ()) w = (w', Inr ())"
    "Good pw key (ps_store w')" "ss_encKey (ps_store w') = Some key" "nested (ss_db (ps_store w')) = insert p (nested (ss_db (ps_store w)))"
    "val key (ps_store w') = val key (ps_store w)" "ps_uuids w' = ps_uuids w"
proof (cases "p \<in> set bs")
  case True
  show ?thesis by (rule that [of w]) (use True assms in \<open>auto simp: cret_def\<close>)
next
  case False
  have p: "p \<noteq> []" "p \<noteq> encryptionKeyID" using hook_buckets_ne [OF assms(3)] by auto
  have ok: "Ok pw key (ps_store w)" and free: "kv (ss_db (ps_store w)) [] p = None"
    using assms(1) val_None [of pw key "ps_store w" p "[]"] p by (auto simp: Good_def)
  obtain s' where s': "bolt_CreateBucket B p (ps_store w) = (s', Inr ())" "Ok pw key s'" "ss_encKey s' = Some key"
    "nested (ss_db s') = insert p (nested (ss_db (ps_store w)))" "val key s' = val key (ps_store w)"
    by (rule CreateBucket_ok [OF ok assms(2) p free])
  show ?thesis
    by (rule that [of "w\<lparr>ps_store := s'\<rparr>"]) (use False s' assms(1) in \<open>auto simp: on_store_def bolt_storage_def Good_def\<close>)
qed

lemma make_buckets:
  assumes "on_store (sec_CreateUnlock (bolt_storage S B ord1 ord2) (Some pw')) w = (w0, Inr ())" "Good pw key (ps_store w0)" "ss_encKey (ps_store w0) = Some key"
  obtains w' where "store_Unlock (bolt_storage S B ord1 ord2) pw' w = (w', Inr ())" "Good pw key (ps_store w')" "ss_encKey (ps_store w') = Some key"
    "nested (ss_db (ps_store w')) = nested (ss_db (ps_store w0)) \<union> hook_buckets" "val key (ps_store w') = val key (ps_store w0)"
proof -
  let ?ST = "bolt_storage S B ord1 ord2"
  have "Ok pw key (ps_store w0)" using assms(2) by (simp add: Good_def)
  then obtain bs where bs: "bolt_ListBuckets B (ps_store w0) = Inr bs" "set bs = nested (ss_db (ps_store w0))" by (rule ListBuckets_ok)
  obtain w1 where w1: "(if subsBucket \<notin> set bs then on_store (sec_CreateBucket ?ST subsBucket) else cret ()) w0 = (w1, Inr ())"
    "Good pw key (ps_store w1)" "ss_encKey (ps_store w1) = Some key" "nested (ss_db (ps_store w1)) = insert subsBucket (nested (ss_db (ps_store w0)))"
    "val key (ps_store w1) = val key (ps_store w0)" "ps_uuids w1 = ps_uuids w0"
    by (rule ensure_bucket [OF assms(2,3), of subsBucket bs]) (use bs(2) in auto)
  obtain w2 where w2: "(if subsByEventBucket \<notin> set bs then on_store (sec_CreateBucket ?ST subsByEventBucket) else cret ()) w1 = (w2, Inr ())"
    "Good pw key (ps_store w2)" "ss_encKey (ps_store w2) = Some key" "nested (ss_db (ps_store w2)) = insert subsByEventBucket (nested (ss_db (ps_store w1)))"
    "val key (ps_store w2) = val key (ps_store w1)" "ps_uuids w2 = ps_uuids w1"
    by (rule ensure_bucket [OF w1(2,3), of subsByEventBucket bs]) (use bs(2) w1(4) in auto)
  have l: "from_store (sec_ListBuckets ?ST) w0 = (w0, Inr bs)" using bs(1) by (simp add: from_store_def bolt_storage_def)
  have "store_Unlock ?ST pw' w = (w2, Inr ())"
    unfolding store_Unlock_def cbind_def assms(1) by (simp only: l w1(1) w2(1) prod.case sum.case)
  then show ?thesis by (rule that) (use w1 w2 in auto)
qed

text \<open>Unlocking opens the store with its password only, and makes the buckets that are missing.\<close>

lemma store_Unlock_ok:
  assumes "Good pw key (ps_store w)" "ss_encKey (ps_store w) = None"
  obtains w' where "store_Unlock (bolt_storage S B ord1 ord2) pw w = (w', Inr ())" "Good pw key (ps_store w')" "ss_encKey (ps_store w') = Some key"
    "nested (ss_db (ps_store w')) = nested (ss_db (ps_store w)) \<union> hook_buckets" "val key (ps_store w') = val key (ps_store w)"
proof -
  let ?w = "w\<lparr>ps_store := unlocked_with key (ss_db (ps_store w)) (ps_store w)\<rparr>"
  have ok: "Ok pw key (ps_store w)" using assms(1) by (simp add: Good_def)
  have w: "on_store (sec_CreateUnlock (bolt_storage S B ord1 ord2) (Some pw)) w = (?w, Inr ())"
    using Unlock_ok [OF ok assms(2), of pw] by (simp add: on_store_def bolt_storage_def)
  have good: "Good pw key (ps_store ?w)" "ss_encKey (ps_store ?w) = Some key" "ss_db (ps_store ?w) = ss_db (ps_store w)"
    using assms(1) by (auto simp: Good_def store_ok_def unlocked_with_def)
  show ?thesis by (rule make_buckets [OF w good(1,2)]) (use good(3) in \<open>auto intro: that\<close>)
qed

text \<open>The store is left locked by the initialisation.\<close>

lemma store_Init_ok:
  assumes "valid (ss_db (ps_store w))" "\<And>p. kv (ss_db (ps_store w)) p = Map.empty" "ss_encKey (ps_store w) = None" "nested (ss_db (ps_store w)) = {}"
  obtains key w' where "store_Init (bolt_storage S B ord1 ord2) pw w = (w', Inr ())" "Good pw key (ps_store w')" "ss_encKey (ps_store w') = None"
    "nested (ss_db (ps_store w')) = hook_buckets" "\<And>p k. val key (ps_store w') p k = None"
proof -
  let ?ST = "bolt_storage S B ord1 ord2"
  obtain key s0 where s0: "bolt_CreateUnlock S B (Some pw) (ps_store w) = (s0, Inr ())" "Ok pw key s0" "ss_encKey s0 = Some key"
    "nested (ss_db s0) = nested (ss_db (ps_store w))" "\<And>p k. val key s0 p k = None"
    by (rule Create_ok [OF assms(1-3)]) (use assms(4) in auto)
  let ?w0 = "w\<lparr>ps_store := s0\<rparr>"
  have w0: "on_store (sec_CreateUnlock ?ST (Some pw)) w = (?w0, Inr ())" using s0(1) by (simp add: on_store_def bolt_storage_def)
  have good: "Good pw key (ps_store ?w0)" "ss_encKey (ps_store ?w0) = Some key" using s0 by (auto simp: Good_def)
  obtain w1 where w1: "store_Unlock ?ST pw w = (w1, Inr ())" "Good pw key (ps_store w1)" "ss_encKey (ps_store w1) = Some key"
    "nested (ss_db (ps_store w1)) = nested (ss_db (ps_store ?w0)) \<union> hook_buckets" "val key (ps_store w1) = val key (ps_store ?w0)"
    by (rule make_buckets [OF w0 good])
  obtain w2 where w2: "(if subsBucket \<notin> set [] then on_store (sec_CreateBucket ?ST subsBucket) else cret ()) w1 = (w2, Inr ())"
    "Good pw key (ps_store w2)" "ss_encKey (ps_store w2) = Some key" "nested (ss_db (ps_store w2)) = insert subsBucket (nested (ss_db (ps_store w1)))"
    "val key (ps_store w2) = val key (ps_store w1)" by (rule ensure_bucket [OF w1(2,3), of subsBucket "[]"]) auto
  obtain w3 where w3: "(if subsByEventBucket \<notin> set [] then on_store (sec_CreateBucket ?ST subsByEventBucket) else cret ()) w2 = (w3, Inr ())"
    "Good pw key (ps_store w3)" "ss_encKey (ps_store w3) = Some key" "nested (ss_db (ps_store w3)) = insert subsByEventBucket (nested (ss_db (ps_store w2)))"
    "val key (ps_store w3) = val key (ps_store w2)" by (rule ensure_bucket [OF w2(2,3), of subsByEventBucket "[]"]) auto
  have "store_Init ?ST pw w = (store_Lock ?ST w3, Inr ())"
    using w1(1) w2(1) w3(1) by (simp add: store_Init_def cbind_def)
  moreover have "Good pw key (bolt_Lock (ps_store w3))" "ss_encKey (bolt_Lock (ps_store w3)) = None" "ss_db (bolt_Lock (ps_store w3)) = ss_db (ps_store w3)"
    using Lock_ok [of pw key "ps_store w3"] w3(2) by (auto simp: Good_def)
  ultimately show ?thesis
    by (intro that [of "store_Lock ?ST w3" key]) (use w1 w2 w3 s0 assms(4) in \<open>auto simp: store_Lock_def bolt_storage_def\<close>)
qed

lemma store_Unlock_wrong:
  assumes "Ok pw key (ps_store w)" "ss_encKey (ps_store w) = None" "pw' \<noteq> pw"
  shows "store_Unlock (bolt_storage S B ord1 ord2) pw' w = (w, Inl ErrInvalidPassword)"
  using Unlock_ok [OF assms(1,2), of pw'] assms(3) by (simp add: store_Unlock_def cbind_def on_store_def bolt_storage_def)

lemma Good_ready:
  "Good pw key s \<Longrightarrow> ss_encKey s = Some key \<Longrightarrow> hook_buckets \<subseteq> nested (ss_db s) \<Longrightarrow> bolt_ready S kv nested valid pw s"
  unfolding bolt_ready_def Good_def by blast

end

section \<open>Properties\<close>

text \<open>
  C4. Over the encrypted store, any sequence of subscriptions, cancellations and listings is answered as
  the contract says, on a list of subscriptions with distinct ids; and the two buckets still hold that
  list, each subscription once under its id and once in the list of its topic.
\<close>

theorem webhooks_refine:
  assumes "secure_db B kv nested valid S"
    and "bolt_ready S kv nested valid pw (ps_store w)" "holds_subs subs (bolt_held S kv (ps_store w))"
    and "\<And>c. c \<in> set cs \<Longrightarrow> hook_cmd_ok c" "\<And>n. valid_utf8 (uuid n) \<and> check_data_key (uuid n) = Inr ()" "\<And>m. mset (ord m) = mset m"
  shows "case (run_all (hook_exec (bolt_storage S B ord1 ord2) ord uuid) cs w, run_all (hook_spec uuid) cs (subs, ps_uuids w)) of
    ((w', answers), ((subs', n'), answers')) \<Rightarrow>
      answers = answers' \<and> ps_uuids w' = n' \<and> bolt_ready S kv nested valid pw (ps_store w') \<and> holds_subs subs' (bolt_held S kv (ps_store w'))"
proof -
  note st = secure_db.bolt_provides [OF assms(1), of ord1 ord2 pw]
  let ?tracks = "secret_store.tracks (bolt_held S kv) (bolt_ready S kv nested valid pw)"
  have "?tracks (subs, ps_uuids w) w" using assms(2,3) by (simp add: secret_store.tracks_def [OF st])
  then have "?tracks (fst (run_all (hook_spec uuid) cs (subs, ps_uuids w))) (fst (run_all (hook_exec (bolt_storage S B ord1 ord2) ord uuid) cs w))
    \<and> snd (run_all (hook_exec (bolt_storage S B ord1 ord2) ord uuid) cs w) = snd (run_all (hook_spec uuid) cs (subs, ps_uuids w))"
    by (rule run_all_sim [rotated]) (use secret_store.hook_exec_refines [OF st] assms(4-6) in blast)
  then show ?thesis by (auto simp: secret_store.tracks_def [OF st] split: prod.splits)
qed

definition ex_hooks :: "(mem_db, string) boltSecureStorage pubsub" where
  "ex_hooks = \<lparr>ps_store = \<lparr>ss_db = [([], [(''enckey'', ''kpw'')]), (subsBucket, []), (subsByEventBucket, [])], ss_encKey = Some ''pw'', ss_rand = 1\<rparr>, ps_uuids = 0\<rparr>"

lemma ex_hooks_made: "fst (store_Unlock (bolt_storage mem_snacl mem_bolt rev rev) ''pw''
    \<lparr>ps_store = \<lparr>ss_db = [([], [])], ss_encKey = None, ss_rand = 0\<rparr>, ps_uuids = 0\<rparr>) = ex_hooks"
  by code_simp

lemma ex_hooks_ready: "bolt_ready mem_snacl mem_kv mem_nested mem_valid ''pw'' (ps_store ex_hooks)" "holds_subs [] (bolt_held mem_snacl mem_kv (ps_store ex_hooks))"
  by (auto simp: ex_hooks_def bolt_ready_def store_ok_def sealed_def mem_valid_def mem_kv_def mem_nested_def gm_ok_def mem_snacl_def encryptionKeyID_def
      subsBucket_def subsByEventBucket_def holds_subs_def bolt_held_def contents_def by_topic_def fun_eq_iff split: if_splits)

definition ex_uuid :: "nat \<Rightarrow> string" where "ex_uuid n = (if n = 0 then ''b'' else ''a'')"

lemma ex_uuid_ok: "valid_utf8 (ex_uuid n) \<and> check_data_key (ex_uuid n) = Inr ()"
proof -
  have "valid_utf8 ''a''" "valid_utf8 ''b''" by code_simp+
  then show ?thesis by (simp add: ex_uuid_def encryptionKeyID_def)
qed

abbreviation ex_sub :: "string \<Rightarrow> string \<Rightarrow> Subscription" where
  "ex_sub k topic \<equiv> \<lparr>sub_ID = k, sub_Event = topic, sub_Endpoint = ''http://h/'', sub_Secret = ''s''\<rparr>"

definition ex_cmds :: "hook_cmd list" where
  "ex_cmds = [HSubscribe ''TRADE_SETTLED'' ''http://h/'' ''s'', HSubscribe ''*'' ''http://h/'' ''s'', HSubscribe ''*'' ''nowhere'' ''s'',
     HList ''TRADE_SETTLED'', HList '''', HUnsubscribe ''b'', HUnsubscribe ''b'', HList '''']"

lemma ex_cmds_ok: "list_all hook_cmd_ok ex_cmds" by code_simp

theorem webhooks_refine_witness:
  "snd (run_all (hook_exec (bolt_storage mem_snacl mem_bolt rev rev) rev ex_uuid) ex_cmds ex_hooks) =
     [Inr (AId ''b''), Inr (AId ''a''), Inl (Errorf ''invalid webhook endpoint, must be a vald URI'' []),
      Inr (ASubs [ex_sub ''b'' ''TRADE_SETTLED'', ex_sub ''a'' ''*'']), Inr (ASubs [ex_sub ''a'' ''*'', ex_sub ''b'' ''TRADE_SETTLED'']),
      Inr ADone, Inl (Errorf ''webhook not found'' []), Inr (ASubs [ex_sub ''a'' ''*''])]"
proof -
  have "snd (run_all (hook_spec ex_uuid) ex_cmds ([], ps_uuids ex_hooks)) =
     [Inr (AId ''b''), Inr (AId ''a''), Inl (Errorf ''invalid webhook endpoint, must be a vald URI'' []),
      Inr (ASubs [ex_sub ''b'' ''TRADE_SETTLED'', ex_sub ''a'' ''*'']), Inr (ASubs [ex_sub ''a'' ''*'', ex_sub ''b'' ''TRADE_SETTLED'']),
      Inr ADone, Inl (Errorf ''webhook not found'' []), Inr (ASubs [ex_sub ''a'' ''*''])]" by code_simp
  then show ?thesis
    using webhooks_refine [OF mem_store.secure_db_axioms ex_hooks_ready, of ex_cmds ex_uuid rev rev rev] ex_cmds_ok ex_uuid_ok
    by (auto simp: list_all_iff split: prod.splits)
qed

text \<open>
  C11. Publishing an event posts its message to subscribers of its topic or of any event only, each at most
  once and signed when it gave a secret. When it reports success all of them were posted to and answered
  that they accept; and with the circuit breaker closed all of them are posted to, even when some fail.
\<close>

theorem Publish_reaches_subscribers:
  assumes "secure_db B kv nested valid S"
    and "bolt_ready S kv nested valid pw s" "holds_subs subs (bolt_held S kv s)" "topic \<noteq> UnspecifiedTopic"
    and "\<And>m. mset (ord m) = mset m" "\<And>l. mset (sched l) = mset l" "breaker cb_Execute"
  shows "\<exists>l r. publishForTopic (bolt_storage S B ord1 ord2) ord sched jwt cb_Execute (recorder answer) topic message s log
      = (log @ map (request_of jwt message) l, r)
    \<and> mset l \<subseteq># mset (interested topic subs)
    \<and> (r = Inr () \<longrightarrow> mset l = mset (interested topic subs) \<and> (\<forall>h \<in> set l. accepts answer h))
    \<and> (cb_Execute = (\<lambda>f. f) \<longrightarrow> mset l = mset (interested topic subs))"
proof -
  obtain l r where "publishForTopic (bolt_storage S B ord1 ord2) ord sched jwt cb_Execute (recorder answer) topic message s log
      = (log @ map (request_of jwt message) l, r)" "mset l \<subseteq># mset (interested topic subs)"
    "r = Inr () \<longrightarrow> mset l = mset (interested topic subs) \<and> (\<forall>h \<in> set l. accepts answer h)"
    "cb_Execute = (\<lambda>f. f) \<longrightarrow> mset l = mset (interested topic subs)"
    by (rule secret_store.publish_reaches [OF secure_db.bolt_provides [OF assms(1)] assms(2-7)])
  then show ?thesis by blast
qed

text \<open>A store with two subscriptions, one signed.\<close>

definition ex_two :: "(mem_db, string) boltSecureStorage pubsub" where
  "ex_two = fst (run_all (hook_exec (bolt_storage mem_snacl mem_bolt rev rev) rev ex_uuid)
     [HSubscribe ''TRADE_SETTLED'' ''http://h/'' ''s'', HSubscribe ''*'' ''http://g/'' ''''] ex_hooks)"

definition ex_subs :: "Subscription list" where
  "ex_subs = [\<lparr>sub_ID = ''b'', sub_Event = ''TRADE_SETTLED'', sub_Endpoint = ''http://h/'', sub_Secret = ''s''\<rparr>,
     \<lparr>sub_ID = ''a'', sub_Event = ''*'', sub_Endpoint = ''http://g/'', sub_Secret = ''''\<rparr>]"

lemma ex_two_ready: "bolt_ready mem_snacl mem_kv mem_nested mem_valid ''pw'' (ps_store ex_two)" "holds_subs ex_subs (bolt_held mem_snacl mem_kv (ps_store ex_two))"
proof -
  let ?cs = "[HSubscribe ''TRADE_SETTLED'' ''http://h/'' ''s'', HSubscribe ''*'' ''http://g/'' '''']"
  have cmds: "list_all hook_cmd_ok ?cs" by code_simp
  have spec: "fst (run_all (hook_spec ex_uuid) ?cs ([], ps_uuids ex_hooks)) = (ex_subs, 2)" by code_simp
  have "mem_hooks.tracks ''pw'' ([], ps_uuids ex_hooks) ex_hooks" using ex_hooks_ready by (simp add: mem_hooks.tracks_def)
  moreover have "mem_hooks.tracks ''pw'' (fst (hook_spec ex_uuid c a)) w' \<and> r = snd (hook_spec ex_uuid c a)"
    if "c \<in> set ?cs" "mem_hooks.tracks ''pw'' a w" "hook_exec (bolt_storage mem_snacl mem_bolt rev rev) rev ex_uuid c w = (w', r)" for c a w w' r
    using cmds that(1) unfolding list_all_iff by (intro mem_hooks.hook_exec_refines [OF that(2) _ ex_uuid_ok mset_rev that(3)]) blast
  ultimately have "mem_hooks.tracks ''pw'' (fst (run_all (hook_spec ex_uuid) ?cs ([], ps_uuids ex_hooks))) ex_two"
    unfolding ex_two_def by (rule run_all_sim [THEN conjunct1, rotated])
  then show "bolt_ready mem_snacl mem_kv mem_nested mem_valid ''pw'' (ps_store ex_two)" "holds_subs ex_subs (bolt_held mem_snacl mem_kv (ps_store ex_two))"
    unfolding spec by (simp_all add: mem_hooks.tracks_def)
qed

theorem Publish_reaches_subscribers_witness:
  "\<exists>l r. publishForTopic (bolt_storage mem_snacl mem_bolt rev rev) rev rev (\<lambda>s. s) (\<lambda>f. f) (recorder (\<lambda>_. Inr (500, ''no''))) ''TRADE_SETTLED'' ''m'' (ps_store ex_two) []
      = (map (request_of (\<lambda>s. s) ''m'') l, r) \<and> mset l = mset ex_subs \<and> r \<noteq> Inr ()"
proof -
  have i: "interested ''TRADE_SETTLED'' ex_subs = ex_subs" by code_simp
  have rest: "mset (rev l) = mset l" "breaker (\<lambda>f. f)" "''TRADE_SETTLED'' \<noteq> UnspecifiedTopic" for l :: "'a list"
    by (simp_all add: breaker_def UnspecifiedTopic_def)
  obtain l r where l: "publishForTopic (bolt_storage mem_snacl mem_bolt rev rev) rev rev (\<lambda>s. s) (\<lambda>f. f) (recorder (\<lambda>_. Inr (500, ''no''))) ''TRADE_SETTLED'' ''m'' (ps_store ex_two) []
      = ([] @ map (request_of (\<lambda>s. s) ''m'') l, r)" "r = Inr () \<longrightarrow> (\<forall>h \<in> set l. accepts (\<lambda>_. Inr (500, ''no'')) h)" "mset l = mset ex_subs"
    using Publish_reaches_subscribers [OF mem_store.secure_db_axioms ex_two_ready rest(3) rest(1) rest(1) rest(2), of rev rev "\<lambda>s. s" "\<lambda>_. Inr (500, ''no'')" "''m''" "[]"]
    by (auto simp: i)
  have "set l = set ex_subs" using l(3) by (metis set_mset_mset)
  then have "r \<noteq> Inr ()" using l(2) by (auto simp: ex_subs_def accepts_def)
  with l show ?thesis by auto
qed

text \<open>
  The topics have underscores: after a change of the password the list of a topic cannot be read, an event
  reaches nobody, and to cancel the subscription is a panic.
\<close>

lemma password_change_breaks_webhooks:
  "case store_ChangePassword (bolt_storage mem_snacl mem_bolt id id) ''pw'' ''new'' ex_two of (w, r) \<Rightarrow>
     r = Inr () \<and> getSerializedSubscriptions (bolt_storage mem_snacl mem_bolt id id) id ''TRADE_SETTLED'' (ps_store w) = []
     \<and> snd (Unsubscribe (bolt_storage mem_snacl mem_bolt id id) id '''' ''b'' w) = Inl (Panic ''slice bounds out of range'')"
  by code_simp

end
