(* ===== verification/Webhooks_Props.thy ===== *)
theory Webhooks_Props
  imports Webhooks Pubsub_Props
begin

text \<open>
  The webhooks of the RPC interface, down to the encrypted store: what is added is listed and can be removed.
\<close>

section \<open>Events and topics\<close>

definition event_topic :: "int \<Rightarrow> string" where
  "event_topic e = topicForEvent (proto_webhookEventInfo e)"

lemmas topic_defs = event_topic_def topicForEvent_def proto_webhookEventInfo_def eventTradeSettled_def eventAccountLowBalance_def
  eventAccountWithdraw_def eventAccountDeposit_def AnyTopic_def UnspecifiedTopic_def

lemma event_cases: "parseWebhookEvent e = Inr e' \<Longrightarrow> e' = e \<and> e \<in> {0, 1, 2, 3, 4, 5}"
  by (auto simp: parseWebhookEvent_def split: if_splits)

text \<open>The number of an event is found back from its topic.\<close>

lemma proto_event_topic: "e \<in> {0, 1, 2, 3, 4, 5} \<Longrightarrow> proto_event (webhookEventInfo (event_topic e)) = e"
  by (auto simp: topic_defs proto_event_def webhookEventInfo_def)

lemma event_topic_eq: "e \<in> {0, 1, 2, 3, 4, 5} \<Longrightarrow> e' \<in> {0, 1, 2, 3, 4, 5} \<Longrightarrow> event_topic e = event_topic e' \<longleftrightarrow> e = e'"
  using proto_event_topic by metis

lemma event_topic_ok: "e \<in> {1, 2, 3, 4, 5} \<Longrightarrow> valid_utf8 (event_topic e) \<and> event_topic e \<noteq> [] \<and> event_topic e \<noteq> encryptionKeyID"
  by (elim insertE emptyE; hypsubst; code_simp)

section \<open>The handlers\<close>

definition hook_info :: "Subscription \<Rightarrow> pb_WebhookInfo" where
  "hook_info h = \<lparr>pbi_Id = sub_ID h, pbi_Endpoint = sub_Endpoint h, pbi_IsSecured = IsSecured h, pbi_Event = proto_event (webhookEventInfo (sub_Event h))\<rparr>"

definition added :: "(nat \<Rightarrow> string) \<Rightarrow> pb_AddWebhookRequest \<Rightarrow> nat \<Rightarrow> Subscription" where
  "added uuid req n = \<lparr>sub_ID = uuid n, sub_Event = event_topic (pbw_Event req), sub_Endpoint = pbw_Endpoint req, sub_Secret = pbw_Secret req\<rparr>"

context secret_store
begin

lemma listWebhooks_ok:
  assumes "tracks (subs, n) w" "e \<in> {0, 1, 2, 3, 4, 5}" "\<And>m. mset (ord m) = mset m"
  shows "listWebhooks \<lparr>hs_store = ST, hs_ord = ord, hs_uuid = uuid\<rparr> e w = (w, Inr (map hook_info (listed (event_topic e) subs)))"
proof -
  have "parseWebhookEvent e = Inr e" using assms(2) by (auto simp: parseWebhookEvent_def)
  with list_subs [OF _ _ assms(3), of "ps_store w" subs "event_topic e"] assms(1) show ?thesis
    by (simp add: listWebhooks_def checked_def calling_def op_ListWebhooks_def ListWebhooks_def cbind_def from_store_def cret_def
        event_topic_def tracks_def webhooksInfo_toProto_def webhookInfo_def hook_info_def)
qed

lemma addWebhook_ok:
  assumes "tracks (subs, n) w" "parseWebhook req = Inr req" "ParseRequestURI (pbw_Endpoint req)" "valid_utf8 (pbw_Endpoint req)" "valid_utf8 (pbw_Secret req)"
    and "\<And>n. valid_utf8 (uuid n) \<and> check_data_key (uuid n) = Inr ()" "uuid n \<notin> set (map sub_ID subs)"
  shows "\<exists>w'. addWebhook \<lparr>hs_store = ST, hs_ord = ord, hs_uuid = uuid\<rparr> req w = (w', Inr (uuid n)) \<and> tracks (subs @ [added uuid req n], n + 1) w'"
proof -
  have e: "pbw_Event req \<in> {1, 2, 3, 4, 5}"
    using assms(2) event_cases [of "pbw_Event req"] by (auto simp: parseWebhook_def rbind_eq_Inr split: if_splits)
  have ok: "hook_cmd_ok (HSubscribe (event_topic (pbw_Event req)) (pbw_Endpoint req) (pbw_Secret req))"
    using event_topic_ok [OF e] assms(4,5) by simp
  have check: "check_subscription (event_topic (pbw_Event req)) (pbw_Endpoint req) = Inr ()"
    using event_topic_ok [OF e] assms(3) by (simp add: check_subscription_def)
  obtain w' r where w': "hook_exec ST ord uuid (HSubscribe (event_topic (pbw_Event req)) (pbw_Endpoint req) (pbw_Secret req)) w = (w', r)" by fastforce
  have "tracks (subs @ [added uuid req n], n + 1) w' \<and> r = Inr (AId (uuid n))"
    using subscribe_refines [OF assms(1) ok assms(6) w'] check assms(7) by (simp add: added_def)
  moreover have "we_IsUnspecified (proto_webhookEventInfo (pbw_Event req)) = False" using e by (auto simp: proto_webhookEventInfo_def)
  ultimately show ?thesis using w' assms(2)
    by (auto simp: addWebhook_def checked_def calling_def op_AddWebhook_def AddWebhook_def proto_webhookInfo_def event_topic_def cbind_def cret_def
        split: prod.splits sum.splits)
qed

lemma removeWebhook_ok:
  assumes "tracks (subs, n) w" "h \<in> set subs"
  shows "\<exists>w'. removeWebhook \<lparr>hs_store = ST, hs_ord = ord, hs_uuid = uuid\<rparr> (sub_ID h) w = (w', Inr ()) \<and> tracks (filter (\<lambda>x. sub_ID x \<noteq> sub_ID h) subs, n) w'"
proof -
  have "sub_ID h \<noteq> []" "sub_ID h \<noteq> encryptionKeyID" using assms by (auto simp: tracks_def holds_subs_def sub_ok_def)
  with unsubscribe_ok [OF assms(1), of "sub_ID h" ord] assms(2) show ?thesis
    by (auto simp: removeWebhook_def calling_def op_RemoveWebhook_def RemoveWebhook_def Unsubscribe_def no_answer_def)
qed

end

text \<open>Who is listed for an event.\<close>

lemma set_listed:
  assumes "e \<in> {0, 1, 2, 3, 4, 5}" "sub_Event h = event_topic e'" "e' \<in> {1, 2, 3, 4, 5}" "h \<in> set subs"
  shows "h \<in> set (listed (event_topic e) subs) \<longleftrightarrow> e = 0 \<or> e' = e \<or> e' = 5"
proof -
  have "event_topic 0 = UnspecifiedTopic" "event_topic 5 = AnyTopic" by (simp_all add: topic_defs)
  then have "event_topic e = UnspecifiedTopic \<longleftrightarrow> e = 0" "event_topic e = AnyTopic \<longleftrightarrow> e = 5" "event_topic e' = AnyTopic \<longleftrightarrow> e' = 5"
    "event_topic e' = event_topic e \<longleftrightarrow> e' = e"
    using event_topic_eq [of e 0] event_topic_eq [of e 5] event_topic_eq [of e' 5] event_topic_eq [of e' e] assms(1,3) by auto
  with assms(2,4) show ?thesis by (auto simp: listed_def by_topic_def sort_by_id_def)
qed

lemma in_infos: "(\<And>x. x \<in> set l \<Longrightarrow> hook_info x = hook_info h \<Longrightarrow> x = h) \<Longrightarrow> hook_info h \<in> set (map hook_info l) \<longleftrightarrow> h \<in> set l"
  by auto

lemma listed_subset: "set (listed topic subs) \<subseteq> set subs"
  by (auto simp: listed_def by_topic_def sort_by_id_def)

text \<open>
  C39. A webhook that is added through the RPC interface is listed for its event and for all of them, with its
  endpoint and whether it is signed, and not for other events unless it is for any; removing it succeeds
  and gives the listings there were before.
\<close>

theorem webhook_added_listed_removed:
  assumes "secure_db B kv nested valid S" "bolt_ready S kv nested valid pw (ps_store w)" "holds_subs subs (bolt_held S kv (ps_store w))"
    and "parseWebhook req = Inr req" "ParseRequestURI (pbw_Endpoint req)" "valid_utf8 (pbw_Endpoint req)" "valid_utf8 (pbw_Secret req)"
    and "\<And>n. valid_utf8 (uuid n) \<and> check_data_key (uuid n) = Inr ()" "uuid (ps_uuids w) \<notin> set (map sub_ID subs)" "\<And>m. mset (ord m) = mset m"
    and P: "P = \<lparr>hs_store = bolt_storage S B ord1 ord2, hs_ord = ord, hs_uuid = uuid\<rparr>" and k: "k = uuid (ps_uuids w)"
  shows "\<exists>w' w''. addWebhook P req w = (w', Inr k)
    \<and> (\<forall>e \<in> {0, 1, 2, 3, 4, 5}. \<exists>l. listWebhooks P e w' = (w', Inr l) \<and>
        (\<lparr>pbi_Id = k, pbi_Endpoint = pbw_Endpoint req, pbi_IsSecured = (pbw_Secret req \<noteq> []), pbi_Event = pbw_Event req\<rparr> \<in> set l
         \<longleftrightarrow> e = 0 \<or> pbw_Event req = e \<or> pbw_Event req = 5))
    \<and> removeWebhook P k w' = (w'', Inr ())
    \<and> (\<forall>e \<in> {0, 1, 2, 3, 4, 5}. snd (listWebhooks P e w'') = snd (listWebhooks P e w))"
proof -
  note st = secure_db.bolt_provides [OF assms(1), of ord1 ord2 pw]
  let ?tracks = "secret_store.tracks (bolt_held S kv) (bolt_ready S kv nested valid pw)" and ?h = "added uuid req (ps_uuids w)"
  let ?info = "\<lparr>pbi_Id = k, pbi_Endpoint = pbw_Endpoint req, pbi_IsSecured = (pbw_Secret req \<noteq> []), pbi_Event = pbw_Event req\<rparr>"
  have t: "?tracks (subs, ps_uuids w) w" using assms(2,3) by (simp add: secret_store.tracks_def [OF st])
  obtain w' where w': "addWebhook P req w = (w', Inr k)" "?tracks (subs @ [?h], ps_uuids w + 1) w'"
    using secret_store.addWebhook_ok [where uuid = uuid and ord = ord, OF st t assms(4-9)] P k by blast
  obtain w'' where w'': "removeWebhook P k w' = (w'', Inr ())" "?tracks (filter (\<lambda>x. sub_ID x \<noteq> k) (subs @ [?h]), ps_uuids w + 1) w''"
    using secret_store.removeWebhook_ok [OF st w'(2), of ?h ord uuid] P k by (auto simp: added_def)
  have undone: "filter (\<lambda>x. sub_ID x \<noteq> k) (subs @ [?h]) = subs" using assms(9) k by (auto simp: added_def image_iff intro!: filter_True)
  have e: "pbw_Event req \<in> {1, 2, 3, 4, 5}"
    using assms(4) event_cases [of "pbw_Event req"] by (auto simp: parseWebhook_def rbind_eq_Inr split: if_splits)
  then have info: "hook_info ?h = ?info" using proto_event_topic [of "pbw_Event req"] k by (auto simp: hook_info_def added_def IsSecured_def)
  have only: "x = ?h" if "x \<in> set (listed t (subs @ [?h]))" "hook_info x = hook_info ?h" for x t
  proof -
    have "sub_ID x = k" using that(2) k by (simp add: hook_info_def added_def)
    moreover have "x \<in> set (subs @ [?h])" using that(1) listed_subset by blast
    ultimately show ?thesis using assms(9) k by (auto simp: image_iff)
  qed
  have "?info \<in> set (map hook_info (listed (event_topic e) (subs @ [?h]))) \<longleftrightarrow> e = 0 \<or> pbw_Event req = e \<or> pbw_Event req = 5"
    if "e \<in> {0, 1, 2, 3, 4, 5}" for e
  proof -
    have "hook_info ?h \<in> set (map hook_info (listed (event_topic e) (subs @ [?h]))) \<longleftrightarrow> ?h \<in> set (listed (event_topic e) (subs @ [?h]))"
      by (rule in_infos) (rule only)
    also have "\<dots> \<longleftrightarrow> e = 0 \<or> pbw_Event req = e \<or> pbw_Event req = 5"
      by (rule set_listed [OF that _ e]) (simp_all add: added_def)
    finally show ?thesis unfolding info .
  qed
  moreover have "listWebhooks P e w' = (w', Inr (map hook_info (listed (event_topic e) (subs @ [?h]))))" if "e \<in> {0, 1, 2, 3, 4, 5}" for e
    unfolding P by (rule secret_store.listWebhooks_ok [OF st w'(2) that assms(10)])
  ultimately have "\<forall>e \<in> {0, 1, 2, 3, 4, 5}. \<exists>l. listWebhooks P e w' = (w', Inr l) \<and> (?info \<in> set l \<longleftrightarrow> e = 0 \<or> pbw_Event req = e \<or> pbw_Event req = 5)"
    by (intro ballI) (rule exI, rule conjI, assumption+)
  moreover have "\<forall>e \<in> {0, 1, 2, 3, 4, 5}. snd (listWebhooks P e w'') = snd (listWebhooks P e w)"
    using secret_store.listWebhooks_ok [OF st w''(2) _ assms(10), of _ uuid] secret_store.listWebhooks_ok [OF st t _ assms(10), of _ uuid]
    unfolding P undone by (intro ballI) (simp only: snd_conv)
  ultimately show ?thesis using w'(1) w''(1) by blast
qed

definition ex_req :: pb_AddWebhookRequest where
  "ex_req = \<lparr>pbw_Event = 1, pbw_Endpoint = ''http://h/'', pbw_Secret = ''s''\<rparr>"

theorem webhook_added_listed_removed_witness:
  "\<exists>P w' w'' l. addWebhook P ex_req ex_hooks = (w', Inr ''b'') \<and> listWebhooks P 1 w' = (w', Inr l)
     \<and> \<lparr>pbi_Id = ''b'', pbi_Endpoint = ''http://h/'', pbi_IsSecured = True, pbi_Event = 1\<rparr> \<in> set l
     \<and> removeWebhook P ''b'' w' = (w'', Inr ()) \<and> snd (listWebhooks P 0 w'') = snd (listWebhooks P 0 ex_hooks)"
proof -
  let ?P = "\<lparr>hs_store = bolt_storage mem_snacl mem_bolt rev rev, hs_ord = rev, hs_uuid = ex_uuid\<rparr>"
  have req: "parseWebhook ex_req = Inr ex_req" "ParseRequestURI (pbw_Endpoint ex_req)" "valid_utf8 (pbw_Endpoint ex_req)" "valid_utf8 (pbw_Secret ex_req)"
    by code_simp+
  have k: "''b'' = ex_uuid (ps_uuids ex_hooks)" by (simp add: ex_hooks_def ex_uuid_def)
  have "\<exists>w' w''. addWebhook ?P ex_req ex_hooks = (w', Inr ''b'')
    \<and> (\<forall>e \<in> {0, 1, 2, 3, 4, 5}. \<exists>l. listWebhooks ?P e w' = (w', Inr l) \<and>
        (\<lparr>pbi_Id = ''b'', pbi_Endpoint = pbw_Endpoint ex_req, pbi_IsSecured = (pbw_Secret ex_req \<noteq> []), pbi_Event = pbw_Event ex_req\<rparr> \<in> set l
         \<longleftrightarrow> e = 0 \<or> pbw_Event ex_req = e \<or> pbw_Event ex_req = 5))
    \<and> removeWebhook ?P ''b'' w' = (w'', Inr ())
    \<and> (\<forall>e \<in> {0, 1, 2, 3, 4, 5}. snd (listWebhooks ?P e w'') = snd (listWebhooks ?P e ex_hooks))"
    by (rule webhook_added_listed_removed [where uuid = ex_uuid, OF mem_store.secure_db_axioms ex_hooks_ready req ex_uuid_ok _ mset_rev HOL.refl k]) simp
  then obtain w' w'' where w: "addWebhook ?P ex_req ex_hooks = (w', Inr ''b'')" "removeWebhook ?P ''b'' w' = (w'', Inr ())"
    "\<exists>l. listWebhooks ?P 1 w' = (w', Inr l) \<and> (\<lparr>pbi_Id = ''b'', pbi_Endpoint = ''http://h/'', pbi_IsSecured = True, pbi_Event = 1\<rparr> \<in> set l)"
    "snd (listWebhooks ?P 0 w'') = snd (listWebhooks ?P 0 ex_hooks)"
    by (auto simp: ex_req_def)
  then show ?thesis by blast
qed

end
