(* ===== verification/Webhook_Messages.thy ===== *)
theory Webhook_Messages
  imports Webhooks
begin

text \<open>
  The messages of the events are JSON texts: whoever parses one has what was published.
\<close>

lemma decimal_digits:
  assumes "(m :: nat) < 10"
  shows "is_digit (char_of (m + 48)) \<and> (m \<noteq> 0 \<longrightarrow> (char_of (m + 48) :: char) \<noteq> CHR ''0'')"
proof -
  have "m = 0 \<or> m = 1 \<or> m = 2 \<or> m = 3 \<or> m = 4 \<or> m = 5 \<or> m = 6 \<or> m = 7 \<or> m = 8 \<or> m = 9" using assms by arith
  then show ?thesis by (elim disjE; hypsubst; code_simp)
qed

lemma digits_of_digits: "digits_of n \<noteq> [] \<and> list_all is_digit (digits_of n) \<and> (n \<noteq> 0 \<longrightarrow> hd (digits_of n) \<noteq> CHR ''0'')"
proof (induction n rule: digits_of.induct)
  case (1 n)
  show ?case
  proof (cases "n < 10")
    case True
    with decimal_digits [of n] show ?thesis by (simp add: digits_of.simps [of n])
  next
    case False
    with 1 decimal_digits [of "n mod 10"] show ?thesis by (simp add: digits_of.simps [of n])
  qed
qed

lemma digits_of_uint_text: "uint_text (digits_of n)"
proof (cases "n = 0")
  case True
  have "digits_of 0 = ''0''" by code_simp
  with True show ?thesis by (simp add: uint_text_def)
qed (use digits_of_digits [of n] in \<open>simp add: uint_text_def\<close>)

lemma json_ok_uint: "json_ok (json_uint n)"
  by (simp add: json_uint_def itoa_def digits_of_uint_text)

lemma json_ok_map: "json_ok (json_map ms) \<longleftrightarrow> (\<forall>(k, j) \<in> set ms. valid_utf8 k \<and> json_ok j)"
  by (force simp: json_map_def list_all_iff)

text \<open>The texts of an event.\<close>

fun event_utf8 :: "op_event \<Rightarrow> bool" where
  "event_utf8 (LowBalanceEvent accountName bal market) \<longleftrightarrow> (\<forall>a \<in> set (gm_keys bal). valid_utf8 a)
     \<and> (\<forall>m. market = Some m \<longrightarrow> valid_utf8 (mkt_BaseAsset m) \<and> valid_utf8 (mkt_QuoteAsset m))"
| "event_utf8 (DepositEvent accountName bal deposit market) \<longleftrightarrow> (\<forall>a \<in> set (gm_keys bal). valid_utf8 a)
     \<and> (\<forall>m. market = Some m \<longrightarrow> valid_utf8 (mkt_BaseAsset m) \<and> valid_utf8 (mkt_QuoteAsset m))
     \<and> valid_utf8 (dep_TxID deposit) \<and> (\<forall>a \<in> set (gm_keys (dep_TotAmountPerAsset deposit)). valid_utf8 a)"
| "event_utf8 (WithdrawEvent accountName bal withdrawal market) \<longleftrightarrow> (\<forall>a \<in> set (gm_keys bal). valid_utf8 a)
     \<and> (\<forall>m. market = Some m \<longrightarrow> valid_utf8 (mkt_BaseAsset m) \<and> valid_utf8 (mkt_QuoteAsset m))
     \<and> valid_utf8 (wd_TxID withdrawal) \<and> (\<forall>a \<in> set (gm_keys (wd_TotAmountPerAsset withdrawal)). valid_utf8 a)"

lemma event_keys: "list_all valid_utf8 [''event'', ''account'', ''balance'', ''txid'', ''amount_deposited'', ''amount_withdrawn'', ''type'', ''name'',
    ''base_asset'', ''quote_asset'', ''unconfirmed'', ''confirmed'', ''locked'', ''fee'', ''market'', FeeAccount,
    eventAccountLowBalance, eventAccountDeposit, eventAccountWithdraw]"
  by code_simp

lemmas event_keys' = event_keys [simplified]

lemma json_ok_balances: "(\<And>a. a \<in> set (gm_keys bal) \<Longrightarrow> valid_utf8 a) \<Longrightarrow> json_ok (getBalancePayload bal)"
  using event_keys' by (force simp: getBalancePayload_def json_ok_map balance_json_def json_ok_uint gm_keys_def split: option.splits)

lemma json_ok_members:
  assumes "account_members event accountName bal market = Inr ms" "valid_utf8 event" "\<And>a. a \<in> set (gm_keys bal) \<Longrightarrow> valid_utf8 a"
    and "\<And>m. market = Some m \<Longrightarrow> valid_utf8 (mkt_BaseAsset m) \<and> valid_utf8 (mkt_QuoteAsset m)"
  shows "\<forall>(k, j) \<in> set ms. valid_utf8 k \<and> json_ok j"
proof -
  obtain account where a: "getAccountPayload accountName market = Inr account"
    and ms: "ms = [(''event'', JStr event), (''account'', account), (''balance'', getBalancePayload bal)]"
    using assms(1) by (auto simp: account_members_def rbind_eq_Inr)
  have "json_ok account" using a assms(4) event_keys' by (auto simp: getAccountPayload_def json_ok_map split: if_splits option.splits)
  with ms assms(2) json_ok_balances [OF assms(3)] event_keys' show ?thesis by simp
qed

lemma json_ok_amounts: "(\<And>a. a \<in> set (gm_keys m) \<Longrightarrow> valid_utf8 a) \<Longrightarrow> json_ok (amounts_json m)"
  by (force simp: amounts_json_def json_ok_map json_ok_uint gm_keys_def)

lemma event_payload_ok:
  assumes "event_payload ev = Inr (topic, payload)" "event_utf8 ev"
  shows "json_ok payload"
proof (cases ev)
  case (LowBalanceEvent accountName bal market)
  with assms obtain ms where "account_members eventAccountLowBalance accountName bal market = Inr ms" "payload = json_map ms"
    by (auto simp: rbind_eq_Inr)
  with json_ok_members [OF this(1)] assms(2) LowBalanceEvent event_keys' show ?thesis by (simp add: json_ok_map)
next
  case (DepositEvent accountName bal deposit market)
  with assms obtain ms where ms: "account_members eventAccountDeposit accountName (some_balances bal) market = Inr ms"
    "payload = json_map (ms @ [(''txid'', JStr (dep_TxID deposit)), (''amount_deposited'', amounts_json (dep_TotAmountPerAsset deposit))])"
    by (auto simp: rbind_eq_Inr)
  have "gm_keys (some_balances bal) = gm_keys bal" by (auto simp: gm_keys_def some_balances_def)
  with json_ok_members [OF ms(1)] json_ok_amounts [of "dep_TotAmountPerAsset deposit"] ms(2) assms(2) DepositEvent event_keys'
  show ?thesis by (simp add: json_ok_map ball_Un)
next
  case (WithdrawEvent accountName bal withdrawal market)
  with assms obtain ms where ms: "account_members eventAccountWithdraw accountName (some_balances bal) market = Inr ms"
    "payload = json_map (ms @ [(''txid'', JStr (wd_TxID withdrawal)), (''amount_withdrawn'', amounts_json (wd_TotAmountPerAsset withdrawal))])"
    by (auto simp: rbind_eq_Inr)
  have "gm_keys (some_balances bal) = gm_keys bal" by (auto simp: gm_keys_def some_balances_def)
  with json_ok_members [OF ms(1)] json_ok_amounts [of "wd_TotAmountPerAsset withdrawal"] ms(2) assms(2) WithdrawEvent event_keys'
  show ?thesis by (simp add: json_ok_map ball_Un)
qed

text \<open>The message of an event is published for its topic, and whoever parses it has what was published.\<close>

lemma PublisAccountEvent_message:
  assumes "event_payload ev = Inr (topic, payload)" "event_utf8 ev"
  shows "PublisAccountEvent Publish ev h = Publish topic (json_encode payload) h" "json_parse (json_encode payload) = Some payload"
  using assms json_parse_encode [OF event_payload_ok [OF assms]] by (simp_all add: PublisAccountEvent_def publish_payload_def)

lemma event_message_example:
  "event_payload (DepositEvent FeeAccount [(''a'', \<lparr>bal_ConfirmedBalance = 5, bal_UnconfirmedBalance = 0, bal_LockedBalance = 0, bal_TotalBalance = 5\<rparr>)]
     \<lparr>dep_AccountName = FeeAccount, dep_TxID = ''t'', dep_TotAmountPerAsset = [(''a'', 5)], dep_Timestamp = 0\<rparr> None)
   = Inr (''ACCOUNT_DEPOSIT'', JObj [(''account'', JObj [(''name'', JStr ''fee_account''), (''type'', JStr ''fee'')]),
      (''amount_deposited'', JObj [(''a'', JNum ''5'')]),
      (''balance'', JObj [(''a'', JObj [(''confirmed'', JNum ''5''), (''locked'', JNum ''0''), (''unconfirmed'', JNum ''0'')])]),
      (''event'', JStr ''ACCOUNT_DEPOSIT''), (''txid'', JStr ''t'')])"
  by code_simp

end
