(* ===== verification/Unlocker.thy ===== *)
theory Unlocker
  imports Pubsub Operator_Handler
begin

text \<open>
  \<open>internal/core/application/unlocker\<close> and \<open>internal/interfaces/grpc/handler/wallet.go\<close>: the wallet is
  initialised, unlocked and locked together with the store of the subscriptions. The wallet is the Ocean
  service, a parameter. Errors of the store are dropped by the service. A callback that is started as a
  goroutine is noted.
\<close>

section \<open>The service\<close>

record WalletStatus =
  wst_IsInitialized :: bool
  wst_IsUnlocked :: bool
  wst_IsSynced :: bool

record WalletInfo =
  win_RootPath :: string
  win_Network :: string
  win_Accounts :: "WalletAccount list"

record 'w WalletPort =
  wl_GenSeed :: "('w, string list) call"
  wl_InitWallet :: "string list \<Rightarrow> string \<Rightarrow> ('w, unit) call"
  wl_RestoreWallet :: "string list \<Rightarrow> string \<Rightarrow> ('w, unit) call"
  wl_Unlock :: "string \<Rightarrow> ('w, unit) call"
  wl_Lock :: "string \<Rightarrow> ('w, unit) call"
  wl_ChangePassword :: "string \<Rightarrow> string \<Rightarrow> ('w, unit) call"
  wl_Status :: "('w, WalletStatus) call"
  wl_Info :: "('w, WalletInfo) call"

datatype callback = OnInit string | OnUnlock string | OnLock string | OnChangePwd string string

record ('w, 's) unlocker =
  ul_wallet :: 'w
  ul_pubsub :: "'s pubsub"
  ul_started :: "callback list"

definition at_wallet :: "('w, 'a) call \<Rightarrow> (('w, 's) unlocker, 'a) call" where
  "at_wallet c u = (case c (ul_wallet u) of (w, r) \<Rightarrow> (u\<lparr>ul_wallet := w\<rparr>, r))"

text \<open>A call of the store whose error is dropped.\<close>

definition at_store :: "('s pubsub, unit) call \<Rightarrow> (('w, 's) unlocker, unit) call" where
  "at_store c u = (u\<lparr>ul_pubsub := fst (c (ul_pubsub u))\<rparr>, Inr ())"

definition ul_GenSeed :: "'w WalletPort \<Rightarrow> (('w, 's) unlocker, string list) call" where
  "ul_GenSeed W = at_wallet (wl_GenSeed W)"

definition ul_InitWallet :: "'w WalletPort \<Rightarrow> 's SecureStorage \<Rightarrow> string list \<Rightarrow> string \<Rightarrow> (('w, 's) unlocker, unit) call" where
  "ul_InitWallet W ST mnemonic password = cbind (at_wallet (wl_InitWallet W mnemonic password)) (\<lambda>_. at_store (store_Init ST password))"

definition ul_RestoreWallet :: "'w WalletPort \<Rightarrow> 's SecureStorage \<Rightarrow> string list \<Rightarrow> string \<Rightarrow> (('w, 's) unlocker, unit) call" where
  "ul_RestoreWallet W ST mnemonic password = cbind (at_wallet (wl_RestoreWallet W mnemonic password)) (\<lambda>_. at_store (store_Init ST password))"

definition ul_UnlockWallet :: "'w WalletPort \<Rightarrow> 's SecureStorage \<Rightarrow> string \<Rightarrow> (('w, 's) unlocker, unit) call" where
  "ul_UnlockWallet W ST password = cbind (at_wallet (wl_Unlock W password)) (\<lambda>_. at_store (store_Unlock ST password))"

definition ul_LockWallet :: "'w WalletPort \<Rightarrow> 's SecureStorage \<Rightarrow> string \<Rightarrow> (('w, 's) unlocker, unit) call" where
  "ul_LockWallet W ST password = cbind (at_wallet (wl_Lock W password)) (\<lambda>_. at_store (\<lambda>p. (store_Lock ST p, Inr ())))"

definition ul_ChangePassword :: "'w WalletPort \<Rightarrow> 's SecureStorage \<Rightarrow> string \<Rightarrow> string \<Rightarrow> (('w, 's) unlocker, unit) call" where
  "ul_ChangePassword W ST oldPwd newPwd = cbind (at_wallet (wl_ChangePassword W oldPwd newPwd)) (\<lambda>_. at_store (store_ChangePassword ST oldPwd newPwd))"

definition ul_Status :: "'w WalletPort \<Rightarrow> (('w, 's) unlocker, WalletStatus) call" where
  "ul_Status W = at_wallet (wl_Status W)"

definition ul_Info :: "'w WalletPort \<Rightarrow> (('w, 's) unlocker, WalletInfo) call" where
  "ul_Info W = at_wallet (wl_Info W)"

section \<open>The handler\<close>

text \<open>What looking at the file of the macaroon gives.\<close>

datatype macaroon_file = NotExist | StatError error | ReadError error | Content bytes

text \<open>The loop that waits for the macaroon; \<open>file n\<close> is what the \<open>n\<close>-th look gives. It may run forever.\<close>

partial_function (option) macaroon_loop :: "(nat \<Rightarrow> macaroon_file) \<Rightarrow> nat \<Rightarrow> string res option" where
  "macaroon_loop file n = (case file n of
     NotExist \<Rightarrow> macaroon_loop file (n + 1)
   | StatError e \<Rightarrow> Some (Inl e)
   | ReadError e \<Rightarrow> Some (Inl e)
   | Content mac \<Rightarrow> if length mac > 0 then Some (Inr (''macaroon: '' @ hex_EncodeToString mac)) else macaroon_loop file (n + 1))"

definition started :: "callback \<Rightarrow> (('w, 's) unlocker, unit) call" where
  "started c u = (u\<lparr>ul_started := ul_started u @ [c]\<rparr>, Inr ())"

text \<open>The wallet part of \<open>InitWallet\<close>: a wallet that is restored is then initialised as well.\<close>

definition init_wallet :: "'w WalletPort \<Rightarrow> 's SecureStorage \<Rightarrow> bool \<Rightarrow> string list \<Rightarrow> string \<Rightarrow> (('w, 's) unlocker, unit) call" where
  "init_wallet W ST isRestore mnemonic password =
     cbind (if isRestore then ul_RestoreWallet W ST mnemonic password else cret ()) (\<lambda>_.
     cbind (ul_InitWallet W ST mnemonic password) (\<lambda>_. started (OnInit password)))"

text \<open>The message sent to the stream, if any; no value when the handler does not return.\<close>

definition wh_InitWallet :: "'w WalletPort \<Rightarrow> 's SecureStorage \<Rightarrow> string \<Rightarrow> (nat \<Rightarrow> macaroon_file) \<Rightarrow> bool \<Rightarrow> string list \<Rightarrow> string
    \<Rightarrow> ('w, 's) unlocker \<Rightarrow> (('w, 's) unlocker \<times> (rpc_error + string option)) option" where
  "wh_InitWallet W ST macaroonPath file isRestore mnemonic password u =
     (case checked (parsePassword password) (\<lambda>password. checked (parseMnemonic mnemonic) (\<lambda>mnemonic.
         calling (init_wallet W ST isRestore mnemonic password) no_answer)) u of
       (u, Inl e) \<Rightarrow> Some (u, Inl e)
     | (u, Inr _) \<Rightarrow>
         if length macaroonPath \<le> 0 then Some (u, Inr None)
         else map_option (\<lambda>r. (u, case r of Inl e \<Rightarrow> Inl (ServiceError e) | Inr msg \<Rightarrow> Inr (Some msg))) (macaroon_loop file 0))"

definition wh_GenSeed :: "'w WalletPort \<Rightarrow> (('w, 's) unlocker, string list) rpc" where
  "wh_GenSeed W = calling (ul_GenSeed W) id"

definition wh_UnlockWallet :: "'w WalletPort \<Rightarrow> 's SecureStorage \<Rightarrow> string \<Rightarrow> (('w, 's) unlocker, unit) rpc" where
  "wh_UnlockWallet W ST password = checked (parsePassword password) (\<lambda>password.
     calling (cbind (ul_UnlockWallet W ST password) (\<lambda>_. started (OnUnlock password))) no_answer)"

definition wh_LockWallet :: "'w WalletPort \<Rightarrow> 's SecureStorage \<Rightarrow> string \<Rightarrow> (('w, 's) unlocker, unit) rpc" where
  "wh_LockWallet W ST password = checked (parsePassword password) (\<lambda>password.
     calling (cbind (ul_LockWallet W ST password) (\<lambda>_. started (OnLock password))) no_answer)"

definition wh_ChangePassword :: "'w WalletPort \<Rightarrow> 's SecureStorage \<Rightarrow> string \<Rightarrow> string \<Rightarrow> (('w, 's) unlocker, unit) rpc" where
  "wh_ChangePassword W ST current new = checked (parsePassword current) (\<lambda>currentPassword. checked (parsePassword new) (\<lambda>newPassword.
     calling (cbind (ul_ChangePassword W ST currentPassword newPassword) (\<lambda>_. started (OnChangePwd currentPassword newPassword))) no_answer))"

section \<open>Views\<close>

record BuildData =
  bd_Version :: string
  bd_Commit :: string
  bd_Date :: string

record pb_GetInfoResponse =
  pgi_RootPath :: string
  pgi_Network :: string
  pgi_BuildData :: BuildData
  pgi_AccountInfo :: "pb_AccountInfo list"

definition buildDataInfo_toProto :: "BuildData \<Rightarrow> BuildData" where
  "buildDataInfo_toProto info = \<lparr>bd_Version = bd_Version info, bd_Commit = bd_Commit info, bd_Date = bd_Date info\<rparr>"

definition walletInfo_toProto :: "BuildData \<Rightarrow> WalletInfo \<Rightarrow> pb_GetInfoResponse" where
  "walletInfo_toProto build info = \<lparr>pgi_RootPath = win_RootPath info, pgi_Network = win_Network info,
     pgi_BuildData = buildDataInfo_toProto build, pgi_AccountInfo = accountsInfo_toProto (win_Accounts info)\<rparr>"

definition walletStatusInfo_toProto :: "WalletStatus \<Rightarrow> WalletStatus" where
  "walletStatusInfo_toProto info = \<lparr>wst_IsInitialized = wst_IsInitialized info, wst_IsUnlocked = wst_IsUnlocked info, wst_IsSynced = wst_IsSynced info\<rparr>"

definition wh_GetInfo :: "'w WalletPort \<Rightarrow> BuildData \<Rightarrow> (('w, 's) unlocker, pb_GetInfoResponse) rpc" where
  "wh_GetInfo W buildData = calling (ul_Info W) (walletInfo_toProto buildData)"

definition wh_GetStatus :: "'w WalletPort \<Rightarrow> (('w, 's) unlocker, WalletStatus) rpc" where
  "wh_GetStatus W = calling (ul_Status W) walletStatusInfo_toProto"

end
