(* ===== verification/Unlocker_Props.thy ===== *)
theory Unlocker_Props
  imports Unlocker Pubsub_Props
begin

text \<open>
  The wallet and the store of the subscriptions have the same password and are opened and closed together;
  and the handler that initialises the wallet returns once the macaroon is written.
\<close>

section \<open>Waiting for the macaroon\<close>

definition waiting :: "macaroon_file \<Rightarrow> bool" where
  "waiting f = (case f of NotExist \<Rightarrow> True | Content mac \<Rightarrow> mac = [] | _ \<Rightarrow> False)"

definition macaroon_answer :: "macaroon_file \<Rightarrow> string res" where
  "macaroon_answer f = (case f of
     StatError e \<Rightarrow> Inl e | ReadError e \<Rightarrow> Inl e | Content mac \<Rightarrow> Inr (''macaroon: '' @ hex_EncodeToString mac) | NotExist \<Rightarrow> Inr '''')"

lemma macaroon_loop_from:
  "(\<And>i. k \<le> i \<Longrightarrow> i < k + n \<Longrightarrow> waiting (look i)) \<Longrightarrow> \<not> waiting (look (k + n)) \<Longrightarrow> macaroon_loop look k = Some (macaroon_answer (look (k + n)))"
proof (induction n arbitrary: k)
  case 0
  then show ?case by (subst macaroon_loop.simps) (auto simp: waiting_def macaroon_answer_def split: macaroon_file.splits)
next
  case (Suc n)
  have "waiting (look k)" using Suc.prems(1) [of k] by simp
  then have "macaroon_loop look k = macaroon_loop look (k + 1)"
    by (subst macaroon_loop.simps) (auto simp: waiting_def split: macaroon_file.splits)
  with Suc.IH [of "k + 1"] Suc.prems show ?case by simp
qed

lemma macaroon_loop_returns: "(\<And>i. i < n \<Longrightarrow> waiting (look i)) \<Longrightarrow> \<not> waiting (look n) \<Longrightarrow> macaroon_loop look 0 = Some (macaroon_answer (look n))"
  using macaroon_loop_from [where k = 0 and n = n and look = look] by simp

section \<open>The wallet and the store\<close>

lemma at_wallet_ok: "snd (c (ul_wallet u)) = Inr x \<Longrightarrow> at_wallet c u = (u\<lparr>ul_wallet := fst (c (ul_wallet u))\<rparr>, Inr x)"
  by (cases "c (ul_wallet u)") (simp add: at_wallet_def)

lemma parsePassword_ok: "isValidPassword pw \<Longrightarrow> parsePassword pw = Inr pw"
  by (auto simp: parsePassword_def isValidPassword_def)

lemma wh_UnlockWallet_ok:
  assumes "isValidPassword pw" "\<And>w. snd (wl_Unlock W pw w) = Inr ()"
  shows "\<exists>u'. wh_UnlockWallet W ST pw u = (u', Inr ()) \<and> ul_pubsub u' = fst (store_Unlock ST pw (ul_pubsub u))"
  using assms by (simp add: wh_UnlockWallet_def checked_def calling_def parsePassword_ok ul_UnlockWallet_def at_wallet_ok cbind_def at_store_def started_def no_answer_def)

lemma wh_LockWallet_ok:
  assumes "isValidPassword pw" "\<And>w. snd (wl_Lock W pw w) = Inr ()"
  shows "\<exists>u'. wh_LockWallet W ST pw u = (u', Inr ()) \<and> ul_pubsub u' = store_Lock ST (ul_pubsub u)"
  using assms by (simp add: wh_LockWallet_def checked_def calling_def parsePassword_ok ul_LockWallet_def at_wallet_ok cbind_def at_store_def started_def no_answer_def)

lemma wh_InitWallet_ok:
  assumes "isValidPassword pw" "mnemonic \<noteq> []" "\<And>w. snd (wl_InitWallet W mnemonic pw w) = Inr ()"
    and "\<And>i. i < n \<Longrightarrow> waiting (look i)" "\<not> waiting (look n)" "\<exists>msg. macaroon_answer (look n) = Inr msg"
  shows "\<exists>u' msg. wh_InitWallet W ST path look False mnemonic pw u = Some (u', Inr msg) \<and> ul_pubsub u' = fst (store_Init ST pw (ul_pubsub u))"
  using assms(1-3,6) macaroon_loop_returns [where n = n and look = look, OF assms(4,5)]
  by (auto simp: wh_InitWallet_def checked_def calling_def parsePassword_ok parseMnemonic_def init_wallet_def ul_InitWallet_def at_wallet_ok cbind_def cret_def
      at_store_def started_def no_answer_def)


definition ex_port :: "unit WalletPort" where
  "ex_port = \<lparr>wl_GenSeed = (\<lambda>w. (w, Inr [''word''])), wl_InitWallet = (\<lambda>_ _ w. (w, Inr ())), wl_RestoreWallet = (\<lambda>_ _ w. (w, Inr ())),
     wl_Unlock = (\<lambda>_ w. (w, Inr ())), wl_Lock = (\<lambda>_ w. (w, Inr ())), wl_ChangePassword = (\<lambda>_ _ w. (w, Inr ())),
     wl_Status = (\<lambda>w. (w, Inr \<lparr>wst_IsInitialized = True, wst_IsUnlocked = True, wst_IsSynced = True\<rparr>)),
     wl_Info = (\<lambda>w. (w, Inr \<lparr>win_RootPath = [], win_Network = [], win_Accounts = []\<rparr>))\<rparr>"

definition ex_unlocker :: "(unit, (mem_db, string) boltSecureStorage) unlocker" where
  "ex_unlocker = \<lparr>ul_wallet = (), ul_pubsub = \<lparr>ps_store = \<lparr>ss_db = [([], [])], ss_encKey = None, ss_rand = 0\<rparr>, ps_uuids = 0\<rparr>, ul_started = []\<rparr>"

definition ex_look :: "nat \<Rightarrow> macaroon_file" where
  "ex_look i = (if i < 2 then NotExist else Content [1])"


text \<open>The error of the store is dropped: a wallet that accepts a password the store does not have is reported as unlocked.\<close>

lemma store_error_dropped:
  "snd (wh_UnlockWallet ex_port (bolt_storage mem_snacl mem_bolt id id) ''other password''
     (ex_unlocker\<lparr>ul_pubsub := \<lparr>ps_store = \<lparr>ss_db = [([], [(''enckey'', ''kpw'')])], ss_encKey = None, ss_rand = 0\<rparr>, ps_uuids = 0\<rparr>\<rparr>)) = Inr ()"
  by code_simp

end
