(* ===== verification/Trade_Handler.thy ===== *)
theory Trade_Handler
  imports Trading Operator_Handler
begin

text \<open>
  \<open>internal/interfaces/grpc/handler/trade.go\<close>: the public trade interface. A handler checks the fields of a
  request, calls the trade service and converts the answer. An interface value that holds a nil pointer is not nil,
  so the conversion of one dereferences it.
\<close>

record ('d, 'm, 't, 'w) tradeHandler =
  tdh_svc :: "('d, 'm, 't, 'w) service"
  tdh_f64 :: "'d \<Rightarrow> float64"

definition iface_toProto :: "('a option \<Rightarrow> 'b option) \<Rightarrow> 'a iface \<Rightarrow> 'b option res" where
  "iface_toProto f i = (case i of None \<Rightarrow> Inr (f None) | Some None \<Rightarrow> Inl nil_deref | Some (Some x) \<Rightarrow> Inr (f (Some x)))"

text \<open>A call of the service whose answer is converted.\<close>

definition answering :: "('s, 'a) call \<Rightarrow> ('a \<Rightarrow> 'b res) \<Rightarrow> ('s, 'b) rpc" where
  "answering c f = calling (cbind c (\<lambda>x. clift (f x))) id"

section \<open>Markets\<close>

definition th_listMarkets :: "('d, 'm, 't, 'w) tradeHandler \<Rightarrow> (('m, 't, 'w) state, (pb_Market \<times> pb_Fee) list) rpc" where
  "th_listMarkets h = calling (\<lambda>st. (st, GetTradableMarkets_svc (tdh_svc h) st))
     (map (\<lambda>v. (market_toProto (mkt_BaseAsset v) (mkt_QuoteAsset v), marketFeeInfo_toProto (mkt_PercentageFee v) (mkt_FixedFee v))))"

definition th_getMarketBalance :: "('d, 'm, 't, 'w) tradeHandler \<Rightarrow> pb_Market option \<Rightarrow> (('m, 't, 'w) state, u64 \<times> u64 \<times> pb_Fee) rpc" where
  "th_getMarketBalance h req = checked (parseMarket req) (\<lambda>(baseAsset, quoteAsset).
     answering (GetMarketBalance_svc (tdh_svc h) baseAsset quoteAsset) (\<lambda>(info, balance).
       rbind (if length balance > 0
              then rbind (balance_of balance baseAsset) (\<lambda>baseBalance. rbind (balance_of balance quoteAsset) (\<lambda>quoteBalance. Inr (baseBalance, quoteBalance)))
              else Inr (0, 0)) (\<lambda>(baseBalance, quoteBalance).
       Inr (baseBalance, quoteBalance, marketFeeInfo_toProto (mkt_PercentageFee info) (mkt_FixedFee info)))))"

definition th_getMarketPrice :: "('d, 'm, 't, 'w) tradeHandler \<Rightarrow> pb_Market option \<Rightarrow> (('m, 't, 'w) state, float64 \<times> u64) rpc" where
  "th_getMarketPrice h req = checked (parseMarket req) (\<lambda>(baseAsset, quoteAsset).
     calling (GetMarketPrice_svc (tdh_svc h) baseAsset quoteAsset) (\<lambda>(price, minAmount). (tdh_f64 h price, minAmount)))"

text \<open>The exported call answers with the balances too.\<close>

definition th_GetMarketPrice :: "('d, 'm, 't, 'w) tradeHandler \<Rightarrow> pb_Market option \<Rightarrow> (('m, 't, 'w) state, float64 \<times> u64 \<times> u64 \<times> u64) rpc" where
  "th_GetMarketPrice h req st = (case th_getMarketPrice h req st of
     (st, Inl e) \<Rightarrow> (st, Inl e)
   | (st, Inr (spotPrice, minAmount)) \<Rightarrow> (case th_getMarketBalance h req st of
       (st, Inl e) \<Rightarrow> (st, Inl e)
     | (st, Inr (baseBalance, quoteBalance, fee)) \<Rightarrow> (st, Inr (spotPrice, minAmount, baseBalance, quoteBalance))))"

section \<open>Trades\<close>

record pb_PreviewTradeRequest =
  ppr_Market :: "pb_Market option"
  ppr_Type :: int
  ppr_Amount :: u64
  ppr_Asset :: string
  ppr_FeeAsset :: string

record pb_Preview =
  ppv_Price :: pb_Price
  ppv_Fee :: pb_Fee
  ppv_Amount :: u64
  ppv_Asset :: string
  ppv_FeeAmount :: u64
  ppv_FeeAsset :: string

text \<open>\<open>strings.Replace(msg, " ", " fee ", -1)\<close>.\<close>

definition fee_message :: "string \<Rightarrow> string" where
  "fee_message msg = concat (map (\<lambda>c. if c = CHR '' '' then '' fee '' else [c]) msg)"

definition parseFeeAsset :: "string \<Rightarrow> string res" where
  "parseFeeAsset asset = (case parseAsset asset of Inl e \<Rightarrow> Inl (Errorf (fee_message (error_text e)) []) | Inr a \<Rightarrow> Inr a)"

definition previewTrade :: "('d, 'm, 't, 'w) tradeHandler \<Rightarrow> pb_PreviewTradeRequest \<Rightarrow> (('m, 't, 'w) state, pb_Preview list) rpc" where
  "previewTrade h req = checked (parseMarket (ppr_Market req)) (\<lambda>(baseAsset, quoteAsset).
     checked (parseTradeType (ppr_Type req)) (\<lambda>isBuy. checked (parseAmount (ppr_Amount req)) (\<lambda>amount.
     checked (parseAsset (ppr_Asset req)) (\<lambda>asset. checked (parseFeeAsset (ppr_FeeAsset req)) (\<lambda>feeAsset.
     calling (TradePreview (tdh_svc h) baseAsset quoteAsset isBuy amount asset feeAsset) (\<lambda>(mkt, preview).
       [\<lparr>ppv_Price = marketPriceInfo_toProto (svc_D (tdh_svc h)) (tdh_f64 h) (pi_Price preview),
         ppv_Fee = marketFeeInfo_toProto (mkt_PercentageFee mkt) (mkt_FixedFee mkt), ppv_Amount = pi_Amount preview,
         ppv_Asset = pi_Asset preview, ppv_FeeAmount = pi_FeeAmount preview, ppv_FeeAsset = pi_FeeAsset preview\<rparr>]))))))"

record pb_ProposeTradeRequest =
  ptr_Market :: "pb_Market option"
  ptr_Type :: int
  ptr_SwapRequest :: "pb_SwapRequest option"
  ptr_FeeAsset :: string
  ptr_FeeAmount :: u64

definition proposeTrade :: "('d, 'm, 't, 'w) tradeHandler \<Rightarrow> SwapParser \<Rightarrow> string \<Rightarrow> time \<Rightarrow> time \<Rightarrow> pb_ProposeTradeRequest
    \<Rightarrow> (('m, 't, 'w) state, SwapAccept option \<times> SwapFail option \<times> u64) rpc" where
  "proposeTrade h P uuid now later req = checked (parseMarket (ptr_Market req)) (\<lambda>(baseAsset, quoteAsset).
     checked (parseTradeType (ptr_Type req)) (\<lambda>isBuy.
     checked (parseSwapRequest (svc_elements (tdh_svc h)) (ptr_SwapRequest req) (ptr_FeeAsset req) (ptr_FeeAmount req)) (\<lambda>swapRequest.
     answering (TradePropose (tdh_svc h) P uuid now later baseAsset quoteAsset isBuy swapRequest) (\<lambda>(accept, fail, swapExpiryTime).
       rbind (iface_toProto swapAcceptInfo_toProto accept) (\<lambda>accept. rbind (iface_toProto swapFailInfo_toProto fail) (\<lambda>fail.
         Inr (accept, fail, uint64 swapExpiryTime)))))))"

text \<open>An error of the service is an internal one here.\<close>

definition internal :: "('s, 'a) rpc \<Rightarrow> ('s, 'a) rpc" where
  "internal k st = (case k st of (st, Inl (ServiceError e)) \<Rightarrow> (st, Inl (if is_panic e then ServiceError e else Internal (error_text e))) | r \<Rightarrow> r)"

definition completeTrade :: "('d, 'm, 't, 'w) tradeHandler \<Rightarrow> SwapParser \<Rightarrow> time \<Rightarrow> time \<Rightarrow> time \<Rightarrow> SwapComplete option \<Rightarrow> SwapFail option
    \<Rightarrow> (('m, 't, 'w) state, string \<times> SwapFail option) rpc" where
  "completeTrade h P now now' later swapComplete swapFail =
     internal (answering (TradeComplete (tdh_svc h) P now now' later swapComplete swapFail) (\<lambda>(txID, fail).
       rbind (iface_toProto id fail) (\<lambda>fail. Inr (txID, fail))))"

end
