(* ===== verification/Trade_Handler_Props.thy ===== *)
theory Trade_Handler_Props
  imports Trade_Handler Trading_Props Operator_Handler_Props
begin

text \<open>
  The public trade interface as a whole: a request with a field that is refused changes nothing, and whatever
  requests and wallet notifications come, in whatever order, the stored trades only move forward.
\<close>

section \<open>The interface\<close>

text \<open>The clock as a handler reads it, and the identifier it draws.\<close>

record trade_moment =
  tm_parser :: SwapParser
  tm_uuid :: string
  tm_now :: time
  tm_now' :: time
  tm_later :: time

datatype trade_request =
    ListMarketsReq
  | GetMarketBalanceReq "pb_Market option"
  | GetMarketPriceReq "pb_Market option"
  | PreviewTradeReq pb_PreviewTradeRequest
  | ProposeTradeReq pb_ProposeTradeRequest
  | CompleteTradeReq "SwapComplete option" "SwapFail option"

fun serve_trade :: "('d, 'm, 't, 'w) tradeHandler \<Rightarrow> trade_moment \<Rightarrow> trade_request \<Rightarrow> ('m, 't, 'w) state \<Rightarrow> ('m, 't, 'w) state \<times> rpc_error option" where
  "serve_trade h m ListMarketsReq st = outcome (th_listMarkets h st)"
| "serve_trade h m (GetMarketBalanceReq req) st = outcome (th_getMarketBalance h req st)"
| "serve_trade h m (GetMarketPriceReq req) st = outcome (th_GetMarketPrice h req st)"
| "serve_trade h m (PreviewTradeReq req) st = outcome (previewTrade h req st)"
| "serve_trade h m (ProposeTradeReq req) st = outcome (proposeTrade h (tm_parser m) (tm_uuid m) (tm_now m) (tm_later m) req st)"
| "serve_trade h m (CompleteTradeReq c f) st = outcome (completeTrade h (tm_parser m) (tm_now m) (tm_now' m) (tm_later m) c f st)"


text \<open>A request with a field that is refused changes nothing.\<close>

lemma refuses_internal [refuses_intros]: "refuses_first k \<Longrightarrow> refuses_first (internal k)"
  by (auto simp: refuses_first_def internal_def split: prod.splits sum.splits rpc_error.splits if_splits)

lemma refuses_answering [refuses_intros]: "refuses_first (answering c f)"
  unfolding answering_def by (rule refuses_calling)

text \<open>The second check of the market of a price request is the one that has passed.\<close>

lemma refuses_GetMarketPrice: "refuses_first (th_GetMarketPrice h req)"
proof (cases "parseMarket req")
  case (Inl e)
  then show ?thesis by (simp add: refuses_first_def th_GetMarketPrice_def th_getMarketPrice_def checked_def)
next
  case (Inr p)
  have never: "calling c f st \<noteq> (st', Inl (InvalidArgument msg))" for c :: "('s, 'x) call" and f :: "'x \<Rightarrow> 'y" and st st' msg
    by (auto simp: calling_def split: prod.splits sum.splits)
  from Inr show ?thesis
    by (cases p) (auto simp: refuses_first_def th_GetMarketPrice_def th_getMarketPrice_def th_getMarketBalance_def checked_def
        answering_def never split: prod.splits sum.splits)
qed

lemma serve_trade_refused:
  assumes "serve_trade h m req st = (st', Some (InvalidArgument msg))"
  shows "st' = st"
proof -
  have "refuses_first (th_listMarkets h)" "refuses_first (th_getMarketBalance h mk)" "refuses_first (previewTrade h pv)"
    "refuses_first (proposeTrade h P u n l pr)" "refuses_first (completeTrade h P n n' l c f)" for mk pv P u n n' l pr c f
    unfolding th_listMarkets_def th_getMarketBalance_def th_getMarketPrice_def previewTrade_def proposeTrade_def completeTrade_def
    by (intro refuses_intros)+
  then show ?thesis using assms by (cases req) (auto dest: refuses_outcome [rotated] refuses_outcome [OF refuses_GetMarketPrice])
qed

section \<open>Trades only move forward\<close>

named_theorems forward_intros \<open>calls that move the stored trades forward\<close>

definition forwards :: "'d decimal_ops \<Rightarrow> ('t \<Rightarrow> string \<Rightarrow> Trade option) \<Rightarrow> ('t \<Rightarrow> bool) \<Rightarrow> (('m, 't, 'w) state \<Rightarrow> ('m, 't, 'w) state \<times> 'r) \<Rightarrow> bool" where
  "forwards D view repo_ok k \<longleftrightarrow> (\<forall>st. svc_inv view repo_ok st \<longrightarrow> good_change D view repo_ok st (fst (k st)))"

lemma forwards_checked [forward_intros]: "(\<And>x. forwards D view repo_ok (k x)) \<Longrightarrow> forwards D view repo_ok (checked r k)"
  by (cases r) (auto simp: forwards_def checked_def intro: good_change_refl)

lemma forwards_prod [forward_intros]: "(\<And>x y. forwards D view repo_ok (f x y)) \<Longrightarrow> forwards D view repo_ok (case p of (x, y) \<Rightarrow> f x y)"
  by (cases p) simp

lemma forwards_calling [forward_intros]: "forwards D view repo_ok c \<Longrightarrow> forwards D view repo_ok (calling c f)"
  unfolding forwards_def calling_def by (force split: prod.splits sum.splits)

lemma forwards_answering [forward_intros]: "forwards D view repo_ok c \<Longrightarrow> forwards D view repo_ok (answering c f)"
  unfolding answering_def by (rule forwards_calling) (force simp: forwards_def cbind_def clift_def split: prod.splits sum.splits)

lemma forwards_internal [forward_intros]: "forwards D view repo_ok k \<Longrightarrow> forwards D view repo_ok (internal k)"
  unfolding forwards_def internal_def by (force split: prod.splits sum.splits rpc_error.splits)

lemma wallet_change: "svc_inv view repo_ok st \<Longrightarrow> good_change D view repo_ok st (st\<lparr>st_wallet := w\<rparr>)"
  using good_change_refl [of view repo_ok st D] by (simp add: good_change_def svc_inv_def)

lemma forwards_queries [forward_intros]:
  "forwards D view repo_ok (\<lambda>st. (st, GetTradableMarkets_svc S st))" "forwards D view repo_ok (GetMarketBalance_svc S b q)"
  "forwards D view repo_ok (GetMarketPrice_svc S b q)" "forwards D view repo_ok (TradePreview S b q isBuy amount asset feeAsset)"
  unfolding forwards_def GetMarketBalance_svc_def GetMarketPrice_svc_def TradePreview_def
  by (auto split: sum.splits prod.splits intro: good_change_refl wallet_change)

lemma fst_outcome: "fst (outcome x) = fst x"
  by (cases x) (auto simp: outcome_def split: sum.splits)

lemma forwards_GetMarketPrice:
  fixes h :: "('d, 'm, 't, 'w) tradeHandler"
  assumes "forwards D view repo_ok (th_getMarketPrice h req)" "forwards D view repo_ok (th_getMarketBalance h req)"
  shows "forwards D view repo_ok (th_GetMarketPrice h req)"
  unfolding forwards_def
proof (intro allI impI)
  fix st :: "('m, 't, 'w) state" assume i: "svc_inv view repo_ok st"
  obtain st1 r where p: "th_getMarketPrice h req st = (st1, r)" by force
  obtain st2 b where q: "th_getMarketBalance h req st1 = (st2, b)" by force
  from assms(1) i p have g: "good_change D view repo_ok st st1" by (force simp: forwards_def)
  then have "svc_inv view repo_ok st1" by (simp add: good_change_def)
  with assms(2) q have "good_change D view repo_ok st1 st2" by (force simp: forwards_def)
  with g have "good_change D view repo_ok st st2" by (rule good_change_trans)
  with g show "good_change D view repo_ok st (fst (th_GetMarketPrice h req st))"
    by (auto simp: th_GetMarketPrice_def p q split: sum.splits prod.splits)
qed

lemma serve_trade_forwards:
  assumes R: "trade_repository (svc_trades (tdh_svc h)) view repo_ok" and now: "0 \<le> tm_now m" and inv: "svc_inv view repo_ok st"
  shows "good_change (svc_D (tdh_svc h)) view repo_ok st (fst (serve_trade h m req st))"
proof -
  let ?fw = "forwards (svc_D (tdh_svc h)) view repo_ok"
  have svc [forward_intros]: "?fw (TradePropose (tdh_svc h) P u (tm_now m) l b q isBuy r)" "?fw (TradeComplete (tdh_svc h) P n n' l c f)" for P u n n' l b q isBuy r c f
    using TradePropose_good [OF R _ now] TradeComplete_good [OF R] by (auto simp: forwards_def)
  have "?fw (th_listMarkets h)" "?fw (th_getMarketBalance h mk)" "?fw (th_getMarketPrice h mk)" "?fw (previewTrade h pv)"
    "?fw (proposeTrade h P u (tm_now m) l pr)" "?fw (completeTrade h P n n' l c f)" for mk pv P u n n' l pr c f
    unfolding th_listMarkets_def th_getMarketBalance_def th_getMarketPrice_def previewTrade_def proposeTrade_def completeTrade_def
    by (intro forward_intros svc)+
  moreover then have "?fw (th_GetMarketPrice h mk)" for mk by (intro forwards_GetMarketPrice)
  ultimately show ?thesis using inv by (cases req) (simp_all add: fst_outcome forwards_def)
qed

text \<open>What moves the state: a request, whatever it holds, or a notification of the wallet.\<close>

inductive public_step :: "('d, 'm, 't, 'w) tradeHandler \<Rightarrow> ('m, 't, 'w) state \<Rightarrow> ('m, 't, 'w) state \<Rightarrow> bool" for h where
  serve: "0 \<le> tm_now m \<Longrightarrow> public_step h st (fst (serve_trade h m req st))"
| notify: "handle_notification (\<lambda>x. makeTradeSettledOrExpired (tdh_svc h) (clock x) x) n (st_handlers st) st = Inr (q, st') \<Longrightarrow>
    public_step h st (st'\<lparr>st_handlers := q\<rparr>)"

lemma public_steps_good:
  assumes "(public_step h)\<^sup>*\<^sup>* st st'" and R: "trade_repository (svc_trades (tdh_svc h)) view repo_ok" and inv: "svc_inv view repo_ok st"
  shows "good_change (svc_D (tdh_svc h)) view repo_ok st st'"
  using assms(1)
proof (induction rule: rtranclp_induct)
  case base
  show ?case by (rule good_change_refl [OF inv])
next
  case (step a b)
  then have a: "svc_inv view repo_ok a" by (simp add: good_change_def)
  from step.hyps(2) have "good_change (svc_D (tdh_svc h)) view repo_ok a b"
  proof cases
    case (serve m req)
    then show ?thesis using serve_trade_forwards [OF R _ a] by simp
  next
    case (notify clock n q s)
    then show ?thesis using svc_step_good [OF svc_step.notify R a] by blast
  qed
  with step.IH show ?case by (rule good_change_trans)
qed


text \<open>The trade of the example, proposed through the interface.\<close>

definition ex_trade_handler :: "(fdec, marketInmemoryStore, Trade mem_store, unit) tradeHandler" where
  "ex_trade_handler = \<lparr>tdh_svc = ex_service, tdh_f64 = (\<lambda>_. Finite 0 0)\<rparr>"

definition ex_moment :: trade_moment where
  "ex_moment = \<lparr>tm_parser = ex_parser, tm_uuid = ''id'', tm_now = time_Unix 900, tm_now' = time_Unix 900, tm_later = time_Unix 901\<rparr>"

definition ex_propose_request :: trade_request where
  "ex_propose_request = ProposeTradeReq \<lparr>ptr_Market = Some \<lparr>pbm_BaseAsset = ex_base, pbm_QuoteAsset = ex_quote\<rparr>, ptr_Type = 1,
     ptr_SwapRequest = Some \<lparr>pbs_Id = ''req'', pbs_AssetP = ex_base, pbs_AssetR = ex_quote, pbs_AmountP = 100, pbs_AmountR = 5000000,
       pbs_Transaction = ''tx'', pbs_UnblindedInputs = []\<rparr>, ptr_FeeAsset = ex_quote, ptr_FeeAmount = 3\<rparr>"

lemma ex_propose_served: "map fst (fst (st_trades (fst (serve_trade ex_trade_handler ex_moment ex_propose_request ex_state)))) = [''id'']"
  by code_simp


end
