(* ===== verification/Spec2Isabelle.thy ===== *)
theory Spec2Isabelle
  imports Trading_Props Coin_Selection Tx_Classifier_Props Fragmenters_Props Operator_Handler_Props Webhooks_Props Webhook_Messages Unlocker_Props Trade_Handler_Props
begin

text \<open>
  A verification development of the TDex daemon, a provider of liquidity for atomic swaps on the Liquid network.

  \<^bold>\<open>The program.\<close> A trader asks the daemon for a preview of a swap on one of its markets, proposes a swap, and
  completes the one the daemon accepted (\<open>internal/core/application/trade\<close>). The markets, their prices and
  strategies are domain entities (\<open>internal/core/domain\<close>) priced by \<open>pkg/marketmaking\<close>; trades, markets, deposits and
  withdrawals are kept in repositories (\<open>internal/infrastructure/storage/db\<close>). Funds are in the accounts of an Ocean
  wallet, a service outside the repository, reached through \<open>internal/core/application/wallet\<close>. The operator of the
  daemon manages markets, funds, fragmenters, reports and webhooks (\<open>internal/core/application/operator\<close>) through
  RPC handlers (\<open>internal/interfaces/grpc/handler\<close>). Events are published to webhooks kept in an encrypted store
  (\<open>internal/infrastructure/pubsub\<close>, \<open>pkg/securestore\<close>), which is opened and closed with the wallet
  (\<open>internal/core/application/unlocker\<close>).

  \<^bold>\<open>How the code is represented.\<close> A struct is a \<open>record\<close> whose fields carry a prefix, an enumeration or interface
  value a \<open>datatype\<close>, a \<open>uint64\<close> a 64-bit word whose arithmetic wraps, an \<open>int64\<close> an \<open>int\<close> where the code does not
  overflow it, a time a number of nanoseconds. A Go map is an association list with distinct keys, and where the
  code ranges over it the order is a parameter. A fallible function returns \<open>error + 'a\<close>; run-time panics (nil
  dereferences, indices and slices out of range, divisions by zero) are errors of their own, so that their absence is a
  theorem. Code that changes state is a function from a state to a state and a result, \<open>('w, 'a) call\<close>, put
  together by \<open>cbind\<close>. Third-party packages and services are records of the operations called, with what they
  document as the assumptions of a locale; each locale is interpreted, so the assumptions can hold.

  \<^bold>\<open>Theories.\<close>
  \<^item> \<open>Prelude\<close>, \<open>Errors\<close>, \<open>Hex\<close>, \<open>Calendar\<close>, \<open>Json\<close>, \<open>Json_Values\<close>, \<open>Request_Uri\<close>: words, results, Go maps, pages; the texts of
    the errors; and what the daemon uses of Go's standard library. A JSON value is read back as it was written.
  \<^item> \<open>Decimal\<close>, \<open>Mathutil\<close>, \<open>Formula\<close>: the decimal package as the locale \<open>decimal_lib\<close>, interpreted by fixed-point
    decimals; \<open>pkg/mathutil\<close>; the balanced and the pluggable formula with exact bounds of their roundings.
  \<^item> \<open>Market\<close>, \<open>Market_Preview\<close>: \<open>domain/market.go\<close>. What a preview promises is within the reserves and follows the
    curve; its fees; its errors; and that the amount is computed modulo 2^64.
  \<^item> \<open>Swap\<close>, \<open>Trade\<close>, \<open>Trade_Lifecycle\<close>: \<open>domain/trade.go\<close> and its state machine, by rule induction.
  \<^item> \<open>Repositories\<close> with the locales of the repository interfaces; \<open>Market_Repo\<close>, \<open>Trade_Repo\<close>, \<open>Deposit_Repo\<close> (in memory)
    and \<open>Badgerhold\<close>, \<open>Badger_Markets\<close>, \<open>Badger_Trades\<close>, \<open>Badger_Logs\<close> (on the badgerhold package, a parameter), which
    interpret them. The badger market repository refines the one in memory.
  \<^item> \<open>Coin_Selection\<close>: \<open>pkg/explorer/coinselection.go\<close>.
  \<^item> \<open>Ports\<close>, \<open>Wallet\<close>, \<open>Notifications\<close>: the wallet as a record of calls; \<open>SendToMany\<close> and \<open>CompleteSwap\<close> with the balance
    of what they build; the queues of notification handlers, with registrations interleaved.
  \<^item> \<open>Trading\<close>, \<open>Trading_Props\<close>: the trade service over any repositories and wallet, and the service as a transition
    system in which the stored trades only move forward.
  \<^item> \<open>Operator\<close>, \<open>Operator_Props\<close>, \<open>Reports\<close>, \<open>Tx_Classifier\<close>, \<open>Tx_Classifier_Props\<close>, \<open>Fragmenters\<close>, \<open>Fragmenters_Props\<close>: the
    operator service: markets, withdrawals, reports, the deposits and withdrawals recorded for wallet
    transactions, and the fragmenters.
  \<^item> \<open>Handler_Utils\<close>, \<open>Handler_Types\<close>, \<open>Operator_Handler\<close>, \<open>Operator_Handler_Props\<close>: the argument parsers, views and
    handlers of the operator interface; requests as a datatype and their dispatch; invariants of any sequence of them.
  \<^item> \<open>Trade_Handler\<close>, \<open>Trade_Handler_Props\<close>: the public trade interface, and what holds of any sequence of requests
    to it and notifications of the wallet.
  \<^item> \<open>Secure_Store\<close>, \<open>Secure_Store_Props\<close>: the encrypted store over the bolt database and the snacl cipher (the locales
    \<open>bolt_db\<close>, \<open>snacl_lib\<close> and \<open>secure_db\<close>), which refines a map from buckets and keys to values.
  \<^item> \<open>Pubsub\<close>, \<open>Pubsub_Props\<close>, \<open>Webhooks\<close>, \<open>Webhooks_Props\<close>, \<open>Webhook_Messages\<close>: subscriptions in that store (the locale
    \<open>secret_store\<close>, which the encrypted store provides), publishing, and the webhooks up to the RPC interface.
  \<^item> \<open>Unlocker\<close>, \<open>Unlocker_Props\<close>: the wallet handler and the unlocker service over both.

  \<^bold>\<open>Loops and fuel.\<close> Loops are structural recursion wherever they range over a slice or map, or recurse with a
  measure (the fragments of a balance, the characters of a string). The loop that divides the period of a report,
  the retry loop of the badger trade repository and the wait for the macaroon may run forever and are partial
  functions whose value is \<open>None\<close> then; that they return is proved (for a positive frame, when the conflicts end,
  when the file is written). The parser of JSON has as much fuel as the text has bytes, each call having read a
  byte. Rounds of the notification listener are relations on interleaved steps.

  \<^bold>\<open>Concurrency.\<close> An operation that holds a mutex is one step. Goroutines whose order matters are an order that is a
  parameter (publishing, the collection of buckets) or explicit steps (notification handlers); one that only
  publishes is run to its end.

  \<^bold>\<open>Not modelled.\<close> The generated protobuf and gateway code; the swap parser and \<open>pkg/swap\<close>, which are
  serialisation and transaction analysis by third-party packages behind the \<open>SwapParser\<close> interface; the Ocean client,
  the price feeders with the feeder service, and the explorers, which are network clients; macaroons, permissions, interceptors and the start and stop
  of the servers; the wrappers of the bolt files; configuration, statistics, the command line tools, the trader
  library and the one-off migration. The limits of the bolt database on sizes, and Go's limit on nested JSON, are
  not modelled.
\<close>

end
